(* ===== verification/Prelude.thy ===== *)
theory Prelude
  imports Main "HOL-Library.Finite_Map" "HOL-Library.Sublist" "HOL-Library.List_Lexorder"
    "HOL-Library.Char_ord"
begin

text \<open>
  Shared vocabulary of the development: Go errors as values, a state-passing I/O type with
  early return, an event log of the calls that leave the process, a small logic for that log,
  and generic facts about finite maps.

  A Go function returning \<open>(T, error)\<close> that talks to the outside is modelled as a value of
  type \<open>('w, 'a) io\<close>: it takes the state \<open>'w\<close> of everything outside the process and the log
  of the calls made so far, and returns an error or a result with the new state and log.
  The outside state \<open>'w\<close> is never inspected by the model.
\<close>

named_theorems io_defs \<open>definitions of the I/O combinators\<close>
named_theorems io_run \<open>running a combinator on a state\<close>
named_theorems emits_intros \<open>rules for the event log logic\<close>

section \<open>Go errors\<close>

text \<open>
  \<open>Errorf\<close> is \<open>fmt.Errorf\<close> with a \<open>%w\<close> verb at the end (the only way this program wraps),
  \<open>New\<close> an error made from text, \<open>ApiErr\<close> an API status error with its reason. \<open>Panic\<close> is a
  run-time panic (a nil dereference): it is no error value, so nothing below wraps or
  discards it.
\<close>

datatype reason = NotFound | AlreadyExists | OtherReason string

datatype err =
    New string
  | Errorf string err
  | ApiErr reason string
  | Panic string

text \<open>\<open>err.Error()\<close>.\<close>

fun err_text :: "err \<Rightarrow> string" where
  "err_text (New m) = m"
| "err_text (Errorf m e) = m @ '': '' @ err_text e"
| "err_text (ApiErr r m) = m"
| "err_text (Panic m) = m"

text \<open>\<open>apierrors.IsNotFound\<close> and \<open>IsAlreadyExists\<close> look through wrapped errors (\<open>errors.As\<close>).\<close>

fun err_reason :: "err \<Rightarrow> reason option" where
  "err_reason (ApiErr r m) = Some r"
| "err_reason (Errorf m e) = err_reason e"
| "err_reason (New m) = None"
| "err_reason (Panic m) = None"

definition IsNotFound :: "err \<Rightarrow> bool" where
  "IsNotFound e \<longleftrightarrow> err_reason e = Some NotFound"

definition IsAlreadyExists :: "err \<Rightarrow> bool" where
  "IsAlreadyExists e \<longleftrightarrow> err_reason e = Some AlreadyExists"

fun is_panic :: "err \<Rightarrow> bool" where
  "is_panic (Panic m) = True"
| "is_panic (New m) = False"
| "is_panic (Errorf m e) = False"
| "is_panic (ApiErr r m) = False"

definition wrap_err :: "string \<Rightarrow> err \<Rightarrow> err" where
  "wrap_err msg e = (if is_panic e then e else Errorf msg e)"

lemma is_panic_wrap_err [simp]: "is_panic (wrap_err msg e) = is_panic e"
  by (simp add: wrap_err_def)

lemma err_reason_wrap_err [simp]: "err_reason (wrap_err msg e) = err_reason e"
  by (simp add: wrap_err_def)

lemma IsNotFound_simps [simp]:
  "IsNotFound (ApiErr r m) = (r = NotFound)"
  "IsNotFound (New m) = False"
  "IsNotFound (Panic m) = False"
  "IsNotFound (Errorf m e) = IsNotFound e"
  by (simp_all add: IsNotFound_def)

lemma IsAlreadyExists_simps [simp]:
  "IsAlreadyExists (ApiErr r m) = (r = AlreadyExists)"
  "IsAlreadyExists (New m) = False"
  "IsAlreadyExists (Panic m) = False"
  "IsAlreadyExists (Errorf m e) = IsAlreadyExists e"
  by (simp_all add: IsAlreadyExists_def)

lemma IsNotFound_not_panic: "IsNotFound e \<Longrightarrow> \<not> is_panic e"
  by (cases e) simp_all

section \<open>I/O with early return\<close>

type_synonym ('w, 'e, 'a) io = "'w \<times> 'e list \<Rightarrow> (err + 'a) \<times> ('w \<times> 'e list)"

definition ret :: "'a \<Rightarrow> ('w, 'e, 'a) io" where
  "ret x = (\<lambda>s. (Inr x, s))"

definition fail :: "err \<Rightarrow> ('w, 'e, 'a) io" where
  "fail e = (\<lambda>s. (Inl e, s))"

text \<open>\<open>x, err := m; if err != nil { return err }; f(x)\<close>\<close>

definition and_then :: "('w, 'e, 'a) io \<Rightarrow> ('a \<Rightarrow> ('w, 'e, 'b) io) \<Rightarrow> ('w, 'e, 'b) io" where
  "and_then m f = (\<lambda>s. case m s of (r, s') \<Rightarrow> (case r of Inl e \<Rightarrow> (Inl e, s') | Inr x \<Rightarrow> f x s'))"

text \<open>\<open>return fmt.Errorf("msg: %w", err)\<close> on the error path of \<open>m\<close>.\<close>

definition wrap :: "string \<Rightarrow> ('w, 'e, 'a) io \<Rightarrow> ('w, 'e, 'a) io" where
  "wrap msg m = (\<lambda>s. case m s of (r, s') \<Rightarrow>
     (case r of Inl e \<Rightarrow> Inl (wrap_err msg e) | Inr x \<Rightarrow> Inr x, s'))"

text \<open>\<open>x, err := m\<close> with the error kept as a value; a panic still ends the function.\<close>

definition attempt :: "('w, 'e, 'a) io \<Rightarrow> ('w, 'e, err + 'a) io" where
  "attempt m = (\<lambda>s. case m s of (r, s') \<Rightarrow>
     (case r of Inl e \<Rightarrow> if is_panic e then Inl e else Inr (Inl e) | Inr x \<Rightarrow> Inr (Inr x), s'))"

definition lift :: "err + 'a \<Rightarrow> ('w, 'e, 'a) io" where
  "lift r = (\<lambda>s. (r, s))"

text \<open>A call that leaves the process: it changes the outside state and is logged.\<close>

definition call :: "('w \<Rightarrow> (err + 'a) \<times> 'w) \<Rightarrow> (err + 'a \<Rightarrow> 'e) \<Rightarrow> ('w, 'e, 'a) io" where
  "call op ev = (\<lambda>(w, tr). case op w of (r, w') \<Rightarrow> (r, (w', tr @ [ev r])))"

definition is_ok :: "err + 'a \<Rightarrow> bool" where
  "is_ok r \<longleftrightarrow> (case r of Inl e \<Rightarrow> False | Inr x \<Rightarrow> True)"

lemma is_ok_simps [simp]: "is_ok (Inl e) = False" "is_ok (Inr x) = True"
  by (simp_all add: is_ok_def)

lemmas [io_defs] = ret_def fail_def and_then_def wrap_def attempt_def lift_def call_def

lemma ret_run [io_run]: "ret x s = (Inr x, s)"
  by (simp add: ret_def)

lemma fail_run [io_run]: "fail e s = (Inl e, s)"
  by (simp add: fail_def)

lemma lift_run [io_run]: "lift r s = (r, s)"
  by (simp add: lift_def)

lemma and_then_ok [io_run]: "m s = (Inr x, s') \<Longrightarrow> and_then m f s = f x s'"
  by (simp add: and_then_def)

lemma and_then_err [io_run]: "m s = (Inl e, s') \<Longrightarrow> and_then m f s = (Inl e, s')"
  by (simp add: and_then_def)

lemma wrap_ok [io_run]: "m s = (Inr x, s') \<Longrightarrow> wrap msg m s = (Inr x, s')"
  by (simp add: wrap_def)

lemma wrap_error [io_run]: "m s = (Inl e, s') \<Longrightarrow> wrap msg m s = (Inl (wrap_err msg e), s')"
  by (simp add: wrap_def)

lemma attempt_ok [io_run]: "m s = (Inr x, s') \<Longrightarrow> attempt m s = (Inr (Inr x), s')"
  by (simp add: attempt_def)

lemma attempt_error [io_run]:
  "m s = (Inl e, s') \<Longrightarrow> \<not> is_panic e \<Longrightarrow> attempt m s = (Inr (Inl e), s')"
  by (simp add: attempt_def)

lemma attempt_panic [io_run]:
  "m s = (Inl e, s') \<Longrightarrow> is_panic e \<Longrightarrow> attempt m s = (Inl e, s')"
  by (simp add: attempt_def)

lemma and_then_ret [simp]: "and_then (ret x) f = f x"
  by (simp add: and_then_def ret_def fun_eq_iff)

lemma and_then_fail [simp]: "and_then (fail e) f = fail e"
  by (simp add: and_then_def fail_def fun_eq_iff)

lemma and_then_lift_Inr [simp]: "and_then (lift (Inr x)) f = f x"
  by (simp add: and_then_def lift_def fun_eq_iff)

lemma and_then_assoc:
  "and_then (and_then m f) g = and_then m (\<lambda>x. and_then (f x) g)"
  by (simp add: and_then_def fun_eq_iff split: prod.split sum.split)

lemma and_then_ret_id: "and_then m ret = m"
  by (simp add: and_then_def ret_def fun_eq_iff split: prod.split sum.split)

lemma and_then_InrE:
  assumes "and_then m f s = (Inr y, t)"
  obtains x s' where "m s = (Inr x, s')" and "f x s' = (Inr y, t)"
  using assms by (auto simp: and_then_def split: prod.splits sum.splits)

lemma wrap_InrD: "wrap msg m s = (Inr x, t) \<Longrightarrow> m s = (Inr x, t)"
  by (auto simp: wrap_def split: prod.splits sum.splits)

lemma call_run: "call op ev (w, tr) = (fst (op w), (snd (op w), tr @ [ev (fst (op w))]))"
  by (simp add: call_def split: prod.splits)

section \<open>What a computation logs\<close>

text \<open>
  \<open>emits P m\<close>: from every state, \<open>m\<close> only appends to the log, and appends only events that
  satisfy \<open>P\<close>, whatever the outside answers.
\<close>

definition emits :: "('e \<Rightarrow> bool) \<Rightarrow> ('w, 'e, 'a) io \<Rightarrow> bool" where
  "emits P m \<longleftrightarrow> (\<forall>s. \<exists>es. snd (snd (m s)) = snd s @ es \<and> list_all P es)"

lemma emitsI:
  "(\<And>w tr. \<exists>es. snd (snd (m (w, tr))) = tr @ es \<and> list_all P es) \<Longrightarrow> emits P m"
  by (simp add: emits_def)

lemma emitsD:
  assumes "emits P m" and "m (w, tr) = (r, (w', tr'))"
  obtains es where "tr' = tr @ es" and "list_all P es"
proof -
  from assms(1) have "\<exists>es. snd (snd (m (w, tr))) = snd (w, tr) @ es \<and> list_all P es"
    unfolding emits_def by blast
  with assms(2) that show thesis by auto
qed

lemma emits_ret [emits_intros, intro]: "emits P (ret x)"
  by (simp add: emits_def ret_def)

lemma emits_fail [emits_intros, intro]: "emits P (fail e)"
  by (simp add: emits_def fail_def)

lemma emits_lift [emits_intros, intro]: "emits P (lift r)"
  by (simp add: emits_def lift_def)

lemma emits_and_then [emits_intros, intro]:
  assumes m: "emits P m" and f: "\<And>x. emits P (f x)"
  shows "emits P (and_then m f)"
proof (rule emitsI)
  fix w tr
  obtain r w1 tr1 where ms: "m (w, tr) = (r, (w1, tr1))"
    by (metis prod_cases3)
  with m obtain es1 where e1: "tr1 = tr @ es1" "list_all P es1"
    by (rule emitsD)
  show "\<exists>es. snd (snd (and_then m f (w, tr))) = tr @ es \<and> list_all P es"
  proof (cases r)
    case (Inl e)
    with ms e1 show ?thesis by (auto simp: io_run)
  next
    case (Inr x)
    obtain r2 w2 tr2 where fs: "f x (w1, tr1) = (r2, (w2, tr2))"
      by (metis prod_cases3)
    with f obtain es2 where e2: "tr2 = tr1 @ es2" "list_all P es2"
      by (rule emitsD)
    from ms Inr fs have "and_then m f (w, tr) = (r2, (w2, tr2))"
      by (simp add: io_run)
    with e1 e2 show ?thesis by auto
  qed
qed

lemma emits_at: "emits P m \<Longrightarrow> \<exists>es. snd (snd (m (w, tr))) = tr @ es \<and> list_all P es"
  by (simp add: emits_def)

text \<open>The same with what is known of the result of the first part.\<close>

lemma emits_and_then_post:
  assumes m: "emits P m" and f: "\<And>s x t. m s = (Inr x, t) \<Longrightarrow> emits P (f x)"
  shows "emits P (and_then m f)"
proof (rule emitsI)
  fix w tr
  obtain r w1 tr1 where ms: "m (w, tr) = (r, (w1, tr1))" by (rule prod_cases3)
  with m obtain es1 where e1: "tr1 = tr @ es1" "list_all P es1" by (rule emitsD)
  show "\<exists>es. snd (snd (and_then m f (w, tr))) = tr @ es \<and> list_all P es"
  proof (cases r)
    case (Inl e)
    with ms e1 show ?thesis by (auto simp: io_run)
  next
    case (Inr x)
    from ms have "emits P (f x)" unfolding Inr by (rule f)
    from emits_at [OF this, of w1 tr1] obtain es2 where
      "snd (snd (f x (w1, tr1))) = tr1 @ es2" "list_all P es2" by blast
    with ms Inr e1 show ?thesis by (auto simp: io_run)
  qed
qed

text \<open>The events of one run.\<close>

lemma emits_events:
  assumes "emits P m" and "m (w, tr) = (r, (w', tr @ es))"
  shows "list_all P es"
  using assms by (auto elim: emitsD)

text \<open>A combinator that only changes the result logs what its argument logs.\<close>

lemma emits_same_log:
  assumes "emits P m" and "\<And>s. snd (n s) = snd (m s)"
  shows "emits P n"
  using assms by (simp add: emits_def)

lemma snd_wrap [simp]: "snd (wrap msg m s) = snd (m s)"
  by (simp add: wrap_def split: prod.splits)

lemma snd_attempt [simp]: "snd (attempt m s) = snd (m s)"
  by (simp add: attempt_def split: prod.splits)

lemma emits_wrap [emits_intros, intro]: "emits P m \<Longrightarrow> emits P (wrap msg m)"
  by (erule emits_same_log) simp

lemma emits_attempt [emits_intros, intro]: "emits P m \<Longrightarrow> emits P (attempt m)"
  by (erule emits_same_log) simp

lemma emits_call [emits_intros, intro]: "(\<And>r. P (ev r)) \<Longrightarrow> emits P (call op ev)"
  by (auto simp: emits_def call_def split: prod.splits)

lemma emits_if [emits_intros, intro]:
  "(b \<Longrightarrow> emits P m) \<Longrightarrow> (\<not> b \<Longrightarrow> emits P n) \<Longrightarrow> emits P (if b then m else n)"
  by simp

lemma emits_case_option [emits_intros, intro]:
  "(x = None \<Longrightarrow> emits P m) \<Longrightarrow> (\<And>y. x = Some y \<Longrightarrow> emits P (f y)) \<Longrightarrow>
   emits P (case x of None \<Rightarrow> m | Some y \<Rightarrow> f y)"
  by (cases x) simp_all

lemma emits_case_sum [emits_intros, intro]:
  "(\<And>e. x = Inl e \<Longrightarrow> emits P (f e)) \<Longrightarrow> (\<And>y. x = Inr y \<Longrightarrow> emits P (g y)) \<Longrightarrow>
   emits P (case x of Inl e \<Rightarrow> f e | Inr y \<Rightarrow> g y)"
  by (cases x) simp_all

lemma emits_case_prod [emits_intros, intro]:
  "(\<And>a b. x = (a, b) \<Longrightarrow> emits P (f a b)) \<Longrightarrow> emits P (case x of (a, b) \<Rightarrow> f a b)"
  by (cases x) simp_all

lemma emits_mono: "emits P m \<Longrightarrow> (\<And>e. P e \<Longrightarrow> Q e) \<Longrightarrow> emits Q m"
  unfolding emits_def by (metis list.pred_mono_strong)

section \<open>Lists\<close>

text \<open>The first hit of a loop with \<open>break\<close>, found two ways.\<close>

lemma filter_case_find:
  "(case filter P xs of [] \<Rightarrow> n | x # _ \<Rightarrow> f x) = (case find P xs of None \<Rightarrow> n | Some x \<Rightarrow> f x)"
  by (induction xs) simp_all

section \<open>Finite maps\<close>

type_synonym smap = "(string, string) fmap"

text \<open>\<open>m[k]\<close> of a Go \<open>map[string]string\<close>: the empty string when the key is absent.\<close>

definition idx :: "smap \<Rightarrow> string \<Rightarrow> string" where
  "idx m k = (case fmlookup m k of None \<Rightarrow> [] | Some v \<Rightarrow> v)"

lemma idx_simps [simp]:
  "fmlookup m k = Some v \<Longrightarrow> idx m k = v"
  "fmlookup m k = None \<Longrightarrow> idx m k = []"
  by (simp_all add: idx_def)

text \<open>\<open>delete\<close> for each key of a list, in order.\<close>

fun delete_all :: "'k list \<Rightarrow> ('k, 'v) fmap \<Rightarrow> ('k, 'v) fmap" where
  "delete_all [] m = m"
| "delete_all (k # ks) m = delete_all ks (fmdrop k m)"

lemma fmlookup_delete_all [simp]:
  "fmlookup (delete_all ks m) k = (if k \<in> set ks then None else fmlookup m k)"
  by (induction ks arbitrary: m) auto

end
