(* ===== verification/Json.thy ===== *)
theory Json
  imports GoStrings
begin

text \<open>
  JSON values as Go's \<open>encoding/json\<close> reads them into \<open>interface{}\<close>: an object keeps its members
  in order. \<open>json_path\<close> reads a member at a path of keys, as the tests and the consumers of an
  unstructured object do.
\<close>

datatype json =
    JNull
  | JBool bool
  | JNum string
  | JStr string
  | JArr "json list"
  | JObj "(string \<times> json) list"

text \<open>Go keeps the last of several members with the same key.\<close>

definition jget :: "json \<Rightarrow> string \<Rightarrow> json option" where
  "jget j k = (case j of JObj ms \<Rightarrow> map_of (rev ms) k | _ \<Rightarrow> None)"

fun jpath :: "json \<Rightarrow> string list \<Rightarrow> json option" where
  "jpath j [] = Some j"
| "jpath j (k # ks) = (case jget j k of None \<Rightarrow> None | Some j' \<Rightarrow> jpath j' ks)"

lemma jget_simps [simp]:
  "jget JNull k = None"
  "jget (JBool b) k = None"
  "jget (JNum n) k = None"
  "jget (JStr s) k = None"
  "jget (JArr xs) k = None"
  "jget (JObj []) k = None"
  by (simp_all add: jget_def)

lemma jget_JObj_snoc [simp]:
  "jget (JObj (ms @ [(k', v)])) k = (if k = k' then Some v else jget (JObj ms) k)"
  by (simp add: jget_def)

section \<open>Strings on the wire\<close>

abbreviation (input) byte :: "char \<Rightarrow> nat" where
  "byte c \<equiv> of_char c"

definition hexdig :: "nat \<Rightarrow> char" where
  "hexdig n = (if n < 10 then char_of (48 + n) else char_of (87 + n))"

definition hexval :: "char \<Rightarrow> nat option" where
  "hexval c = (let b = byte c in
     if 48 \<le> b \<and> b \<le> 57 then Some (b - 48)
     else if 97 \<le> b \<and> b \<le> 102 then Some (b - 87)
     else if 65 \<le> b \<and> b \<le> 70 then Some (b - 55)
     else None)"

text \<open>Length of the valid UTF-8 sequence at the start of a byte string, 0 if there is none.\<close>

definition is_cont :: "nat \<Rightarrow> nat \<Rightarrow> char \<Rightarrow> bool" where
  "is_cont lo hi c \<longleftrightarrow> lo \<le> byte c \<and> byte c \<le> hi"

fun utf8_len :: "string \<Rightarrow> nat" where
  "utf8_len [] = 0"
| "utf8_len (c # s) = (let b = byte c in
     if b < 128 then 1
     else if 194 \<le> b \<and> b \<le> 223 then
       (case s of c1 # _ \<Rightarrow> if is_cont 128 191 c1 then 2 else 0 | _ \<Rightarrow> 0)
     else if 224 \<le> b \<and> b \<le> 239 then
       (case s of c1 # c2 # _ \<Rightarrow>
          if is_cont (if b = 224 then 160 else 128) (if b = 237 then 159 else 191) c1
             \<and> is_cont 128 191 c2 then 3 else 0
        | _ \<Rightarrow> 0)
     else if 240 \<le> b \<and> b \<le> 244 then
       (case s of c1 # c2 # c3 # _ \<Rightarrow>
          if is_cont (if b = 240 then 144 else 128) (if b = 244 then 143 else 191) c1
             \<and> is_cont 128 191 c2 \<and> is_cont 128 191 c3 then 4 else 0
        | _ \<Rightarrow> 0)
     else 0)"

text \<open>\<open>json.Marshal\<close> of a string, without its quotes: HTML characters are escaped too.\<close>

definition esc_ascii :: "char \<Rightarrow> string" where
  "esc_ascii c =
     (if c = CHR 0x22 \<or> c = CHR 0x5C then [CHR 0x5C, c]
      else if c = CHR 0x08 then [CHR 0x5C, CHR ''b'']
      else if c = CHR 0x0C then [CHR 0x5C, CHR ''f'']
      else if c = CHR 0x0A then [CHR 0x5C, CHR ''n'']
      else if c = CHR 0x0D then [CHR 0x5C, CHR ''r'']
      else if c = CHR 0x09 then [CHR 0x5C, CHR ''t'']
      else if byte c < 32 \<or> c = CHR ''<'' \<or> c = CHR ''>'' \<or> c = CHR 0x26 then
        [CHR 0x5C, CHR ''u'', CHR ''0'', CHR ''0'', hexdig (byte c div 16), hexdig (byte c mod 16)]
      else [c])"

fun escape :: "string \<Rightarrow> string" where
  "escape [] = []"
| "escape (c # s) =
     (if byte c < 128 then esc_ascii c @ escape s
      else (let n = utf8_len (c # s) in
        if n = 0 then CHR 0x5C # ''ufffd'' @ escape s
        else if take n (c # s) = [CHR 0xE2, CHR 0x80, CHR 0xA8]
        then CHR 0x5C # ''u2028'' @ escape (drop (n - 1) s)
        else if take n (c # s) = [CHR 0xE2, CHR 0x80, CHR 0xA9]
        then CHR 0x5C # ''u2029'' @ escape (drop (n - 1) s)
        else take n (c # s) @ escape (drop (n - 1) s)))"

definition utf8_encode :: "nat \<Rightarrow> string" where
  "utf8_encode r =
     (if r < 128 then [char_of r]
      else if r < 2048 then [char_of (192 + r div 64), char_of (128 + r mod 64)]
      else if r < 65536 then
        [char_of (224 + r div 4096), char_of (128 + r div 64 mod 64), char_of (128 + r mod 64)]
      else [char_of (240 + r div 262144), char_of (128 + r div 4096 mod 64),
            char_of (128 + r div 64 mod 64), char_of (128 + r mod 64)])"

definition hex4 :: "string \<Rightarrow> nat option" where
  "hex4 s = (case s of
     a # b # c # d # _ \<Rightarrow>
       (case (hexval a, hexval b, hexval c, hexval d) of
          (Some x, Some y, Some z, Some w) \<Rightarrow> Some (((x * 16 + y) * 16 + z) * 16 + w)
        | _ \<Rightarrow> None)
   | _ \<Rightarrow> None)"

text \<open>One escape sequence after its backslash: the bytes it stands for, and how many characters
  it takes. A lone surrogate stands for U+FFFD.\<close>

definition unesc :: "string \<Rightarrow> (string \<times> nat) option" where
  "unesc s = (case s of
     [] \<Rightarrow> None
   | e # s1 \<Rightarrow>
      (if e = CHR ''u'' then
        (case hex4 s1 of
           None \<Rightarrow> None
         | Some r \<Rightarrow>
             (if 55296 \<le> r \<and> r < 57344 then
                (if r < 56320 \<and> take 2 (drop 4 s1) = [CHR 0x5C, CHR ''u''] then
                   (case hex4 (drop 6 s1) of
                      Some r2 \<Rightarrow>
                        (if 56320 \<le> r2 \<and> r2 < 57344
                         then Some (utf8_encode ((r - 55296) * 1024 + (r2 - 56320) + 65536), 11)
                         else Some (utf8_encode 65533, 5))
                    | None \<Rightarrow> Some (utf8_encode 65533, 5))
                 else Some (utf8_encode 65533, 5))
              else Some (utf8_encode r, 5)))
      else if e = CHR 0x22 \<or> e = CHR 0x5C \<or> e = CHR 0x2F then Some ([e], 1)
      else if e = CHR ''b'' then Some ([CHR 0x08], 1)
      else if e = CHR ''f'' then Some ([CHR 0x0C], 1)
      else if e = CHR ''n'' then Some ([CHR 0x0A], 1)
      else if e = CHR ''r'' then Some ([CHR 0x0D], 1)
      else if e = CHR ''t'' then Some ([CHR 0x09], 1)
      else None))"

text \<open>A string after its opening quote: its bytes and the text after its closing quote.\<close>

fun pstr :: "string \<Rightarrow> (string \<times> string) option" where
  "pstr [] = None"
| "pstr (c # s) =
     (if c = CHR 0x22 then Some ([], s)
      else if c = CHR 0x5C then
        (case unesc s of
           None \<Rightarrow> None
         | Some (x, n) \<Rightarrow> map_option (\<lambda>(y, r). (x @ y, r)) (pstr (drop n s)))
      else if byte c < 32 then None
      else if byte c < 128 then map_option (\<lambda>(y, r). (c # y, r)) (pstr s)
      else (let n = utf8_len (c # s) in
        if n = 0 then map_option (\<lambda>(y, r). (utf8_encode 65533 @ y, r)) (pstr s)
        else map_option (\<lambda>(y, r). (take n (c # s) @ y, r)) (pstr (drop (n - 1) s))))"

lemma char_of_byte [simp]: "char_of (byte c) = (c :: char)"
  by simp

lemma byte_less_256: "byte (c :: char) < 256"
  by (metis of_char_mod_256 mod_less_divisor zero_less_numeral)

lemma hexval_hexdig [simp]: "n < 16 \<Longrightarrow> hexval (hexdig n) = Some n"
  by (auto simp: hexval_def hexdig_def Let_def)

definition ascii :: "string \<Rightarrow> bool" where
  "ascii s \<longleftrightarrow> (\<forall>c \<in> set s. byte c < 128)"

lemma ascii_simps [simp]:
  "ascii []"
  "ascii (c # s) \<longleftrightarrow> byte c < 128 \<and> ascii s"
  "ascii (s @ t) \<longleftrightarrow> ascii s \<and> ascii t"
  by (auto simp: ascii_def)

lemma pstr_backslash:
  "unesc s = Some (x, n) \<Longrightarrow>
   pstr (CHR 0x5C # s) = map_option (\<lambda>(y, r). (x @ y, r)) (pstr (drop n s))"
  by simp

lemma pstr_unicode_escape:
  assumes "byte c < 128"
  shows "pstr (CHR 0x5C # CHR ''u'' # CHR ''0'' # CHR ''0'' #
      hexdig (byte c div 16) # hexdig (byte c mod 16) # t) = map_option (\<lambda>(y, r). (c # y, r)) (pstr t)"
proof -
  have "hex4 (CHR ''0'' # CHR ''0'' # hexdig (byte c div 16) # hexdig (byte c mod 16) # t)
      = Some (byte c)"
    using assms by (simp add: hex4_def hexval_def [of "CHR ''0''"])
  then have "unesc (CHR ''u'' # CHR ''0'' # CHR ''0'' #
      hexdig (byte c div 16) # hexdig (byte c mod 16) # t) = Some ([c], 5)"
    using assms by (simp add: unesc_def utf8_encode_def)
  from pstr_backslash [OF this] show ?thesis by (simp del: pstr.simps)
qed

lemma pstr_simple_escape:
  "pstr (CHR 0x5C # CHR 0x22 # t) = map_option (\<lambda>(y, r). (CHR 0x22 # y, r)) (pstr t)"
  "pstr (CHR 0x5C # CHR 0x5C # t) = map_option (\<lambda>(y, r). (CHR 0x5C # y, r)) (pstr t)"
  "pstr (CHR 0x5C # CHR ''b'' # t) = map_option (\<lambda>(y, r). (CHR 0x08 # y, r)) (pstr t)"
  "pstr (CHR 0x5C # CHR ''f'' # t) = map_option (\<lambda>(y, r). (CHR 0x0C # y, r)) (pstr t)"
  "pstr (CHR 0x5C # CHR ''n'' # t) = map_option (\<lambda>(y, r). (CHR 0x0A # y, r)) (pstr t)"
  "pstr (CHR 0x5C # CHR ''r'' # t) = map_option (\<lambda>(y, r). (CHR 0x0D # y, r)) (pstr t)"
  "pstr (CHR 0x5C # CHR ''t'' # t) = map_option (\<lambda>(y, r). (CHR 0x09 # y, r)) (pstr t)"
  by (subst pstr_backslash, simp add: unesc_def, simp del: pstr.simps)+

lemma pstr_plain:
  "c \<noteq> CHR 0x22 \<Longrightarrow> c \<noteq> CHR 0x5C \<Longrightarrow> 32 \<le> byte c \<Longrightarrow> byte c < 128 \<Longrightarrow>
   pstr (c # t) = map_option (\<lambda>(y, r). (c # y, r)) (pstr t)"
  by simp

lemma pstr_esc_ascii:
  assumes "byte c < 128"
  shows "pstr (esc_ascii c @ t) = map_option (\<lambda>(y, r). (c # y, r)) (pstr t)"
proof (cases "c \<in> {CHR 0x22, CHR 0x5C, CHR 0x08, CHR 0x0C, CHR 0x0A, CHR 0x0D, CHR 0x09}")
  case True
  then show ?thesis
    by (elim insertE emptyE) (simp_all add: esc_ascii_def pstr_simple_escape del: pstr.simps)
next
  case False
  show ?thesis
  proof (cases "byte c < 32 \<or> c = CHR ''<'' \<or> c = CHR ''>'' \<or> c = CHR 0x26")
    case True
    with False have "esc_ascii c = [CHR 0x5C, CHR ''u'', CHR ''0'', CHR ''0'',
        hexdig (byte c div 16), hexdig (byte c mod 16)]"
      by (simp only: esc_ascii_def insert_iff empty_iff de_Morgan_disj if_True if_False simp_thms)
    then show ?thesis using pstr_unicode_escape [OF assms] by (simp del: pstr.simps)
  next
    case plain: False
    with False have "esc_ascii c = [c]"
      by (simp only: esc_ascii_def insert_iff empty_iff de_Morgan_disj if_True if_False simp_thms)
    then show ?thesis
      using pstr_plain [of c t] plain False assms by (simp del: pstr.simps)
  qed
qed

lemma pstr_escape: "ascii s \<Longrightarrow> pstr (escape s @ CHR 0x22 # t) = Some (s, t)"
  by (induction s) (simp_all add: pstr_esc_ascii del: pstr.simps(2), simp)

end
