(* ===== verification/KubeTypes.thy ===== *)
theory KubeTypes
  imports Json
begin

text \<open>
  The Kubernetes objects the program reads and writes, with the fields it uses, and the custom
  resources of \<open>api/v1alpha1\<close>. A Go pointer is an \<open>option\<close>; a \<open>map[string]string\<close> is a finite
  map, where a nil map and an empty one are the same value (the code makes a nil map before it
  writes to it, and only reads or ranges over it otherwise). A \<open>[]byte\<close> is a byte string.
\<close>

section \<open>Objects of the cluster\<close>

record OwnerReference =
  or_Kind :: string
  or_Name :: string
  or_Controller :: bool

record ObjectMeta =
  om_Name :: string
  om_Namespace :: string
  om_Labels :: smap
  om_Annotations :: smap
  om_Finalizers :: "string list"
  om_DeletionTimestamp :: "string option"
  om_OwnerReferences :: "OwnerReference list"

type_synonym objkey = "string \<times> string" \<comment> \<open>namespace, name\<close>

definition new_meta :: "string \<Rightarrow> string \<Rightarrow> ObjectMeta" where
  "new_meta ns name = \<lparr>om_Name = name, om_Namespace = ns, om_Labels = fmempty,
     om_Annotations = fmempty, om_Finalizers = [], om_DeletionTimestamp = None,
     om_OwnerReferences = []\<rparr>"

definition meta_key :: "ObjectMeta \<Rightarrow> objkey" where
  "meta_key m = (om_Namespace m, om_Name m)"

lemma new_meta_simps [simp]:
  "om_Name (new_meta ns name) = name"
  "om_Namespace (new_meta ns name) = ns"
  "om_Labels (new_meta ns name) = fmempty"
  "om_Annotations (new_meta ns name) = fmempty"
  "om_Finalizers (new_meta ns name) = []"
  "om_DeletionTimestamp (new_meta ns name) = None"
  "om_OwnerReferences (new_meta ns name) = []"
  "meta_key (new_meta ns name) = (ns, name)"
  by (simp_all add: new_meta_def meta_key_def)

record Condition =
  cd_Type :: string
  cd_Status :: string
  cd_Reason :: string
  cd_Message :: string

record Secret =
  s_Meta :: ObjectMeta
  s_Data :: smap
  s_StringData :: smap

record ConfigMap =
  cm_Meta :: ObjectMeta
  cm_Data :: smap

record Service =
  svc_Meta :: ObjectMeta
  svc_LoadBalancerIP :: string

text \<open>An unstructured object: its metadata, and the rest of its content as JSON.\<close>

record Unstructured =
  un_Meta :: ObjectMeta
  un_Object :: json

record LabelSelectorRequirement =
  lsr_Key :: string
  lsr_Operator :: string
  lsr_Values :: "string list"

record LabelSelector =
  ls_MatchLabels :: smap
  ls_MatchExpressions :: "LabelSelectorRequirement list"

section \<open>Connection data\<close>

text \<open>What \<open>clientcmd\<close> makes of a kubeconfig, and the client configuration of \<open>rest\<close>.\<close>

record KcCluster =
  kcc_Server :: string
  kcc_InsecureSkipTLSVerify :: bool
  kcc_CertificateAuthorityData :: string
  kcc_TLSServerName :: string

record KcAuthInfo =
  kca_Token :: string
  kca_ClientCertificateData :: string
  kca_ClientKeyData :: string

record KcContext =
  kcx_Cluster :: string
  kcx_AuthInfo :: string

record KubeConfig =
  kc_CurrentContext :: string
  kc_Contexts :: "(string, KcContext) fmap"
  kc_Clusters :: "(string, KcCluster) fmap"
  kc_AuthInfos :: "(string, KcAuthInfo) fmap"

record RestConfig =
  rc_Host :: string
  rc_BearerToken :: string
  rc_Insecure :: bool
  rc_ServerName :: string
  rc_CAData :: string
  rc_CertData :: string
  rc_KeyData :: string
  rc_Timeout :: nat

section \<open>The custom resources\<close>

record SecretKeyRef =
  skr_Name :: string
  skr_Namespace :: string
  skr_Key :: string

record SecretObjectRef =
  sor_Name :: string
  sor_Namespace :: string

record LBRange =
  lbr_Count :: int
  lbr_Start :: string
  lbr_Stop :: string

record ClusterbookClusterSpec =
  cc_NetworkKey :: string
  cc_SkipReservation :: bool
  cc_ClusterName :: string
  cc_CreateDNS :: bool
  cc_UseFQDNAsServer :: bool
  cc_ServerPort :: int
  cc_ServerSubdomain :: string
  cc_PreserveKubeconfigServer :: bool
  cc_KubeconfigSecretRef :: "SecretKeyRef option"
  cc_ExistingSecretRef :: "SecretObjectRef option"
  cc_ProviderConfigRef :: string
  cc_ArgoCDNamespace :: string
  cc_Labels :: smap
  cc_Annotations :: smap
  cc_ReleaseOnDelete :: bool
  cc_ClusterType :: string
  cc_LBRange :: "LBRange option"

record ClusterbookClusterStatus =
  ccs_IP :: string
  ccs_FQDN :: string
  ccs_Zone :: string
  ccs_LBRangeStart :: string
  ccs_LBRangeStop :: string
  ccs_SecretName :: string
  ccs_KubeconfigHash :: string
  ccs_ClusterReady :: bool
  ccs_Conditions :: "Condition list"

record ClusterbookCluster =
  cc_Meta :: ObjectMeta
  cc_Spec :: ClusterbookClusterSpec
  cc_Status :: ClusterbookClusterStatus

record ClusterbookProviderConfig =
  pc_Meta :: ObjectMeta
  pc_APIURL :: string
  pc_InsecureSkipVerify :: bool
  pc_CustomCASecretRef :: "SecretKeyRef option"

record CiliumPoolTarget =
  cpt_PoolName :: string
  cpt_Namespace :: string
  cpt_ServiceSelector :: "LabelSelector option"

record ServiceObjectRef =
  svr_Name :: string
  svr_Namespace :: string

record ClusterbookLoadBalancerSpec =
  lb_NetworkKey :: string
  lb_Name :: string
  lb_CreateDNS :: bool
  lb_ProviderConfigRef :: string
  lb_CiliumPool :: "CiliumPoolTarget option"
  lb_ServiceRef :: "ServiceObjectRef option"
  lb_ReleaseOnDelete :: bool

record ClusterbookLoadBalancerStatus =
  lbs_IP :: string
  lbs_FQDN :: string
  lbs_Zone :: string
  lbs_PoolName :: string
  lbs_TargetServiceRef :: "ServiceObjectRef option"
  lbs_Conditions :: "Condition list"

record ClusterbookLoadBalancer =
  lb_Meta :: ObjectMeta
  lb_Spec :: ClusterbookLoadBalancerSpec
  lb_Status :: ClusterbookLoadBalancerStatus

record ConfigMapSink =
  cms_Name :: string
  cms_Namespace :: string

record AllocationSinks =
  as_ConfigMap :: "ConfigMapSink option"
  as_ClusterSecretLabels :: "SecretObjectRef option"

record ClusterbookAllocationSpec =
  ca_NetworkKey :: string
  ca_Name :: string
  ca_CreateDNS :: bool
  ca_ProviderConfigRef :: string
  ca_Sinks :: AllocationSinks
  ca_ReleaseOnDelete :: bool

record ClusterbookAllocationStatus =
  cas_IP :: string
  cas_FQDN :: string
  cas_Zone :: string
  cas_ConfigMapRef :: "ConfigMapSink option"
  cas_ClusterSecretRef :: "SecretObjectRef option"
  cas_Conditions :: "Condition list"

record ClusterbookAllocation =
  ca_Meta :: ObjectMeta
  ca_Spec :: ClusterbookAllocationSpec
  ca_Status :: ClusterbookAllocationStatus

record VclusterArgoCD =
  va_Namespace :: string
  va_Register :: "bool option"
  va_Labels :: smap
  va_Annotations :: smap

record VclusterSpec =
  vc_ClusterName :: string
  vc_TargetClusterRef :: "SecretObjectRef option"
  vc_TargetNamespace :: string
  vc_ChartVersion :: string
  vc_ChartValues :: "string option"
  vc_NetworkKey :: string
  vc_ServerPort :: int
  vc_ProviderConfigRef :: string
  vc_ArgoCD :: VclusterArgoCD
  vc_ReleaseOnDelete :: bool

record VclusterStatus =
  vcs_IP :: string
  vcs_FQDN :: string
  vcs_Zone :: string
  vcs_KubeconfigSecretRef :: "SecretObjectRef option"
  vcs_ArgoCDApplicationRef :: string
  vcs_ClusterbookClusterRef :: string
  vcs_Conditions :: "Condition list"

record Vcluster =
  vc_Meta :: ObjectMeta
  vc_Spec :: VclusterSpec
  vc_Status :: VclusterStatus

section \<open>Validation rules of the CRDs\<close>

text \<open>
  The \<open>XValidation\<close> rules the API server evaluates before it stores an object. \<open>has(self.f)\<close> on
  a string field with \<open>omitempty\<close> holds when the field is not empty in an object the operator or
  a typed client wrote.
\<close>

definition b2n :: "bool \<Rightarrow> nat" where
  "b2n b = (if b then 1 else 0)"

definition valid_LBRange :: "LBRange \<Rightarrow> bool" where
  "valid_LBRange r \<longleftrightarrow>
     b2n (lbr_Count r > 0) + b2n (lbr_Start r \<noteq> [] \<and> lbr_Stop r \<noteq> []) = 1
     \<and> (lbr_Count r = 0 \<or> lbr_Count r \<ge> 1)"

definition valid_ClusterbookClusterSpec :: "ClusterbookClusterSpec \<Rightarrow> bool" where
  "valid_ClusterbookClusterSpec s \<longleftrightarrow>
     b2n (cc_KubeconfigSecretRef s \<noteq> None) + b2n (cc_ExistingSecretRef s \<noteq> None) = 1
     \<and> (cc_SkipReservation s \<or> cc_ClusterType s = ''kind'' \<or> cc_NetworkKey s \<noteq> [])
     \<and> (cc_NetworkKey s = [] \<or> cc_ProviderConfigRef s \<noteq> [])
     \<and> (cc_NetworkKey s \<noteq> [] \<or> cc_PreserveKubeconfigServer s)
     \<and> (case cc_LBRange s of None \<Rightarrow> True | Some r \<Rightarrow> valid_LBRange r)"

definition valid_ClusterbookLoadBalancerSpec :: "ClusterbookLoadBalancerSpec \<Rightarrow> bool" where
  "valid_ClusterbookLoadBalancerSpec s \<longleftrightarrow>
     b2n (lb_CiliumPool s \<noteq> None) + b2n (lb_ServiceRef s \<noteq> None) = 1"

definition valid_ClusterbookAllocationSpec :: "ClusterbookAllocationSpec \<Rightarrow> bool" where
  "valid_ClusterbookAllocationSpec s \<longleftrightarrow>
     as_ConfigMap (ca_Sinks s) \<noteq> None \<or> as_ClusterSecretLabels (ca_Sinks s) \<noteq> None"

definition valid_VclusterSpec :: "VclusterSpec \<Rightarrow> bool" where
  "valid_VclusterSpec s \<longleftrightarrow> (vc_NetworkKey s = [] \<or> vc_ProviderConfigRef s \<noteq> [])"

end
