(* ===== verification/Environment.thy ===== *)
theory Environment
  imports KubeTypes
begin

text \<open>
  Everything the program calls that is not its own code is a field of one record, an argument of
  the definitions that use it: the Kubernetes client of controller-runtime, HTTP transport,
  \<open>controllerutil\<close>, \<open>meta.SetStatusCondition\<close>, \<open>clientcmd\<close>, \<open>unstructured\<close>, X.509 and URL
  parsing. The model says nothing about what they do; theorems either hold for every choice of
  them or name the documented behaviour they rest on as a hypothesis (the definitions of the
  last section).
\<close>

section \<open>Requests and events\<close>

record TLSConfig =
  tls_MinVersion :: nat
  tls_InsecureSkipVerify :: bool
  tls_RootCAs :: "string option"

record HttpClient =
  hc_TLS :: "TLSConfig option"
  hc_Timeout :: nat

record HttpRequest =
  hr_Method :: string
  hr_URL :: string
  hr_Body :: string
  hr_ContentType :: string

record HttpResponse =
  hp_StatusCode :: int
  hp_Body :: string

datatype kind = KCluster | KProviderConfig | KLoadBalancer | KAllocation | KVcluster
  | KSecret | KConfigMap | KService | KApplication | KCiliumPool | KTargetSecret

datatype kobj =
    OCluster ClusterbookCluster
  | OLoadBalancer ClusterbookLoadBalancer
  | OAllocation ClusterbookAllocation
  | OVcluster Vcluster
  | OSecret Secret
  | OConfigMap ConfigMap
  | OService Service
  | OApplication Unstructured
  | OCiliumPool Unstructured

text \<open>One event per call that leaves the process, with the object sent and whether it succeeded.\<close>

datatype event =
    EGet kind objkey bool
  | EList kind bool
  | EUpdate kobj bool
  | EStatus kobj bool
  | EUpsert kobj bool
  | EDelete kind objkey bool
  | EHttp HttpRequest bool
  | EProbe RestConfig bool
  | ETarget RestConfig bool

fun is_http :: "event \<Rightarrow> bool" where
  "is_http (EHttp r b) = True"
| "is_http _ = False"

text \<open>An event that can change an object of the cluster.\<close>

fun is_write :: "event \<Rightarrow> bool" where
  "is_write (EUpdate x b) = True"
| "is_write (EStatus x b) = True"
| "is_write (EUpsert x b) = True"
| "is_write (EDelete k n b) = True"
| "is_write _ = False"

section \<open>The environment\<close>

record ('w, 'o) kclient =
  k_Get :: "objkey \<Rightarrow> 'w \<Rightarrow> (err + 'o) \<times> 'w"
  k_List :: "'w \<Rightarrow> (err + 'o list) \<times> 'w"
  k_Update :: "'o \<Rightarrow> 'w \<Rightarrow> (err + 'o) \<times> 'w"
  k_StatusUpdate :: "'o \<Rightarrow> 'w \<Rightarrow> (err + 'o) \<times> 'w"
  k_Delete :: "objkey \<Rightarrow> 'w \<Rightarrow> (err + unit) \<times> 'w"
  k_CreateOrUpdate :: "'o \<Rightarrow> ('o \<Rightarrow> err + 'o) \<Rightarrow> 'w \<Rightarrow> (err + 'o) \<times> 'w"

text \<open>Pure functions of the libraries the program calls.\<close>

record lib =
  ContainsFinalizer :: "ObjectMeta \<Rightarrow> string \<Rightarrow> bool"
  AddFinalizer :: "ObjectMeta \<Rightarrow> string \<Rightarrow> ObjectMeta"
  RemoveFinalizer :: "ObjectMeta \<Rightarrow> string \<Rightarrow> ObjectMeta"
  SetControllerReference :: "kind \<Rightarrow> ObjectMeta \<Rightarrow> ObjectMeta \<Rightarrow> err + ObjectMeta"
  SetStatusCondition :: "Condition list \<Rightarrow> Condition \<Rightarrow> Condition list"
  SetNestedField :: "json \<Rightarrow> json \<Rightarrow> string list \<Rightarrow> err + json"
  clientcmd_Load :: "string \<Rightarrow> err + KubeConfig"
  clientcmd_Write :: "KubeConfig \<Rightarrow> err + string"
  AppendCertsFromPEM :: "string \<Rightarrow> bool"
  NewRequestError :: "HttpRequest \<Rightarrow> err option"
  HTTPClientForError :: "RestConfig \<Rightarrow> err option"

record 'w env =
  ev_lib :: lib
  ev_Clusters :: "('w, ClusterbookCluster) kclient"
  ev_ProviderConfigs :: "('w, ClusterbookProviderConfig) kclient"
  ev_LoadBalancers :: "('w, ClusterbookLoadBalancer) kclient"
  ev_Allocations :: "('w, ClusterbookAllocation) kclient"
  ev_Vclusters :: "('w, Vcluster) kclient"
  ev_Secrets :: "('w, Secret) kclient"
  ev_ConfigMaps :: "('w, ConfigMap) kclient"
  ev_Services :: "('w, Service) kclient"
  ev_Applications :: "('w, Unstructured) kclient"
  ev_CiliumPools :: "('w, Unstructured) kclient"
  ev_HttpDo :: "HttpClient \<Rightarrow> HttpRequest \<Rightarrow> 'w \<Rightarrow> (err + HttpResponse) \<times> 'w"
  ev_RestDo :: "RestConfig \<Rightarrow> HttpRequest \<Rightarrow> 'w \<Rightarrow> (err + HttpResponse) \<times> 'w"
  ev_ProbeCluster :: "(RestConfig \<Rightarrow> 'w \<Rightarrow> (err + unit) \<times> 'w) option"
  ev_NewTargetClient :: "RestConfig \<Rightarrow> 'w \<Rightarrow> (err + unit) \<times> 'w"
  ev_TargetSecrets :: "RestConfig \<Rightarrow> ('w, Secret) kclient"

type_synonym ('w, 'a) op = "('w, event, 'a) io"

section \<open>Calls\<close>

definition kGet :: "kind \<Rightarrow> ('w, 'o) kclient \<Rightarrow> objkey \<Rightarrow> ('w, 'o) op" where
  "kGet kd c key = call (k_Get c key) (\<lambda>r. EGet kd key (is_ok r))"

definition kList :: "kind \<Rightarrow> ('w, 'o) kclient \<Rightarrow> ('w, 'o list) op" where
  "kList kd c = call (k_List c) (\<lambda>r. EList kd (is_ok r))"

definition kUpdate :: "('o \<Rightarrow> kobj) \<Rightarrow> ('w, 'o) kclient \<Rightarrow> 'o \<Rightarrow> ('w, 'o) op" where
  "kUpdate emb c x = call (k_Update c x) (\<lambda>r. EUpdate (emb x) (is_ok r))"

definition kStatusUpdate :: "('o \<Rightarrow> kobj) \<Rightarrow> ('w, 'o) kclient \<Rightarrow> 'o \<Rightarrow> ('w, 'o) op" where
  "kStatusUpdate emb c x = call (k_StatusUpdate c x) (\<lambda>r. EStatus (emb x) (is_ok r))"

definition kDelete :: "kind \<Rightarrow> ('w, 'o) kclient \<Rightarrow> objkey \<Rightarrow> ('w, unit) op" where
  "kDelete kd c key = call (k_Delete c key) (\<lambda>r. EDelete kd key (is_ok r))"

definition kCreateOrUpdate ::
    "('o \<Rightarrow> kobj) \<Rightarrow> ('w, 'o) kclient \<Rightarrow> 'o \<Rightarrow> ('o \<Rightarrow> err + 'o) \<Rightarrow> ('w, 'o) op" where
  "kCreateOrUpdate emb c x f = call (k_CreateOrUpdate c x f)
     (\<lambda>r. EUpsert (emb (case r of Inl e \<Rightarrow> x | Inr y \<Rightarrow> y)) (is_ok r))"

definition httpDo :: "'w env \<Rightarrow> HttpClient \<Rightarrow> HttpRequest \<Rightarrow> ('w, HttpResponse) op" where
  "httpDo E hc r = call (ev_HttpDo E hc r) (\<lambda>x. EHttp r (is_ok x))"

text \<open>
  The recurring shape \<open>_, err := CreateOrUpdate(...); if err != nil && !IsAlreadyExists(err)\<close>:
  losing a creation race is not an error.
\<close>

definition kUpsert ::
    "('o \<Rightarrow> kobj) \<Rightarrow> ('w, 'o) kclient \<Rightarrow> 'o \<Rightarrow> ('o \<Rightarrow> err + 'o) \<Rightarrow> ('w, 'o) op" where
  "kUpsert emb c x f = and_then (attempt (kCreateOrUpdate emb c x f))
     (\<lambda>r. case r of
        Inl e \<Rightarrow> if \<not> IsAlreadyExists e then fail e else ret x
      | Inr y \<Rightarrow> ret y)"

lemma emits_kGet [emits_intros, intro]:
  "(\<And>b. P (EGet kd key b)) \<Longrightarrow> emits P (kGet kd c key)"
  unfolding kGet_def by (rule emits_call)

lemma emits_kList [emits_intros, intro]: "(\<And>b. P (EList kd b)) \<Longrightarrow> emits P (kList kd c)"
  unfolding kList_def by (rule emits_call)

lemma emits_kUpdate [emits_intros, intro]:
  "(\<And>b. P (EUpdate (emb x) b)) \<Longrightarrow> emits P (kUpdate emb c x)"
  unfolding kUpdate_def by (rule emits_call)

lemma emits_kStatusUpdate [emits_intros, intro]:
  "(\<And>b. P (EStatus (emb x) b)) \<Longrightarrow> emits P (kStatusUpdate emb c x)"
  unfolding kStatusUpdate_def by (rule emits_call)

lemma emits_kDelete [emits_intros, intro]:
  "(\<And>b. P (EDelete kd key b)) \<Longrightarrow> emits P (kDelete kd c key)"
  unfolding kDelete_def by (rule emits_call)

lemma emits_kCreateOrUpdate [emits_intros, intro]:
  "(\<And>y b. P (EUpsert (emb y) b)) \<Longrightarrow> emits P (kCreateOrUpdate emb c x f)"
  unfolding kCreateOrUpdate_def by (rule emits_call)

lemma emits_kUpsert [emits_intros, intro]:
  "(\<And>y b. P (EUpsert (emb y) b)) \<Longrightarrow> emits P (kUpsert emb c x f)"
  unfolding kUpsert_def by (intro emits_intros) auto

lemma emits_httpDo [emits_intros, intro]:
  "(\<And>b. P (EHttp r b)) \<Longrightarrow> emits P (httpDo E hc r)"
  unfolding httpDo_def by (rule emits_call)

lemma kUpsert_run:
  "kUpsert emb c x f (w, tr) = (case k_CreateOrUpdate c x f w of
     (Inl e, w') \<Rightarrow> (if is_panic e \<or> \<not> IsAlreadyExists e then Inl e else Inr x,
                    w', tr @ [EUpsert (emb x) False])
   | (Inr y, w') \<Rightarrow> (Inr y, w', tr @ [EUpsert (emb y) True]))"
  by (auto simp: kUpsert_def kCreateOrUpdate_def io_defs split: prod.splits sum.splits)

text \<open>A call that succeeded: what the outside answered, and the one event it left.\<close>

lemma call_InrD:
  "call op ev (w, tr) = (Inr y, t) \<Longrightarrow>
   \<exists>w'. op w = (Inr y, w') \<and> t = (w', tr @ [ev (Inr y)])"
  by (cases "op w") (auto simp: call_run)

lemma kube_call_InrD:
  "kGet kd c n (w, tr) = (Inr x, t) \<Longrightarrow>
     \<exists>w'. k_Get c n w = (Inr x, w') \<and> t = (w', tr @ [EGet kd n True])"
  "kUpdate emb c y (w, tr) = (Inr x, t) \<Longrightarrow>
     \<exists>w'. k_Update c y w = (Inr x, w') \<and> t = (w', tr @ [EUpdate (emb y) True])"
  "kDelete kd c n (w, tr) = (Inr u, t) \<Longrightarrow>
     \<exists>w'. k_Delete c n w = (Inr u, w') \<and> t = (w', tr @ [EDelete kd n True])"
  "kCreateOrUpdate emb c y f (w, tr) = (Inr x, t) \<Longrightarrow>
     \<exists>w'. k_CreateOrUpdate c y f w = (Inr x, w') \<and> t = (w', tr @ [EUpsert (emb x) True])"
  unfolding kGet_def kUpdate_def kDelete_def kCreateOrUpdate_def
  by (drule call_InrD; simp)+

section \<open>Documented behaviour of the libraries\<close>

text \<open>\<open>controllerutil\<close>: a finalizer is present after adding it and absent after removing it.\<close>

definition finalizer_laws :: "lib \<Rightarrow> bool" where
  "finalizer_laws L \<longleftrightarrow>
     (\<forall>m f. ContainsFinalizer L m f \<longleftrightarrow> f \<in> set (om_Finalizers m))
   \<and> (\<forall>m f. AddFinalizer L m f =
        m\<lparr>om_Finalizers := (if f \<in> set (om_Finalizers m) then om_Finalizers m
                            else om_Finalizers m @ [f])\<rparr>)
   \<and> (\<forall>m f. RemoveFinalizer L m f =
        m\<lparr>om_Finalizers := filter (\<lambda>g. g \<noteq> f) (om_Finalizers m)\<rparr>)"

text \<open>
  \<open>SetControllerReference\<close> only touches the owner references, and refuses an object another
  controller owns.
\<close>

definition owner_laws :: "lib \<Rightarrow> bool" where
  "owner_laws L \<longleftrightarrow>
     (\<forall>k ow m m'. SetControllerReference L k ow m = Inr m' \<longrightarrow>
        m' = m\<lparr>om_OwnerReferences := om_OwnerReferences m'\<rparr>)"

definition find_cond :: "Condition list \<Rightarrow> string \<Rightarrow> Condition option" where
  "find_cond cs t = find (\<lambda>c. cd_Type c = t) cs"

text \<open>\<open>meta.SetStatusCondition\<close> sets the condition of the given type and keeps the others.\<close>

definition condition_laws :: "lib \<Rightarrow> bool" where
  "condition_laws L \<longleftrightarrow>
     (\<forall>cs c. find_cond (SetStatusCondition L cs c) (cd_Type c) = Some c)
   \<and> (\<forall>cs c t. t \<noteq> cd_Type c \<longrightarrow> find_cond (SetStatusCondition L cs c) t = find_cond cs t)"

text \<open>\<open>unstructured.SetNestedField\<close>: on success the path reads back the value, and a path that
  leaves it at some key is unchanged.\<close>

definition nested_laws :: "lib \<Rightarrow> bool" where
  "nested_laws L \<longleftrightarrow>
     (\<forall>j v p j'. p \<noteq> [] \<longrightarrow> SetNestedField L j v p = Inr j' \<longrightarrow> jpath j' p = Some v)
   \<and> (\<forall>j v p j' q. SetNestedField L j v p = Inr j' \<longrightarrow> \<not> prefix p q \<longrightarrow> \<not> prefix q p \<longrightarrow>
        jpath j' q = jpath j q)"

text \<open>\<open>clientcmd\<close>: what is written loads back.\<close>

definition kubeconfig_laws :: "lib \<Rightarrow> bool" where
  "kubeconfig_laws L \<longleftrightarrow>
     (\<forall>c raw. clientcmd_Write L c = Inr raw \<longrightarrow> clientcmd_Load L raw = Inr c)"

end
