(* ===== verification/OwnedMetadata.thy ===== *)
theory OwnedMetadata
  imports Environment
begin

text \<open>
  \<open>controller/owned_metadata.go\<close>: the operator records on an object which label and annotation
  keys it wrote, and on the next write deletes the recorded keys it no longer wants. The locale
  \<open>ownership\<close> is the contract of one such map and its record; the section after it lifts it to
  the pair of maps of an object, whose records are stored as annotations of the same object.
\<close>

section \<open>The code\<close>

definition clusterbookPrefix :: string where
  "clusterbookPrefix = ''clusterbook.stuttgart-things.com/''"

definition annotationOwnedLabels :: string where
  "annotationOwnedLabels = clusterbookPrefix @ ''owned-labels''"

definition annotationOwnedAnnotations :: string where
  "annotationOwnedAnnotations = clusterbookPrefix @ ''owned-annotations''"

definition parseOwnedRecord :: "string \<Rightarrow> string list" where
  "parseOwnedRecord s = (if s = [] then [] else Split s (CHR '',''))"

text \<open>The keys in any order, sorted bytewise, joined by commas.\<close>

definition ownedRecord :: "smap \<Rightarrow> string" where
  "ownedRecord m = Join (sorted_list_of_fset (fmdom m)) '',''"

text \<open>The first loop of \<open>applyOwned\<close>.\<close>

fun pruneOwned :: "string list \<Rightarrow> smap \<Rightarrow> smap \<Rightarrow> smap" where
  "pruneOwned [] desired current = current"
| "pruneOwned (k # ks) desired current =
     pruneOwned ks desired
       (case fmlookup desired k of None \<Rightarrow> fmdrop k current | Some v \<Rightarrow> current)"

definition applyOwned :: "smap \<Rightarrow> string \<Rightarrow> smap \<Rightarrow> smap" where
  "applyOwned current prevRecord desired =
     fmadd (pruneOwned (parseOwnedRecord prevRecord) desired current) desired"

definition recordOwned :: "smap \<Rightarrow> smap \<Rightarrow> smap \<Rightarrow> smap" where
  "recordOwned annotations labels desiredAnnotations =
     fmupd annotationOwnedAnnotations (ownedRecord desiredAnnotations)
       (fmupd annotationOwnedLabels (ownedRecord labels) annotations)"

text \<open>The three calls both writers of a Secret's metadata make, in their order.\<close>

definition syncOwned :: "ObjectMeta \<Rightarrow> smap \<Rightarrow> smap \<Rightarrow> ObjectMeta" where
  "syncOwned m labels annotations =
     (let ls = applyOwned (om_Labels m) (idx (om_Annotations m) annotationOwnedLabels) labels;
          as = applyOwned (om_Annotations m)
                 (idx (om_Annotations m) annotationOwnedAnnotations) annotations
      in m\<lparr>om_Labels := ls, om_Annotations := recordOwned as labels annotations\<rparr>)"

section \<open>Keys the record can carry\<close>

text \<open>Kubernetes admits no empty label or annotation key and no comma in one.\<close>

definition valid_key :: "string \<Rightarrow> bool" where
  "valid_key k \<longleftrightarrow> k \<noteq> [] \<and> CHR '','' \<notin> set k"

definition valid_keys :: "smap \<Rightarrow> bool" where
  "valid_keys m \<longleftrightarrow> (\<forall>k |\<in>| fmdom m. valid_key k)"

lemma valid_keys_fmempty [simp]: "valid_keys fmempty"
  by (simp add: valid_keys_def)

lemma valid_keys_fmupd: "valid_key k \<Longrightarrow> valid_keys m \<Longrightarrow> valid_keys (fmupd k v m)"
  by (auto simp: valid_keys_def)

lemma parse_ownedRecord:
  assumes "valid_keys m"
  shows "parseOwnedRecord (ownedRecord m) = sorted_list_of_fset (fmdom m)"
proof (cases "sorted_list_of_fset (fmdom m) = []")
  case True
  then show ?thesis by (simp add: ownedRecord_def parseOwnedRecord_def)
next
  case False
  let ?ks = "sorted_list_of_fset (fmdom m)"
  have keys: "valid_key k" if "k \<in> set ?ks" for k
    using assms that by (simp add: valid_keys_def)
  from False obtain k where "k \<in> set ?ks" by (cases ?ks) auto
  with keys have "?ks \<noteq> [[]]" by (force simp: valid_key_def)
  with False have "Join ?ks '','' \<noteq> []" by (simp add: Join_eq_Nil_iff)
  moreover have "Split (Join ?ks '','') (CHR '','') = ?ks"
    by (rule Split_Join [OF False]) (use keys in \<open>auto simp: valid_key_def\<close>)
  ultimately show ?thesis by (simp add: ownedRecord_def parseOwnedRecord_def)
qed

lemma set_parse_ownedRecord [simp]:
  "valid_keys m \<Longrightarrow> set (parseOwnedRecord (ownedRecord m)) = fset (fmdom m)"
  by (simp add: parse_ownedRecord)

lemma fmlookup_pruneOwned:
  "fmlookup (pruneOwned ks desired current) k =
     (if k \<in> set ks \<and> fmlookup desired k = None then None else fmlookup current k)"
  by (induction ks arbitrary: current) (auto split: option.splits)

lemma fmlookup_applyOwned:
  "fmlookup (applyOwned current rc desired) k =
     (case fmlookup desired k of
        Some v \<Rightarrow> Some v
      | None \<Rightarrow> if k \<in> set (parseOwnedRecord rc) then None else fmlookup current k)"
  by (auto simp: applyOwned_def fmlookup_pruneOwned fmlookup_dom_iff split: option.splits)

section \<open>The contract of one map and its record\<close>

locale ownership =
  fixes encode :: "smap \<Rightarrow> string"
    and decode :: "string \<Rightarrow> string list"
    and put :: "smap \<Rightarrow> string \<Rightarrow> smap \<Rightarrow> smap"
    and ok :: "smap \<Rightarrow> bool"
  assumes decode_encode: "ok d \<Longrightarrow> set (decode (encode d)) = fset (fmdom d)"
    and put_lookup: "fmlookup (put cur rc d) k =
      (case fmlookup d k of
         Some v \<Rightarrow> Some v
       | None \<Rightarrow> if k \<in> set (decode rc) then None else fmlookup cur k)"
begin

lemma put_desired: "fmlookup d k = Some v \<Longrightarrow> fmlookup (put cur rc d) k = Some v"
  by (simp add: put_lookup)

lemma put_foreign:
  "ok old \<Longrightarrow> k |\<notin>| fmdom old \<Longrightarrow> k |\<notin>| fmdom d \<Longrightarrow>
   fmlookup (put cur (encode old) d) k = fmlookup cur k"
  by (simp add: put_lookup decode_encode fmdom_notD)

lemma put_stale:
  "ok old \<Longrightarrow> k |\<in>| fmdom old \<Longrightarrow> k |\<notin>| fmdom d \<Longrightarrow>
   fmlookup (put cur (encode old) d) k = None"
  by (simp add: put_lookup decode_encode fmdom_notD)

lemma put_idem: "ok d \<Longrightarrow> put (put cur rc d) (encode d) d = put cur rc d"
  by (rule fmap_ext) (auto simp: put_lookup decode_encode fmlookup_dom_iff split: option.splits)

text \<open>
  A history of writes, each with the record of the one before: a key of the last desired map
  has its value, a key an earlier one had is gone, and every other key is as it was.
\<close>

fun history :: "smap \<Rightarrow> string \<Rightarrow> smap list \<Rightarrow> smap" where
  "history cur rc [] = cur"
| "history cur rc (d # ds) = history (put cur rc d) (encode d) ds"

lemma history_snoc:
  "history cur rc (ds @ [d]) =
     put (history cur rc ds) (if ds = [] then rc else encode (last ds)) d"
  by (induction ds arbitrary: cur rc) auto

lemma history_lookup:
  assumes "\<forall>d \<in> set ds. ok d"
  shows "fmlookup (history cur rc (ds @ [d])) k =
    (case fmlookup d k of
       Some v \<Rightarrow> Some v
     | None \<Rightarrow> if k \<in> set (decode rc) \<or> (\<exists>d' \<in> set ds. k |\<in>| fmdom d') then None
              else fmlookup cur k)"
  using assms
proof (induction ds arbitrary: cur rc)
  case Nil
  then show ?case by (simp add: put_lookup)
next
  case (Cons d0 ds)
  have "fmlookup (history cur rc ((d0 # ds) @ [d])) k =
      (case fmlookup d k of
         Some v \<Rightarrow> Some v
       | None \<Rightarrow> if k \<in> set (decode (encode d0)) \<or> (\<exists>d' \<in> set ds. k |\<in>| fmdom d') then None
                else fmlookup (put cur rc d0) k)"
    using Cons by simp
  with Cons.prems show ?case
    by (auto simp: decode_encode put_lookup fmdom_notD split: option.splits)
qed

end

interpretation owned: ownership ownedRecord parseOwnedRecord applyOwned valid_keys
  by unfold_locales (simp_all add: fmlookup_applyOwned)

section \<open>Both maps of an object\<close>

lemma owned_keys_distinct [simp]:
  "annotationOwnedLabels \<noteq> annotationOwnedAnnotations"
  "annotationOwnedAnnotations \<noteq> annotationOwnedLabels"
  by (simp_all add: annotationOwnedLabels_def annotationOwnedAnnotations_def)

lemma om_Labels_syncOwned [simp]:
  "om_Labels (syncOwned m l a) =
     applyOwned (om_Labels m) (idx (om_Annotations m) annotationOwnedLabels) l"
  by (simp add: syncOwned_def Let_def)

lemma om_Annotations_syncOwned:
  "om_Annotations (syncOwned m l a) =
     recordOwned (applyOwned (om_Annotations m)
       (idx (om_Annotations m) annotationOwnedAnnotations) a) l a"
  by (simp add: syncOwned_def Let_def)

lemma syncOwned_frame [simp]:
  "om_Name (syncOwned m l a) = om_Name m"
  "om_Namespace (syncOwned m l a) = om_Namespace m"
  "om_Finalizers (syncOwned m l a) = om_Finalizers m"
  "om_DeletionTimestamp (syncOwned m l a) = om_DeletionTimestamp m"
  "om_OwnerReferences (syncOwned m l a) = om_OwnerReferences m"
  by (simp_all add: syncOwned_def Let_def)

lemma idx_syncOwned [simp]:
  "idx (om_Annotations (syncOwned m l a)) annotationOwnedLabels = ownedRecord l"
  "idx (om_Annotations (syncOwned m l a)) annotationOwnedAnnotations = ownedRecord a"
  by (simp_all add: om_Annotations_syncOwned recordOwned_def)

text \<open>The value a record holds on an object, read as a set of keys.\<close>

definition ownedLabelKeys :: "ObjectMeta \<Rightarrow> string set" where
  "ownedLabelKeys m = set (parseOwnedRecord (idx (om_Annotations m) annotationOwnedLabels))"

definition ownedAnnotationKeys :: "ObjectMeta \<Rightarrow> string set" where
  "ownedAnnotationKeys m =
     set (parseOwnedRecord (idx (om_Annotations m) annotationOwnedAnnotations))"

lemma owned_keys_syncOwned [simp]:
  "valid_keys l \<Longrightarrow> ownedLabelKeys (syncOwned m l a) = fset (fmdom l)"
  "valid_keys a \<Longrightarrow> ownedAnnotationKeys (syncOwned m l a) = fset (fmdom a)"
  by (simp_all add: ownedLabelKeys_def ownedAnnotationKeys_def)

lemma label_syncOwned:
  "fmlookup (om_Labels (syncOwned m l a)) k =
     (case fmlookup l k of
        Some v \<Rightarrow> Some v
      | None \<Rightarrow> if k \<in> ownedLabelKeys m then None else fmlookup (om_Labels m) k)"
  by (simp add: fmlookup_applyOwned ownedLabelKeys_def split: option.splits)

lemma annotation_syncOwned:
  "fmlookup (om_Annotations (syncOwned m l a)) k =
     (if k = annotationOwnedAnnotations then Some (ownedRecord a)
      else if k = annotationOwnedLabels then Some (ownedRecord l)
      else (case fmlookup a k of
          Some v \<Rightarrow> Some v
        | None \<Rightarrow> if k \<in> ownedAnnotationKeys m then None else fmlookup (om_Annotations m) k))"
  by (simp add: om_Annotations_syncOwned recordOwned_def fmlookup_applyOwned
      ownedAnnotationKeys_def split: option.splits)

lemmas syncOwned_lookup = label_syncOwned annotation_syncOwned

text \<open>Repeated writes to the same object, each with its own desired labels and annotations.\<close>

fun syncAll :: "ObjectMeta \<Rightarrow> (smap \<times> smap) list \<Rightarrow> ObjectMeta" where
  "syncAll m [] = m"
| "syncAll m ((l, a) # ds) = syncAll (syncOwned m l a) ds"

lemma om_Labels_syncAll:
  "om_Labels (syncAll m ds) =
     owned.history (om_Labels m) (idx (om_Annotations m) annotationOwnedLabels) (map fst ds)"
  by (induction m ds rule: syncAll.induct) simp_all

lemma ObjectMeta_eqI:
  fixes m n :: ObjectMeta
  assumes "om_Name m = om_Name n" "om_Namespace m = om_Namespace n"
    "om_Labels m = om_Labels n" "om_Annotations m = om_Annotations n"
    "om_Finalizers m = om_Finalizers n" "om_DeletionTimestamp m = om_DeletionTimestamp n"
    "om_OwnerReferences m = om_OwnerReferences n"
  shows "m = n"
  using assms by (cases m; cases n) simp

lemma syncOwned_idem:
  assumes "valid_keys l" and "valid_keys a"
  shows "syncOwned (syncOwned m l a) l a = syncOwned m l a"
proof (rule ObjectMeta_eqI)
  show "om_Labels (syncOwned (syncOwned m l a) l a) = om_Labels (syncOwned m l a)"
    using assms by (simp add: owned.put_idem)
  show "om_Annotations (syncOwned (syncOwned m l a) l a) = om_Annotations (syncOwned m l a)"
    by (rule fmap_ext)
      (use assms in \<open>auto simp: annotation_syncOwned fmlookup_dom_iff split: option.splits\<close>)
qed simp_all

section \<open>Properties\<close>

lemma syncAll_annotation:
  assumes "\<forall>(l, a) \<in> set ds. valid_keys a"
    and "k \<noteq> annotationOwnedLabels" and "k \<noteq> annotationOwnedAnnotations"
  shows "fmlookup (om_Annotations (syncAll m (ds @ [(l, a)]))) k =
    (case fmlookup a k of
       Some v \<Rightarrow> Some v
     | None \<Rightarrow> if k \<in> ownedAnnotationKeys m \<or> (\<exists>(l', a') \<in> set ds. k |\<in>| fmdom a') then None
              else fmlookup (om_Annotations m) k)"
  using assms
proof (induction m ds rule: syncAll.induct)
  case (1 m)
  then show ?case by (simp add: annotation_syncOwned)
next
  case (2 m l0 a0 ds)
  then have valid: "valid_keys a0" by simp
  from 2 have "fmlookup (om_Annotations (syncAll m (((l0, a0) # ds) @ [(l, a)]))) k =
      (case fmlookup a k of
         Some v \<Rightarrow> Some v
       | None \<Rightarrow> if k \<in> ownedAnnotationKeys (syncOwned m l0 a0)
                   \<or> (\<exists>(l', a') \<in> set ds. k |\<in>| fmdom a') then None
                else fmlookup (om_Annotations (syncOwned m l0 a0)) k)"
    by simp
  also have "\<dots> = (case fmlookup a k of
       Some v \<Rightarrow> Some v
     | None \<Rightarrow> if k \<in> ownedAnnotationKeys m \<or> (\<exists>(l', a') \<in> set ((l0, a0) # ds). k |\<in>| fmdom a')
              then None else fmlookup (om_Annotations m) k)"
    using valid "2.prems"
    by (cases "fmlookup a0 k"; cases "fmlookup a k")
      (auto simp: annotation_syncOwned fmlookup_dom_iff)
  finally show ?case .
qed

text \<open>
  C1. Pruning across any history of reconciles. After any sequence of writes, the labels of the
  object are: the value of the last desired set where it has the key; nothing where the key was
  recorded before the first write or desired by an earlier write and dropped since (the stale
  toggle of issue 121); and otherwise exactly what was on the object before, so keys set by
  anyone else are never touched.
\<close>

theorem owned_labels_history:
  assumes "\<forall>(l, a) \<in> set ds. valid_keys l"
  shows "fmlookup (om_Labels (syncAll m (ds @ [(l, a)]))) k =
    (case fmlookup l k of
       Some v \<Rightarrow> Some v
     | None \<Rightarrow> if k \<in> ownedLabelKeys m \<or> (\<exists>(l', a') \<in> set ds. k |\<in>| fmdom l') then None
              else fmlookup (om_Labels m) k)"
proof -
  have "\<forall>l \<in> set (map fst ds). valid_keys l" using assms by auto
  from owned.history_lookup [OF this] show ?thesis
    by (auto simp: om_Labels_syncAll ownedLabelKeys_def split: option.splits)
qed

text \<open>A dropped toggle disappears, a label of somebody else stays.\<close>

definition exampleMeta :: ObjectMeta where
  "exampleMeta = (new_meta ''argocd'' ''cluster-a'')
     \<lparr>om_Labels := fmap_of_list [(''team'', ''net'')]\<rparr>"

lemma owned_labels_history_witness:
  "fmlookup (om_Labels (syncAll exampleMeta
       ([(fmap_of_list [(''monitoring'', ''false'')], fmempty)] @
        [(fmap_of_list [(''env'', ''prod'')], fmempty)]))) ''monitoring'' = None
   \<and> fmlookup (om_Labels (syncAll exampleMeta
       ([(fmap_of_list [(''monitoring'', ''false'')], fmempty)] @
        [(fmap_of_list [(''env'', ''prod'')], fmempty)]))) ''team'' = Some ''net''"
proof -
  let ?ds = "[(fmap_of_list [(''monitoring'', ''false'')], fmempty)] :: (smap \<times> smap) list"
  have h: "\<forall>(l, a) \<in> set ?ds. valid_keys l"
    by (simp add: valid_keys_def valid_key_def)
  show ?thesis
    unfolding owned_labels_history [OF h]
    by (simp add: exampleMeta_def ownedLabelKeys_def parseOwnedRecord_def)
qed

text \<open>
  C2. The same for annotations, which also carry the two records: every other annotation follows
  the last desired set, the recorded and since dropped keys are gone, and foreign annotations
  survive every write.
\<close>

theorem owned_annotations_history:
  assumes "\<forall>(l, a) \<in> set ds. valid_keys a"
    and "k \<notin> {annotationOwnedLabels, annotationOwnedAnnotations}"
  shows "fmlookup (om_Annotations (syncAll m (ds @ [(l, a)]))) k =
    (case fmlookup a k of
       Some v \<Rightarrow> Some v
     | None \<Rightarrow> if k \<in> ownedAnnotationKeys m \<or> (\<exists>(l', a') \<in> set ds. k |\<in>| fmdom a') then None
              else fmlookup (om_Annotations m) k)"
  using assms by (intro syncAll_annotation) simp_all

lemma owned_annotations_history_witness:
  "fmlookup (om_Annotations (syncAll exampleMeta
       ([(fmempty, fmap_of_list [(''vault-server'', ''v1'')])] @ [(fmempty, fmempty)])))
     ''vault-server'' = None"
proof -
  let ?ds = "[(fmempty, fmap_of_list [(''vault-server'', ''v1'')])] :: (smap \<times> smap) list"
  have h: "\<forall>(l, a) \<in> set ?ds. valid_keys a"
    by (simp add: valid_keys_def valid_key_def)
  have k: "''vault-server'' \<notin> {annotationOwnedLabels, annotationOwnedAnnotations}"
    by (simp add: annotationOwnedLabels_def annotationOwnedAnnotations_def clusterbookPrefix_def)
  show ?thesis
    unfolding owned_annotations_history [OF h k] by simp
qed

text \<open>
  C3. Writing is idempotent: reconciling the metadata of an object again with the same desired
  labels and annotations gives the same metadata, the two ownership records included. The handlers
  send the update on every run all the same; in a steady state it carries what is already there.
\<close>

theorem owned_sync_idempotent:
  assumes "valid_keys l" and "valid_keys a"
  shows "syncOwned (syncOwned m l a) l a = syncOwned m l a"
  using assms by (rule syncOwned_idem)

lemma owned_sync_idempotent_witness:
  "syncOwned (syncOwned exampleMeta (fmap_of_list [(''env'', ''prod'')]) fmempty)
     (fmap_of_list [(''env'', ''prod'')]) fmempty =
   syncOwned exampleMeta (fmap_of_list [(''env'', ''prod'')]) fmempty"
  by (rule owned_sync_idempotent) (simp_all add: valid_keys_def valid_key_def)

text \<open>
  C4. The record round-trips: reading back the record of a map gives its keys, each once, in
  ascending byte order, so the record does not depend on Go's map iteration order and the next
  reconcile sees exactly the keys that were written.
\<close>

theorem owned_record_roundtrip:
  assumes "valid_keys m"
  shows "parseOwnedRecord (ownedRecord m) = sorted_list_of_fset (fmdom m)"
  using assms by (rule parse_ownedRecord)

lemma owned_record_roundtrip_witness:
  "set (parseOwnedRecord (ownedRecord (fmap_of_list [(''env'', ''prod''), (''a'', ''b'')])))
     = {''a'', ''env''}"
proof -
  have h: "valid_keys (fmap_of_list [(''env'', ''prod''), (''a'', ''b'')])"
    by (simp add: valid_keys_def valid_key_def)
  show ?thesis unfolding owned_record_roundtrip [OF h] by auto
qed

end
