(* ===== verification/JsonText.thy ===== *)
theory JsonText
  imports Json
begin

text \<open>
  The JSON texts of \<open>encoding/json\<close>: \<open>jprint\<close> is what \<open>json.Marshal\<close> writes for a value,
  \<open>jparse\<close> what \<open>json.Unmarshal\<close> accepts (one value, white space around it) and
  \<open>jparse_prefix\<close> what a \<open>Decoder\<close> reads from a stream (one value, the rest unread). The parser
  carries fuel, and \<open>jparse_jprint\<close> shows that the fuel it starts with is enough for every
  text \<open>jprint\<close> writes.
\<close>

section \<open>Writing\<close>

definition jquote :: "string \<Rightarrow> string" where
  "jquote s = CHR 0x22 # escape s @ [CHR 0x22]"

fun jprint :: "json \<Rightarrow> string"
  and jprint_elems :: "json list \<Rightarrow> string"
  and jprint_members :: "(string \<times> json) list \<Rightarrow> string" where
  "jprint JNull = ''null''"
| "jprint (JBool b) = (if b then ''true'' else ''false'')"
| "jprint (JNum n) = n"
| "jprint (JStr s) = jquote s"
| "jprint (JArr xs) = CHR ''['' # jprint_elems xs @ '']''"
| "jprint (JObj ms) = CHR ''{'' # jprint_members ms @ ''}''"
| "jprint_elems [] = []"
| "jprint_elems (x # xs) = jprint x @ (if xs = [] then [] else '','' @ jprint_elems xs)"
| "jprint_members [] = []"
| "jprint_members ((k, v) # ms) =
     jquote k @ '':'' @ jprint v @ (if ms = [] then [] else '','' @ jprint_members ms)"

section \<open>Reading\<close>

definition skip_ws :: "string \<Rightarrow> string" where
  "skip_ws s = dropWhile (\<lambda>c. c = CHR '' '' \<or> c = CHR 0x09 \<or> c = CHR 0x0A \<or> c = CHR 0x0D) s"

definition is_digit :: "char \<Rightarrow> bool" where
  "is_digit c \<longleftrightarrow> 48 \<le> byte c \<and> byte c \<le> 57"

definition pdigits :: "string \<Rightarrow> (string \<times> string) option" where
  "pdigits s = (if takeWhile is_digit s = [] then None
                else Some (takeWhile is_digit s, dropWhile is_digit s))"

definition pint :: "string \<Rightarrow> (string \<times> string) option" where
  "pint s = (case s of
     c # r \<Rightarrow> if c = CHR ''0'' then Some ([c], r) else pdigits s
   | [] \<Rightarrow> None)"

definition pfrac :: "string \<Rightarrow> (string \<times> string) option" where
  "pfrac s = (case s of
     c # r \<Rightarrow> if c = CHR ''.'' then map_option (\<lambda>(d, t). (c # d, t)) (pdigits r) else Some ([], s)
   | [] \<Rightarrow> Some ([], s))"

definition pexp :: "string \<Rightarrow> (string \<times> string) option" where
  "pexp s = (case s of
     c # r \<Rightarrow>
       if c = CHR ''e'' \<or> c = CHR ''E'' then
         (case r of
            g # r' \<Rightarrow>
              if g = CHR ''+'' \<or> g = CHR ''-''
              then map_option (\<lambda>(d, t). (c # g # d, t)) (pdigits r')
              else map_option (\<lambda>(d, t). (c # d, t)) (pdigits r)
          | [] \<Rightarrow> None)
       else Some ([], s)
   | [] \<Rightarrow> Some ([], s))"

definition pnum :: "string \<Rightarrow> (string \<times> string) option" where
  "pnum s =
     (let neg = (take 1 s = ''-''); s0 = (if neg then drop 1 s else s) in
      case pint s0 of None \<Rightarrow> None
      | Some (i, s1) \<Rightarrow> (case pfrac s1 of None \<Rightarrow> None
        | Some (f, s2) \<Rightarrow> (case pexp s2 of None \<Rightarrow> None
          | Some (e, s3) \<Rightarrow> Some ((if neg then ''-'' else []) @ i @ f @ e, s3))))"

fun pval :: "nat \<Rightarrow> string \<Rightarrow> (json \<times> string) option"
  and pelems :: "nat \<Rightarrow> string \<Rightarrow> (json list \<times> string) option"
  and pmembers :: "nat \<Rightarrow> string \<Rightarrow> ((string \<times> json) list \<times> string) option" where
  "pval 0 s = None"
| "pval (Suc n) s = (case skip_ws s of
     [] \<Rightarrow> None
   | c # r \<Rightarrow>
      if c = CHR ''{'' then
        (case skip_ws r of
           [] \<Rightarrow> None
         | d # r' \<Rightarrow> if d = CHR ''}'' then Some (JObj [], r')
                    else map_option (\<lambda>(ms, t). (JObj ms, t)) (pmembers n (d # r')))
      else if c = CHR ''['' then
        (case skip_ws r of
           [] \<Rightarrow> None
         | d # r' \<Rightarrow> if d = CHR '']'' then Some (JArr [], r')
                    else map_option (\<lambda>(xs, t). (JArr xs, t)) (pelems n (d # r')))
      else if c = CHR 0x22 then map_option (\<lambda>(x, t). (JStr x, t)) (pstr r)
      else if c = CHR ''n'' then
        (if take 3 r = ''ull'' then Some (JNull, drop 3 r) else None)
      else if c = CHR ''t'' then
        (if take 3 r = ''rue'' then Some (JBool True, drop 3 r) else None)
      else if c = CHR ''f'' then
        (if take 4 r = ''alse'' then Some (JBool False, drop 4 r) else None)
      else map_option (\<lambda>(x, t). (JNum x, t)) (pnum (c # r)))"
| "pelems 0 s = None"
| "pelems (Suc n) s = (case pval n s of
     None \<Rightarrow> None
   | Some (x, t) \<Rightarrow> (case skip_ws t of
       [] \<Rightarrow> None
     | c # r \<Rightarrow>
        if c = CHR '','' then map_option (\<lambda>(xs, u). (x # xs, u)) (pelems n r)
        else if c = CHR '']'' then Some ([x], r)
        else None))"
| "pmembers 0 s = None"
| "pmembers (Suc n) s = (case skip_ws s of
     [] \<Rightarrow> None
   | q # r \<Rightarrow>
      if q \<noteq> CHR 0x22 then None
      else (case pstr r of
         None \<Rightarrow> None
       | Some (k, r1) \<Rightarrow> (case skip_ws r1 of
           [] \<Rightarrow> None
         | d # r2 \<Rightarrow>
            if d \<noteq> CHR '':'' then None
            else (case pval n r2 of
               None \<Rightarrow> None
             | Some (v, t) \<Rightarrow> (case skip_ws t of
                 [] \<Rightarrow> None
               | c # u \<Rightarrow>
                  if c = CHR '','' then map_option (\<lambda>(ms, w). ((k, v) # ms, w)) (pmembers n u)
                  else if c = CHR ''}'' then Some ([(k, v)], u)
                  else None)))))"

definition jparse_prefix :: "string \<Rightarrow> json option" where
  "jparse_prefix s = map_option fst (pval (2 * length s) s)"

definition jparse :: "string \<Rightarrow> json option" where
  "jparse s = (case pval (2 * length s) s of
     None \<Rightarrow> None
   | Some (j, r) \<Rightarrow> if skip_ws r = [] then Some j else None)"

section \<open>Reading back what was written\<close>

text \<open>What follows a value inside a text.\<close>

definition delim :: "string \<Rightarrow> bool" where
  "delim t \<longleftrightarrow> (case t of [] \<Rightarrow> True | c # _ \<Rightarrow> c = CHR '','' \<or> c = CHR '']'' \<or> c = CHR ''}'')"

definition valid_num :: "string \<Rightarrow> bool" where
  "valid_num n \<longleftrightarrow>
     (case n of [] \<Rightarrow> False | c # _ \<Rightarrow> c = CHR ''-'' \<or> is_digit c)
     \<and> (\<forall>t. delim t \<longrightarrow> pnum (n @ t) = Some (n, t))"

fun valid_json :: "json \<Rightarrow> bool"
  and valid_elems :: "json list \<Rightarrow> bool"
  and valid_members :: "(string \<times> json) list \<Rightarrow> bool" where
  "valid_json JNull = True"
| "valid_json (JBool b) = True"
| "valid_json (JNum n) = valid_num n"
| "valid_json (JStr s) = ascii s"
| "valid_json (JArr xs) = valid_elems xs"
| "valid_json (JObj ms) = valid_members ms"
| "valid_elems [] = True"
| "valid_elems (x # xs) = (valid_json x \<and> valid_elems xs)"
| "valid_members [] = True"
| "valid_members ((k, v) # ms) = (ascii k \<and> valid_json v \<and> valid_members ms)"

fun jneed :: "json \<Rightarrow> nat"
  and jneed_elems :: "json list \<Rightarrow> nat"
  and jneed_members :: "(string \<times> json) list \<Rightarrow> nat" where
  "jneed JNull = 1"
| "jneed (JBool b) = 1"
| "jneed (JNum n) = 1"
| "jneed (JStr s) = 1"
| "jneed (JArr xs) = Suc (jneed_elems xs)"
| "jneed (JObj ms) = Suc (jneed_members ms)"
| "jneed_elems [] = 0"
| "jneed_elems (x # xs) = Suc (max (jneed x) (jneed_elems xs))"
| "jneed_members [] = 0"
| "jneed_members ((k, v) # ms) = Suc (max (jneed v) (jneed_members ms))"

lemma delim_Cons [simp]:
  "delim (c # t) \<longleftrightarrow> c = CHR '','' \<or> c = CHR '']'' \<or> c = CHR ''}''"
  "delim []"
  by (simp_all add: delim_def)

lemma skip_ws_Cons [simp]:
  "skip_ws (c # s) = (if c = CHR '' '' \<or> c = CHR 0x09 \<or> c = CHR 0x0A \<or> c = CHR 0x0D
                     then skip_ws s else c # s)"
  "skip_ws [] = []"
  by (simp_all add: skip_ws_def)

lemma skip_ws_delim [simp]: "delim t \<Longrightarrow> skip_ws t = t"
  by (cases t) auto

text \<open>Each value's text starts with a character that tells the parser its kind.\<close>

lemma pval_JStr: "ascii s \<Longrightarrow> pval (Suc n) (jquote s @ t) = Some (JStr s, t)"
  by (simp add: jquote_def pstr_escape)

lemma digit_not_special:
  "c = CHR ''-'' \<or> is_digit c \<Longrightarrow>
   c \<notin> {CHR ''{'', CHR ''['', CHR 0x22, CHR ''n'', CHR ''t'', CHR ''f'', CHR '' '', CHR 0x09,
        CHR 0x0A, CHR 0x0D, CHR '']'', CHR ''}''}"
  by (auto simp: is_digit_def)

lemma pval_JNum:
  assumes "valid_num m" and "delim t"
  shows "pval (Suc n) (m @ t) = Some (JNum m, t)"
proof -
  from assms(1) obtain c r where m: "m = c # r" and c: "c = CHR ''-'' \<or> is_digit c"
    by (auto simp: valid_num_def split: list.splits)
  have num: "pnum (c # r @ t) = Some (c # r, t)"
    using assms m by (simp add: valid_num_def)
  show ?thesis using digit_not_special [OF c] by (simp add: m num)
qed

lemma jprint_start:
  assumes "valid_json j"
  obtains c r where "jprint j = c # r"
    and "c \<notin> {CHR '' '', CHR 0x09, CHR 0x0A, CHR 0x0D, CHR '']'', CHR ''}''}"
proof (cases j)
  case (JNum n)
  with assms obtain c r where "n = c # r" "c = CHR ''-'' \<or> is_digit c"
    by (auto simp: valid_num_def split: list.splits)
  with JNum that digit_not_special show thesis by auto
next
  case (JBool b)
  with that show thesis by (cases b) auto
qed (use that in \<open>auto simp: jquote_def\<close>)

lemma skip_ws_jprint:
  "valid_json j \<Longrightarrow> skip_ws (jprint j @ t) = jprint j @ t"
  by (erule jprint_start) simp

lemma pval_jprint:
  shows "valid_json j \<Longrightarrow> jneed j \<le> n \<Longrightarrow> delim t \<Longrightarrow> pval n (jprint j @ t) = Some (j, t)"
    and "valid_elems xs \<Longrightarrow> xs \<noteq> [] \<Longrightarrow> jneed_elems xs \<le> n \<Longrightarrow>
      pelems n (jprint_elems xs @ '']'' @ t) = Some (xs, t)"
    and "valid_members ms \<Longrightarrow> ms \<noteq> [] \<Longrightarrow> jneed_members ms \<le> n \<Longrightarrow>
      pmembers n (jprint_members ms @ ''}'' @ t) = Some (ms, t)"
proof (induction j and xs and ms arbitrary: n t and n t and n t
    rule: jprint_jprint_elems_jprint_members.induct)
  case 1
  then show ?case by (cases n) simp_all
next
  case (2 b)
  then show ?case by (cases n) simp_all
next
  case (3 m)
  then show ?case by (cases n) (simp_all add: pval_JNum del: pval.simps)
next
  case (4 s)
  then show ?case by (cases n) (simp_all add: pval_JStr del: pval.simps)
next
  case (5 xs)
  then obtain m where n: "n = Suc m" and m: "jneed_elems xs \<le> m" by (cases n) auto
  show ?case
  proof (cases xs)
    case Nil
    then show ?thesis by (simp add: n)
  next
    case (Cons x ys)
    with "5.prems" have "valid_json x" by simp
    then obtain c r where start: "jprint x = c # r"
      "c \<notin> {CHR '' '', CHR 0x09, CHR 0x0A, CHR 0x0D, CHR '']'', CHR ''}''}"
      by (rule jprint_start)
    have "pelems m (jprint_elems xs @ '']'' @ t) = Some (xs, t)"
      using "5.IH" "5.prems" m Cons by simp
    with start Cons show ?thesis by (simp add: n)
  qed
next
  case (6 ms)
  then obtain m where n: "n = Suc m" and m: "jneed_members ms \<le> m" by (cases n) auto
  show ?case
  proof (cases ms)
    case Nil
    then show ?thesis by (simp add: n)
  next
    case (Cons p ys)
    have "pmembers m (jprint_members ms @ ''}'' @ t) = Some (ms, t)"
      using "6.IH" "6.prems" m Cons by simp
    with Cons show ?thesis by (cases p) (simp add: n jquote_def)
  qed
next
  case 7
  then show ?case by simp
next
  case (8 x xs)
  then obtain m where n: "n = Suc m" by (cases n) auto
  have v: "pval m (jprint x @ u) = Some (x, u)" if "delim u" for u
    using 8 that by (simp add: n)
  show ?case
  proof (cases "xs = []")
    case True
    then show ?thesis using v [of "'']'' @ t"] by (simp add: n)
  next
    case False
    then have "pelems m (jprint_elems xs @ '']'' @ t) = Some (xs, t)"
      using 8 by (simp add: n)
    with False show ?thesis using v [of "'','' @ jprint_elems xs @ '']'' @ t"] by (simp add: n)
  qed
next
  case 9
  then show ?case by simp
next
  case (10 k v ms)
  then obtain m where n: "n = Suc m" by (cases n) auto
  have k: "pstr (escape k @ CHR 0x22 # u) = Some (k, u)" for u
    using "10.prems" by (simp add: pstr_escape)
  have v: "pval m (jprint v @ u) = Some (v, u)" if "delim u" for u
    using 10 that by (simp add: n)
  show ?case
  proof (cases "ms = []")
    case True
    then show ?thesis using v [of "''}'' @ t"] by (simp add: n k jquote_def)
  next
    case False
    then have "pmembers m (jprint_members ms @ ''}'' @ t) = Some (ms, t)"
      using 10 by (simp add: n)
    with False show ?thesis
      using v [of "'','' @ jprint_members ms @ ''}'' @ t"] by (simp add: n k jquote_def)
  qed
qed

lemma jneed_bound:
  shows "valid_json j \<Longrightarrow> jneed j \<le> 2 * length (jprint j)"
    and "valid_elems xs \<Longrightarrow> jneed_elems xs \<le> 2 * length (jprint_elems xs) + 1"
    and "valid_members ms \<Longrightarrow> jneed_members ms \<le> 2 * length (jprint_members ms) + 1"
proof (induction j and xs and ms rule: jprint_jprint_elems_jprint_members.induct)
  case (3 m)
  then show ?case by (cases m) (simp_all add: valid_num_def)
qed (auto simp: jquote_def)

lemma jparse_jprint: "valid_json j \<Longrightarrow> jparse (jprint j) = Some j"
  using pval_jprint(1) [of j "2 * length (jprint j)" "[]"] jneed_bound(1) [of j]
  by (simp add: jparse_def)

lemma jparse_prefix_jprint:
  assumes "valid_json j" and "delim t"
  shows "jparse_prefix (jprint j @ t) = Some j"
proof -
  have "jneed j \<le> 2 * length (jprint j @ t)"
    using jneed_bound(1) [OF assms(1)] by simp
  from pval_jprint(1) [OF assms(1) this assms(2)] show ?thesis
    by (simp add: jparse_prefix_def)
qed

section \<open>Decimal numbers\<close>

lemma is_digit_digit [simp]: "n < 10 \<Longrightarrow> is_digit (digit n)"
  by (simp add: is_digit_def digit_def)

lemma digits_nat_decimal: "c \<in> set (nat_decimal n) \<Longrightarrow> is_digit c"
  using set_nat_decimal [of n] by auto

lemma digit_eq_zero:
  assumes "n < 10"
  shows "digit n = CHR ''0'' \<longleftrightarrow> n = 0"
proof
  assume "digit n = CHR ''0''"
  then have "byte (digit n) = (byte (CHR ''0'') :: nat)" by (rule arg_cong)
  with assms show "n = 0" by (simp add: digit_def)
next
  assume "n = 0"
  have "char_of (byte (CHR ''0'') :: nat) = CHR ''0''" by (rule char_of_byte)
  with \<open>n = 0\<close> show "digit n = CHR ''0''" by (simp add: digit_def)
qed

lemma nat_decimal_lead: "0 < n \<Longrightarrow> hd (nat_decimal n) \<noteq> CHR ''0''"
proof (induction n rule: nat_decimal.induct)
  case (1 n)
  show ?case
  proof (cases "n < 10")
    case True
    with 1 show ?thesis by (subst nat_decimal.simps) (simp add: digit_eq_zero)
  next
    case False
    with 1 have "hd (nat_decimal (n div 10)) \<noteq> CHR ''0''" by simp
    with False show ?thesis by (subst nat_decimal.simps) simp
  qed
qed

lemma takeWhile_digits:
  assumes "\<And>c. c \<in> set ds \<Longrightarrow> is_digit c" and "delim t"
  shows "takeWhile is_digit (ds @ t) = ds" and "dropWhile is_digit (ds @ t) = t"
proof -
  have "takeWhile is_digit t = [] \<and> dropWhile is_digit t = t"
    using assms(2) by (cases t) (auto simp: is_digit_def)
  with assms(1) show "takeWhile is_digit (ds @ t) = ds" "dropWhile is_digit (ds @ t) = t"
    by (simp_all add: takeWhile_append2 dropWhile_append2)
qed

lemma pint_nat_decimal:
  assumes "delim t"
  shows "pint (nat_decimal n @ t) = Some (nat_decimal n, t)"
proof (cases "n = 0")
  case True
  have "nat_decimal 0 = ''0''" by (subst nat_decimal.simps) (simp add: digit_eq_zero)
  with True show ?thesis by (simp add: pint_def)
next
  case False
  then obtain c r where cr: "nat_decimal n = c # r" "c \<noteq> CHR ''0''"
    using nat_decimal_lead [of n] by (cases "nat_decimal n") auto
  have "takeWhile is_digit (nat_decimal n @ t) = nat_decimal n"
    "dropWhile is_digit (nat_decimal n @ t) = t"
    by (rule takeWhile_digits [OF _ assms], erule digits_nat_decimal)+
  with cr show ?thesis by (simp add: pint_def pdigits_def)
qed

lemma pfrac_pexp_delim:
  "delim t \<Longrightarrow> pfrac t = Some ([], t)" "delim t \<Longrightarrow> pexp t = Some ([], t)"
  by (auto simp: pfrac_def pexp_def split: list.splits)

lemma valid_num_int_decimal [simp]: "valid_num (int_decimal i)"
proof -
  have start: "\<exists>c r. nat_decimal n = c # r \<and> is_digit c" for n
    using digits_nat_decimal [of _ n] by (cases "nat_decimal n") auto
  have minus: "\<not> is_digit (CHR ''-'')" by (simp add: is_digit_def)
  have "pnum (int_decimal i @ t) = Some (int_decimal i, t)" if "delim t" for t
  proof (cases "i < 0")
    case True
    with that show ?thesis
      by (simp add: pnum_def int_decimal_def pint_nat_decimal pfrac_pexp_delim)
  next
    case False
    obtain c r where cr: "nat_decimal (nat i) = c # r" "is_digit c" using start by blast
    with minus have "take 1 (int_decimal i @ t) \<noteq> ''-''" using False
      by (auto simp: int_decimal_def)
    with False that show ?thesis
      by (simp add: pnum_def int_decimal_def pint_nat_decimal pfrac_pexp_delim)
  qed
  moreover have "case int_decimal i of [] \<Rightarrow> False | c # r \<Rightarrow> c = CHR ''-'' \<or> is_digit c"
    using start [of "nat i"] by (auto simp: int_decimal_def)
  ultimately show ?thesis by (simp add: valid_num_def)
qed

end
