(* ===== verification/Codec.thy ===== *)
theory Codec
  imports JsonText KubeTypes
begin

text \<open>
  The rest of \<open>encoding/json\<close> and \<open>encoding/base64\<close> the program uses: decoding members of an
  object into the fields of a struct, and byte slices as base64 text.
\<close>

section \<open>Base64\<close>

definition b64_char :: "nat \<Rightarrow> char" where
  "b64_char n =
     (if n < 26 then char_of (65 + n)
      else if n < 52 then char_of (71 + n)
      else if n < 62 then char_of (n - 4)
      else if n = 62 then CHR ''+'' else CHR ''/'')"

definition b64_val :: "char \<Rightarrow> nat option" where
  "b64_val c = (let b = byte c in
     if 65 \<le> b \<and> b \<le> 90 then Some (b - 65)
     else if 97 \<le> b \<and> b \<le> 122 then Some (b - 71)
     else if 48 \<le> b \<and> b \<le> 57 then Some (b + 4)
     else if b = 43 then Some 62
     else if b = 47 then Some 63
     else None)"

fun b64_encode :: "string \<Rightarrow> string" where
  "b64_encode [] = []"
| "b64_encode [a] =
     [b64_char (byte a div 4), b64_char (byte a mod 4 * 16), CHR ''='', CHR ''='']"
| "b64_encode [a, b] =
     [b64_char (byte a div 4), b64_char (byte a mod 4 * 16 + byte b div 16),
      b64_char (byte b mod 16 * 4), CHR ''='']"
| "b64_encode (a # b # c # s) =
     b64_char (byte a div 4) # b64_char (byte a mod 4 * 16 + byte b div 16)
     # b64_char (byte b mod 16 * 4 + byte c div 64) # b64_char (byte c mod 64) # b64_encode s"

text \<open>Padding only at the end; line breaks are skipped, as \<open>StdEncoding.DecodeString\<close> does.\<close>

fun b64_groups :: "string \<Rightarrow> string option" where
  "b64_groups [] = Some []"
| "b64_groups (w # x # y # z # s) =
     (case (b64_val w, b64_val x) of
        (Some p, Some q) \<Rightarrow>
          (if y = CHR ''='' then
             (if z = CHR ''='' \<and> s = [] then Some [char_of (p * 4 + q div 16)] else None)
           else (case b64_val y of
               None \<Rightarrow> None
             | Some u \<Rightarrow>
                (if z = CHR ''='' then
                   (if s = [] then Some [char_of (p * 4 + q div 16), char_of (q mod 16 * 16 + u div 4)]
                    else None)
                 else (case b64_val z of
                     None \<Rightarrow> None
                   | Some v \<Rightarrow>
                       map_option (\<lambda>t. char_of (p * 4 + q div 16) # char_of (q mod 16 * 16 + u div 4)
                         # char_of (u mod 4 * 64 + v) # t) (b64_groups s)))))
      | _ \<Rightarrow> None)"
| "b64_groups _ = None"

definition b64_decode :: "string \<Rightarrow> string option" where
  "b64_decode s = b64_groups (filter (\<lambda>c. c \<noteq> CHR 0x0A \<and> c \<noteq> CHR 0x0D) s)"

lemma char_cases_b64: "n < 64 \<Longrightarrow> byte (b64_char n) =
    (if n < 26 then 65 + n else if n < 52 then 71 + n else if n < 62 then n - 4
     else if n = 62 then 43 else (47 :: nat))"
  by (auto simp: b64_char_def)

lemma b64_val_char [simp]: "n < 64 \<Longrightarrow> b64_val (b64_char n) = Some n"
  by (auto simp: b64_val_def Let_def char_cases_b64)

lemma b64_char_not_special:
  assumes "n < 64"
  shows "b64_char n \<noteq> CHR ''=''" "b64_char n \<noteq> CHR 0x0A" "b64_char n \<noteq> CHR 0x0D"
    "byte (b64_char n) < (128 :: nat)"
proof -
  have "byte (b64_char n) \<notin> {61, 10, 13 :: nat}" and "byte (b64_char n) < (128 :: nat)"
    using assms by (auto simp: char_cases_b64 split: if_splits)
  then show "b64_char n \<noteq> CHR ''=''" "b64_char n \<noteq> CHR 0x0A" "b64_char n \<noteq> CHR 0x0D"
    "byte (b64_char n) < (128 :: nat)"
    by auto
qed

lemma byte_parts:
  assumes "(x :: nat) < 256"
  shows "x div 4 \<le> 63" "x mod 4 \<le> 3" "x div 16 \<le> 15" "x mod 16 \<le> 15" "x div 64 \<le> 3"
    "x mod 64 \<le> 63"
  using assms by (simp_all add: div_le_mono less_Suc_eq_le [symmetric] less_mult_imp_div_less)

lemma sextets:
  "byte (a :: char) div 4 < (64 :: nat)"
  "byte (a :: char) mod 4 * 16 + byte (b :: char) div 16 < (64 :: nat)"
  "byte (b :: char) mod 16 * 4 + byte (c :: char) div 64 < (64 :: nat)"
  "byte (a :: char) mod 4 * 16 < (64 :: nat)"
  "byte (b :: char) mod 16 * 4 < (64 :: nat)"
  using byte_parts [OF byte_less_256 [of a]] byte_parts [OF byte_less_256 [of b]]
    byte_parts [OF byte_less_256 [of c]]
  by linarith+

lemma split_digit:
  "r < m \<Longrightarrow> (a * m + r) div m = (a :: nat)"
  "r < m \<Longrightarrow> (a * m + r) mod m = r"
  by simp_all

text \<open>Reassembling the bytes from the sextets that hold them.\<close>

lemma reassemble:
  assumes "(y :: nat) < 256" and "(z :: nat) < 256"
  shows "x div 4 * 4 + (x mod 4 * 16 + y div 16) div 16 = x"
    "(x mod 4 * 16 + y div 16) mod 16 * 16 + (y mod 16 * 4 + z div 64) div 4 = y"
    "(y mod 16 * 4 + z div 64) mod 4 * 64 + z mod 64 = z"
proof -
  have y: "y div 16 < 16" and z: "z div 64 < 4"
    using byte_parts [OF assms(1)] byte_parts [OF assms(2)] by linarith+
  show "x div 4 * 4 + (x mod 4 * 16 + y div 16) div 16 = x"
    unfolding split_digit [OF y] by (rule div_mult_mod_eq)
  show "(x mod 4 * 16 + y div 16) mod 16 * 16 + (y mod 16 * 4 + z div 64) div 4 = y"
    unfolding split_digit [OF y] split_digit [OF z] by (rule div_mult_mod_eq)
  show "(y mod 16 * 4 + z div 64) mod 4 * 64 + z mod 64 = z"
    unfolding split_digit [OF z] by (rule div_mult_mod_eq)
qed

lemma reassemble_pad:
  assumes "(y :: nat) < 256"
  shows "x div 4 * 4 + x mod 4 * 16 div 16 = (x :: nat)"
    "(x mod 4 * 16 + y div 16) mod 16 * 16 + y mod 16 * 4 div 4 = y"
  using reassemble(1) [of 0 0 x] reassemble(2) [OF assms, of 0 x] by simp_all

lemma b64_groups_encode: "b64_groups (b64_encode s) = Some s"
proof (induction s rule: b64_encode.induct)
  case (2 a)
  show ?case
    using reassemble_pad(1) [OF byte_less_256, of "byte a"]
    by (simp only: b64_encode.simps b64_groups.simps b64_val_char sextets b64_char_not_special
        option.case prod.case if_True if_False simp_thms char_of_byte)
next
  case (3 a b)
  show ?case
    using reassemble(1) [OF byte_less_256 [of b] byte_less_256 [of b], of "byte a"]
      reassemble_pad(2) [OF byte_less_256 [of b], of "byte a"]
    by (simp only: b64_encode.simps b64_groups.simps b64_val_char sextets b64_char_not_special
        option.case prod.case if_True if_False simp_thms char_of_byte)
next
  case (4 a b c s)
  have c: "byte c mod 64 < (64 :: nat)" by simp
  show ?case
    using 4 reassemble(1,2) [OF byte_less_256 [of b] byte_less_256 [of c], of "byte a"] c
      reassemble(3) [OF byte_less_256 [of b] byte_less_256 [of c]]
    by (simp only: b64_encode.simps b64_groups.simps b64_val_char sextets b64_char_not_special
        option.case prod.case if_True if_False simp_thms char_of_byte option.map)
qed simp

lemma b64_encode_chars: "c \<in> set (b64_encode s) \<Longrightarrow>
    c \<noteq> CHR 0x0A \<and> c \<noteq> CHR 0x0D \<and> byte c < (128 :: nat)"
  by (induction s rule: b64_encode.induct) (auto simp: sextets b64_char_not_special)

lemma ascii_b64_encode [simp]: "ascii (b64_encode s)"
  using b64_encode_chars by (auto simp: ascii_def)

lemma b64_decode_encode [simp]: "b64_decode (b64_encode s) = Some s"
proof -
  have "filter (\<lambda>c. c \<noteq> CHR 0x0A \<and> c \<noteq> CHR 0x0D) (b64_encode s) = b64_encode s"
    using b64_encode_chars by (auto simp: filter_id_conv)
  then show ?thesis by (simp add: b64_decode_def b64_groups_encode)
qed

section \<open>Struct fields\<close>

text \<open>
  A member matches a field when the names are equal up to ASCII case. The members are read in
  order, a later match overwrites an earlier one, \<open>null\<close> leaves the field as it is, and a value
  of another type is an error for the whole decoding.
\<close>

definition to_lower :: "char \<Rightarrow> char" where
  "to_lower c = (if 65 \<le> byte c \<and> byte c \<le> (90 :: nat) then char_of (byte c + 32 :: nat) else c)"

definition key_matches :: "string \<Rightarrow> string \<Rightarrow> bool" where
  "key_matches k f \<longleftrightarrow> map to_lower k = map to_lower f"

definition type_error :: "string \<Rightarrow> err" where
  "type_error f = New (''json: cannot unmarshal value into Go struct field '' @ f)"

fun field_with :: "(json \<Rightarrow> 'a \<Rightarrow> 'a option) \<Rightarrow> string \<Rightarrow> (string \<times> json) list \<Rightarrow> 'a \<Rightarrow> err + 'a" where
  "field_with dec f [] acc = Inr acc"
| "field_with dec f ((k, v) # ms) acc =
     (if key_matches k f then
        (case dec v acc of None \<Rightarrow> Inl (type_error f) | Some acc' \<Rightarrow> field_with dec f ms acc')
      else field_with dec f ms acc)"

fun dec_string :: "json \<Rightarrow> string \<Rightarrow> string option" where
  "dec_string (JStr s) acc = Some s"
| "dec_string JNull acc = Some acc"
| "dec_string _ acc = None"

fun dec_bool :: "json \<Rightarrow> bool \<Rightarrow> bool option" where
  "dec_bool (JBool b) acc = Some b"
| "dec_bool JNull acc = Some acc"
| "dec_bool _ acc = None"

text \<open>An element of a \<open>[]byte\<close> written as a JSON array: an integer literal below 256.\<close>

fun dec_uint8 :: "json \<Rightarrow> char option" where
  "dec_uint8 (JNum n) =
     (let v = foldl (\<lambda>a c. a * 10 + (byte c - 48)) 0 n
      in if n \<noteq> [] \<and> list_all is_digit n \<and> v < (256 :: nat) then Some (char_of v) else None)"
| "dec_uint8 JNull = Some (CHR 0x00)"
| "dec_uint8 _ = None"

fun dec_list :: "('b \<Rightarrow> 'a option) \<Rightarrow> 'b list \<Rightarrow> 'a list option" where
  "dec_list f [] = Some []"
| "dec_list f (x # xs) = (case f x of
     None \<Rightarrow> None | Some y \<Rightarrow> map_option (\<lambda>ys. y # ys) (dec_list f xs))"

fun dec_bytes :: "json \<Rightarrow> string \<Rightarrow> string option" where
  "dec_bytes (JStr s) acc = b64_decode s"
| "dec_bytes JNull acc = Some []"
| "dec_bytes (JArr xs) acc = dec_list dec_uint8 xs"
| "dec_bytes _ acc = None"

text \<open>A \<open>[]string\<close>; a null element is the empty string.\<close>

fun dec_strings :: "json \<Rightarrow> string list \<Rightarrow> string list option" where
  "dec_strings (JArr xs) acc = dec_list (\<lambda>j. dec_string j []) xs"
| "dec_strings JNull acc = Some []"
| "dec_strings _ acc = None"

lemma dec_list_map: "(\<And>x. x \<in> set xs \<Longrightarrow> f (g x) = Some x) \<Longrightarrow> dec_list f (map g xs) = Some xs"
  by (induction xs) simp_all

definition result_bind :: "err + 'a \<Rightarrow> ('a \<Rightarrow> err + 'b) \<Rightarrow> err + 'b" where
  "result_bind r f = (case r of Inl e \<Rightarrow> Inl e | Inr x \<Rightarrow> f x)"

lemma result_bind_simps [simp]:
  "result_bind (Inl e) f = Inl e"
  "result_bind (Inr x) f = f x"
  by (simp_all add: result_bind_def)

text \<open>Decoding into a struct: \<open>null\<close> is a no-op, anything but an object an error.\<close>

definition dec_object :: "json \<Rightarrow> err + (string \<times> json) list" where
  "dec_object j = (case j of
     JObj ms \<Rightarrow> Inr ms
   | JNull \<Rightarrow> Inr []
   | _ \<Rightarrow> Inl (New ''json: cannot unmarshal value into Go struct''))"

lemma dec_object_simps [simp]:
  "dec_object (JObj ms) = Inr ms"
  "dec_object JNull = Inr []"
  by (simp_all add: dec_object_def)

text \<open>Members written with \<open>omitempty\<close>.\<close>

definition omit :: "bool \<Rightarrow> string \<Rightarrow> json \<Rightarrow> (string \<times> json) list" where
  "omit b f v = (if b then [] else [(f, v)])"

lemma field_with_append:
  "field_with dec f (xs @ ys) acc = result_bind (field_with dec f xs acc) (field_with dec f ys)"
  by (induction dec f xs acc rule: field_with.induct) (auto split: option.splits)

lemma field_with_omit:
  "field_with dec f (omit b k v) acc =
     (if b \<or> \<not> key_matches k f then Inr acc
      else (case dec v acc of None \<Rightarrow> Inl (type_error f) | Some x \<Rightarrow> Inr x))"
  by (simp add: omit_def split: option.splits)

lemmas field_simps = field_with_append field_with_omit key_matches_def to_lower_def

end
