(* ===== verification/KubeClient.thy ===== *)
theory KubeClient
  imports Environment "HOL-Library.Product_Lexorder"
begin

text \<open>
  The contract of a Kubernetes client the round-trip and idempotence properties rest on, as a
  locale: reads return what is stored and change nothing, a successful write stores the object
  as the server normalises it, \<open>CreateOrUpdate\<close> applies the mutation to the stored object or to
  the fresh one. It describes a client nobody else races with; the properties that hold under
  every interleaving do not use it.

  A reference API server in memory (\<open>mem_client\<close>, \<open>memEnv\<close>) and a reference library
  (\<open>stdLib\<close>) satisfy the contract and the library laws of \<open>Environment\<close>, so none of these
  hypotheses is empty; the witnesses of the properties run on them.
\<close>

section \<open>The contract\<close>

locale kube_client =
  fixes C :: "('w, 'o) kclient"
    and view :: "'w \<Rightarrow> objkey \<Rightarrow> 'o option"
    and key :: "'o \<Rightarrow> objkey"
    and norm :: "'o \<Rightarrow> 'o"
  assumes get_ok: "k_Get C n w = (Inr x, w') \<Longrightarrow> view w n = Some x"
    and get_not_found: "k_Get C n w = (Inl e, w') \<Longrightarrow> IsNotFound e \<Longrightarrow> view w n = None"
    and get_frame: "k_Get C n w = (r, w') \<Longrightarrow> view w' = view w"
    and update_ok: "k_Update C x w = (Inr y, w') \<Longrightarrow>
      y = norm x \<and> view w' = (view w)(key x \<mapsto> norm x)"
    and upsert_ok: "k_CreateOrUpdate C x f w = (Inr y, w') \<Longrightarrow>
      \<exists>b z. (case view w (key x) of None \<Rightarrow> b = x | Some x0 \<Rightarrow> b = x0)
        \<and> f b = Inr z \<and> y = norm z \<and> view w' = (view w)(key x \<mapsto> norm z)"
    and delete_ok: "k_Delete C n w = (Inr u, w') \<Longrightarrow> view w' = (view w)(n := None)"
begin

lemma kGet_view:
  assumes "kGet kd C n (w, tr) = (r, (w', tr'))"
  shows "view w' = view w" and "r = Inr x \<Longrightarrow> view w n = Some x"
    and "r = Inl e \<Longrightarrow> IsNotFound e \<Longrightarrow> view w n = None"
  using assms get_ok get_not_found get_frame
  by (auto simp: kGet_def call_run prod_eq_iff) (metis surjective_pairing)+

lemma kUpdate_view:
  assumes "kUpdate emb C x (w, tr) = (Inr y, (w', tr'))"
  shows "y = norm x" and "view w' = (view w)(key x \<mapsto> norm x)"
  using assms update_ok [of x w y w'] by (auto simp: kUpdate_def call_run prod_eq_iff)

text \<open>Reading an object back after a successful update.\<close>

lemma update_then_get:
  assumes "kUpdate emb C x s = (Inr y, s1)" and "kGet kd C (key x) s1 = (Inr z, s2)"
  shows "z = norm x"
proof -
  obtain w tr w1 tr1 w2 tr2 where s: "s = (w, tr)" "s1 = (w1, tr1)" "s2 = (w2, tr2)"
    by (metis surj_pair)
  have "view w1 (key x) = Some (norm x)"
    using kUpdate_view(2) [OF assms(1) [unfolded s]] by simp
  moreover have "view w1 (key x) = Some z"
    using kGet_view(2) [OF assms(2) [unfolded s]] by blast
  ultimately show ?thesis by simp
qed

text \<open>
  The two ways the reconcilers write: get, change, update, where a missing object is not an error;
  and create-or-update, where a lost race is not.
\<close>

lemma modify_view:
  assumes "and_then (attempt (kGet kd C n)) (\<lambda>r. case r of
       Inl e \<Rightarrow> if IsNotFound e then ret gone else fail e
     | Inr x \<Rightarrow> and_then (kUpdate emb C (f x)) (\<lambda>_. ret done)) (w, tr) = (Inr v, (w', tr'))"
    and "view w n = Some x0"
  shows "view w' = (view w)(key (f x0) \<mapsto> norm (f x0))"
proof -
  obtain q w1 where g: "k_Get C n w = (q, w1)" by (rule prod.exhaust)
  show ?thesis
  proof (cases q)
    case (Inl e)
    with get_not_found [of n w e w1] g assms(2) have "\<not> IsNotFound e" by auto
    with assms(1) g Inl show ?thesis
      by (auto simp: kGet_def call_def and_then_def attempt_def fail_def split: if_splits)
  next
    case (Inr x)
    with g get_ok assms(2) have x: "x = x0" by fastforce
    have v1: "view w1 = view w" using g by (rule get_frame)
    have "and_then (kUpdate emb C (f x0)) (\<lambda>_. ret done) (w1, tr @ [EGet kd n True]) =
        (Inr v, (w', tr'))"
      using assms(1) g Inr x by (simp add: kGet_def call_def and_then_def attempt_def)
    then obtain y s2 where u: "kUpdate emb C (f x0) (w1, tr @ [EGet kd n True]) = (Inr y, s2)"
      and "ret done s2 = (Inr v, (w', tr'))" by (rule and_then_InrE)
    then have "s2 = (w', tr')" by (simp add: ret_def)
    with kUpdate_view(2) [of emb "f x0" w1 "tr @ [EGet kd n True]" y w' tr'] u v1
    show ?thesis by simp
  qed
qed

lemma upsert_view:
  assumes "kUpsert emb C x f (w, tr) = (Inr y, (w', tr @ [EUpsert z True]))"
  shows "\<exists>b q. (case view w (key x) of None \<Rightarrow> b = x | Some x0 \<Rightarrow> b = x0)
    \<and> f b = Inr q \<and> y = norm q \<and> view w' = (view w)(key x \<mapsto> norm q)"
proof -
  obtain q w1 where u: "k_CreateOrUpdate C x f w = (q, w1)" by (rule prod.exhaust)
  with assms have "k_CreateOrUpdate C x f w = (Inr y, w')"
    by (cases q) (auto simp: kUpsert_run split: if_splits)
  then show ?thesis by (rule upsert_ok)
qed

end

section \<open>A reference API server\<close>

text \<open>
  One store per kind. \<open>mrg\<close> is what a main-resource update keeps of the stored object (its
  status), \<open>mrgs\<close> what a status update keeps of it (its spec), \<open>nrm\<close> the normalisation.
\<close>

definition mem_client ::
    "('w \<Rightarrow> (objkey, 'o) fmap) \<Rightarrow> ((objkey, 'o) fmap \<Rightarrow> 'w \<Rightarrow> 'w) \<Rightarrow> ('o \<Rightarrow> objkey)
     \<Rightarrow> ('o \<Rightarrow> 'o \<Rightarrow> 'o) \<Rightarrow> ('o \<Rightarrow> 'o \<Rightarrow> 'o) \<Rightarrow> ('w, 'o) kclient" where
  "mem_client get set' key mrg mrgs =
     \<lparr>k_Get = (\<lambda>n w. case fmlookup (get w) n of
          None \<Rightarrow> (Inl (ApiErr NotFound ''not found''), w)
        | Some x \<Rightarrow> (Inr x, w)),
      k_List = (\<lambda>w. (Inr (map (\<lambda>n. the (fmlookup (get w) n))
          (sorted_list_of_fset (fmdom (get w)))), w)),
      k_Update = (\<lambda>x w. case fmlookup (get w) (key x) of
          None \<Rightarrow> (Inl (ApiErr NotFound ''not found''), w)
        | Some x0 \<Rightarrow> (Inr (mrg x0 x), set' (fmupd (key x) (mrg x0 x) (get w)) w)),
      k_StatusUpdate = (\<lambda>x w. case fmlookup (get w) (key x) of
          None \<Rightarrow> (Inl (ApiErr NotFound ''not found''), w)
        | Some x0 \<Rightarrow> (Inr (mrgs x0 x), set' (fmupd (key x) (mrgs x0 x) (get w)) w)),
      k_Delete = (\<lambda>n w. case fmlookup (get w) n of
          None \<Rightarrow> (Inl (ApiErr NotFound ''not found''), w)
        | Some x0 \<Rightarrow> (Inr (), set' (fmdrop n (get w)) w)),
      k_CreateOrUpdate = (\<lambda>x f w. case fmlookup (get w) (key x) of
          None \<Rightarrow> (case f x of
              Inl e \<Rightarrow> (Inl e, w)
            | Inr y \<Rightarrow> (Inr (mrg x y), set' (fmupd (key x) (mrg x y) (get w)) w))
        | Some x0 \<Rightarrow> (case f x0 of
              Inl e \<Rightarrow> (Inl e, w)
            | Inr y \<Rightarrow> (Inr (mrg x0 y), set' (fmupd (key x) (mrg x0 y) (get w)) w)))\<rparr>"

lemma mem_client_simps [simp]:
  "k_Get (mem_client get st key mrg mrgs) n w = (case fmlookup (get w) n of
     None \<Rightarrow> (Inl (ApiErr NotFound ''not found''), w) | Some x \<Rightarrow> (Inr x, w))"
  "k_Update (mem_client get st key mrg mrgs) x w = (case fmlookup (get w) (key x) of
     None \<Rightarrow> (Inl (ApiErr NotFound ''not found''), w)
   | Some x0 \<Rightarrow> (Inr (mrg x0 x), st (fmupd (key x) (mrg x0 x) (get w)) w))"
  "k_StatusUpdate (mem_client get st key mrg mrgs) x w = (case fmlookup (get w) (key x) of
     None \<Rightarrow> (Inl (ApiErr NotFound ''not found''), w)
   | Some x0 \<Rightarrow> (Inr (mrgs x0 x), st (fmupd (key x) (mrgs x0 x) (get w)) w))"
  "k_Delete (mem_client get st key mrg mrgs) n w = (case fmlookup (get w) n of
     None \<Rightarrow> (Inl (ApiErr NotFound ''not found''), w)
   | Some x0 \<Rightarrow> (Inr (), st (fmdrop n (get w)) w))"
  "k_CreateOrUpdate (mem_client get st key mrg mrgs) x f w = (case fmlookup (get w) (key x) of
     None \<Rightarrow> (case f x of
         Inl e \<Rightarrow> (Inl e, w)
       | Inr y \<Rightarrow> (Inr (mrg x y), st (fmupd (key x) (mrg x y) (get w)) w))
   | Some x0 \<Rightarrow> (case f x0 of
         Inl e \<Rightarrow> (Inl e, w)
       | Inr y \<Rightarrow> (Inr (mrg x0 y), st (fmupd (key x) (mrg x0 y) (get w)) w)))"
  by (simp_all add: mem_client_def)

text \<open>The API server folds \<open>stringData\<close> into \<open>data\<close>.\<close>

definition secret_norm :: "Secret \<Rightarrow> Secret" where
  "secret_norm s = s\<lparr>s_Data := fmadd (s_Data s) (s_StringData s), s_StringData := fmempty\<rparr>"

record mem =
  mm_Clusters :: "(objkey, ClusterbookCluster) fmap"
  mm_ProviderConfigs :: "(objkey, ClusterbookProviderConfig) fmap"
  mm_LoadBalancers :: "(objkey, ClusterbookLoadBalancer) fmap"
  mm_Allocations :: "(objkey, ClusterbookAllocation) fmap"
  mm_Vclusters :: "(objkey, Vcluster) fmap"
  mm_Secrets :: "(objkey, Secret) fmap"
  mm_ConfigMaps :: "(objkey, ConfigMap) fmap"
  mm_Services :: "(objkey, Service) fmap"
  mm_Applications :: "(objkey, Unstructured) fmap"
  mm_CiliumPools :: "(objkey, Unstructured) fmap"
  mm_Answer :: "HttpRequest \<Rightarrow> err + HttpResponse"

definition memSecrets :: "(mem, Secret) kclient" where
  "memSecrets = mem_client mm_Secrets (\<lambda>m w. w\<lparr>mm_Secrets := m\<rparr>) (\<lambda>s. meta_key (s_Meta s))
     (\<lambda>x0. secret_norm) (\<lambda>x0. secret_norm)"

definition memConfigMaps :: "(mem, ConfigMap) kclient" where
  "memConfigMaps = mem_client mm_ConfigMaps (\<lambda>m w. w\<lparr>mm_ConfigMaps := m\<rparr>)
     (\<lambda>s. meta_key (cm_Meta s)) (\<lambda>x0 x. x) (\<lambda>x0 x. x)"

definition memServices :: "(mem, Service) kclient" where
  "memServices = mem_client mm_Services (\<lambda>m w. w\<lparr>mm_Services := m\<rparr>)
     (\<lambda>s. meta_key (svc_Meta s)) (\<lambda>x0 x. x) (\<lambda>x0 x. x)"

definition memClusters :: "(mem, ClusterbookCluster) kclient" where
  "memClusters = mem_client mm_Clusters (\<lambda>m w. w\<lparr>mm_Clusters := m\<rparr>)
     (\<lambda>x. meta_key (cc_Meta x)) (\<lambda>x0 x. x\<lparr>cc_Status := cc_Status x0\<rparr>)
     (\<lambda>x0 x. x0\<lparr>cc_Status := cc_Status x\<rparr>)"

definition memLoadBalancers :: "(mem, ClusterbookLoadBalancer) kclient" where
  "memLoadBalancers = mem_client mm_LoadBalancers (\<lambda>m w. w\<lparr>mm_LoadBalancers := m\<rparr>)
     (\<lambda>x. meta_key (lb_Meta x)) (\<lambda>x0 x. x\<lparr>lb_Status := lb_Status x0\<rparr>)
     (\<lambda>x0 x. x0\<lparr>lb_Status := lb_Status x\<rparr>)"

definition memAllocations :: "(mem, ClusterbookAllocation) kclient" where
  "memAllocations = mem_client mm_Allocations (\<lambda>m w. w\<lparr>mm_Allocations := m\<rparr>)
     (\<lambda>x. meta_key (ca_Meta x)) (\<lambda>x0 x. x\<lparr>ca_Status := ca_Status x0\<rparr>)
     (\<lambda>x0 x. x0\<lparr>ca_Status := ca_Status x\<rparr>)"

definition memVclusters :: "(mem, Vcluster) kclient" where
  "memVclusters = mem_client mm_Vclusters (\<lambda>m w. w\<lparr>mm_Vclusters := m\<rparr>)
     (\<lambda>x. meta_key (vc_Meta x)) (\<lambda>x0 x. x\<lparr>vc_Status := vc_Status x0\<rparr>)
     (\<lambda>x0 x. x0\<lparr>vc_Status := vc_Status x\<rparr>)"

definition memProviderConfigs :: "(mem, ClusterbookProviderConfig) kclient" where
  "memProviderConfigs = mem_client mm_ProviderConfigs (\<lambda>m w. w\<lparr>mm_ProviderConfigs := m\<rparr>)
     (\<lambda>x. meta_key (pc_Meta x)) (\<lambda>x0 x. x) (\<lambda>x0 x. x)"

definition memApplications :: "(mem, Unstructured) kclient" where
  "memApplications = mem_client mm_Applications (\<lambda>m w. w\<lparr>mm_Applications := m\<rparr>)
     (\<lambda>x. meta_key (un_Meta x)) (\<lambda>x0 x. x) (\<lambda>x0 x. x)"

definition memCiliumPools :: "(mem, Unstructured) kclient" where
  "memCiliumPools = mem_client mm_CiliumPools (\<lambda>m w. w\<lparr>mm_CiliumPools := m\<rparr>)
     (\<lambda>x. meta_key (un_Meta x)) (\<lambda>x0 x. x) (\<lambda>x0 x. x)"

definition memEnv :: "lib \<Rightarrow> mem env" where
  "memEnv L = \<lparr>ev_lib = L,
     ev_Clusters = memClusters,
     ev_ProviderConfigs = memProviderConfigs,
     ev_LoadBalancers = memLoadBalancers,
     ev_Allocations = memAllocations,
     ev_Vclusters = memVclusters,
     ev_Secrets = memSecrets,
     ev_ConfigMaps = memConfigMaps,
     ev_Services = memServices,
     ev_Applications = memApplications,
     ev_CiliumPools = memCiliumPools,
     ev_HttpDo = (\<lambda>hc r w. (mm_Answer w r, w)),
     ev_RestDo = (\<lambda>cfg r w. (mm_Answer w r, w)),
     ev_ProbeCluster = None,
     ev_NewTargetClient = (\<lambda>cfg w. (Inr (), w)),
     ev_TargetSecrets = (\<lambda>cfg. memSecrets)\<rparr>"

lemma memEnv_simps [simp]:
  "ev_lib (memEnv L) = L"
  "ev_Clusters (memEnv L) = memClusters"
  "ev_ProviderConfigs (memEnv L) = memProviderConfigs"
  "ev_LoadBalancers (memEnv L) = memLoadBalancers"
  "ev_Allocations (memEnv L) = memAllocations"
  "ev_Vclusters (memEnv L) = memVclusters"
  "ev_Secrets (memEnv L) = memSecrets"
  "ev_ConfigMaps (memEnv L) = memConfigMaps"
  "ev_Services (memEnv L) = memServices"
  "ev_Applications (memEnv L) = memApplications"
  "ev_CiliumPools (memEnv L) = memCiliumPools"
  "ev_HttpDo (memEnv L) hc r w = (mm_Answer w r, w)"
  "ev_RestDo (memEnv L) cfg r w = (mm_Answer w r, w)"
  "ev_ProbeCluster (memEnv L) = None"
  "ev_NewTargetClient (memEnv L) cfg w = (Inr (), w)"
  "ev_TargetSecrets (memEnv L) cfg = memSecrets"
  by (simp_all add: memEnv_def)

lemmas mem_stores = memClusters_def memProviderConfigs_def memLoadBalancers_def memAllocations_def memVclusters_def memSecrets_def memConfigMaps_def memServices_def memApplications_def memCiliumPools_def

definition emptyMem :: mem where
  "emptyMem = \<lparr>mm_Clusters = fmempty, mm_ProviderConfigs = fmempty, mm_LoadBalancers = fmempty,
     mm_Allocations = fmempty, mm_Vclusters = fmempty, mm_Secrets = fmempty,
     mm_ConfigMaps = fmempty, mm_Services = fmempty, mm_Applications = fmempty,
     mm_CiliumPools = fmempty, mm_Answer = (\<lambda>r. Inl (New ''connection refused''))\<rparr>"

text \<open>Any store in memory whose updates keep nothing but what \<open>norm\<close> keeps is such a client.\<close>

lemma fmlookup_fmupd_fun: "fmlookup (fmupd k v m) = (fmlookup m)(k \<mapsto> v)"
  by (rule ext) simp

lemma fmlookup_fmdrop_fun: "fmlookup (fmdrop k m) = (fmlookup m)(k := None)"
  by (rule ext) simp

lemma kube_client_mem:
  assumes "\<And>m w. get (st m w) = m" and "\<And>x0 x. mrg x0 x = norm x"
  shows "kube_client (mem_client get st key mrg mrgs) (\<lambda>w. fmlookup (get w)) key norm"
  by unfold_locales
    (auto simp: assms fmlookup_fmupd_fun fmlookup_fmdrop_fun split: option.splits sum.splits)

interpretation secretStore: kube_client memSecrets "\<lambda>w. fmlookup (mm_Secrets w)"
    "\<lambda>s. meta_key (s_Meta s)" secret_norm
  unfolding memSecrets_def by (rule kube_client_mem) simp_all

interpretation configMapStore: kube_client memConfigMaps "\<lambda>w. fmlookup (mm_ConfigMaps w)"
    "\<lambda>s. meta_key (cm_Meta s)" "\<lambda>s. s"
  unfolding memConfigMaps_def by (rule kube_client_mem) simp_all

interpretation serviceStore: kube_client memServices "\<lambda>w. fmlookup (mm_Services w)"
    "\<lambda>s. meta_key (svc_Meta s)" "\<lambda>s. s"
  unfolding memServices_def by (rule kube_client_mem) simp_all

section \<open>A reference library\<close>

fun set_condition :: "Condition list \<Rightarrow> Condition \<Rightarrow> Condition list" where
  "set_condition [] c = [c]"
| "set_condition (d # ds) c = (if cd_Type d = cd_Type c then c # ds else d # set_condition ds c)"

fun set_nested :: "string list \<Rightarrow> json \<Rightarrow> json \<Rightarrow> err + json" where
  "set_nested [] v j = Inr j"
| "set_nested [k] v j = (case j of
     JObj ms \<Rightarrow> Inr (JObj (ms @ [(k, v)])) | _ \<Rightarrow> Inl (New ''not a map''))"
| "set_nested (k # k' # ks) v j = (case j of
     JObj ms \<Rightarrow>
       (case set_nested (k' # ks) v (case jget j k of None \<Rightarrow> JObj [] | Some j' \<Rightarrow> j') of
          Inl e \<Rightarrow> Inl e
        | Inr j' \<Rightarrow> Inr (JObj (ms @ [(k, j')])))
   | _ \<Rightarrow> Inl (New ''not a map''))"

definition kind_name :: "kind \<Rightarrow> string" where
  "kind_name k = (case k of KCluster \<Rightarrow> ''ClusterbookCluster'' | KLoadBalancer \<Rightarrow> ''ClusterbookLoadBalancer''
     | KAllocation \<Rightarrow> ''ClusterbookAllocation'' | KVcluster \<Rightarrow> ''Vcluster'' | _ \<Rightarrow> ''Other'')"

definition own :: "kind \<Rightarrow> ObjectMeta \<Rightarrow> ObjectMeta \<Rightarrow> err + ObjectMeta" where
  "own k ow m =
     (let r = \<lparr>or_Kind = kind_name k, or_Name = om_Name ow, or_Controller = True\<rparr> in
      if \<exists>x \<in> set (om_OwnerReferences m). or_Controller x \<and> x \<noteq> r
      then Inl (New ''already owned by another controller'')
      else Inr (m\<lparr>om_OwnerReferences := [r]\<rparr>))"

definition stdLib :: "(string \<Rightarrow> err + KubeConfig) \<Rightarrow> (KubeConfig \<Rightarrow> err + string) \<Rightarrow> lib" where
  "stdLib ld wr = \<lparr>
     ContainsFinalizer = (\<lambda>m f. f \<in> set (om_Finalizers m)),
     AddFinalizer = (\<lambda>m f. m\<lparr>om_Finalizers := (if f \<in> set (om_Finalizers m) then om_Finalizers m
                                             else om_Finalizers m @ [f])\<rparr>),
     RemoveFinalizer = (\<lambda>m f. m\<lparr>om_Finalizers := filter (\<lambda>g. g \<noteq> f) (om_Finalizers m)\<rparr>),
     SetControllerReference = own,
     SetStatusCondition = set_condition,
     SetNestedField = (\<lambda>j v p. set_nested p v j),
     clientcmd_Load = ld,
     clientcmd_Write = wr,
     AppendCertsFromPEM = (\<lambda>s. True),
     NewRequestError = (\<lambda>r. None),
     HTTPClientForError = (\<lambda>c. None)\<rparr>"

lemma stdLib_simps [simp]:
  "ContainsFinalizer (stdLib ld wr) m f = (f \<in> set (om_Finalizers m))"
  "AddFinalizer (stdLib ld wr) m f = m\<lparr>om_Finalizers := (if f \<in> set (om_Finalizers m)
     then om_Finalizers m else om_Finalizers m @ [f])\<rparr>"
  "RemoveFinalizer (stdLib ld wr) m f =
     m\<lparr>om_Finalizers := filter (\<lambda>g. g \<noteq> f) (om_Finalizers m)\<rparr>"
  "SetControllerReference (stdLib ld wr) = own"
  "SetStatusCondition (stdLib ld wr) = set_condition"
  "SetNestedField (stdLib ld wr) j v p = set_nested p v j"
  "clientcmd_Load (stdLib ld wr) = ld"
  "clientcmd_Write (stdLib ld wr) = wr"
  "AppendCertsFromPEM (stdLib ld wr) s = True"
  "NewRequestError (stdLib ld wr) r = None"
  "HTTPClientForError (stdLib ld wr) c = None"
  by (simp_all add: stdLib_def)

lemma finalizer_laws_stdLib: "finalizer_laws (stdLib ld wr)"
  by (simp add: finalizer_laws_def)

lemma owner_laws_stdLib: "owner_laws (stdLib ld wr)"
  by (auto simp: owner_laws_def own_def Let_def split: if_splits)

lemma find_cond_set_condition:
  "find_cond (set_condition cs c) (cd_Type c) = Some c"
  "t \<noteq> cd_Type c \<Longrightarrow> find_cond (set_condition cs c) t = find_cond cs t"
  by (induction cs) (auto simp: find_cond_def)

lemma condition_laws_stdLib: "condition_laws (stdLib ld wr)"
  by (simp add: condition_laws_def find_cond_set_condition)

lemma set_nested_path:
  "p \<noteq> [] \<Longrightarrow> set_nested p v j = Inr j' \<Longrightarrow> jpath j' p = Some v"
  by (induction p v j arbitrary: j' rule: set_nested.induct)
    (auto split: json.splits sum.splits)

lemma jpath_JObj_empty [simp]: "q \<noteq> [] \<Longrightarrow> jpath (JObj []) q = None"
  by (cases q) simp_all

lemma set_nested_other:
  "set_nested p v j = Inr j' \<Longrightarrow> \<not> prefix p q \<Longrightarrow> \<not> prefix q p \<Longrightarrow> jpath j' q = jpath j q"
proof (induction p v j arbitrary: j' q rule: set_nested.induct)
  case (2 k v j)
  then obtain ms where "j = JObj ms" "j' = JObj (ms @ [(k, v)])" by (auto split: json.splits)
  with 2 show ?case by (cases q) auto
next
  case (3 k k' ks v j)
  then obtain ms j1 where j: "j = JObj ms" "j' = JObj (ms @ [(k, j1)])"
    and j1: "set_nested (k' # ks) v (case jget j k of None \<Rightarrow> JObj [] | Some j' \<Rightarrow> j') = Inr j1"
    by (auto split: json.splits sum.splits)
  obtain h t where q: "q = h # t" using 3 by (cases q) auto
  show ?case
  proof (cases "h = k")
    case True
    with 3 q have "\<not> prefix (k' # ks) t" "\<not> prefix t (k' # ks)" by auto
    moreover from this have "t \<noteq> []" by auto
    ultimately show ?thesis
      using "3.IH" [OF j(1) j1] j q True by (auto split: option.splits)
  next
    case False
    with j q show ?thesis by simp
  qed
qed simp

lemma nested_laws_stdLib: "nested_laws (stdLib ld wr)"
  unfolding nested_laws_def using set_nested_path set_nested_other
  by simp

end
