(* ===== verification/CbkClient.thy ===== *)
theory CbkClient
  imports Codec KubeClient
begin

text \<open>
  \<open>pkg/client/client.go\<close>: the HTTP client of the clusterbook REST API. The requests are built and
  the responses decoded down to the JSON text on the wire; the transport is \<open>ev_HttpDo\<close>.
\<close>

section \<open>Types\<close>

record CbkClient =
  cl_baseURL :: string
  cl_httpClient :: HttpClient

record TLSOptions =
  to_InsecureSkipVerify :: bool
  to_CustomCA :: string

record IPInfo =
  ip_IP :: string
  ip_Digit :: string
  ip_Status :: string
  ip_Cluster :: string
  ip_FQDN :: string

record ClusterInfo =
  ci_Cluster :: string
  ci_FQDN :: string
  ci_Zone :: string

record ReserveRequest =
  rr_Cluster :: string
  rr_Count :: int
  rr_IP :: string
  rr_CreateDNS :: bool
  rr_Status :: string

record ReserveResponse =
  rs_IPs :: "string list"
  rs_Status :: string

record ReleaseRequest =
  rl_IP :: string

section \<open>JSON of the types\<close>

definition enc_ReserveRequest :: "ReserveRequest \<Rightarrow> json" where
  "enc_ReserveRequest r = JObj
     ([(''cluster'', JStr (rr_Cluster r))]
      @ omit (rr_Count r = 0) ''count'' (JNum (int_decimal (rr_Count r)))
      @ omit (rr_IP r = []) ''ip'' (JStr (rr_IP r))
      @ omit (\<not> rr_CreateDNS r) ''createDNS'' (JBool (rr_CreateDNS r))
      @ omit (rr_Status r = []) ''status'' (JStr (rr_Status r)))"

definition enc_ReleaseRequest :: "ReleaseRequest \<Rightarrow> json" where
  "enc_ReleaseRequest r = JObj [(''ip'', JStr (rl_IP r))]"

definition dec_ReserveResponse :: "json \<Rightarrow> err + ReserveResponse" where
  "dec_ReserveResponse j =
     result_bind (dec_object j) (\<lambda>ms.
     result_bind (field_with dec_strings ''ips'' ms []) (\<lambda>ips.
     result_bind (field_with dec_string ''status'' ms []) (\<lambda>st.
       Inr \<lparr>rs_IPs = ips, rs_Status = st\<rparr>)))"

definition dec_IPInfo :: "json \<Rightarrow> err + IPInfo" where
  "dec_IPInfo j =
     result_bind (dec_object j) (\<lambda>ms.
     result_bind (field_with dec_string ''IP'' ms []) (\<lambda>ip.
     result_bind (field_with dec_string ''Digit'' ms []) (\<lambda>d.
     result_bind (field_with dec_string ''Status'' ms []) (\<lambda>st.
     result_bind (field_with dec_string ''Cluster'' ms []) (\<lambda>c.
     result_bind (field_with dec_string ''FQDN'' ms []) (\<lambda>f.
       Inr \<lparr>ip_IP = ip, ip_Digit = d, ip_Status = st, ip_Cluster = c, ip_FQDN = f\<rparr>))))))"

fun dec_each :: "(json \<Rightarrow> err + 'a) \<Rightarrow> json list \<Rightarrow> err + 'a list" where
  "dec_each dec [] = Inr []"
| "dec_each dec (j # js) =
     result_bind (dec j) (\<lambda>x. result_bind (dec_each dec js) (\<lambda>xs. Inr (x # xs)))"

definition dec_IPInfos :: "json \<Rightarrow> err + IPInfo list" where
  "dec_IPInfos j = (case j of
     JArr js \<Rightarrow> dec_each dec_IPInfo js
   | JNull \<Rightarrow> Inr []
   | _ \<Rightarrow> Inl (New ''json: cannot unmarshal value into Go slice''))"

definition dec_ClusterInfo :: "json \<Rightarrow> err + ClusterInfo" where
  "dec_ClusterInfo j =
     result_bind (dec_object j) (\<lambda>ms.
     result_bind (field_with dec_string ''cluster'' ms []) (\<lambda>c.
     result_bind (field_with dec_string ''fqdn'' ms []) (\<lambda>f.
     result_bind (field_with dec_string ''zone'' ms []) (\<lambda>z.
       Inr \<lparr>ci_Cluster = c, ci_FQDN = f, ci_Zone = z\<rparr>))))"

section \<open>NewClient\<close>

definition NewClient :: "lib \<Rightarrow> string \<Rightarrow> TLSOptions option \<Rightarrow> err + CbkClient" where
  "NewClient L baseURL opts =
     (let mk = (\<lambda>tls. Inr \<lparr>cl_baseURL = TrimRight baseURL (CHR ''/''),
                          cl_httpClient = \<lparr>hc_TLS = tls, hc_Timeout = 30\<rparr>\<rparr>) in
      case opts of
        None \<Rightarrow> mk None
      | Some p \<Rightarrow>
          if to_InsecureSkipVerify p \<or> to_CustomCA p \<noteq> [] then
            (let cfg = \<lparr>tls_MinVersion = 771, tls_InsecureSkipVerify = to_InsecureSkipVerify p,
                        tls_RootCAs = None\<rparr> in
             if to_CustomCA p \<noteq> [] then
               (if \<not> AppendCertsFromPEM L (to_CustomCA p)
                then Inl (New ''cannot parse custom CA certificate'')
                else mk (Some (cfg\<lparr>tls_RootCAs := Some (to_CustomCA p)\<rparr>)))
             else mk (Some cfg))
          else mk None)"

section \<open>The calls\<close>

definition nil_deref :: err where
  "nil_deref = Panic ''runtime error: invalid memory address or nil pointer dereference''"

definition decode_body :: "string \<Rightarrow> (json \<Rightarrow> err + 'a) \<Rightarrow> string \<Rightarrow> err + 'a" where
  "decode_body msg dec body = (case jparse_prefix body of
     None \<Rightarrow> Inl (Errorf msg (New ''invalid JSON''))
   | Some j \<Rightarrow> (case dec j of Inl e \<Rightarrow> Inl (wrap_err msg e) | Inr x \<Rightarrow> Inr x))"

definition status_error :: "string \<Rightarrow> HttpResponse \<Rightarrow> err" where
  "status_error what resp =
     New (what @ '' returned status '' @ int_decimal (hp_StatusCode resp) @ '': '' @ hp_Body resp)"

text \<open>
  What the five methods share: build the request (reading \<open>c.baseURL\<close>, so a nil receiver
  panics), send it, look at the response.
\<close>

definition apiCall ::
    "'w env \<Rightarrow> CbkClient option \<Rightarrow> (CbkClient \<Rightarrow> HttpRequest) \<Rightarrow> string \<Rightarrow> string
     \<Rightarrow> (HttpResponse \<Rightarrow> err + 'a) \<Rightarrow> ('w, 'a) op" where
  "apiCall E api mk cannot failed look = (case api of
     None \<Rightarrow> fail nil_deref
   | Some c \<Rightarrow>
       (case NewRequestError (ev_lib E) (mk c) of
          Some e \<Rightarrow> fail (wrap_err cannot e)
        | None \<Rightarrow> and_then (wrap failed (httpDo E (cl_httpClient c) (mk c))) (\<lambda>resp. lift (look resp))))"

definition ReserveIPs ::
    "'w env \<Rightarrow> CbkClient option \<Rightarrow> string \<Rightarrow> ReserveRequest \<Rightarrow> ('w, ReserveResponse) op" where
  "ReserveIPs E api networkKey req = apiCall E api
     (\<lambda>c. \<lparr>hr_Method = ''POST'',
           hr_URL = cl_baseURL c @ ''/api/v1/networks/'' @ networkKey @ ''/reserve'',
           hr_Body = jprint (enc_ReserveRequest req), hr_ContentType = ''application/json''\<rparr>)
     ''cannot create reserve request'' ''reserve request failed''
     (\<lambda>resp. if hp_StatusCode resp \<noteq> 200 \<and> hp_StatusCode resp \<noteq> 201
             then Inl (status_error ''reserve request'' resp)
             else decode_body ''cannot decode reserve response'' dec_ReserveResponse (hp_Body resp))"

definition GetIPs :: "'w env \<Rightarrow> CbkClient option \<Rightarrow> string \<Rightarrow> ('w, IPInfo list) op" where
  "GetIPs E api networkKey = apiCall E api
     (\<lambda>c. \<lparr>hr_Method = ''GET'',
           hr_URL = cl_baseURL c @ ''/api/v1/networks/'' @ networkKey @ ''/ips'',
           hr_Body = [], hr_ContentType = []\<rparr>)
     ''cannot create get IPs request'' ''get IPs request failed''
     (\<lambda>resp. if hp_StatusCode resp \<noteq> 200
             then Inl (status_error ''get IPs'' resp)
             else decode_body ''cannot decode IPs response'' dec_IPInfos (hp_Body resp))"

definition GetClusterInfo :: "'w env \<Rightarrow> CbkClient option \<Rightarrow> string \<Rightarrow> ('w, ClusterInfo) op" where
  "GetClusterInfo E api clusterName = apiCall E api
     (\<lambda>c. \<lparr>hr_Method = ''GET'',
           hr_URL = cl_baseURL c @ ''/api/v1/clusters/'' @ clusterName,
           hr_Body = [], hr_ContentType = []\<rparr>)
     ''cannot create get cluster info request'' ''get cluster info request failed''
     (\<lambda>resp. if hp_StatusCode resp \<noteq> 200
             then Inl (status_error ''get cluster info'' resp)
             else decode_body ''cannot decode cluster info response'' dec_ClusterInfo (hp_Body resp))"

definition ReleaseIPs ::
    "'w env \<Rightarrow> CbkClient option \<Rightarrow> string \<Rightarrow> ReleaseRequest \<Rightarrow> ('w, unit) op" where
  "ReleaseIPs E api networkKey req = apiCall E api
     (\<lambda>c. \<lparr>hr_Method = ''POST'',
           hr_URL = cl_baseURL c @ ''/api/v1/networks/'' @ networkKey @ ''/release'',
           hr_Body = jprint (enc_ReleaseRequest req), hr_ContentType = ''application/json''\<rparr>)
     ''cannot create release request'' ''release request failed''
     (\<lambda>resp. if hp_StatusCode resp \<noteq> 200 \<and> hp_StatusCode resp \<noteq> 204
             then Inl (status_error ''release request'' resp)
             else Inr ())"

definition UpdateIP ::
    "'w env \<Rightarrow> CbkClient option \<Rightarrow> string \<Rightarrow> string \<Rightarrow> ReserveRequest \<Rightarrow> ('w, unit) op" where
  "UpdateIP E api networkKey ip req = apiCall E api
     (\<lambda>c. \<lparr>hr_Method = ''PUT'',
           hr_URL = cl_baseURL c @ ''/api/v1/networks/'' @ networkKey @ ''/ips/'' @ ip,
           hr_Body = jprint (enc_ReserveRequest req), hr_ContentType = ''application/json''\<rparr>)
     ''cannot create update request'' ''update request failed''
     (\<lambda>resp. if hp_StatusCode resp \<noteq> 200
             then Inl (status_error ''update request'' resp)
             else Inr ())"

section \<open>Running a call\<close>

lemma apiCall_nil [simp]: "apiCall E None mk cn fl look = fail nil_deref"
  by (simp add: apiCall_def)

lemma apiCall_run:
  "apiCall E (Some c) mk cn fl look (w, tr) =
     (case NewRequestError (ev_lib E) (mk c) of
        Some e \<Rightarrow> (Inl (wrap_err cn e), (w, tr))
      | None \<Rightarrow>
          (case ev_HttpDo E (cl_httpClient c) (mk c) w of (r, w') \<Rightarrow>
            (case r of Inl e \<Rightarrow> Inl (wrap_err fl e) | Inr resp \<Rightarrow> look resp,
             (w', tr @ [EHttp (mk c) (is_ok r)]))))"
  by (auto simp: apiCall_def httpDo_def io_defs split: option.splits prod.splits sum.splits)

lemma apiCall_answer:
  assumes "NewRequestError (ev_lib E) (mk c) = None"
    and "ev_HttpDo E (cl_httpClient c) (mk c) w = (Inr resp, w')"
  shows "apiCall E (Some c) mk cn fl look (w, tr) = (look resp, (w', tr @ [EHttp (mk c) True]))"
  using assms by (simp add: apiCall_run)

lemma emits_apiCall [emits_intros]:
  "(\<And>c b. api = Some c \<Longrightarrow> P (EHttp (mk c) b)) \<Longrightarrow> emits P (apiCall E api mk cn fl look)"
  unfolding apiCall_def by (intro emits_intros) auto

text \<open>What a call that succeeded tells: it was sent, and the response was acceptable.\<close>

lemma apiCall_InrD:
  assumes "apiCall E api mk cn fl look (w, tr) = (Inr x, t)"
  shows "\<exists>c resp w'. api = Some c \<and> NewRequestError (ev_lib E) (mk c) = None
    \<and> ev_HttpDo E (cl_httpClient c) (mk c) w = (Inr resp, w') \<and> look resp = Inr x
    \<and> t = (w', tr @ [EHttp (mk c) True])"
proof (cases api)
  case (Some c)
  with assms show ?thesis
    by (cases "ev_HttpDo E (cl_httpClient c) (mk c) w")
      (auto simp: apiCall_run split: option.splits sum.splits)
qed (use assms in \<open>simp add: fail_run\<close>)

lemmas api_defs = ReserveIPs_def GetIPs_def GetClusterInfo_def ReleaseIPs_def UpdateIP_def

lemma api_calls_nil [simp]:
  "ReserveIPs E None nk req = fail nil_deref"
  "GetIPs E None nk = fail nil_deref"
  "GetClusterInfo E None cl = fail nil_deref"
  "ReleaseIPs E None nk rel = fail nil_deref"
  "UpdateIP E None nk ip req = fail nil_deref"
  by (simp_all add: api_defs)

text \<open>Every call is HTTP traffic and nothing else.\<close>

lemma emits_api_calls [emits_intros, intro]:
  "(\<And>r b. P (EHttp r b)) \<Longrightarrow> emits P (ReserveIPs E api nk req)"
  "(\<And>r b. P (EHttp r b)) \<Longrightarrow> emits P (GetIPs E api nk)"
  "(\<And>r b. P (EHttp r b)) \<Longrightarrow> emits P (GetClusterInfo E api cl)"
  "(\<And>r b. P (EHttp r b)) \<Longrightarrow> emits P (ReleaseIPs E api nk rel)"
  "(\<And>r b. P (EHttp r b)) \<Longrightarrow> emits P (UpdateIP E api nk ip req)"
  by (auto simp: api_defs intro!: emits_apiCall)

text \<open>Requests that reserve, release or change an address; the other two only read.\<close>

definition is_reserve :: "event \<Rightarrow> bool" where
  "is_reserve e \<longleftrightarrow> (case e of
     EHttp r b \<Rightarrow> hr_Method r = ''POST'' \<and> HasSuffix (hr_URL r) ''/reserve''
   | _ \<Rightarrow> False)"

definition is_release :: "event \<Rightarrow> bool" where
  "is_release e \<longleftrightarrow> (case e of
     EHttp r b \<Rightarrow> hr_Method r = ''POST'' \<and> HasSuffix (hr_URL r) ''/release''
   | _ \<Rightarrow> False)"

definition is_put :: "event \<Rightarrow> bool" where
  "is_put e \<longleftrightarrow> (case e of EHttp r b \<Rightarrow> hr_Method r = ''PUT'' | _ \<Rightarrow> False)"

definition is_http_get :: "event \<Rightarrow> bool" where
  "is_http_get e \<longleftrightarrow> (case e of EHttp r b \<Rightarrow> hr_Method r = ''GET'' | _ \<Rightarrow> False)"

lemma HasSuffix_append [simp]: "HasSuffix (s @ p) p"
  by (simp add: HasSuffix_def)

lemma HasSuffix_last: "HasSuffix s p \<Longrightarrow> p \<noteq> [] \<Longrightarrow> last s = last p"
  unfolding HasSuffix_def by (metis last_drop drop_all leI)

lemma emits_reads:
  "emits is_http_get (GetIPs E api nk)"
  "emits is_http_get (GetClusterInfo E api cl)"
  by (auto simp: api_defs is_http_get_def intro!: emits_apiCall)

lemma emits_ReserveIPs: "emits is_reserve (ReserveIPs E api nk req)"
proof -
  have "HasSuffix (b @ ''/api/v1/networks/'' @ nk @ ''/reserve'') ''/reserve''" for b
    using HasSuffix_append [of "b @ ''/api/v1/networks/'' @ nk" "''/reserve''"]
    by (simp only: append_assoc)
  then show ?thesis by (auto simp: api_defs is_reserve_def intro!: emits_apiCall)
qed

lemma emits_ReleaseIPs: "emits is_release (ReleaseIPs E api nk rel)"
proof -
  have "HasSuffix (b @ ''/api/v1/networks/'' @ nk @ ''/release'') ''/release''" for b
    using HasSuffix_append [of "b @ ''/api/v1/networks/'' @ nk" "''/release''"]
    by (simp only: append_assoc)
  then show ?thesis by (auto simp: api_defs is_release_def intro!: emits_apiCall)
qed

lemma emits_UpdateIP: "emits is_put (UpdateIP E api nk ip req)"
  by (auto simp: api_defs is_put_def intro!: emits_apiCall)

text \<open>The kinds of request do not overlap.\<close>

lemma request_kinds:
  "is_http_get e \<Longrightarrow> \<not> is_reserve e"
  "is_http_get e \<Longrightarrow> \<not> is_release e"
  "is_http_get e \<Longrightarrow> \<not> is_put e"
  "is_put e \<Longrightarrow> \<not> is_reserve e"
  "is_put e \<Longrightarrow> \<not> is_release e"
  by (cases e; simp add: is_http_get_def is_reserve_def is_release_def is_put_def)+

lemma reserve_not_release: "is_reserve e \<Longrightarrow> \<not> is_release e"
proof (cases e)
  case (EHttp r b)
  show "is_reserve e \<Longrightarrow> \<not> is_release e"
    using HasSuffix_def [of "hr_URL r" "''/release''"] HasSuffix_def [of "hr_URL r" "''/reserve''"]
    by (auto simp: EHttp is_reserve_def is_release_def)
qed (simp_all add: is_reserve_def)

section \<open>What the server sends\<close>

text \<open>What the server is documented to send for a reservation.\<close>

definition enc_ReserveResponse :: "ReserveResponse \<Rightarrow> json" where
  "enc_ReserveResponse r = JObj [(''ips'', JArr (map JStr (rs_IPs r))), (''status'', JStr (rs_Status r))]"

lemma valid_elems_map_JStr [simp]: "valid_elems (map JStr xs) \<longleftrightarrow> (\<forall>x \<in> set xs. ascii x)"
  by (induction xs) simp_all

lemma dec_enc_ReserveResponse: "dec_ReserveResponse (enc_ReserveResponse r) = Inr r"
  by (simp add: dec_ReserveResponse_def enc_ReserveResponse_def field_simps dec_list_map)

text \<open>A listing, as the server sends it.\<close>

definition enc_IPInfo :: "IPInfo \<Rightarrow> json" where
  "enc_IPInfo e = JObj [(''IP'', JStr (ip_IP e)), (''Digit'', JStr (ip_Digit e)),
     (''Status'', JStr (ip_Status e)), (''Cluster'', JStr (ip_Cluster e)),
     (''FQDN'', JStr (ip_FQDN e))]"

definition enc_IPInfos :: "IPInfo list \<Rightarrow> json" where
  "enc_IPInfos es = JArr (map enc_IPInfo es)"

definition ascii_IPInfo :: "IPInfo \<Rightarrow> bool" where
  "ascii_IPInfo e \<longleftrightarrow> ascii (ip_IP e) \<and> ascii (ip_Digit e) \<and> ascii (ip_Status e)
     \<and> ascii (ip_Cluster e) \<and> ascii (ip_FQDN e)"

lemma valid_enc_IPInfos: "list_all ascii_IPInfo es \<Longrightarrow> valid_json (enc_IPInfos es)"
proof -
  have "valid_json (enc_IPInfo e)" if "ascii_IPInfo e" for e
    using that by (simp add: enc_IPInfo_def ascii_IPInfo_def)
  then have "valid_elems (map enc_IPInfo es)" if "list_all ascii_IPInfo es"
    using that by (induction es) simp_all
  then show "list_all ascii_IPInfo es \<Longrightarrow> valid_json (enc_IPInfos es)"
    by (simp add: enc_IPInfos_def)
qed

lemma dec_enc_IPInfo: "dec_IPInfo (enc_IPInfo e) = Inr e"
  by (simp add: dec_IPInfo_def enc_IPInfo_def field_simps)

lemma dec_enc_IPInfos: "dec_IPInfos (enc_IPInfos es) = Inr es"
proof -
  have "dec_each dec_IPInfo (map enc_IPInfo es) = Inr es"
    by (induction es) (simp_all add: dec_enc_IPInfo)
  then show ?thesis by (simp add: dec_IPInfos_def enc_IPInfos_def)
qed

lemma decode_body_jprint:
  "valid_json j \<Longrightarrow> dec j = Inr x \<Longrightarrow> decode_body msg dec (jprint j) = Inr x"
  using jparse_prefix_jprint [of j "[]"] by (simp add: decode_body_def)

lemma GetIPs_listing:
  assumes "NewRequestError (ev_lib E) req = None"
    and "req = \<lparr>hr_Method = ''GET'', hr_URL = cl_baseURL c @ ''/api/v1/networks/'' @ nk @ ''/ips'',
           hr_Body = [], hr_ContentType = []\<rparr>"
    and "ev_HttpDo E (cl_httpClient c) req w =
      (Inr \<lparr>hp_StatusCode = 200, hp_Body = jprint (enc_IPInfos es)\<rparr>, w')"
    and "list_all ascii_IPInfo es"
  shows "GetIPs E (Some c) nk (w, tr) = (Inr es, (w', tr @ [EHttp req True]))"
proof -
  have "decode_body msg dec_IPInfos (jprint (enc_IPInfos es)) = Inr es" for msg
    by (rule decode_body_jprint) (rule valid_enc_IPInfos [OF assms(4)], rule dec_enc_IPInfos)
  then show ?thesis
    unfolding GetIPs_def
    by (subst apiCall_answer [where resp = "\<lparr>hp_StatusCode = 200, hp_Body = jprint (enc_IPInfos es)\<rparr>"
        and w' = w']) (use assms(1-3) in auto)
qed

lemma ReserveIPs_answer:
  assumes "NewRequestError (ev_lib E) req = None"
    and "req = \<lparr>hr_Method = ''POST'',
           hr_URL = cl_baseURL c @ ''/api/v1/networks/'' @ nk @ ''/reserve'',
           hr_Body = jprint (enc_ReserveRequest r), hr_ContentType = ''application/json''\<rparr>"
    and "ev_HttpDo E (cl_httpClient c) req w = (Inr \<lparr>hp_StatusCode = st, hp_Body = body\<rparr>, w')"
    and "st = 200 \<or> st = 201"
    and "body = jprint (enc_ReserveResponse resv)"
    and "ascii (rs_Status resv)" and "\<forall>ip \<in> set (rs_IPs resv). ascii ip"
  shows "ReserveIPs E (Some c) nk r (w, tr) = (Inr resv, (w', tr @ [EHttp req True]))"
proof -
  have "valid_json (enc_ReserveResponse resv)"
    using assms(6,7) by (simp add: enc_ReserveResponse_def ascii_def)
  then have body: "decode_body msg dec_ReserveResponse body = Inr resv" for msg
    unfolding assms(5) by (rule decode_body_jprint) (rule dec_enc_ReserveResponse)
  show ?thesis
    unfolding ReserveIPs_def
    by (subst apiCall_answer [where resp = "\<lparr>hp_StatusCode = st, hp_Body = body\<rparr>" and w' = w'])
      (use assms(1-4) body in auto)
qed

section \<open>Properties\<close>

text \<open>
  C5. Reserving: when the server answers 200 or 201 with the JSON of a reservation,
  \<open>ReserveIPs\<close> returns exactly that reservation, after one request and no other traffic. The
  text on the wire is parsed, so this covers quoting and escaping of every ASCII byte.
\<close>

theorem ReserveIPs_returns_reservation:
  assumes "NewRequestError (ev_lib E) req = None"
    and "req = \<lparr>hr_Method = ''POST'',
           hr_URL = cl_baseURL c @ ''/api/v1/networks/'' @ nk @ ''/reserve'',
           hr_Body = jprint (enc_ReserveRequest r), hr_ContentType = ''application/json''\<rparr>"
    and "ev_HttpDo E (cl_httpClient c) req w = (Inr \<lparr>hp_StatusCode = st, hp_Body = body\<rparr>, w')"
    and "st = 200 \<or> st = 201"
    and "body = jprint (enc_ReserveResponse resv)"
    and "ascii (rs_Status resv)" and "\<forall>ip \<in> set (rs_IPs resv). ascii ip"
  shows "ReserveIPs E (Some c) nk r (w, tr) = (Inr resv, (w', tr @ [EHttp req True]))"
  by (rule ReserveIPs_answer [OF assms])

text \<open>A server that answers every request with one status and one body.\<close>

definition serving :: "int \<Rightarrow> string \<Rightarrow> mem" where
  "serving st body = emptyMem\<lparr>mm_Answer := (\<lambda>r. Inr \<lparr>hp_StatusCode = st, hp_Body = body\<rparr>)\<rparr>"

definition Inl_load :: "string \<Rightarrow> err + KubeConfig" where
  "Inl_load s = Inl (New ''not used'')"

definition Inl_write :: "KubeConfig \<Rightarrow> err + string" where
  "Inl_write c = Inl (New ''not used'')"

definition testClient :: CbkClient where
  "testClient = \<lparr>cl_baseURL = ''http://cb'', cl_httpClient = \<lparr>hc_TLS = None, hc_Timeout = 30\<rparr>\<rparr>"

definition testRequest :: ReserveRequest where
  "testRequest = \<lparr>rr_Cluster = ''c<1>'', rr_Count = 2, rr_IP = [], rr_CreateDNS = True, rr_Status = []\<rparr>"

theorem ReserveIPs_returns_reservation_witness:
  "\<exists>req. ReserveIPs (memEnv (stdLib Inl_load Inl_write)) (Some testClient) ''10.31'' testRequest
      (serving 201 (jprint (enc_ReserveResponse \<lparr>rs_IPs = [''10.31.0.7'', ''10.31.0.8''], rs_Status = ''ok''\<rparr>)), [])
    = (Inr \<lparr>rs_IPs = [''10.31.0.7'', ''10.31.0.8''], rs_Status = ''ok''\<rparr>,
       (serving 201 (jprint (enc_ReserveResponse \<lparr>rs_IPs = [''10.31.0.7'', ''10.31.0.8''], rs_Status = ''ok''\<rparr>)),
        [] @ [EHttp req True]))"
  by (rule exI, rule ReserveIPs_returns_reservation [where st = 201, OF _ refl _ _ refl])
    (simp_all add: serving_def ascii_def)

end
