(* ===== verification/Sha256.thy ===== *)
theory Sha256
  imports Json "HOL-Library.Word"
begin

unbundle bit_operations_syntax

text \<open>
  \<open>crypto/sha256\<close> and \<open>encoding/hex\<close> of Go's standard library, as FIPS 180-4 defines the digest:
  \<open>kubeconfigHash\<close> publishes it next to the kubeconfig it was computed from. Words are 32 bits
  wide and addition wraps.
\<close>

type_synonym w32 = "32 word"

text \<open>
  The constants, as the standard explains them: the first 32 bits of the fractional parts of the
  square roots of the first 8 primes (initial value) and of the cube roots of the first 64 (round
  constants). \<open>root_floor k n b r\<close> finds the \<open>k\<close>-th root of \<open>n\<close>, rounded down, bit by bit.
\<close>

fun root_floor :: "nat \<Rightarrow> int \<Rightarrow> nat \<Rightarrow> int \<Rightarrow> int" where
  "root_floor k n 0 r = r"
| "root_floor k n (Suc b) r = root_floor k n b (if (r + 2 ^ b) ^ k \<le> n then r + 2 ^ b else r)"

text \<open>40 bits are enough: 8 before the point, 32 after it; the conversion keeps the latter.\<close>

definition root_fraction :: "nat \<Rightarrow> int \<Rightarrow> w32" where
  "root_fraction k p = word_of_int (root_floor k (p * 2 ^ (32 * k)) 40 0)"

definition sha_primes :: "int list" where
  "sha_primes = filter (\<lambda>n. list_all (\<lambda>d. n mod d \<noteq> 0) [2..n - 1]) [2..311]"

definition sha_K :: "w32 list" where
  "sha_K = map (root_fraction 3) sha_primes"

definition sha_H0 :: "w32 list" where
  "sha_H0 = map (root_fraction 2) [2, 3, 5, 7, 11, 13, 17, 19]"

definition rotr :: "nat \<Rightarrow> w32 \<Rightarrow> w32" where
  "rotr n x = drop_bit n x OR push_bit (32 - n) x"

definition bsig0 :: "w32 \<Rightarrow> w32" where "bsig0 x = rotr 2 x XOR rotr 13 x XOR rotr 22 x"
definition bsig1 :: "w32 \<Rightarrow> w32" where "bsig1 x = rotr 6 x XOR rotr 11 x XOR rotr 25 x"
definition ssig0 :: "w32 \<Rightarrow> w32" where "ssig0 x = rotr 7 x XOR rotr 18 x XOR drop_bit 3 x"
definition ssig1 :: "w32 \<Rightarrow> w32" where "ssig1 x = rotr 17 x XOR rotr 19 x XOR drop_bit 10 x"

definition ch :: "w32 \<Rightarrow> w32 \<Rightarrow> w32 \<Rightarrow> w32" where
  "ch x y z = (x AND y) XOR ((NOT x) AND z)"

definition maj :: "w32 \<Rightarrow> w32 \<Rightarrow> w32 \<Rightarrow> w32" where
  "maj x y z = (x AND y) XOR (x AND z) XOR (y AND z)"

text \<open>Padding: one bit, zeros up to 56 modulo 64 bytes, the length in bits as 64 bits.\<close>

definition be_bytes :: "nat \<Rightarrow> int \<Rightarrow> string" where
  "be_bytes n x = map (\<lambda>i. char_of (x div 256 ^ (n - Suc i) mod 256)) [0..<n]"

definition sha_pad :: "string \<Rightarrow> string" where
  "sha_pad s = s @ CHR 0x80 # replicate ((119 - length s mod 64) mod 64) (CHR 0x00)
     @ be_bytes 8 (8 * int (length s) mod 2 ^ 64)"

fun be_words :: "string \<Rightarrow> w32 list" where
  "be_words (a # b # c # d # s) =
     of_int (((of_char a * 256 + of_char b) * 256 + of_char c) * 256 + of_char d) # be_words s"
| "be_words _ = []"

text \<open>The message schedule, kept as the last sixteen words, oldest first.\<close>

fun sha_rounds :: "w32 list \<Rightarrow> w32 list \<Rightarrow> w32 list \<Rightarrow> w32 list" where
  "sha_rounds (k # ks) (w # ws) [a, b, c, d, e, f, g, h] =
     (let t1 = h + bsig1 e + ch e f g + k + w;
          t2 = bsig0 a + maj a b c;
          w' = ssig1 (ws ! 13) + ws ! 8 + ssig0 (ws ! 0) + w
      in sha_rounds ks (ws @ [w']) [t1 + t2, a, b, c, d + t1, e, f, g])"
| "sha_rounds _ _ hs = hs"

definition sha_block :: "w32 list \<Rightarrow> w32 list \<Rightarrow> w32 list" where
  "sha_block hs ws = map2 (+) hs (sha_rounds sha_K ws hs)"

function sha_blocks :: "w32 list \<Rightarrow> w32 list \<Rightarrow> w32 list" where
  "sha_blocks ws hs =
     (if ws = [] then hs else sha_blocks (drop 16 ws) (sha_block hs (take 16 ws)))"
  by pat_completeness auto
termination by (relation "measure (length \<circ> fst)") auto

declare sha_blocks.simps [simp del]

definition Sum256 :: "string \<Rightarrow> string" where
  "Sum256 s = concat (map (be_bytes 4 \<circ> uint) (sha_blocks (be_words (sha_pad s)) sha_H0))"

definition hex_digit :: "nat \<Rightarrow> char" where
  "hex_digit n = (if n < 10 then char_of (48 + n) else char_of (87 + n))"

definition EncodeToString :: "string \<Rightarrow> string" where
  "EncodeToString s =
     concat (map (\<lambda>c. [hex_digit (of_char c div 16), hex_digit (of_char c mod 16)]) s)"

section \<open>Shape of the digest\<close>

lemma length_sha_rounds [simp]: "length hs = 8 \<Longrightarrow> length (sha_rounds ks ws hs) = 8"
  by (induction ks ws hs rule: sha_rounds.induct) (simp_all add: Let_def)

lemma length_sha_blocks [simp]: "length hs = 8 \<Longrightarrow> length (sha_blocks ws hs) = 8"
proof (induction ws hs rule: sha_blocks.induct)
  case (1 ws hs)
  show ?case
  proof (cases "ws = []")
    case False
    with 1 have "length (sha_blocks (drop 16 ws) (sha_block hs (take 16 ws))) = 8"
      by (simp add: sha_block_def)
    with False show ?thesis by (subst sha_blocks.simps) simp
  qed (use 1 in \<open>simp add: sha_blocks.simps\<close>)
qed

lemma pad_zeros: "(n :: nat) < 64 \<Longrightarrow> (n + ((119 - n) mod 64 + 9)) mod 64 = 0"
proof (cases "n \<le> 55")
  case True
  then have "119 - n = (55 - n) + 64" by simp
  then have "(119 - n) mod 64 = 55 - n" by (simp only: mod_add_self2) simp
  with True show ?thesis by simp
next
  case False
  assume "n < 64"
  with False show ?thesis by simp
qed

lemma length_sha_pad: "length (sha_pad s) mod 64 = 0"
proof -
  have "length (sha_pad s) = length s + ((119 - length s mod 64) mod 64 + 9)"
    by (simp add: sha_pad_def be_bytes_def)
  then have "length (sha_pad s) mod 64 =
      (length s mod 64 + ((119 - length s mod 64) mod 64 + 9)) mod 64"
    by (metis mod_add_left_eq)
  also have "\<dots> = 0" by (rule pad_zeros) simp
  finally show ?thesis .
qed

lemma length_concat_same: "(\<And>x. length (f x) = n) \<Longrightarrow> length (concat (map f xs)) = n * length xs"
  by (induction xs) simp_all

lemma length_Sum256 [simp]: "length (Sum256 s) = 32"
  unfolding Sum256_def
  by (subst length_concat_same [where n = 4]) (simp_all add: be_bytes_def sha_H0_def)

lemma hex_digit_inj: "n < 16 \<Longrightarrow> m < 16 \<Longrightarrow> hex_digit n = hex_digit m \<longleftrightarrow> n = m"
  by (auto simp: hex_digit_def)

lemma of_char_parts: "(of_char (c :: char) :: nat) div 16 < 16" "(of_char (c :: char) :: nat) mod 16 < 16"
  using byte_less_256 [of c] by (simp_all add: less_mult_imp_div_less)

lemma EncodeToString_inj: "EncodeToString s = EncodeToString t \<longleftrightarrow> s = t"
proof (induction s arbitrary: t)
  case Nil
  then show ?case by (cases t) (simp_all add: EncodeToString_def)
next
  case (Cons a s)
  have "of_char a div 16 = (of_char b div 16 :: nat) \<and> of_char a mod 16 = (of_char b mod 16 :: nat)
      \<longleftrightarrow> a = b" for b :: char
    by (metis div_mult_mod_eq of_char_eq_iff)
  then show ?case using Cons
    by (cases t) (auto simp: EncodeToString_def hex_digit_inj of_char_parts)
qed

lemma length_EncodeToString [simp]: "length (EncodeToString s) = 2 * length s"
  unfolding EncodeToString_def by (subst length_concat_same [where n = 2]) simp_all

end
