(* ===== verification/ArgoConfig.thy ===== *)
theory ArgoConfig
  imports Codec KubeClient Sha256
begin

text \<open>
  The connection data of a cluster on its way through the program: a kubeconfig becomes the JSON
  ArgoCD keeps in \<open>data.config\<close> of a cluster Secret (\<open>argoConfigFromKubeconfig\<close>), that JSON
  becomes a client configuration again (\<open>restConfigFromArgo\<close> for the readiness probe,
  \<open>restConfigFromArgoSecret\<close> for the host cluster of a vcluster), and the server of a kubeconfig
  is replaced (\<open>rewriteKubeconfigServer\<close>). The JSON is text here, printed and parsed.
\<close>

section \<open>argoClusterConfig\<close>

record argoTLSClientConfig =
  atc_Insecure :: bool
  atc_ServerName :: string
  atc_CAData :: string
  atc_CertData :: string
  atc_KeyData :: string

record argoClusterConfig =
  acc_BearerToken :: string
  acc_TLSClientConfig :: argoTLSClientConfig
  acc_ExecProviderCfg :: "unit option"

definition zeroTLS :: argoTLSClientConfig where
  "zeroTLS = \<lparr>atc_Insecure = False, atc_ServerName = [], atc_CAData = [], atc_CertData = [],
     atc_KeyData = []\<rparr>"

definition zeroArgo :: argoClusterConfig where
  "zeroArgo = \<lparr>acc_BearerToken = [], acc_TLSClientConfig = zeroTLS, acc_ExecProviderCfg = None\<rparr>"

definition enc_argoTLS :: "argoTLSClientConfig \<Rightarrow> json" where
  "enc_argoTLS t = JObj
     ([(''insecure'', JBool (atc_Insecure t))]
      @ omit (atc_ServerName t = []) ''serverName'' (JStr (atc_ServerName t))
      @ omit (atc_CAData t = []) ''caData'' (JStr (b64_encode (atc_CAData t)))
      @ omit (atc_CertData t = []) ''certData'' (JStr (b64_encode (atc_CertData t)))
      @ omit (atc_KeyData t = []) ''keyData'' (JStr (b64_encode (atc_KeyData t))))"

definition enc_argoClusterConfig :: "argoClusterConfig \<Rightarrow> json" where
  "enc_argoClusterConfig c = JObj
     (omit (acc_BearerToken c = []) ''bearerToken'' (JStr (acc_BearerToken c))
      @ [(''tlsClientConfig'', enc_argoTLS (acc_TLSClientConfig c))]
      @ omit (acc_ExecProviderCfg c = None) ''execProviderConfig'' (JObj []))"

fun result_option :: "err + 'a \<Rightarrow> 'a option" where
  "result_option (Inl e) = None"
| "result_option (Inr x) = Some x"

definition dec_argoTLS :: "json \<Rightarrow> argoTLSClientConfig \<Rightarrow> argoTLSClientConfig option" where
  "dec_argoTLS j acc = result_option
     (result_bind (dec_object j) (\<lambda>ms.
      result_bind (field_with dec_bool ''insecure'' ms (atc_Insecure acc)) (\<lambda>i.
      result_bind (field_with dec_string ''serverName'' ms (atc_ServerName acc)) (\<lambda>sn.
      result_bind (field_with dec_bytes ''caData'' ms (atc_CAData acc)) (\<lambda>ca.
      result_bind (field_with dec_bytes ''certData'' ms (atc_CertData acc)) (\<lambda>ct.
      result_bind (field_with dec_bytes ''keyData'' ms (atc_KeyData acc)) (\<lambda>ky.
        Inr \<lparr>atc_Insecure = i, atc_ServerName = sn, atc_CAData = ca, atc_CertData = ct,
             atc_KeyData = ky\<rparr>)))))))"

fun dec_execProvider :: "json \<Rightarrow> unit option \<Rightarrow> unit option option" where
  "dec_execProvider (JObj ms) acc = Some (Some ())"
| "dec_execProvider JNull acc = Some None"
| "dec_execProvider _ acc = None"

definition dec_argoClusterConfig :: "json \<Rightarrow> err + argoClusterConfig" where
  "dec_argoClusterConfig j =
     result_bind (dec_object j) (\<lambda>ms.
     result_bind (field_with dec_string ''bearerToken'' ms []) (\<lambda>bt.
     result_bind (field_with dec_argoTLS ''tlsClientConfig'' ms zeroTLS) (\<lambda>t.
     result_bind (field_with dec_execProvider ''execProviderConfig'' ms None) (\<lambda>x.
       Inr \<lparr>acc_BearerToken = bt, acc_TLSClientConfig = t, acc_ExecProviderCfg = x\<rparr>))))"

text \<open>\<open>json.Marshal\<close> and \<open>json.Unmarshal\<close> of the type.\<close>

definition marshal_argo :: "argoClusterConfig \<Rightarrow> string" where
  "marshal_argo c = jprint (enc_argoClusterConfig c)"

definition unmarshal_argo :: "string \<Rightarrow> err + argoClusterConfig" where
  "unmarshal_argo s = (case jparse s of
     None \<Rightarrow> Inl (New ''invalid JSON'')
   | Some j \<Rightarrow> dec_argoClusterConfig j)"

lemma valid_enc_argo: "ascii (acc_BearerToken c) \<Longrightarrow> ascii (atc_ServerName (acc_TLSClientConfig c)) \<Longrightarrow>
    valid_json (enc_argoClusterConfig c)"
  by (simp add: enc_argoClusterConfig_def enc_argoTLS_def omit_def)

lemma dec_enc_argoTLS [simp]: "dec_argoTLS (enc_argoTLS t) zeroTLS = Some t"
  by (simp add: dec_argoTLS_def enc_argoTLS_def zeroTLS_def field_simps)

lemma dec_enc_argo: "dec_argoClusterConfig (enc_argoClusterConfig c) = Inr c"
  by (simp add: dec_argoClusterConfig_def enc_argoClusterConfig_def field_simps)

lemma unmarshal_marshal_argo:
  "ascii (acc_BearerToken c) \<Longrightarrow> ascii (atc_ServerName (acc_TLSClientConfig c)) \<Longrightarrow>
   unmarshal_argo (marshal_argo c) = Inr c"
  by (simp add: unmarshal_argo_def marshal_argo_def valid_enc_argo dec_enc_argo jparse_jprint)

section \<open>From a kubeconfig, and back to a client configuration\<close>

text \<open>The \<open>%q\<close> verb on printable text.\<close>

fun quote_body :: "string \<Rightarrow> string" where
  "quote_body [] = []"
| "quote_body (c # s) =
     (if c = CHR 0x22 \<or> c = CHR 0x5C then CHR 0x5C # c # quote_body s else c # quote_body s)"

definition Quote :: "string \<Rightarrow> string" where
  "Quote s = CHR 0x22 # quote_body s @ [CHR 0x22]"

definition kubeconfigHash :: "string \<Rightarrow> string" where
  "kubeconfigHash raw = ''sha256:'' @ EncodeToString (Sum256 raw)"

definition argoConfigFromKubeconfig :: "lib \<Rightarrow> string \<Rightarrow> err + string \<times> string \<times> string" where
  "argoConfigFromKubeconfig L raw =
     result_bind (clientcmd_Load L raw) (\<lambda>cfg.
       case fmlookup (kc_Contexts cfg) (kc_CurrentContext cfg) of
         None \<Rightarrow> Inl (New (''current-context '' @ Quote (kc_CurrentContext cfg) @ '' missing''))
       | Some ctx \<Rightarrow>
          (case (fmlookup (kc_Clusters cfg) (kcx_Cluster ctx),
                 fmlookup (kc_AuthInfos cfg) (kcx_AuthInfo ctx)) of
             (Some cluster, Some user) \<Rightarrow>
               Inr (marshal_argo
                 \<lparr>acc_BearerToken = kca_Token user,
                  acc_TLSClientConfig =
                    \<lparr>atc_Insecure = kcc_InsecureSkipTLSVerify cluster, atc_ServerName = [],
                     atc_CAData = kcc_CertificateAuthorityData cluster,
                     atc_CertData = kca_ClientCertificateData user,
                     atc_KeyData = kca_ClientKeyData user\<rparr>,
                  acc_ExecProviderCfg = None\<rparr>,
                 kcc_CertificateAuthorityData cluster, kcc_Server cluster)
           | _ \<Rightarrow> Inl (New ''kubeconfig missing cluster or user'')))"

definition rest_of_argo :: "string \<Rightarrow> argoClusterConfig \<Rightarrow> RestConfig" where
  "rest_of_argo server ac = (let t = acc_TLSClientConfig ac in
     \<lparr>rc_Host = server, rc_BearerToken = acc_BearerToken ac, rc_Insecure = atc_Insecure t,
      rc_ServerName = atc_ServerName t, rc_CAData = atc_CAData t, rc_CertData = atc_CertData t,
      rc_KeyData = atc_KeyData t, rc_Timeout = 0\<rparr>)"

definition restConfigFromArgo :: "string \<Rightarrow> string \<Rightarrow> err + RestConfig" where
  "restConfigFromArgo server cfgJSON = (case unmarshal_argo cfgJSON of
     Inl e \<Rightarrow> Inl (wrap_err ''decode argo cluster config'' e)
   | Inr ac \<Rightarrow> Inr (rest_of_argo server ac))"

definition restConfigFromArgoSecret :: "Secret \<Rightarrow> err + RestConfig" where
  "restConfigFromArgoSecret s =
     (let server = idx (s_Data s) ''server''; raw = idx (s_Data s) ''config'' in
      if server = [] then
        Inl (New (''secret '' @ om_Namespace (s_Meta s) @ ''/'' @ om_Name (s_Meta s)
          @ '' missing data.server''))
      else if raw = [] then Inr (rest_of_argo server zeroArgo)
      else (case unmarshal_argo raw of
          Inl e \<Rightarrow> Inl (wrap_err ''decode data.config'' e)
        | Inr cfg \<Rightarrow> Inr (rest_of_argo server cfg)))"

definition rewriteKubeconfigServer :: "lib \<Rightarrow> string \<Rightarrow> string \<Rightarrow> err + string" where
  "rewriteKubeconfigServer L raw server =
     result_bind (clientcmd_Load L raw) (\<lambda>cfg.
       case fmlookup (kc_Contexts cfg) (kc_CurrentContext cfg) of
         None \<Rightarrow> Inl (New (''current-context '' @ Quote (kc_CurrentContext cfg) @ '' missing''))
       | Some ctx \<Rightarrow>
          (case fmlookup (kc_Clusters cfg) (kcx_Cluster ctx) of
             None \<Rightarrow> Inl (New (''kubeconfig missing cluster '' @ Quote (kcx_Cluster ctx)))
           | Some cluster \<Rightarrow> clientcmd_Write L
               (cfg\<lparr>kc_Clusters := fmupd (kcx_Cluster ctx) (cluster\<lparr>kcc_Server := server\<rparr>)
                  (kc_Clusters cfg)\<rparr>)))"

section \<open>Facts\<close>

text \<open>The cluster and the user the current context names.\<close>

definition current :: "KubeConfig \<Rightarrow> (KcCluster \<times> KcAuthInfo) option" where
  "current cfg = (case fmlookup (kc_Contexts cfg) (kc_CurrentContext cfg) of
     None \<Rightarrow> None
   | Some ctx \<Rightarrow>
      (case (fmlookup (kc_Clusters cfg) (kcx_Cluster ctx),
             fmlookup (kc_AuthInfos cfg) (kcx_AuthInfo ctx)) of
         (Some cluster, Some user) \<Rightarrow> Some (cluster, user)
       | _ \<Rightarrow> None))"

definition argo_of :: "KcCluster \<Rightarrow> KcAuthInfo \<Rightarrow> argoClusterConfig" where
  "argo_of cluster user =
     \<lparr>acc_BearerToken = kca_Token user,
      acc_TLSClientConfig =
        \<lparr>atc_Insecure = kcc_InsecureSkipTLSVerify cluster, atc_ServerName = [],
         atc_CAData = kcc_CertificateAuthorityData cluster,
         atc_CertData = kca_ClientCertificateData user, atc_KeyData = kca_ClientKeyData user\<rparr>,
      acc_ExecProviderCfg = None\<rparr>"

lemma argoConfigFromKubeconfig_ok:
  "argoConfigFromKubeconfig L raw = Inr r \<longleftrightarrow>
     (\<exists>cfg cluster user. clientcmd_Load L raw = Inr cfg \<and> current cfg = Some (cluster, user)
        \<and> r = (marshal_argo (argo_of cluster user), kcc_CertificateAuthorityData cluster,
               kcc_Server cluster))"
  by (cases "clientcmd_Load L raw")
    (auto simp: argoConfigFromKubeconfig_def current_def argo_of_def split: option.splits)

lemma unmarshal_argo_of:
  "ascii (kca_Token user) \<Longrightarrow>
   unmarshal_argo (marshal_argo (argo_of cluster user)) = Inr (argo_of cluster user)"
  by (rule unmarshal_marshal_argo) (simp_all add: argo_of_def)

lemma marshal_argo_not_Nil [simp]: "marshal_argo c \<noteq> []"
  by (simp add: marshal_argo_def enc_argoClusterConfig_def omit_def)

lemma rewriteKubeconfigServer_ok:
  assumes "rewriteKubeconfigServer L raw server = Inr raw'" and "clientcmd_Load L raw = Inr cfg"
    and "kubeconfig_laws L"
  obtains ctx cluster where "fmlookup (kc_Contexts cfg) (kc_CurrentContext cfg) = Some ctx"
    and "fmlookup (kc_Clusters cfg) (kcx_Cluster ctx) = Some cluster"
    and "clientcmd_Load L raw' = Inr (cfg\<lparr>kc_Clusters :=
      fmupd (kcx_Cluster ctx) (cluster\<lparr>kcc_Server := server\<rparr>) (kc_Clusters cfg)\<rparr>)"
  using assms by (auto simp: rewriteKubeconfigServer_def kubeconfig_laws_def split: option.splits)

lemma rewriteKubeconfigServer_current:
  assumes "kubeconfig_laws L" and "clientcmd_Load L raw = Inr cfg"
    and "current cfg = Some (cluster, user)" and "rewriteKubeconfigServer L raw server = Inr raw'"
  obtains cfg' where "clientcmd_Load L raw' = Inr cfg'"
    and "current cfg' = Some (cluster\<lparr>kcc_Server := server\<rparr>, user)"
proof -
  from assms(4,2,1) obtain ctx cl where ctx:
      "fmlookup (kc_Contexts cfg) (kc_CurrentContext cfg) = Some ctx"
      "fmlookup (kc_Clusters cfg) (kcx_Cluster ctx) = Some cl"
    and load': "clientcmd_Load L raw' = Inr (cfg\<lparr>kc_Clusters :=
      fmupd (kcx_Cluster ctx) (cl\<lparr>kcc_Server := server\<rparr>) (kc_Clusters cfg)\<rparr>)"
    by (rule rewriteKubeconfigServer_ok)
  from assms(3) ctx have "cl = cluster" and "fmlookup (kc_AuthInfos cfg) (kcx_AuthInfo ctx) = Some user"
    by (auto simp: current_def split: option.splits)
  with ctx have "current (cfg\<lparr>kc_Clusters := fmupd (kcx_Cluster ctx) (cl\<lparr>kcc_Server := server\<rparr>)
      (kc_Clusters cfg)\<rparr>) = Some (cluster\<lparr>kcc_Server := server\<rparr>, user)"
    by (simp add: current_def)
  with load' show thesis by (rule that)
qed

lemma argo_of_server [simp]: "argo_of (cluster\<lparr>kcc_Server := s\<rparr>) user = argo_of cluster user"
  by (simp add: argo_of_def)

section \<open>An example library\<close>

text \<open>Kubeconfigs with one context; the text \<open>kc:\<close> followed by a server stands for one.\<close>

definition exampleCluster :: "string \<Rightarrow> KcCluster" where
  "exampleCluster server = \<lparr>kcc_Server = server, kcc_InsecureSkipTLSVerify = False,
     kcc_CertificateAuthorityData = ''CA'', kcc_TLSServerName = ''kube.local''\<rparr>"

definition exampleUser :: KcAuthInfo where
  "exampleUser = \<lparr>kca_Token = ''s3cr<t'', kca_ClientCertificateData = ''CERT'',
     kca_ClientKeyData = ''KEY''\<rparr>"

definition exampleKubeConfig :: "string \<Rightarrow> KubeConfig" where
  "exampleKubeConfig server =
     \<lparr>kc_CurrentContext = ''admin'',
      kc_Contexts = fmap_of_list [(''admin'', \<lparr>kcx_Cluster = ''c1'', kcx_AuthInfo = ''u1''\<rparr>)],
      kc_Clusters = fmap_of_list [(''c1'', exampleCluster server)],
      kc_AuthInfos = fmap_of_list [(''u1'', exampleUser)]\<rparr>"

definition exampleLoad :: "string \<Rightarrow> err + KubeConfig" where
  "exampleLoad raw = (if HasPrefix raw ''kc:'' then Inr (exampleKubeConfig (TrimPrefix raw ''kc:''))
     else Inl (New ''yaml''))"

definition exampleWrite :: "KubeConfig \<Rightarrow> err + string" where
  "exampleWrite c =
     (let srv = (case fmlookup (kc_Clusters c) ''c1'' of None \<Rightarrow> [] | Some k \<Rightarrow> kcc_Server k) in
      if c = exampleKubeConfig srv then Inr (''kc:'' @ srv) else Inl (New ''yaml''))"

definition exampleLib :: lib where
  "exampleLib = stdLib exampleLoad exampleWrite"

lemma exampleLib_simps:
  "NewRequestError exampleLib r = None" "HTTPClientForError exampleLib c = None"
  by (simp_all add: exampleLib_def)

lemma load_example_append: "clientcmd_Load exampleLib (''kc:'' @ s) = Inr (exampleKubeConfig s)"
  by (simp add: exampleLib_def exampleLoad_def HasPrefix_def TrimPrefix_def)

lemmas load_example = load_example_append [simplified]

lemma kubeconfig_laws_example: "kubeconfig_laws exampleLib"
  using load_example_append
  by (auto simp: kubeconfig_laws_def exampleLib_def exampleWrite_def Let_def
      split: if_splits)

lemma current_exampleKubeConfig: "current (exampleKubeConfig s) = Some (exampleCluster s, exampleUser)"
  by (simp add: current_def exampleKubeConfig_def)

lemma rewrite_example:
  "rewriteKubeconfigServer exampleLib (''kc:'' @ s) t = Inr (''kc:'' @ t)"
proof -
  have "(exampleKubeConfig s)\<lparr>kc_Clusters := fmupd ''c1'' (exampleCluster t)
      (kc_Clusters (exampleKubeConfig s))\<rparr> = exampleKubeConfig t"
    by (simp add: exampleKubeConfig_def)
  moreover have "clientcmd_Write exampleLib (exampleKubeConfig t) = Inr (''kc:'' @ t)"
    by (simp add: exampleLib_def exampleWrite_def exampleKubeConfig_def exampleCluster_def)
  moreover have "(exampleCluster s)\<lparr>kcc_Server := t\<rparr> = exampleCluster t"
    by (simp add: exampleCluster_def)
  ultimately show ?thesis
    unfolding rewriteKubeconfigServer_def load_example_append
    by (simp add: exampleKubeConfig_def)
qed

section \<open>Properties\<close>

text \<open>
  C6. A kubeconfig survives the trip through ArgoCD's JSON text: what \<open>argoConfigFromKubeconfig\<close>
  writes, \<open>restConfigFromArgo\<close> reads back as the token, CA, client certificate, key and insecure
  flag of the current context's cluster and user, at the server asked for. A cluster Secret that
  holds the same text gives the same configuration. The TLS server name is always empty.
\<close>

theorem kubeconfig_to_rest_roundtrip:
  assumes "clientcmd_Load L raw = Inr cfg" and "current cfg = Some (cluster, user)"
    and "ascii (kca_Token user)"
    and "server \<noteq> []"
    and "argoConfigFromKubeconfig L raw = Inr (js, ca, kubeServer)"
    and "idx (s_Data s) ''server'' = server" and "idx (s_Data s) ''config'' = js"
  shows "restConfigFromArgo server js = Inr
      \<lparr>rc_Host = server, rc_BearerToken = kca_Token user,
       rc_Insecure = kcc_InsecureSkipTLSVerify cluster, rc_ServerName = [],
       rc_CAData = kcc_CertificateAuthorityData cluster,
       rc_CertData = kca_ClientCertificateData user, rc_KeyData = kca_ClientKeyData user,
       rc_Timeout = 0\<rparr>
    \<and> restConfigFromArgoSecret s = restConfigFromArgo server js
    \<and> ca = kcc_CertificateAuthorityData cluster \<and> kubeServer = kcc_Server cluster"
proof -
  from assms(1,2,5) have js: "js = marshal_argo (argo_of cluster user)"
      "ca = kcc_CertificateAuthorityData cluster" "kubeServer = kcc_Server cluster"
    by (auto simp: argoConfigFromKubeconfig_ok)
  have "unmarshal_argo js = Inr (argo_of cluster user)"
    unfolding js by (rule unmarshal_argo_of) (rule assms(3))
  moreover have "js \<noteq> []" unfolding js by simp
  ultimately show ?thesis using assms(4,6,7) js
    by (simp add: restConfigFromArgo_def restConfigFromArgoSecret_def rest_of_argo_def argo_of_def)
qed

theorem kubeconfig_to_rest_roundtrip_witness:
  "\<exists>js ca sv. argoConfigFromKubeconfig exampleLib ''kc:https://10.0.0.5:6443'' = Inr (js, ca, sv)
    \<and> restConfigFromArgo ''https://api.c1.lab:6443'' js = Inr
      \<lparr>rc_Host = ''https://api.c1.lab:6443'', rc_BearerToken = ''s3cr<t'', rc_Insecure = False,
       rc_ServerName = [], rc_CAData = ''CA'', rc_CertData = ''CERT'', rc_KeyData = ''KEY'',
       rc_Timeout = 0\<rparr>"
proof -
  let ?raw = "''kc:https://10.0.0.5:6443''" and ?cfg = "exampleKubeConfig ''https://10.0.0.5:6443''"
  let ?srv = "''https://api.c1.lab:6443''"
  obtain cl us where cur: "current ?cfg = Some (cl, us)"
    and cl: "cl = exampleCluster ''https://10.0.0.5:6443''" and us: "us = exampleUser"
    by (simp add: current_exampleKubeConfig)
  obtain js ca sv where js: "argoConfigFromKubeconfig exampleLib ?raw = Inr (js, ca, sv)"
    using cur by (force simp: argoConfigFromKubeconfig_ok load_example)
  let ?s = "\<lparr>s_Meta = new_meta ''argocd'' ''c1'',
    s_Data = fmap_of_list [(''server'', ?srv), (''config'', js)], s_StringData = fmempty\<rparr>"
  have "restConfigFromArgo ?srv js = Inr
      \<lparr>rc_Host = ?srv, rc_BearerToken = kca_Token us, rc_Insecure = kcc_InsecureSkipTLSVerify cl,
       rc_ServerName = [], rc_CAData = kcc_CertificateAuthorityData cl,
       rc_CertData = kca_ClientCertificateData us, rc_KeyData = kca_ClientKeyData us,
       rc_Timeout = 0\<rparr>"
    by (rule kubeconfig_to_rest_roundtrip [of exampleLib ?raw ?cfg cl us ?srv js ca sv ?s, THEN conjunct1])
      (simp_all add: cur js load_example us exampleUser_def idx_def ascii_def)
  with js show ?thesis by (simp add: cl us exampleCluster_def exampleUser_def)
qed

text \<open>
  Rewriting the server of a kubeconfig changes nothing else a cluster Secret is made of: the
  rewritten text gives the same connection JSON and CA, and its server is the new one.
\<close>

theorem rewrite_only_changes_server:
  assumes "kubeconfig_laws L"
    and "argoConfigFromKubeconfig L raw = Inr (js, ca, old)"
    and "rewriteKubeconfigServer L raw server = Inr raw'"
  shows "argoConfigFromKubeconfig L raw' = Inr (js, ca, server)"
proof -
  from assms(2) obtain cfg cluster user where load: "clientcmd_Load L raw = Inr cfg"
    and cur: "current cfg = Some (cluster, user)"
    and r: "js = marshal_argo (argo_of cluster user)" "ca = kcc_CertificateAuthorityData cluster"
    by (auto simp: argoConfigFromKubeconfig_ok)
  from assms(1) load cur assms(3) obtain cfg' where "clientcmd_Load L raw' = Inr cfg'"
    and "current cfg' = Some (cluster\<lparr>kcc_Server := server\<rparr>, user)"
    by (rule rewriteKubeconfigServer_current)
  with r show ?thesis by (simp add: argoConfigFromKubeconfig_ok)
qed

theorem rewrite_only_changes_server_witness:
  "\<exists>js ca. argoConfigFromKubeconfig exampleLib ''kc:https://localhost:8443'' =
      Inr (js, ca, ''https://localhost:8443'')
    \<and> argoConfigFromKubeconfig exampleLib ''kc:https://v1.lab:443'' = Inr (js, ca, ''https://v1.lab:443'')"
proof -
  have "\<exists>js ca. argoConfigFromKubeconfig exampleLib ''kc:https://localhost:8443'' =
      Inr (js, ca, ''https://localhost:8443'')"
    using current_exampleKubeConfig [of "''https://localhost:8443''"]
    by (simp add: argoConfigFromKubeconfig_ok load_example exampleCluster_def)
  then obtain js ca where js: "argoConfigFromKubeconfig exampleLib ''kc:https://localhost:8443'' =
      Inr (js, ca, ''https://localhost:8443'')" by blast
  have "rewriteKubeconfigServer exampleLib ''kc:https://localhost:8443'' ''https://v1.lab:443'' =
      Inr ''kc:https://v1.lab:443''"
    using rewrite_example [of "''https://localhost:8443''" "''https://v1.lab:443''"] by simp
  from rewrite_only_changes_server [OF kubeconfig_laws_example js this] js show ?thesis by blast
qed

end
