(* ===== verification/Readiness.thy ===== *)
theory Readiness
  imports ArgoConfig
begin

text \<open>
  \<open>controller/readiness.go\<close>: the probe of a cluster's \<open>/readyz\<close> and the constants of the
  readiness gate. Sending the request is \<open>ev_RestDo\<close>; an injected probe is \<open>ev_ProbeCluster\<close>.
\<close>

section \<open>strings.TrimSpace\<close>

text \<open>The UTF-8 encodings of the characters \<open>unicode.IsSpace\<close> accepts.\<close>

definition space_encodings :: "string list" where
  "space_encodings =
     map (\<lambda>n. [char_of (n :: nat)]) [9, 10, 11, 12, 13, 32]
     @ map (\<lambda>n. [char_of (194 :: nat), char_of (n :: nat)]) [133, 160]
     @ map (\<lambda>(a, b). [char_of (a :: nat), char_of (b :: nat), CHR 0x80])
         [(225, 154), (227, 128)]
     @ map (\<lambda>n. [CHR 0xE2, CHR 0x80, char_of (n :: nat)])
         [128, 129, 130, 131, 132, 133, 134, 135, 136, 137, 138, 168, 169, 175]
     @ [[CHR 0xE2, CHR 0x81, CHR 0x9F]]"

fun trim_left :: "string list \<Rightarrow> nat \<Rightarrow> string \<Rightarrow> string" where
  "trim_left ps 0 s = s"
| "trim_left ps (Suc n) s = (case find (HasPrefix s) ps of
     None \<Rightarrow> s | Some p \<Rightarrow> trim_left ps n (drop (length p) s))"

definition TrimSpace :: "string \<Rightarrow> string" where
  "TrimSpace s =
     (let t = trim_left space_encodings (length s) s in
      rev (trim_left (map rev space_encodings) (length t) (rev t)))"

section \<open>The probe\<close>

definition labelClusterReady :: string where
  "labelClusterReady = ''clusterbook.stuttgart-things.com/cluster-ready''"

definition conditionClusterReachable :: string where
  "conditionClusterReachable = ''ClusterReachable''"

text \<open>Seconds.\<close>

definition probeTimeout :: nat where
  "probeTimeout = 5"

definition probeRequeue :: nat where
  "probeRequeue = 30"

definition restDo :: "'w env \<Rightarrow> RestConfig \<Rightarrow> HttpRequest \<Rightarrow> ('w, HttpResponse) op" where
  "restDo E cfg r = call (ev_RestDo E cfg r) (\<lambda>x. EProbe cfg (is_ok x))"

definition readyzRequest :: "RestConfig \<Rightarrow> HttpRequest" where
  "readyzRequest cfg = \<lparr>hr_Method = ''GET'', hr_URL = TrimSuffix (rc_Host cfg) ''/'' @ ''/readyz'',
     hr_Body = [], hr_ContentType = []\<rparr>"

definition probeReadyz :: "'w env \<Rightarrow> RestConfig \<Rightarrow> ('w, unit) op" where
  "probeReadyz E cfg0 =
     (let cfg = cfg0\<lparr>rc_Timeout := probeTimeout\<rparr> in
      case HTTPClientForError (ev_lib E) cfg of
        Some e \<Rightarrow> fail (wrap_err ''build HTTP client'' e)
      | None \<Rightarrow>
         (case NewRequestError (ev_lib E) (readyzRequest cfg) of
            Some e \<Rightarrow> fail e
          | None \<Rightarrow> and_then (restDo E cfg (readyzRequest cfg)) (\<lambda>resp.
              if hp_StatusCode resp \<noteq> 200 then
                fail (New (''GET /readyz: HTTP '' @ int_decimal (hp_StatusCode resp) @ '': ''
                  @ TrimSpace (take 256 (hp_Body resp))))
              else ret ())))"

text \<open>\<open>Reconciler.probe\<close>: the injected probe, or \<open>probeReadyz\<close>.\<close>

definition probe :: "'w env \<Rightarrow> RestConfig \<Rightarrow> ('w, unit) op" where
  "probe E cfg = (case ev_ProbeCluster E of
     Some p \<Rightarrow> call (p cfg) (\<lambda>r. EProbe cfg (is_ok r))
   | None \<Rightarrow> probeReadyz E cfg)"

definition probeCluster :: "'w env \<Rightarrow> string \<Rightarrow> string \<Rightarrow> ('w, unit) op" where
  "probeCluster E server argoCfg =
     and_then (lift (restConfigFromArgo server argoCfg)) (probe E)"

fun is_probe :: "event \<Rightarrow> bool" where
  "is_probe (EProbe c b) = True"
| "is_probe _ = False"

lemma emits_probe [emits_intros, intro]:
  "(\<And>c b. P (EProbe c b)) \<Longrightarrow> emits P (probeCluster E server js)"
  unfolding probeCluster_def probe_def probeReadyz_def restDo_def Let_def
  by (intro emits_intros) auto

text \<open>
  Ready means answered 200: the probe succeeds exactly when the client can be built, the request
  is well formed and \<open>/readyz\<close> of the host answers 200.
\<close>

lemma probeReadyz_iff:
  assumes "HTTPClientForError (ev_lib E) (cfg\<lparr>rc_Timeout := 5\<rparr>) = None"
    and "NewRequestError (ev_lib E) (readyzRequest cfg) = None"
  shows "is_ok (fst (probeReadyz E cfg (w, tr))) \<longleftrightarrow>
    (case fst (ev_RestDo E (cfg\<lparr>rc_Timeout := 5\<rparr>) (readyzRequest cfg) w) of
       Inl e \<Rightarrow> False | Inr resp \<Rightarrow> hp_StatusCode resp = 200)"
proof -
  have "readyzRequest (cfg\<lparr>rc_Timeout := 5\<rparr>) = readyzRequest cfg" by (simp add: readyzRequest_def)
  with assms show ?thesis
    by (auto simp: probeReadyz_def restDo_def probeTimeout_def io_defs Let_def
        split: prod.splits sum.splits)
qed

section \<open>Properties\<close>

text \<open>
  C8. The default readiness probe of a rendered cluster asks ArgoCD's own connection: with a
  server and the connection JSON of a kubeconfig, it succeeds exactly when a GET of
  \<open>/readyz\<close> at that server (a trailing slash dropped), with the kubeconfig's credentials and a
  five second timeout, answers 200. A transport error or any other status is not ready.
\<close>

theorem probe_ready_iff_200:
  assumes "ev_ProbeCluster E = None"
    and "clientcmd_Load (ev_lib E) raw = Inr cfg" and "current cfg = Some (cluster, user)"
    and "ascii (kca_Token user)"
    and "argoConfigFromKubeconfig (ev_lib E) raw = Inr (js, ca, kubeServer)"
    and "rest = \<lparr>rc_Host = server, rc_BearerToken = kca_Token user,
       rc_Insecure = kcc_InsecureSkipTLSVerify cluster, rc_ServerName = [],
       rc_CAData = kcc_CertificateAuthorityData cluster,
       rc_CertData = kca_ClientCertificateData user, rc_KeyData = kca_ClientKeyData user,
       rc_Timeout = 5\<rparr>"
    and "req = \<lparr>hr_Method = ''GET'', hr_URL = TrimSuffix server ''/'' @ ''/readyz'',
       hr_Body = [], hr_ContentType = []\<rparr>"
    and "HTTPClientForError (ev_lib E) rest = None" and "NewRequestError (ev_lib E) req = None"
  shows "is_ok (fst (probeCluster E server js (w, tr))) \<longleftrightarrow>
    (case fst (ev_RestDo E rest req w) of
       Inl e \<Rightarrow> False | Inr resp \<Rightarrow> hp_StatusCode resp = 200)"
proof -
  from assms(2,3,5) have js: "js = marshal_argo (argo_of cluster user)"
    by (auto simp: argoConfigFromKubeconfig_ok)
  have "unmarshal_argo js = Inr (argo_of cluster user)"
    unfolding js by (rule unmarshal_argo_of) (rule assms(4))
  then have cfg: "restConfigFromArgo server js = Inr (rest_of_argo server (argo_of cluster user))"
    by (simp add: restConfigFromArgo_def)
  let ?c = "rest_of_argo server (argo_of cluster user)"
  have rest: "?c\<lparr>rc_Timeout := 5\<rparr> = rest" "readyzRequest ?c = req"
    using assms(6,7) by (simp_all add: rest_of_argo_def argo_of_def readyzRequest_def Let_def)
  have "probeCluster E server js = probeReadyz E ?c"
    by (simp add: probeCluster_def cfg probe_def assms(1))
  then show ?thesis
    using probeReadyz_iff [of E ?c w tr, unfolded rest] assms(8,9) by simp
qed

text \<open>A cluster whose API server answers as the given function says.\<close>

definition answering :: "(HttpRequest \<Rightarrow> err + HttpResponse) \<Rightarrow> mem" where
  "answering f = emptyMem\<lparr>mm_Answer := f\<rparr>"

theorem probe_ready_iff_200_witness:
  "\<exists>js ca sv. argoConfigFromKubeconfig exampleLib ''kc:https://10.0.0.5:6443'' = Inr (js, ca, sv)
    \<and> is_ok (fst (probeCluster (memEnv exampleLib) ''https://10.0.0.5:6443/'' js
        (answering (\<lambda>r. if hr_URL r = ''https://10.0.0.5:6443/readyz''
           then Inr \<lparr>hp_StatusCode = 200, hp_Body = ''ok''\<rparr> else Inl (New ''no route'')), [])))
    \<and> \<not> is_ok (fst (probeCluster (memEnv exampleLib) ''https://10.0.0.5:6443/'' js
        (answering (\<lambda>r. Inr \<lparr>hp_StatusCode = 403, hp_Body = []\<rparr>), [])))"
proof -
  let ?raw = "''kc:https://10.0.0.5:6443''" and ?kc = "exampleKubeConfig ''https://10.0.0.5:6443''"
  let ?E = "memEnv exampleLib" and ?srv = "''https://10.0.0.5:6443/''"
  note cur = current_exampleKubeConfig [of "''https://10.0.0.5:6443''"]
  obtain js ca sv where js: "argoConfigFromKubeconfig exampleLib ?raw = Inr (js, ca, sv)"
    using cur by (force simp: argoConfigFromKubeconfig_ok load_example)
  have *: "is_ok (fst (probeCluster ?E ?srv js (w, []))) \<longleftrightarrow>
      (case mm_Answer w \<lparr>hr_Method = ''GET'', hr_URL = ''https://10.0.0.5:6443/readyz'',
         hr_Body = [], hr_ContentType = []\<rparr> of
       Inl e \<Rightarrow> False | Inr resp \<Rightarrow> hp_StatusCode resp = 200)" for w
  proof -
    have "TrimSuffix ?srv ''/'' = ''https://10.0.0.5:6443''"
      by (simp add: TrimSuffix_def HasSuffix_def)
    then show ?thesis
      using probe_ready_iff_200 [where E = ?E and raw = ?raw and cfg = ?kc and server = ?srv
          and js = js and ca = ca and kubeServer = sv and w = w and tr = "[]", OF _ _ cur _ _ refl refl]
        js
      by (simp add: load_example exampleUser_def ascii_def exampleLib_simps)
  qed
  show ?thesis using js * by (auto simp: answering_def)
qed

end
