(* ===== verification/Reservation.thy ===== *)
theory Reservation
  imports CbkClient
begin

text \<open>
  \<open>controller/shared.go\<close>, and the two contracts several reconcilers implement with code of their
  own: the layered reservation of an address (\<open>ensureReservation\<close>, four copies) and the repair of
  a drifted DNS flag (\<open>reconcileDNSDrift\<close>, two copies). Each contract is a locale; the lemmas
  about traffic, recovery and errors are proved once here and reach every reconciler by
  interpretation.
\<close>

section \<open>shared.go\<close>

definition loadProviderConfig :: "'w env \<Rightarrow> string \<Rightarrow> ('w, ClusterbookProviderConfig) op" where
  "loadProviderConfig E name = kGet KProviderConfig (ev_ProviderConfigs E) ([], name)"

definition newClusterbookClient ::
    "'w env \<Rightarrow> ClusterbookProviderConfig \<Rightarrow> ('w, CbkClient) op" where
  "newClusterbookClient E pc =
     (let opts = \<lparr>to_InsecureSkipVerify = pc_InsecureSkipVerify pc, to_CustomCA = []\<rparr> in
      case pc_CustomCASecretRef pc of
        None \<Rightarrow> lift (NewClient (ev_lib E) (pc_APIURL pc) (Some opts))
      | Some ref \<Rightarrow>
          and_then (kGet KSecret (ev_Secrets E) (skr_Namespace ref, skr_Name ref)) (\<lambda>s.
            let key = (if skr_Key ref = [] then ''ca.crt'' else skr_Key ref) in
            lift (NewClient (ev_lib E) (pc_APIURL pc)
              (Some (opts\<lparr>to_CustomCA := idx (s_Data s) key\<rparr>)))))"

lemma emits_shared [emits_intros, intro]:
  "(\<And>k n b. P (EGet k n b)) \<Longrightarrow> emits P (loadProviderConfig E name)"
  "(\<And>k n b. P (EGet k n b)) \<Longrightarrow> emits P (newClusterbookClient E pc)"
  unfolding loadProviderConfig_def newClusterbookClient_def Let_def
  by (auto intro!: emits_intros)

section \<open>Counting events\<close>

definition emits_at_most :: "nat \<Rightarrow> ('e \<Rightarrow> bool) \<Rightarrow> ('w, 'e, 'a) io \<Rightarrow> bool" where
  "emits_at_most n P m \<longleftrightarrow>
     (\<forall>s. \<exists>es. snd (snd (m s)) = snd s @ es \<and> length (filter P es) \<le> n)"

lemma emits_at_most_0: "emits (\<lambda>e. \<not> P e) m \<Longrightarrow> emits_at_most 0 P m"
  unfolding emits_def emits_at_most_def by (metis filter_False le_refl list.size(3) list_all_iff)

lemma emits_at_most_mono: "emits_at_most n P m \<Longrightarrow> n \<le> k \<Longrightarrow> emits_at_most k P m"
  unfolding emits_at_most_def by (meson le_trans)

lemma emits_at_most_call: "emits_at_most 1 P (call op ev)"
  unfolding emits_at_most_def by (auto simp: call_def split: prod.splits)

lemma emits_at_most_and_then:
  assumes m: "emits_at_most i P m" and f: "\<And>x. emits_at_most j P (f x)"
  shows "emits_at_most (i + j) P (and_then m f)"
  unfolding emits_at_most_def
proof
  fix s
  obtain r s1 where ms: "m s = (r, s1)" by (metis surj_pair)
  from m obtain es1 where e1: "snd s1 = snd s @ es1" "length (filter P es1) \<le> i"
    unfolding emits_at_most_def using ms by (metis snd_conv)
  show "\<exists>es. snd (snd (and_then m f s)) = snd s @ es \<and> length (filter P es) \<le> i + j"
  proof (cases r)
    case (Inl e)
    with ms e1 show ?thesis by (intro exI [of _ es1]) (simp add: io_run)
  next
    case (Inr x)
    from f [of x] obtain es2 where e2: "snd (snd (f x s1)) = snd s1 @ es2"
        "length (filter P es2) \<le> j"
      unfolding emits_at_most_def by blast
    with ms e1 Inr show ?thesis by (intro exI [of _ "es1 @ es2"]) (simp add: io_run)
  qed
qed

lemma emits_at_most_wrap: "emits_at_most n P m \<Longrightarrow> emits_at_most n P (wrap msg m)"
  by (simp add: emits_at_most_def)

lemma emits_at_most_trivial [simp]:
  "emits_at_most n P (ret x)" "emits_at_most n P (fail e)" "emits_at_most n P (lift r)"
  by (auto simp: emits_at_most_def io_run)

lemma emits_at_most_ReserveIPs: "emits_at_most 1 P (ReserveIPs E api nk req)"
proof (cases api)
  case (Some c)
  have "emits_at_most (1 + 0) P (and_then (wrap msg (httpDo E hc r)) (\<lambda>x. lift (look x)))"
    for msg hc r and look :: "HttpResponse \<Rightarrow> err + ReserveResponse"
    unfolding httpDo_def
    by (rule emits_at_most_and_then) (auto intro: emits_at_most_wrap simp del: One_nat_def simp: emits_at_most_call)
  with Some show ?thesis by (simp add: ReserveIPs_def apiCall_def split: option.split)
qed simp

section \<open>The reservation contract\<close>

lemmas emits_struct = emits_ret emits_fail emits_lift emits_and_then emits_wrap emits_attempt
  emits_if emits_case_option emits_case_sum emits_case_prod

locale reservation =
  fixes ensure :: "'w env \<Rightarrow> CbkClient option \<Rightarrow> 'cr \<Rightarrow> ('w, 'a) op"
    and statusIP :: "'cr \<Rightarrow> string"
    and networkKey :: "'cr \<Rightarrow> string"
    and name :: "'cr \<Rightarrow> string"
    and request :: "'cr \<Rightarrow> ReserveRequest"
    and known :: "'cr \<Rightarrow> 'a"
    and recovered :: "'cr \<Rightarrow> IPInfo \<Rightarrow> 'a"
    and fresh :: "'cr \<Rightarrow> string list \<Rightarrow> 'a"
    and addr :: "'a \<Rightarrow> string"
  assumes trusts_status: "statusIP cr \<noteq> [] \<Longrightarrow> ensure E api cr = ret (known cr)"
    and lists_then_reserves: "statusIP cr = [] \<Longrightarrow> ensure E api cr =
      and_then (wrap ''list IPs'' (GetIPs E api (networkKey cr))) (\<lambda>ips.
        case find (\<lambda>e. ip_Cluster e = name cr) ips of
          Some e \<Rightarrow> ret (recovered cr e)
        | None \<Rightarrow>
            and_then (wrap ''reserve IP'' (ReserveIPs E api (networkKey cr) (request cr))) (\<lambda>resv.
              if rs_IPs resv = [] then fail (New ''clusterbook returned no IPs'')
              else ret (fresh cr (rs_IPs resv))))"
    and addr_known: "addr (known cr) = statusIP cr"
    and addr_recovered: "addr (recovered cr e) = ip_IP e"
    and addr_fresh: "ips \<noteq> [] \<Longrightarrow> addr (fresh cr ips) = hd ips"
begin

lemma known_no_traffic: "statusIP cr \<noteq> [] \<Longrightarrow> ensure E api cr s = (Inr (known cr), s)"
  by (simp add: trusts_status ret_run)

lemma ensure_emits_http: "(\<And>r b. P (EHttp r b)) \<Longrightarrow> emits P (ensure E api cr)"
  by (cases "statusIP cr = []")
    (auto simp: lists_then_reserves trusts_status intro!: emits_intros)

lemma ensure_http_only: "emits is_http (ensure E api cr)"
  by (rule ensure_emits_http) simp

lemma never_releases: "emits (\<lambda>e. \<not> is_release e) (ensure E api cr)"
proof (cases "statusIP cr = []")
  case True
  have "emits (\<lambda>e. \<not> is_release e) (GetIPs E api nk)" for nk
    by (rule emits_mono [OF emits_reads(1)]) (rule request_kinds)
  moreover have "emits (\<lambda>e. \<not> is_release e) (ReserveIPs E api nk req)" for nk req
    by (rule emits_mono [OF emits_ReserveIPs]) (rule reserve_not_release)
  ultimately show ?thesis
    unfolding lists_then_reserves [OF True] by (intro emits_struct)
qed (auto simp: trusts_status)

lemma at_most_one_reserve: "emits_at_most 1 is_reserve (ensure E api cr)"
proof (cases "statusIP cr = []")
  case True
  have list: "emits_at_most 0 is_reserve (wrap msg (GetIPs E api nk))" for msg nk
    by (rule emits_at_most_wrap, rule emits_at_most_0, rule emits_mono [OF emits_reads(1)])
      (rule request_kinds)
  have tail: "emits_at_most (1 + 0) is_reserve
      (and_then (wrap ''reserve IP'' (ReserveIPs E api (networkKey cr) (request cr))) (\<lambda>resv.
         if rs_IPs resv = [] then fail (New ''clusterbook returned no IPs'')
         else ret (fresh cr (rs_IPs resv))))"
    by (rule emits_at_most_and_then) (auto intro: emits_at_most_wrap emits_at_most_ReserveIPs simp del: One_nat_def)
  have "emits_at_most (0 + 1) is_reserve (ensure E api cr)"
    unfolding lists_then_reserves [OF True]
    by (rule emits_at_most_and_then [OF list]) (use tail in \<open>simp split: option.split\<close>)
  then show ?thesis by simp
qed (simp add: trusts_status)

text \<open>The listing already holds a reservation under our name: it is recovered, nothing reserved.\<close>

lemma recovers:
  assumes "statusIP cr = []" and "GetIPs E api (networkKey cr) s = (Inr ips, s1)"
    and "find (\<lambda>e. ip_Cluster e = name cr) ips = Some e"
  shows "ensure E api cr s = (Inr (recovered cr e), s1)"
  using assms by (simp add: lists_then_reserves io_run)

lemma listing_fails:
  assumes "statusIP cr = []" and "GetIPs E api (networkKey cr) s = (Inl e, s1)"
  shows "ensure E api cr s = (Inl (wrap_err ''list IPs'' e), s1)"
  using assms by (simp add: lists_then_reserves wrap_error io_run)

lemma reserves_fresh:
  assumes "statusIP cr = []" and "GetIPs E api (networkKey cr) s = (Inr ips, s1)"
    and "find (\<lambda>e. ip_Cluster e = name cr) ips = None"
    and "ReserveIPs E api (networkKey cr) (request cr) s1 = (Inr resv, s2)"
  shows "ensure E api cr s =
    (if rs_IPs resv = [] then Inl (New ''clusterbook returned no IPs'')
     else Inr (fresh cr (rs_IPs resv)), s2)"
  using assms
  by (simp add: lists_then_reserves io_run)

text \<open>Every success comes from one of the three layers, in this order of trust.\<close>

lemma ensure_success:
  assumes "ensure E api cr s = (Inr a, t)"
  obtains (Known) "statusIP cr \<noteq> []" and "a = known cr" and "t = s"
  | (Recovered) ips e where "statusIP cr = []"
      and "GetIPs E api (networkKey cr) s = (Inr ips, t)" and "e \<in> set ips"
      and "ip_Cluster e = name cr" and "a = recovered cr e"
  | (Fresh) ips s1 resv where "statusIP cr = []"
      and "GetIPs E api (networkKey cr) s = (Inr ips, s1)"
      and "\<forall>e \<in> set ips. ip_Cluster e \<noteq> name cr"
      and "ReserveIPs E api (networkKey cr) (request cr) s1 = (Inr resv, t)"
      and "rs_IPs resv \<noteq> []" and "a = fresh cr (rs_IPs resv)"
proof (cases "statusIP cr = []")
  case False
  with assms Known show thesis by (simp add: trusts_status ret_run)
next
  case True
  with assms obtain ips s1 where list: "GetIPs E api (networkKey cr) s = (Inr ips, s1)"
    and rest: "(case find (\<lambda>e. ip_Cluster e = name cr) ips of
          Some e \<Rightarrow> ret (recovered cr e)
        | None \<Rightarrow>
            and_then (wrap ''reserve IP'' (ReserveIPs E api (networkKey cr) (request cr))) (\<lambda>resv.
              if rs_IPs resv = [] then fail (New ''clusterbook returned no IPs'')
              else ret (fresh cr (rs_IPs resv)))) s1 = (Inr a, t)"
    by (auto simp: lists_then_reserves elim!: and_then_InrE dest!: wrap_InrD)
  show thesis
  proof (cases "find (\<lambda>e. ip_Cluster e = name cr) ips")
    case (Some e)
    then have "e \<in> set ips" "ip_Cluster e = name cr"
      by (auto simp: find_Some_iff)
    with Some rest True list show thesis by (auto simp: ret_run intro: Recovered)
  next
    case None
    then have "\<forall>e \<in> set ips. ip_Cluster e \<noteq> name cr"
      by (simp add: find_None_iff)
    with None rest True list show thesis
      by (auto simp: ret_run fail_run split: if_splits elim!: and_then_InrE dest!: wrap_InrD
          intro: Fresh)
  qed
qed

text \<open>Once the address is in the status, reconciling again keeps it and sends nothing.\<close>

lemma stable:
  assumes "ensure E api cr s = (Inr a, t)" and "statusIP cr' = addr a" and "addr a \<noteq> []"
  shows "ensure E' api' cr' s' = (Inr (known cr'), s')" and "addr (known cr') = addr a"
  using assms by (simp_all add: known_no_traffic addr_known)

end

section \<open>The DNS drift contract\<close>

definition dnsStatus :: "bool \<Rightarrow> string" where
  "dnsStatus create = (if create then ''ASSIGNED:DNS'' else ''ASSIGNED'')"

lemma Contains_dnsStatus [simp]: "Contains (dnsStatus b) ''DNS'' = b"
  by (simp add: dnsStatus_def HasPrefix_def)

locale dns_drift =
  fixes drift :: "'w env \<Rightarrow> CbkClient option \<Rightarrow> 'cr \<Rightarrow> string \<Rightarrow> ('w, unit) op"
    and networkKey :: "'cr \<Rightarrow> string"
    and name :: "'cr \<Rightarrow> string"
    and createDNS :: "'cr \<Rightarrow> bool"
  assumes drift_eq: "drift E api cr ip =
      and_then (wrap ''list IPs'' (GetIPs E api (networkKey cr))) (\<lambda>ips.
        case find (\<lambda>e. ip_IP e = ip) ips of
          None \<Rightarrow> ret ()
        | Some e \<Rightarrow>
            if Contains (ip_Status e) ''DNS'' = createDNS cr then ret ()
            else wrap ''update IP'' (UpdateIP E api (networkKey cr) ip
              \<lparr>rr_Cluster = name cr, rr_Count = 0, rr_IP = [], rr_CreateDNS = createDNS cr,
               rr_Status = dnsStatus (createDNS cr)\<rparr>))"
begin

lemma drift_emits_http: "(\<And>r b. P (EHttp r b)) \<Longrightarrow> emits P (drift E api cr ip)"
  by (auto simp: drift_eq intro!: emits_intros)

lemma drift_never_reserves: "emits (\<lambda>e. \<not> is_reserve e \<and> \<not> is_release e) (drift E api cr ip)"
proof -
  have "emits (\<lambda>e. \<not> is_reserve e \<and> \<not> is_release e) (GetIPs E api nk)" for nk
    by (rule emits_mono [OF emits_reads(1)]) (simp add: request_kinds)
  moreover have "emits (\<lambda>e. \<not> is_reserve e \<and> \<not> is_release e) (UpdateIP E api nk ip req)"
    for nk req
    by (rule emits_mono [OF emits_UpdateIP]) (simp add: request_kinds)
  ultimately show ?thesis unfolding drift_eq by (intro emits_struct)
qed

text \<open>The server agrees with the spec, or does not list the address: nothing is written.\<close>

lemma drift_converged:
  assumes "GetIPs E api (networkKey cr) s = (Inr ips, s1)"
    and "\<And>e. find (\<lambda>e. ip_IP e = ip) ips = Some e \<Longrightarrow>
           Contains (ip_Status e) ''DNS'' = createDNS cr"
  shows "drift E api cr ip s = (Inr (), s1)"
  using assms
  by (cases "find (\<lambda>e. ip_IP e = ip) ips")
    (simp_all add: drift_eq io_run)

text \<open>The server disagrees: one update, which asks for what the spec says.\<close>

lemma drift_repairs:
  assumes "GetIPs E api (networkKey cr) s = (Inr ips, s1)"
    and "find (\<lambda>e. ip_IP e = ip) ips = Some e"
    and "Contains (ip_Status e) ''DNS'' \<noteq> createDNS cr"
  shows "drift E api cr ip s = wrap ''update IP'' (UpdateIP E api (networkKey cr) ip
      \<lparr>rr_Cluster = name cr, rr_Count = 0, rr_IP = [], rr_CreateDNS = createDNS cr,
       rr_Status = dnsStatus (createDNS cr)\<rparr>) s1"
  using assms by (simp add: drift_eq io_run)

end

end
