(* ===== verification/Finalizers.thy ===== *)
theory Finalizers
  imports Reservation
begin

text \<open>
  The part of \<open>Reconcile\<close> and \<open>finalize\<close> the four reconcilers write alike: adding the finalizer
  before anything is reserved, and removing it only after the cleanup. The second is a contract
  of every \<open>finalize\<close>, stated as a locale.
\<close>

section \<open>Adding the finalizer\<close>

text \<open>
  \<open>if !ContainsFinalizer(&cr, f) { AddFinalizer(&cr, f); r.Update(ctx, &cr) }\<close>. A successful
  \<open>Update\<close> decodes the server's answer into \<open>cr\<close>.
\<close>

definition ensureFinalizer ::
    "lib \<Rightarrow> ('o \<Rightarrow> kobj) \<Rightarrow> ('w, 'o) kclient \<Rightarrow> ('o \<Rightarrow> ObjectMeta)
     \<Rightarrow> ((ObjectMeta \<Rightarrow> ObjectMeta) \<Rightarrow> 'o \<Rightarrow> 'o) \<Rightarrow> string \<Rightarrow> 'o \<Rightarrow> ('w, 'o) op" where
  "ensureFinalizer L emb c meta meta_upd f cr =
     (if \<not> ContainsFinalizer L (meta cr) f
      then kUpdate emb c (meta_upd (\<lambda>m. AddFinalizer L m f) cr)
      else ret cr)"

lemma emits_ensureFinalizer [emits_intros, intro]:
  "(\<And>x b. P (EUpdate x b)) \<Longrightarrow> emits P (ensureFinalizer L emb c meta upd f cr)"
  unfolding ensureFinalizer_def by (intro emits_intros) auto

lemma ensureFinalizer_present:
  "ContainsFinalizer L (meta cr) f \<Longrightarrow> ensureFinalizer L emb c meta upd f cr = ret cr"
  by (simp add: ensureFinalizer_def)

text \<open>The result of a controller: when to come back, in seconds; zero is never.\<close>

record Result =
  res_RequeueAfter :: nat

definition noRequeue :: Result where
  "noRequeue = \<lparr>res_RequeueAfter = 0\<rparr>"

text \<open>\<open>if err := m; err != nil { log }\<close>, and \<open>_ = m\<close>.\<close>

definition ignore :: "('w, 'a) op \<Rightarrow> ('w, unit) op" where
  "ignore m = and_then (attempt m) (\<lambda>r. ret ())"

lemma emits_ignore [emits_intros, intro]: "emits P m \<Longrightarrow> emits P (ignore m)"
  unfolding ignore_def by (intro emits_intros)

lemma ignore_run:
  "ignore m s = (case m s of (Inl e, t) \<Rightarrow> (if is_panic e then Inl e else Inr (), t)
                          | (Inr x, t) \<Rightarrow> (Inr (), t))"
  by (auto simp: ignore_def io_defs split: prod.splits sum.splits)

text \<open>\<open>x, _ := m\<close>: the value, or \<open>nil\<close>.\<close>

definition optional :: "('w, 'a) op \<Rightarrow> ('w, 'a option) op" where
  "optional m = and_then (attempt m) (\<lambda>r. ret (case r of Inl e \<Rightarrow> None | Inr x \<Rightarrow> Some x))"

lemma emits_optional [emits_intros, intro]: "emits P m \<Longrightarrow> emits P (optional m)"
  unfolding optional_def by (intro emits_intros)

lemma optional_run:
  "optional m s = (case m s of (Inl e, t) \<Rightarrow> (if is_panic e then Inl e else Inr None, t)
                            | (Inr x, t) \<Rightarrow> (Inr (Some x), t))"
  by (auto simp: optional_def io_defs split: prod.splits sum.splits)

text \<open>The read every handler starts with.\<close>

lemma attempt_kGet_run:
  "k_Get c n w = (Inr x, w1) \<Longrightarrow>
     and_then (attempt (kGet kd c n)) f (w, tr) = f (Inr x) (w1, tr @ [EGet kd n True])"
  "k_Get c n w = (Inl e, w1) \<Longrightarrow> \<not> is_panic e \<Longrightarrow>
     and_then (attempt (kGet kd c n)) f (w, tr) = f (Inl e) (w1, tr @ [EGet kd n False])"
  by (simp_all add: kGet_def io_defs)

lemma emits_after:
  assumes "emits P m" and "P e"
  shows "\<exists>es. snd (snd (m (w, tr @ [e]))) = tr @ es \<and> list_all P es"
proof -
  obtain es where "snd (snd (m (w, tr @ [e]))) = tr @ [e] @ es" "list_all P es"
    using emits_at [OF assms(1), of w "tr @ [e]"] by auto
  with assms(2) show ?thesis by (intro exI [of _ "e # es"]) simp
qed

section \<open>Removing the finalizer\<close>

locale finalizing =
  fixes finalize :: "'w env \<Rightarrow> 'cr \<Rightarrow> CbkClient option \<Rightarrow> ('w, Result) op"
    and cleanup :: "'w env \<Rightarrow> 'cr \<Rightarrow> CbkClient option \<Rightarrow> ('w, unit) op"
    and emb :: "'cr \<Rightarrow> kobj"
    and store :: "'w env \<Rightarrow> ('w, 'cr) kclient"
    and meta :: "'cr \<Rightarrow> ObjectMeta"
    and meta_upd :: "(ObjectMeta \<Rightarrow> ObjectMeta) \<Rightarrow> 'cr \<Rightarrow> 'cr"
    and name :: string
  assumes finalize_eq: "finalize E cr api =
      (if \<not> ContainsFinalizer (ev_lib E) (meta cr) name then ret noRequeue
       else and_then (cleanup E cr api) (\<lambda>_.
         and_then (kUpdate emb (store E) (meta_upd (\<lambda>m. RemoveFinalizer (ev_lib E) m name) cr))
           (\<lambda>_. ret noRequeue)))"
begin

lemma not_ours:
  "\<not> ContainsFinalizer (ev_lib E) (meta cr) name \<Longrightarrow> finalize E cr api s = (Inr noRequeue, s)"
  by (simp add: finalize_eq ret_run)

text \<open>A failed cleanup ends the finalization: nothing is written, the finalizer stays.\<close>

lemma kept_on_error:
  assumes "ContainsFinalizer (ev_lib E) (meta cr) name" and "cleanup E cr api s = (Inl e, t)"
  shows "finalize E cr api s = (Inl e, t)"
  using assms by (simp add: finalize_eq io_run)

text \<open>Success means: the cleanup succeeded, then the last call removed the finalizer.\<close>

lemma finalize_success:
  assumes "finalize E cr api s = (Inr r, (w', tr'))"
    and "ContainsFinalizer (ev_lib E) (meta cr) name"
  obtains w1 tr1 where "cleanup E cr api s = (Inr (), (w1, tr1))"
    and "tr' = tr1 @ [EUpdate (emb (meta_upd (\<lambda>m. RemoveFinalizer (ev_lib E) m name) cr)) True]"
    and "r = noRequeue"
proof -
  from assms have "and_then (cleanup E cr api) (\<lambda>_.
      and_then (kUpdate emb (store E) (meta_upd (\<lambda>m. RemoveFinalizer (ev_lib E) m name) cr))
           (\<lambda>_. ret noRequeue)) s = (Inr r, (w', tr'))" by (simp add: finalize_eq)
  then obtain x s1 where c: "cleanup E cr api s = (Inr x, s1)"
    and u: "and_then (kUpdate emb (store E) (meta_upd (\<lambda>m. RemoveFinalizer (ev_lib E) m name) cr))
           (\<lambda>_. ret noRequeue) s1 = (Inr r, (w', tr'))"
    by (rule and_then_InrE)
  obtain w1 tr1 where s1: "s1 = (w1, tr1)" by fastforce
  from u obtain y s2 where
    "kUpdate emb (store E) (meta_upd (\<lambda>m. RemoveFinalizer (ev_lib E) m name) cr) s1 = (Inr y, s2)"
    and "ret noRequeue s2 = (Inr r, (w', tr'))"
    by (rule and_then_InrE)
  with s1 have "r = noRequeue"
      "tr' = tr1 @ [EUpdate (emb (meta_upd (\<lambda>m. RemoveFinalizer (ev_lib E) m name) cr)) True]"
    by (auto simp: ret_run dest!: kube_call_InrD)
  with c s1 that show thesis by simp
qed

lemma finalize_emits:
  "emits P (cleanup E cr api) \<Longrightarrow> (\<And>x b. P (EUpdate x b)) \<Longrightarrow> emits P (finalize E cr api)"
  unfolding finalize_eq by (intro emits_intros) auto

end

section \<open>Releasing before letting go\<close>

text \<open>A release that succeeded: the request, and what clusterbook answered.\<close>

definition releaseRequest :: "CbkClient \<Rightarrow> string \<Rightarrow> string \<Rightarrow> HttpRequest" where
  "releaseRequest c nk ip = \<lparr>hr_Method = ''POST'',
     hr_URL = cl_baseURL c @ ''/api/v1/networks/'' @ nk @ ''/release'',
     hr_Body = jprint (enc_ReleaseRequest \<lparr>rl_IP = ip\<rparr>), hr_ContentType = ''application/json''\<rparr>"

lemma ReleaseIPs_InrD:
  assumes "ReleaseIPs E (Some c) nk \<lparr>rl_IP = ip\<rparr> (w, tr) = (Inr u, t)"
  shows "\<exists>resp w'. ev_HttpDo E (cl_httpClient c) (releaseRequest c nk ip) w = (Inr resp, w')
    \<and> hp_StatusCode resp \<in> {200, 204} \<and> t = (w', tr @ [EHttp (releaseRequest c nk ip) True])"
  using apiCall_InrD [OF assms [unfolded ReleaseIPs_def]]
  by (auto simp: releaseRequest_def split: if_splits)

text \<open>
  The calls \<open>es\<close> of a run end with the release \<open>req\<close>, which clusterbook answered with 200 or 204,
  and then the write of \<open>x\<close>.
\<close>

definition releasedFirst ::
    "'w env \<Rightarrow> CbkClient \<Rightarrow> HttpRequest \<Rightarrow> kobj \<Rightarrow> bool \<Rightarrow> event list \<Rightarrow> bool" where
  "releasedFirst E c req x b es \<longleftrightarrow> (\<exists>pre. es = pre @ [EHttp req True, EUpdate x b])
     \<and> (\<exists>w0 resp w1. ev_HttpDo E (cl_httpClient c) req w0 = (Inr resp, w1)
          \<and> hp_StatusCode resp \<in> {200, 204})"

text \<open>A cleanup that takes back what was published and then releases the address.\<close>

locale releasing = finalizing +
  fixes withdraw :: "'w env \<Rightarrow> 'cr \<Rightarrow> ('w, unit) op"
    and wanted :: "'cr \<Rightarrow> bool"
    and networkKey :: "'cr \<Rightarrow> string"
    and address :: "'cr \<Rightarrow> string"
  assumes cleanup_eq: "cleanup E cr (Some c) = and_then (withdraw E cr) (\<lambda>_.
      if wanted cr \<and> address cr \<noteq> []
      then wrap ''release IP'' (ReleaseIPs E (Some c) (networkKey cr) \<lparr>rl_IP = address cr\<rparr>)
      else ret ())"
    and withdraw_spares: "emits (\<lambda>e. \<forall>x b. e \<noteq> EUpdate (emb x) b) (withdraw E cr)"
begin

lemma cleanup_spares: "emits (\<lambda>e. \<forall>x b. e \<noteq> EUpdate (emb x) b) (cleanup E cr (Some c))"
  unfolding cleanup_eq by (intro emits_struct withdraw_spares emits_api_calls) simp

lemma cleanup_releases:
  assumes "cleanup E cr (Some c) (w, tr) = (Inr u, (w', tr'))"
    and "wanted cr" and "address cr \<noteq> []"
    and "req = releaseRequest c (networkKey cr) (address cr)"
  obtains w0 tr0 resp where "ev_HttpDo E (cl_httpClient c) req w0 = (Inr resp, w')"
    and "hp_StatusCode resp \<in> {200, 204}" and "tr' = tr0 @ [EHttp req True]"
proof -
  let ?rel = "wrap ''release IP'' (ReleaseIPs E (Some c) (networkKey cr) \<lparr>rl_IP = address cr\<rparr>)"
  from assms(1-3) have "and_then (withdraw E cr) (\<lambda>_. ?rel) (w, tr) = (Inr u, (w', tr'))"
    by (simp add: cleanup_eq)
  then obtain x s1 where "?rel s1 = (Inr u, (w', tr'))" by (rule and_then_InrE)
  then have "ReleaseIPs E (Some c) (networkKey cr) \<lparr>rl_IP = address cr\<rparr> (fst s1, snd s1) =
      (Inr u, (w', tr'))"
    by (simp only: prod.collapse) (rule wrap_InrD)
  from ReleaseIPs_InrD [OF this] that assms(4) show thesis by blast
qed

text \<open>The resource is written only as the last call, right after the release succeeded.\<close>

lemma removal_needs_release:
  assumes fin: "finalize E cr (Some c) (w, tr) = (r, (w', tr @ es))"
    and upd: "EUpdate (emb x) b \<in> set es"
    and rel: "wanted cr" "address cr \<noteq> []"
  shows "releasedFirst E c (releaseRequest c (networkKey cr) (address cr)) (emb x) b (tr @ es)
    \<and> emb x = emb (meta_upd (\<lambda>m. RemoveFinalizer (ev_lib E) m name) cr)"
proof -
  have has: "ContainsFinalizer (ev_lib E) (meta cr) name"
    using fin upd not_ours [of E cr "Some c" "(w, tr)"] by fastforce
  obtain q w1 tr1 where cl: "cleanup E cr (Some c) (w, tr) = (q, (w1, tr1))"
    by (rule prod_cases3)
  obtain es1 where "tr1 = tr @ es1" "list_all (\<lambda>e. \<forall>x b. e \<noteq> EUpdate (emb x) b) es1"
    using cleanup_spares cl by (rule emitsD)
  then have es1: "tr1 = tr @ es1" "EUpdate (emb x) b \<notin> set es1"
    by (auto simp: list_all_iff)
  show ?thesis
  proof (cases q)
    case (Inl e)
    with kept_on_error [OF has] cl have "finalize E cr (Some c) (w, tr) = (Inl e, (w1, tr1))" by simp
    with fin upd es1 show ?thesis by simp
  next
    case (Inr u)
    let ?cr = "meta_upd (\<lambda>m. RemoveFinalizer (ev_lib E) m name) cr"
    have "\<exists>b'. tr @ es = tr1 @ [EUpdate (emb ?cr) b']"
      using fin has cl Inr
      by (cases "k_Update (store E) ?cr w1")
        (auto simp: finalize_eq kUpdate_def call_def and_then_def ret_def
          split: sum.splits dest: sym [of "tr1 @ _"])
    with es1 upd have last: "tr @ es = tr1 @ [EUpdate (emb x) b]" and x: "emb x = emb ?cr"
      by auto
    from cl Inr have "cleanup E cr (Some c) (w, tr) = (Inr u, (w1, tr1))" by simp
    from cleanup_releases [OF this rel refl] last x show ?thesis
      unfolding releasedFirst_def by (metis append.assoc append_Cons append_Nil)
  qed
qed

end

end
