(* ===== verification/ClusterReconciler.thy ===== *)
theory ClusterReconciler
  imports Finalizers Readiness OwnedMetadata
begin

text \<open>
  \<open>controller/reconciler.go\<close>: the reconciler of \<open>ClusterbookCluster\<close>. It reserves an address (or
  skips that in registration-only mode), and either renders an ArgoCD cluster Secret from a
  kubeconfig or adds metadata to a Secret somebody else owns. The definitions follow the file;
  \<open>Reconciler_Reconcile\<close> is the whole handler.
\<close>

section \<open>Constants and the allocation\<close>

definition finalizer :: string where
  "finalizer = ''clusterbook.stuttgart-things.com/finalizer''"

definition argoSecretTypeLabel :: string where
  "argoSecretTypeLabel = ''argocd.argoproj.io/secret-type''"

definition argoSecretTypeValue :: string where
  "argoSecretTypeValue = ''cluster''"

definition defaultArgoNamespace :: string where
  "defaultArgoNamespace = ''argocd''"

definition defaultPort :: int where
  "defaultPort = 6443"

definition annotationIP :: string where "annotationIP = clusterbookPrefix @ ''ip''"
definition annotationFQDN :: string where "annotationFQDN = clusterbookPrefix @ ''fqdn''"
definition annotationZone :: string where "annotationZone = clusterbookPrefix @ ''zone''"
definition annotationClusterName :: string where
  "annotationClusterName = clusterbookPrefix @ ''cluster-name''"
definition annotationLBRangeStart :: string where
  "annotationLBRangeStart = clusterbookPrefix @ ''lb-range-start''"
definition annotationLBRangeStop :: string where
  "annotationLBRangeStop = clusterbookPrefix @ ''lb-range-stop''"
definition annotationKubeconfigHash :: string where
  "annotationKubeconfigHash = clusterbookPrefix @ ''kubeconfig-hash''"
definition labelClusterType :: string where
  "labelClusterType = clusterbookPrefix @ ''cluster-type''"
definition labelAllocationIP :: string where
  "labelAllocationIP = clusterbookPrefix @ ''allocation-ip''"
definition labelAllocationZone :: string where
  "labelAllocationZone = clusterbookPrefix @ ''allocation-zone''"

record allocation =
  al_IP :: string
  al_LBRangeStart :: string
  al_LBRangeStop :: string

definition isRegistrationOnly :: "ClusterbookCluster \<Rightarrow> bool" where
  "isRegistrationOnly cr =
     (if cc_SkipReservation (cc_Spec cr) then True
      else cc_ClusterType (cc_Spec cr) = ''kind'' \<and> cc_NetworkKey (cc_Spec cr) = [])"

definition registrationOnlyAllocation :: "ClusterbookCluster \<Rightarrow> allocation" where
  "registrationOnlyAllocation cr = (case cc_LBRange (cc_Spec cr) of
     None \<Rightarrow> \<lparr>al_IP = [], al_LBRangeStart = [], al_LBRangeStop = []\<rparr>
   | Some r \<Rightarrow> \<lparr>al_IP = [], al_LBRangeStart = lbr_Start r, al_LBRangeStop = lbr_Stop r\<rparr>)"

section \<open>The watch on source Secrets\<close>

definition referencesSecret :: "ClusterbookCluster \<Rightarrow> string \<Rightarrow> string \<Rightarrow> bool" where
  "referencesSecret cr ns name =
     (if (case cc_KubeconfigSecretRef (cc_Spec cr) of
            None \<Rightarrow> False | Some ref \<Rightarrow> skr_Namespace ref = ns \<and> skr_Name ref = name) then True
      else if (case cc_ExistingSecretRef (cc_Spec cr) of
            None \<Rightarrow> False | Some ref \<Rightarrow> sor_Namespace ref = ns \<and> sor_Name ref = name) then True
      else False)"

definition clustersForSecret :: "'w env \<Rightarrow> string \<Rightarrow> string \<Rightarrow> ('w, objkey list) op" where
  "clustersForSecret E ns name =
     and_then (attempt (kList KCluster (ev_Clusters E))) (\<lambda>r. case r of
       Inl e \<Rightarrow> ret []
     | Inr items \<Rightarrow> ret (map (\<lambda>cr. ([], om_Name (cc_Meta cr)))
         (filter (\<lambda>cr. referencesSecret cr ns name) items)))"

section \<open>Reading the kubeconfig, the server URL\<close>

definition loadKubeconfig :: "'w env \<Rightarrow> SecretKeyRef \<Rightarrow> ('w, string) op" where
  "loadKubeconfig E ref =
     and_then (kGet KSecret (ev_Secrets E) (skr_Namespace ref, skr_Name ref)) (\<lambda>s.
       let key = (if skr_Key ref = [] then ''kubeconfig'' else skr_Key ref) in
       case fmlookup (s_Data s) key of
         None \<Rightarrow> fail (New (''key '' @ Quote key @ '' not found in secret ''
           @ skr_Namespace ref @ ''/'' @ skr_Name ref))
       | Some data \<Rightarrow> ret data)"

definition resolvableHost :: "string \<Rightarrow> string \<Rightarrow> string" where
  "resolvableHost fqdn subdomain =
     (if \<not> HasPrefix fqdn ''*.'' then fqdn
      else (if subdomain = [] then ''api'' else subdomain) @ ''.'' @ TrimPrefix fqdn ''*.'')"

definition buildServerURL ::
    "ClusterbookCluster \<Rightarrow> string \<Rightarrow> string \<Rightarrow> ClusterInfo option \<Rightarrow> string" where
  "buildServerURL cr ip kubeconfigServer info =
     (if cc_PreserveKubeconfigServer (cc_Spec cr) \<and> kubeconfigServer \<noteq> [] then kubeconfigServer
      else
        (let port = (if cc_ServerPort (cc_Spec cr) = 0 then defaultPort
                     else cc_ServerPort (cc_Spec cr));
             host = (case info of
                 None \<Rightarrow> ip
               | Some i \<Rightarrow> if cc_UseFQDNAsServer (cc_Spec cr) \<and> ci_FQDN i \<noteq> []
                           then resolvableHost (ci_FQDN i) (cc_ServerSubdomain (cc_Spec cr))
                           else ip)
         in ''https://'' @ host @ '':'' @ int_decimal port))"

definition argoSecretName :: "ClusterbookCluster \<Rightarrow> string" where
  "argoSecretName cr = ''cluster-'' @ cc_ClusterName (cc_Spec cr)"

definition argoNamespace :: "ClusterbookCluster \<Rightarrow> string" where
  "argoNamespace cr = (if cc_ArgoCDNamespace (cc_Spec cr) = [] then defaultArgoNamespace
     else cc_ArgoCDNamespace (cc_Spec cr))"

section \<open>The desired metadata\<close>

definition put_if :: "bool \<Rightarrow> string \<Rightarrow> string \<Rightarrow> smap \<Rightarrow> smap" where
  "put_if b k v m = (if b then fmupd k v m else m)"

definition argoLabels :: "ClusterbookCluster \<Rightarrow> allocation \<Rightarrow> ClusterInfo option \<Rightarrow> smap" where
  "argoLabels cr alloc info =
     (let l1 = fmupd argoSecretTypeLabel argoSecretTypeValue fmempty;
          l2 = put_if (al_IP alloc \<noteq> []) labelAllocationIP (al_IP alloc) l1;
          l3 = put_if (cc_ClusterType (cc_Spec cr) \<noteq> []) labelClusterType
                 (cc_ClusterType (cc_Spec cr)) l2;
          l4 = fmadd l3 (cc_Labels (cc_Spec cr));
          l5 = put_if (ccs_ClusterReady (cc_Status cr)) labelClusterReady ''true'' l4
      in case info of
           None \<Rightarrow> l5
         | Some i \<Rightarrow> put_if (ci_Zone i \<noteq> []) labelAllocationZone (ci_Zone i) l5)"

text \<open>The annotations both modes manage: name, address, range, DNS facts.\<close>

definition factAnnotations ::
    "ClusterbookCluster \<Rightarrow> allocation \<Rightarrow> ClusterInfo option \<Rightarrow> string \<Rightarrow> smap" where
  "factAnnotations cr alloc info kcHash =
     (let a1 = fmupd annotationClusterName (cc_ClusterName (cc_Spec cr)) fmempty;
          a2 = put_if (kcHash \<noteq> []) annotationKubeconfigHash kcHash a1;
          a3 = put_if (al_IP alloc \<noteq> []) annotationIP (al_IP alloc) a2;
          a4 = put_if (al_LBRangeStart alloc \<noteq> []) annotationLBRangeStart (al_LBRangeStart alloc) a3;
          a5 = put_if (al_LBRangeStop alloc \<noteq> []) annotationLBRangeStop (al_LBRangeStop alloc) a4
      in case info of
           None \<Rightarrow> a5
         | Some i \<Rightarrow> put_if (ci_Zone i \<noteq> []) annotationZone (ci_Zone i)
             (put_if (ci_FQDN i \<noteq> []) annotationFQDN (ci_FQDN i) a5))"

text \<open>\<open>for k, v := range user { if _, ok := m[k]; !ok { m[k] = v } }\<close>\<close>

definition addMissing :: "smap \<Rightarrow> smap \<Rightarrow> smap" where
  "addMissing m user = fmadd user m"

definition argoAnnotations ::
    "ClusterbookCluster \<Rightarrow> allocation \<Rightarrow> ClusterInfo option \<Rightarrow> string \<Rightarrow> smap" where
  "argoAnnotations cr alloc info kcHash =
     addMissing (factAnnotations cr alloc info kcHash) (cc_Annotations (cc_Spec cr))"

text \<open>\<open>for k, v := range user { m[clusterbookPrefix+k] = v }\<close>\<close>

definition prefixed :: "smap \<Rightarrow> smap" where
  "prefixed m = fmap_of_list (map (\<lambda>k. (clusterbookPrefix @ k, idx m k))
     (sorted_list_of_fset (fmdom m)))"

definition enrichLabels :: "ClusterbookCluster \<Rightarrow> smap" where
  "enrichLabels cr =
     put_if (cc_ClusterType (cc_Spec cr) \<noteq> []) labelClusterType (cc_ClusterType (cc_Spec cr))
       (prefixed (cc_Labels (cc_Spec cr)))"

definition enrichAnnotations ::
    "ClusterbookCluster \<Rightarrow> allocation \<Rightarrow> ClusterInfo option \<Rightarrow> smap" where
  "enrichAnnotations cr alloc info =
     addMissing (factAnnotations cr alloc info []) (cc_Annotations (cc_Spec cr))"

text \<open>Looking up a desired label or annotation.\<close>

lemma fmlookup_put_if [simp]:
  "fmlookup (put_if b k v m) k' = (if b \<and> k' = k then Some v else fmlookup m k')"
  by (simp add: put_if_def)

lemma fmlookup_fmadd_case:
  "fmlookup (fmadd m n) k = (case fmlookup n k of None \<Rightarrow> fmlookup m k | Some v \<Rightarrow> Some v)"
  by (auto simp: fmlookup_dom_iff split: option.splits)

lemmas key_defs = argoSecretTypeLabel_def labelAllocationIP_def labelAllocationZone_def
  labelClusterType_def labelClusterReady_def annotationIP_def annotationFQDN_def annotationZone_def
  annotationClusterName_def annotationLBRangeStart_def annotationLBRangeStop_def
  annotationKubeconfigHash_def annotationOwnedLabels_def annotationOwnedAnnotations_def
  clusterbookPrefix_def

lemma distinct_label_keys:
  "distinct [argoSecretTypeLabel, labelAllocationIP, labelAllocationZone, labelClusterType,
     labelClusterReady]"
  by (simp add: key_defs)

lemma distinct_label_keys_rev:
  "distinct [labelClusterReady, labelClusterType, labelAllocationZone, labelAllocationIP,
     argoSecretTypeLabel]"
  using distinct_label_keys by auto

lemma distinct_annotation_keys:
  "distinct [annotationIP, annotationFQDN, annotationZone, annotationClusterName,
     annotationLBRangeStart, annotationLBRangeStop, annotationKubeconfigHash,
     annotationOwnedLabels, annotationOwnedAnnotations]"
  by (simp add: key_defs)

lemma distinct_annotation_keys_rev:
  "distinct [annotationOwnedAnnotations, annotationOwnedLabels, annotationKubeconfigHash,
     annotationLBRangeStop, annotationLBRangeStart, annotationClusterName, annotationZone,
     annotationFQDN, annotationIP]"
  using distinct_annotation_keys by auto

lemmas keys_distinct [simp] =
  distinct_label_keys [simplified]
  distinct_label_keys_rev [simplified]
  distinct_annotation_keys [simplified]
  distinct_annotation_keys_rev [simplified]

lemma fmlookup_argoLabels:
  "fmlookup (argoLabels cr alloc info) k =
     (if (case info of None \<Rightarrow> False | Some i \<Rightarrow> ci_Zone i \<noteq> []) \<and> k = labelAllocationZone
      then map_option ci_Zone info
      else if ccs_ClusterReady (cc_Status cr) \<and> k = labelClusterReady then Some ''true''
      else case fmlookup (cc_Labels (cc_Spec cr)) k of
          Some v \<Rightarrow> Some v
        | None \<Rightarrow>
            if cc_ClusterType (cc_Spec cr) \<noteq> [] \<and> k = labelClusterType
              then Some (cc_ClusterType (cc_Spec cr))
            else if al_IP alloc \<noteq> [] \<and> k = labelAllocationIP then Some (al_IP alloc)
            else if argoSecretTypeLabel = k then Some argoSecretTypeValue
            else None)"
  unfolding argoLabels_def Let_def
  by (cases info) (simp_all only: option.case option.map fmlookup_put_if fmlookup_fmadd_case
      fmupd_lookup fmempty_lookup simp_thms if_False)

lemma annotation_keys_prefixed [simp]:
  "HasPrefix annotationIP clusterbookPrefix" "HasPrefix annotationFQDN clusterbookPrefix"
  "HasPrefix annotationZone clusterbookPrefix" "HasPrefix annotationClusterName clusterbookPrefix"
  "HasPrefix annotationLBRangeStart clusterbookPrefix"
  "HasPrefix annotationLBRangeStop clusterbookPrefix"
  "HasPrefix annotationKubeconfigHash clusterbookPrefix"
  "HasPrefix annotationOwnedLabels clusterbookPrefix"
  "HasPrefix annotationOwnedAnnotations clusterbookPrefix"
  "HasPrefix labelClusterType clusterbookPrefix"
  unfolding annotationIP_def annotationFQDN_def annotationZone_def annotationClusterName_def
    annotationLBRangeStart_def annotationLBRangeStop_def annotationKubeconfigHash_def
    annotationOwnedLabels_def annotationOwnedAnnotations_def labelClusterType_def
  by (rule HasPrefix_append)+

lemma fmlookup_addMissing:
  "fmlookup (addMissing m user) k = (case fmlookup m k of Some v \<Rightarrow> Some v | None \<Rightarrow> fmlookup user k)"
  unfolding addMissing_def fmlookup_fmadd_case by (rule option.case_cong) simp_all

section \<open>Writing the Secrets\<close>

definition argoSecretMutate ::
    "lib \<Rightarrow> ClusterbookCluster \<Rightarrow> smap \<Rightarrow> smap \<Rightarrow> string \<Rightarrow> string \<Rightarrow> Secret \<Rightarrow> err + Secret" where
  "argoSecretMutate L cr labels annotations server cfgJSON s =
     (let m = syncOwned (s_Meta s) labels annotations;
          sd = fmap_of_list [(''name'', cc_ClusterName (cc_Spec cr)), (''server'', server),
                             (''config'', cfgJSON)]
      in case SetControllerReference L KCluster (cc_Meta cr) m of
           Inl e \<Rightarrow> Inl e
         | Inr m' \<Rightarrow> Inr (s\<lparr>s_Meta := m', s_StringData := sd\<rparr>))"

definition upsertArgoSecret ::
    "'w env \<Rightarrow> ClusterbookCluster \<Rightarrow> allocation \<Rightarrow> ClusterInfo option \<Rightarrow> string \<Rightarrow> string
     \<Rightarrow> string \<Rightarrow> ('w, Secret) op" where
  "upsertArgoSecret E cr alloc info server kcHash cfgJSON =
     kUpsert OSecret (ev_Secrets E)
       \<lparr>s_Meta = new_meta (argoNamespace cr) (argoSecretName cr), s_Data = fmempty,
        s_StringData = fmempty\<rparr>
       (argoSecretMutate (ev_lib E) cr (argoLabels cr alloc info)
         (argoAnnotations cr alloc info kcHash) server cfgJSON)"

text \<open>The result is \<open>notFound\<close>.\<close>

definition enrichExistingSecret ::
    "'w env \<Rightarrow> ClusterbookCluster \<Rightarrow> SecretObjectRef \<Rightarrow> allocation \<Rightarrow> ClusterInfo option
     \<Rightarrow> ('w, bool) op" where
  "enrichExistingSecret E cr ref alloc info =
     and_then (attempt (kGet KSecret (ev_Secrets E) (sor_Namespace ref, sor_Name ref))) (\<lambda>r. case r of
       Inl e \<Rightarrow> if IsNotFound e then ret True else fail e
     | Inr secret \<Rightarrow>
         and_then (kUpdate OSecret (ev_Secrets E)
           (secret\<lparr>s_Meta := syncOwned (s_Meta secret) (enrichLabels cr)
              (enrichAnnotations cr alloc info)\<rparr>)) (\<lambda>_. ret False))"

definition stripMeta :: "ObjectMeta \<Rightarrow> ObjectMeta" where
  "stripMeta m =
     (let ours = parseOwnedRecord (idx (om_Annotations m) annotationOwnedAnnotations) in
      m\<lparr>om_Labels := fmfilter (\<lambda>k. \<not> HasPrefix k clusterbookPrefix) (om_Labels m),
        om_Annotations := fmfilter (\<lambda>k. \<not> HasPrefix k clusterbookPrefix)
          (delete_all ours (om_Annotations m))\<rparr>)"

definition stripEnrichedMetadata :: "'w env \<Rightarrow> SecretObjectRef \<Rightarrow> ('w, unit) op" where
  "stripEnrichedMetadata E ref =
     and_then (attempt (kGet KSecret (ev_Secrets E) (sor_Namespace ref, sor_Name ref))) (\<lambda>r. case r of
       Inl e \<Rightarrow> if IsNotFound e then ret () else fail e
     | Inr secret \<Rightarrow>
         and_then (kUpdate OSecret (ev_Secrets E) (secret\<lparr>s_Meta := stripMeta (s_Meta secret)\<rparr>))
           (\<lambda>_. ret ()))"

section \<open>The reservation\<close>

definition resolvedLBStart :: "ClusterbookCluster \<Rightarrow> string" where
  "resolvedLBStart cr = (case cc_LBRange (cc_Spec cr) of
     None \<Rightarrow> []
   | Some r \<Rightarrow> if lbr_Start r \<noteq> [] then lbr_Start r else ccs_LBRangeStart (cc_Status cr))"

definition resolvedLBStop :: "ClusterbookCluster \<Rightarrow> string" where
  "resolvedLBStop cr = (case cc_LBRange (cc_Spec cr) of
     None \<Rightarrow> []
   | Some r \<Rightarrow> if lbr_Stop r \<noteq> [] then lbr_Stop r else ccs_LBRangeStop (cc_Status cr))"

definition knownAllocation :: "ClusterbookCluster \<Rightarrow> allocation" where
  "knownAllocation cr = \<lparr>al_IP = ccs_IP (cc_Status cr), al_LBRangeStart = resolvedLBStart cr,
     al_LBRangeStop = resolvedLBStop cr\<rparr>"

definition recoveredAllocation :: "ClusterbookCluster \<Rightarrow> IPInfo \<Rightarrow> allocation" where
  "recoveredAllocation cr e = (case cc_LBRange (cc_Spec cr) of
     None \<Rightarrow> \<lparr>al_IP = ip_IP e, al_LBRangeStart = [], al_LBRangeStop = []\<rparr>
   | Some r \<Rightarrow>
       if lbr_Start r \<noteq> []
       then \<lparr>al_IP = ip_IP e, al_LBRangeStart = lbr_Start r, al_LBRangeStop = lbr_Stop r\<rparr>
       else \<lparr>al_IP = ip_IP e, al_LBRangeStart = [], al_LBRangeStop = []\<rparr>)"

definition freshAllocation :: "ClusterbookCluster \<Rightarrow> string list \<Rightarrow> allocation" where
  "freshAllocation cr ips = (case cc_LBRange (cc_Spec cr) of
     None \<Rightarrow> \<lparr>al_IP = ips ! 0, al_LBRangeStart = [], al_LBRangeStop = []\<rparr>
   | Some r \<Rightarrow>
       if lbr_Start r \<noteq> []
       then \<lparr>al_IP = ips ! 0, al_LBRangeStart = lbr_Start r, al_LBRangeStop = lbr_Stop r\<rparr>
       else if length ips > 1
       then \<lparr>al_IP = ips ! 0, al_LBRangeStart = ips ! 1, al_LBRangeStop = ips ! (length ips - 1)\<rparr>
       else \<lparr>al_IP = ips ! 0, al_LBRangeStart = [], al_LBRangeStop = []\<rparr>)"

definition reserveCount :: "ClusterbookCluster \<Rightarrow> int" where
  "reserveCount cr = (case cc_LBRange (cc_Spec cr) of
     None \<Rightarrow> 1
   | Some r \<Rightarrow> if lbr_Count r > 0 then wrap64 (1 + lbr_Count r) else 1)"

definition Reconciler_ensureReservation ::
    "'w env \<Rightarrow> CbkClient option \<Rightarrow> ClusterbookCluster \<Rightarrow> ('w, allocation) op" where
  "Reconciler_ensureReservation E api cr =
     (if ccs_IP (cc_Status cr) \<noteq> [] then ret (knownAllocation cr)
      else
        and_then (wrap ''list IPs'' (GetIPs E api (cc_NetworkKey (cc_Spec cr)))) (\<lambda>existing.
          case find (\<lambda>e. ip_Cluster e = cc_ClusterName (cc_Spec cr)) existing of
            Some e \<Rightarrow> ret (recoveredAllocation cr e)
          | None \<Rightarrow>
              and_then (wrap ''reserve IP'' (ReserveIPs E api (cc_NetworkKey (cc_Spec cr))
                \<lparr>rr_Cluster = cc_ClusterName (cc_Spec cr), rr_Count = reserveCount cr, rr_IP = [],
                 rr_CreateDNS = cc_CreateDNS (cc_Spec cr), rr_Status = []\<rparr>)) (\<lambda>resv.
              if rs_IPs resv = [] then fail (New ''clusterbook returned no IPs'')
              else ret (freshAllocation cr (rs_IPs resv)))))"

definition Reconciler_reconcileDNSDrift ::
    "'w env \<Rightarrow> CbkClient option \<Rightarrow> ClusterbookCluster \<Rightarrow> string \<Rightarrow> ('w, unit) op" where
  "Reconciler_reconcileDNSDrift E api cr ip =
     and_then (wrap ''list IPs'' (GetIPs E api (cc_NetworkKey (cc_Spec cr)))) (\<lambda>ips.
       case find (\<lambda>e. ip_IP e = ip) ips of
         None \<Rightarrow> ret ()
       | Some entry \<Rightarrow>
           (let observedDNS = Contains (ip_Status entry) ''DNS'' in
            if observedDNS = cc_CreateDNS (cc_Spec cr) then ret ()
            else wrap ''update IP'' (UpdateIP E api (cc_NetworkKey (cc_Spec cr)) ip
              \<lparr>rr_Cluster = cc_ClusterName (cc_Spec cr), rr_Count = 0, rr_IP = [],
               rr_CreateDNS = cc_CreateDNS (cc_Spec cr),
               rr_Status = dnsStatus (cc_CreateDNS (cc_Spec cr))\<rparr>)))"

section \<open>Finalization\<close>

definition Reconciler_cleanup ::
    "'w env \<Rightarrow> ClusterbookCluster \<Rightarrow> CbkClient option \<Rightarrow> ('w, unit) op" where
  "Reconciler_cleanup E cr api =
     and_then
       (case cc_ExistingSecretRef (cc_Spec cr) of
          Some ref \<Rightarrow> wrap ''strip enriched metadata'' (stripEnrichedMetadata E ref)
        | None \<Rightarrow> ignore (kDelete KSecret (ev_Secrets E) (argoNamespace cr, argoSecretName cr)))
       (\<lambda>_. if api \<noteq> None \<and> cc_ReleaseOnDelete (cc_Spec cr) \<and> ccs_IP (cc_Status cr) \<noteq> []
            then wrap ''release IP'' (ReleaseIPs E api (cc_NetworkKey (cc_Spec cr))
                   \<lparr>rl_IP = ccs_IP (cc_Status cr)\<rparr>)
            else ret ())"

definition Reconciler_finalize ::
    "'w env \<Rightarrow> ClusterbookCluster \<Rightarrow> CbkClient option \<Rightarrow> ('w, Result) op" where
  "Reconciler_finalize E cr api =
     (if \<not> ContainsFinalizer (ev_lib E) (cc_Meta cr) finalizer then ret noRequeue
      else
        and_then (Reconciler_cleanup E cr api) (\<lambda>_.
        and_then (kUpdate OCluster (ev_Clusters E)
          (cc_Meta_update (\<lambda>m. RemoveFinalizer (ev_lib E) m finalizer) cr)) (\<lambda>_.
          ret noRequeue)))"

section \<open>Reconcile\<close>

text \<open>The clusterbook client: built unless the resource is registration-only.\<close>

definition Reconciler_api :: "'w env \<Rightarrow> ClusterbookCluster \<Rightarrow> ('w, CbkClient option) op" where
  "Reconciler_api E cr =
     (if \<not> isRegistrationOnly cr then
        and_then (wrap ''load provider config''
          (loadProviderConfig E (cc_ProviderConfigRef (cc_Spec cr)))) (\<lambda>pc.
        and_then (wrap ''build clusterbook client'' (newClusterbookClient E pc)) (\<lambda>c.
          ret (Some c)))
      else ret None)"

text \<open>The allocation, and what clusterbook knows of the cluster (an error there is ignored).\<close>

definition Reconciler_allocate ::
    "'w env \<Rightarrow> CbkClient option \<Rightarrow> ClusterbookCluster \<Rightarrow> ('w, allocation \<times> ClusterInfo option) op"
  where
  "Reconciler_allocate E api cr =
     (if isRegistrationOnly cr then ret (registrationOnlyAllocation cr, None)
      else
        and_then (Reconciler_ensureReservation E api cr) (\<lambda>alloc.
        and_then (Reconciler_reconcileDNSDrift E api cr (al_IP alloc)) (\<lambda>_.
        and_then (optional (GetClusterInfo E api (cc_ClusterName (cc_Spec cr)))) (\<lambda>info.
          ret (alloc, info)))))"

definition setCondition :: "lib \<Rightarrow> Condition \<Rightarrow> ClusterbookCluster \<Rightarrow> ClusterbookCluster" where
  "setCondition L c cr = cr\<lparr>cc_Status := (cc_Status cr)\<lparr>ccs_Conditions :=
     SetStatusCondition L (ccs_Conditions (cc_Status cr)) c\<rparr>\<rparr>"

definition readyCondition :: Condition where
  "readyCondition = \<lparr>cd_Type = ''Ready'', cd_Status = ''True'', cd_Reason = ''Reconciled'',
     cd_Message = []\<rparr>"

text \<open>Enrich mode: the changed resource, the Secret's name, no hash, no requeue.\<close>

definition Reconciler_enrich ::
    "'w env \<Rightarrow> ClusterbookCluster \<Rightarrow> SecretObjectRef \<Rightarrow> allocation \<Rightarrow> ClusterInfo option
     \<Rightarrow> ('w, ClusterbookCluster \<times> string \<times> string \<times> Result) op" where
  "Reconciler_enrich E cr ref alloc info =
     and_then (wrap ''enrich existing secret'' (enrichExistingSecret E cr ref alloc info)) (\<lambda>notFound.
       let cr' = (if notFound
           then setCondition (ev_lib E) \<lparr>cd_Type = ''Ready'', cd_Status = ''False'',
                  cd_Reason = ''ExistingSecretNotFound'',
                  cd_Message = ''secret '' @ sor_Namespace ref @ ''/'' @ sor_Name ref @ '' not found''\<rparr> cr
           else setCondition (ev_lib E) readyCondition cr)
       in ret (cr', sor_Name ref, [], noRequeue))"

text \<open>The readiness gate: probe until the first success, which is latched in the status.\<close>

definition Reconciler_gate ::
    "'w env \<Rightarrow> ClusterbookCluster \<Rightarrow> string \<Rightarrow> string \<Rightarrow> ('w, ClusterbookCluster \<times> Result) op" where
  "Reconciler_gate E cr server argoCfg =
     (if \<not> ccs_ClusterReady (cc_Status cr) then
        and_then (attempt (probeCluster E server argoCfg)) (\<lambda>r. case r of
          Inl e \<Rightarrow> ret (setCondition (ev_lib E) \<lparr>cd_Type = conditionClusterReachable,
              cd_Status = ''False'', cd_Reason = ''ProbeFailed'', cd_Message = err_text e\<rparr> cr,
            \<lparr>res_RequeueAfter = probeRequeue\<rparr>)
        | Inr u \<Rightarrow> ret (setCondition (ev_lib E) \<lparr>cd_Type = conditionClusterReachable,
              cd_Status = ''True'', cd_Reason = ''ReadyzOK'',
              cd_Message = ''GET '' @ server @ ''/readyz answered 200''\<rparr>
              (cr\<lparr>cc_Status := (cc_Status cr)\<lparr>ccs_ClusterReady := True\<rparr>\<rparr>),
            noRequeue))
      else ret (cr, noRequeue))"

definition Reconciler_render ::
    "'w env \<Rightarrow> ClusterbookCluster \<Rightarrow> allocation \<Rightarrow> ClusterInfo option
     \<Rightarrow> ('w, ClusterbookCluster \<times> string \<times> string \<times> Result) op" where
  "Reconciler_render E cr alloc info =
     (case cc_KubeconfigSecretRef (cc_Spec cr) of
        None \<Rightarrow> fail nil_deref
      | Some ref \<Rightarrow>
          and_then (wrap ''load kubeconfig'' (loadKubeconfig E ref)) (\<lambda>kcfg.
          and_then (wrap ''extract kubeconfig'' (lift (argoConfigFromKubeconfig (ev_lib E) kcfg)))
            (\<lambda>(argoCfg, caData, kubeconfigServer).
            let server = buildServerURL cr (al_IP alloc) kubeconfigServer info;
                kcHash = kubeconfigHash kcfg in
            and_then (Reconciler_gate E cr server argoCfg) (\<lambda>(cr1, result).
            and_then (wrap ''upsert argo secret''
                (upsertArgoSecret E cr1 alloc info server kcHash argoCfg)) (\<lambda>secret.
              ret (setCondition (ev_lib E) readyCondition cr1, om_Name (s_Meta secret), kcHash,
                result))))))"

definition Reconciler_status ::
    "ClusterbookCluster \<Rightarrow> allocation \<Rightarrow> ClusterInfo option \<Rightarrow> string \<Rightarrow> string \<Rightarrow> ClusterbookCluster"
  where
  "Reconciler_status cr alloc info secretName kcHash =
     (let st = (cc_Status cr)\<lparr>ccs_IP := al_IP alloc, ccs_SecretName := secretName,
                 ccs_KubeconfigHash := kcHash, ccs_LBRangeStart := al_LBRangeStart alloc,
                 ccs_LBRangeStop := al_LBRangeStop alloc\<rparr>
      in cr\<lparr>cc_Status := (case info of
           None \<Rightarrow> st | Some i \<Rightarrow> st\<lparr>ccs_FQDN := ci_FQDN i, ccs_Zone := ci_Zone i\<rparr>)\<rparr>)"

definition Reconciler_apply ::
    "'w env \<Rightarrow> CbkClient option \<Rightarrow> ClusterbookCluster \<Rightarrow> ('w, Result) op" where
  "Reconciler_apply E api cr =
     and_then (Reconciler_allocate E api cr) (\<lambda>(alloc, info).
     and_then
       (case cc_ExistingSecretRef (cc_Spec cr) of
          Some ref \<Rightarrow> Reconciler_enrich E cr ref alloc info
        | None \<Rightarrow> Reconciler_render E cr alloc info)
       (\<lambda>(cr', secretName, kcHash, result).
       and_then (ignore (kStatusUpdate OCluster (ev_Clusters E)
           (Reconciler_status cr' alloc info secretName kcHash))) (\<lambda>_.
         ret result)))"

definition Reconciler_Reconcile :: "'w env \<Rightarrow> objkey \<Rightarrow> ('w, Result) op" where
  "Reconciler_Reconcile E key =
     and_then (attempt (kGet KCluster (ev_Clusters E) key)) (\<lambda>r. case r of
       Inl e \<Rightarrow> if IsNotFound e then ret noRequeue else fail e
     | Inr cr \<Rightarrow>
         and_then (Reconciler_api E cr) (\<lambda>api.
           if om_DeletionTimestamp (cc_Meta cr) \<noteq> None then Reconciler_finalize E cr api
           else
             and_then (ensureFinalizer (ev_lib E) OCluster (ev_Clusters E) cc_Meta cc_Meta_update
                 finalizer cr) (\<lambda>cr1.
               Reconciler_apply E api cr1)))"

section \<open>The contracts it implements\<close>

interpretation clusterReservation: reservation Reconciler_ensureReservation
    "\<lambda>cr. ccs_IP (cc_Status cr)" "\<lambda>cr. cc_NetworkKey (cc_Spec cr)"
    "\<lambda>cr. cc_ClusterName (cc_Spec cr)"
    "\<lambda>cr. \<lparr>rr_Cluster = cc_ClusterName (cc_Spec cr), rr_Count = reserveCount cr, rr_IP = [],
       rr_CreateDNS = cc_CreateDNS (cc_Spec cr), rr_Status = []\<rparr>"
    knownAllocation recoveredAllocation freshAllocation al_IP
  by unfold_locales
    (auto simp: Reconciler_ensureReservation_def knownAllocation_def recoveredAllocation_def
      freshAllocation_def hd_conv_nth split: option.split)

interpretation clusterDrift: dns_drift Reconciler_reconcileDNSDrift
    "\<lambda>cr. cc_NetworkKey (cc_Spec cr)" "\<lambda>cr. cc_ClusterName (cc_Spec cr)"
    "\<lambda>cr. cc_CreateDNS (cc_Spec cr)"
  by unfold_locales (unfold Reconciler_reconcileDNSDrift_def Let_def, rule refl)

interpretation clusterFinalizing: finalizing Reconciler_finalize Reconciler_cleanup OCluster
    ev_Clusters cc_Meta cc_Meta_update finalizer
  by unfold_locales (simp add: Reconciler_finalize_def)

lemma emits_strip_cluster:
  "emits (\<lambda>e. \<forall>x b. e \<noteq> EUpdate (OCluster x) b) (stripEnrichedMetadata E ref)"
  unfolding stripEnrichedMetadata_def by (intro emits_struct emits_kGet emits_kUpdate) auto

interpretation clusterReleasing: releasing Reconciler_finalize Reconciler_cleanup OCluster
    ev_Clusters cc_Meta cc_Meta_update finalizer
    "\<lambda>E cr. case cc_ExistingSecretRef (cc_Spec cr) of
       Some ref \<Rightarrow> wrap ''strip enriched metadata'' (stripEnrichedMetadata E ref)
     | None \<Rightarrow> ignore (kDelete KSecret (ev_Secrets E) (argoNamespace cr, argoSecretName cr))"
    "\<lambda>cr. cc_ReleaseOnDelete (cc_Spec cr)" "\<lambda>cr. cc_NetworkKey (cc_Spec cr)"
    "\<lambda>cr. ccs_IP (cc_Status cr)"
proof unfold_locales
  fix E :: "'w env" and cr
  show "emits (\<lambda>e. \<forall>x b. e \<noteq> EUpdate (OCluster x) b)
    (case cc_ExistingSecretRef (cc_Spec cr) of
       Some ref \<Rightarrow> wrap ''strip enriched metadata'' (stripEnrichedMetadata E ref)
     | None \<Rightarrow> ignore (kDelete KSecret (ev_Secrets E) (argoNamespace cr, argoSecretName cr)))"
    by (intro emits_struct emits_ignore emits_kDelete emits_strip_cluster) simp
qed (simp add: Reconciler_cleanup_def cong: if_cong option.case_cong)

section \<open>An example\<close>

text \<open>A resource that reserves in the network \<open>10.31.103\<close>, and a store around it.\<close>

definition exampleSpec :: ClusterbookClusterSpec where
  "exampleSpec = \<lparr>cc_NetworkKey = ''10.31.103'', cc_SkipReservation = False,
     cc_ClusterName = ''c1'', cc_CreateDNS = True, cc_UseFQDNAsServer = True, cc_ServerPort = 0,
     cc_ServerSubdomain = [], cc_PreserveKubeconfigServer = False,
     cc_KubeconfigSecretRef = Some \<lparr>skr_Name = ''kc'', skr_Namespace = ''infra'', skr_Key = []\<rparr>,
     cc_ExistingSecretRef = None, cc_ProviderConfigRef = ''pc'', cc_ArgoCDNamespace = [],
     cc_Labels = fmap_of_list [(''env'', ''lab'')], cc_Annotations = fmempty,
     cc_ReleaseOnDelete = True, cc_ClusterType = [], cc_LBRange = None\<rparr>"

definition exampleStatus :: "string \<Rightarrow> ClusterbookClusterStatus" where
  "exampleStatus ip = \<lparr>ccs_IP = ip, ccs_FQDN = [], ccs_Zone = [], ccs_LBRangeStart = [],
     ccs_LBRangeStop = [], ccs_SecretName = [], ccs_KubeconfigHash = [], ccs_ClusterReady = False,
     ccs_Conditions = []\<rparr>"

definition exampleCluster_CR :: "ClusterbookClusterSpec \<Rightarrow> string \<Rightarrow> ClusterbookCluster" where
  "exampleCluster_CR sp ip = \<lparr>cc_Meta = (new_meta [] ''c1'')\<lparr>om_Finalizers := [finalizer]\<rparr>,
     cc_Spec = sp, cc_Status = exampleStatus ip\<rparr>"

definition exampleWorld ::
    "ClusterbookCluster \<Rightarrow> (HttpRequest \<Rightarrow> err + HttpResponse) \<Rightarrow> mem" where
  "exampleWorld cr answer = emptyMem\<lparr>
     mm_Clusters := fmap_of_list [(([], ''c1''), cr)],
     mm_ProviderConfigs := fmap_of_list [(([], ''pc''), \<lparr>pc_Meta = new_meta [] ''pc'',
       pc_APIURL = ''http://cb/'', pc_InsecureSkipVerify = False, pc_CustomCASecretRef = None\<rparr>)],
     mm_Secrets := fmap_of_list [((''infra'', ''kc''), \<lparr>s_Meta = new_meta ''infra'' ''kc'',
       s_Data = fmap_of_list [(''kubeconfig'', ''kc:https://10.0.0.5:6443'')],
       s_StringData = fmempty\<rparr>)],
     mm_Answer := answer\<rparr>"

definition exampleClient :: CbkClient where
  "exampleClient = \<lparr>cl_baseURL = ''http://cb'', cl_httpClient = \<lparr>hc_TLS = None, hc_Timeout = 30\<rparr>\<rparr>"

text \<open>Always 200, with an empty body.\<close>

definition always_ok :: "HttpRequest \<Rightarrow> err + HttpResponse" where
  "always_ok r = Inr \<lparr>hp_StatusCode = 200, hp_Body = []\<rparr>"

lemmas example_defs = exampleSpec_def exampleStatus_def exampleCluster_CR_def exampleWorld_def
  exampleClient_def always_ok_def emptyMem_def exampleLib_def

text \<open>What running a step on a concrete state unfolds.\<close>

lemmas run_defs = kGet_def kList_def kUpdate_def kStatusUpdate_def kDelete_def kUpsert_run
  ignore_run optional_run io_defs mem_stores apiCall_run

end
