(* ===== verification/ClusterTraffic.thy ===== *)
theory ClusterTraffic
  imports ClusterReconciler
begin

text \<open>
  What the \<open>ClusterbookCluster\<close> reconciler sends: who is called, how often and in which order,
  whatever the outside answers. The lemmas of the first section give each step of the handler its
  place in the event log; the properties follow from them and from the contracts the reconciler
  implements.
\<close>

section \<open>The steps of the handler\<close>

lemma emits_at_most_before:
  "emits (\<lambda>e. \<not> P e) m \<Longrightarrow> (\<And>x. emits_at_most n P (f x)) \<Longrightarrow> emits_at_most n P (and_then m f)"
  using emits_at_most_and_then [OF emits_at_most_0, of P m n f] by simp

lemma emits_at_most_after:
  "emits_at_most n P m \<Longrightarrow> (\<And>x. emits (\<lambda>e. \<not> P e) (f x)) \<Longrightarrow> emits_at_most n P (and_then m f)"
  using emits_at_most_and_then [of n P m 0 f] emits_at_most_0 by fastforce

lemma emits_at_most_of_emits: "emits (\<lambda>e. \<not> P e) m \<Longrightarrow> emits_at_most n P m"
  by (rule emits_at_most_mono [OF emits_at_most_0]) simp_all

text \<open>Events that are not HTTP requests to clusterbook are not reservations or releases.\<close>

lemma not_http_kinds:
  "\<not> is_http e \<Longrightarrow> \<not> is_reserve e"
  "\<not> is_http e \<Longrightarrow> \<not> is_release e"
  "\<not> is_http e \<Longrightarrow> \<not> is_put e"
  by (cases e; simp add: is_reserve_def is_release_def is_put_def)+

lemma emits_secret_steps:
  assumes "\<And>k n b. P (EGet k n b)" and "\<And>x b. P (EUpdate x b)" and "\<And>x b. P (EUpsert x b)"
    and "\<And>k n b. P (EDelete k n b)"
  shows "emits P (enrichExistingSecret E cr ref alloc info)"
    and "emits P (stripEnrichedMetadata E ref)"
    and "emits P (upsertArgoSecret E cr alloc info server kcHash js)"
    and "emits P (loadKubeconfig E kref)"
  using assms
  by (auto simp: enrichExistingSecret_def stripEnrichedMetadata_def upsertArgoSecret_def
      loadKubeconfig_def Let_def intro!: emits_intros)

lemma emits_Reconciler_api:
  "(\<And>k n b. P (EGet k n b)) \<Longrightarrow> emits P (Reconciler_api E cr)"
  unfolding Reconciler_api_def by (intro emits_intros) auto

lemma emits_Reconciler_gate:
  "(\<And>c b. P (EProbe c b)) \<Longrightarrow> emits P (Reconciler_gate E cr server js)"
  unfolding Reconciler_gate_def by (intro emits_intros) auto

lemma emits_Reconciler_render:
  assumes "\<And>k n b. P (EGet k n b)" and "\<And>x b. P (EUpdate x b)" and "\<And>x b. P (EUpsert x b)"
    and "\<And>k n b. P (EDelete k n b)" and "\<And>c b. P (EProbe c b)"
  shows "emits P (Reconciler_render E cr alloc info)"
    and "emits P (Reconciler_enrich E cr sref alloc info)"
  unfolding Reconciler_render_def Reconciler_enrich_def Let_def
  by (intro emits_struct emits_secret_steps emits_Reconciler_gate assms)+

text \<open>Without a client there is no traffic: a call through it panics first.\<close>

lemma emits_allocate_nil: "emits (\<lambda>e. \<not> is_http e) (Reconciler_allocate E None cr)"
  unfolding Reconciler_allocate_def Reconciler_ensureReservation_def
    Reconciler_reconcileDNSDrift_def optional_def Let_def
  by (simp only: api_calls_nil) (intro emits_struct)

lemma emits_cleanup:
  assumes "\<And>k n b. P (EGet k n b)" and "\<And>x b. P (EUpdate x b)" and "\<And>k n b. P (EDelete k n b)"
    and "\<And>rel. api \<noteq> None \<Longrightarrow> emits P (ReleaseIPs E api (cc_NetworkKey (cc_Spec cr)) rel)"
  shows "emits P (Reconciler_cleanup E cr api)"
proof -
  have "emits P (stripEnrichedMetadata E ref)" for ref
    using assms by (auto simp: stripEnrichedMetadata_def intro!: emits_struct)
  then show ?thesis
    unfolding Reconciler_cleanup_def
    by (intro emits_struct emits_ignore emits_kDelete assms) auto
qed

lemma emits_finalize_nil: "emits (\<lambda>e. \<not> is_http e) (Reconciler_finalize E cr None)"
  by (rule clusterFinalizing.finalize_emits) (auto intro: emits_cleanup)

lemma emits_apply:
  assumes "\<And>k n b. P (EGet k n b)" and "\<And>x b. P (EUpdate x b)" and "\<And>x b. P (EUpsert x b)"
    and "\<And>k n b. P (EDelete k n b)" and "\<And>c b. P (EProbe c b)" and "\<And>x b. P (EStatus x b)"
    and "emits P (Reconciler_allocate E api cr)"
  shows "emits P (Reconciler_apply E api cr)"
  unfolding Reconciler_apply_def
  by (intro emits_struct emits_ignore emits_kStatusUpdate emits_Reconciler_render assms)

text \<open>The reservations of one run, counted.\<close>

lemma no_reserve_events [simp]:
  "\<not> is_reserve (EGet k n b)" "\<not> is_reserve (EUpdate x b)" "\<not> is_reserve (EUpsert x b)"
  "\<not> is_reserve (EDelete k n b)" "\<not> is_reserve (EProbe c b)" "\<not> is_reserve (EStatus x b)"
  "\<not> is_release (EGet k n b)" "\<not> is_release (EUpdate x b)" "\<not> is_release (EUpsert x b)"
  "\<not> is_release (EDelete k n b)" "\<not> is_release (EProbe c b)" "\<not> is_release (EStatus x b)"
  "\<not> is_reserve (EList k b)" "\<not> is_release (EList k b)"
  by (simp_all add: is_reserve_def is_release_def)

lemma emits_no_reserve:
  "emits (\<lambda>e. \<not> is_reserve e) (GetClusterInfo E api cl)"
  "emits (\<lambda>e. \<not> is_reserve e) (ReleaseIPs E api nk rel)"
  by (rule emits_mono [OF emits_reads(2)], rule request_kinds, assumption)
    (rule emits_mono [OF emits_ReleaseIPs], use reserve_not_release in blast)

lemma allocate_reserves_once: "emits_at_most 1 is_reserve (Reconciler_allocate E api cr)"
proof -
  have drift: "emits (\<lambda>e. \<not> is_reserve e) (Reconciler_reconcileDNSDrift E api cr ip)" for ip
    by (rule emits_mono [OF clusterDrift.drift_never_reserves]) simp
  have "emits_at_most 1 is_reserve (and_then (Reconciler_ensureReservation E api cr) (\<lambda>alloc.
        and_then (Reconciler_reconcileDNSDrift E api cr (al_IP alloc)) (\<lambda>_.
        and_then (optional (GetClusterInfo E api (cc_ClusterName (cc_Spec cr)))) (\<lambda>info.
          ret (alloc, info)))))"
    by (rule emits_at_most_after [OF clusterReservation.at_most_one_reserve])
      (intro emits_struct emits_optional drift emits_no_reserve)
  then show ?thesis by (simp add: Reconciler_allocate_def)
qed

lemma apply_reserves_once: "emits_at_most 1 is_reserve (Reconciler_apply E api cr)"
  unfolding Reconciler_apply_def
  by (rule emits_at_most_after [OF allocate_reserves_once])
    (intro emits_struct emits_ignore emits_kStatusUpdate emits_Reconciler_render; simp)

text \<open>One run of the handler, by the branches of its prologue.\<close>

lemma Reconcile_emits:
  assumes "\<And>b. P (EGet KCluster key b)"
    and "\<And>cr. emits P (Reconciler_api E cr)"
    and "\<And>cr api. emits P (Reconciler_finalize E cr api)"
    and "\<And>cr api. emits P (Reconciler_apply E api cr)" and "\<And>x b. P (EUpdate x b)"
  shows "emits P (Reconciler_Reconcile E key)"
  unfolding Reconciler_Reconcile_def
  by (intro emits_struct emits_kGet emits_ensureFinalizer assms)

lemma finalize_no_reserve: "emits (\<lambda>e. \<not> is_reserve e) (Reconciler_finalize E cr api)"
  by (rule clusterFinalizing.finalize_emits) (auto intro!: emits_cleanup emits_no_reserve)

text \<open>A registration-only resource has no client to send anything with.\<close>

lemma registration_only_emits:
  assumes "isRegistrationOnly cr"
  shows "emits (\<lambda>e. \<not> is_http e) (and_then (Reconciler_api E cr) (\<lambda>api.
    if om_DeletionTimestamp (cc_Meta cr) \<noteq> None then Reconciler_finalize E cr api
    else and_then (ensureFinalizer (ev_lib E) OCluster (ev_Clusters E) cc_Meta cc_Meta_update
             finalizer cr) (\<lambda>cr1. Reconciler_apply E api cr1)))"
proof -
  have "Reconciler_api E cr = ret None" using assms by (simp add: Reconciler_api_def)
  then show ?thesis
    by (simp only: and_then_ret) (intro emits_if emits_and_then emits_finalize_nil
      emits_ensureFinalizer emits_apply emits_allocate_nil; simp)
qed

text \<open>A resource with an address in its status reserves nothing.\<close>

lemma apply_known_no_reserve:
  assumes "ccs_IP (cc_Status cr) \<noteq> []"
  shows "emits (\<lambda>e. \<not> is_reserve e) (Reconciler_apply E api cr)"
proof -
  have "emits (\<lambda>e. \<not> is_reserve e) (Reconciler_reconcileDNSDrift E api cr ip)" for ip
    by (rule emits_mono [OF clusterDrift.drift_never_reserves]) simp
  then have "emits (\<lambda>e. \<not> is_reserve e) (Reconciler_allocate E api cr)"
    unfolding Reconciler_allocate_def clusterReservation.trusts_status [OF assms]
    by (intro emits_struct emits_optional emits_no_reserve)
  then show ?thesis by (intro emits_apply) simp_all
qed

section \<open>Properties\<close>

text \<open>
  One run of the handler asks clusterbook for at most one reservation, whatever the API
  server, clusterbook and the probed cluster answer.
\<close>

theorem reconcile_reserves_at_most_once:
  "emits_at_most 1 is_reserve (Reconciler_Reconcile E key)"
  unfolding Reconciler_Reconcile_def
proof (rule emits_at_most_before, intro emits_struct emits_kGet, simp)
  fix r :: "err + ClusterbookCluster"
  have "emits_at_most 1 is_reserve (and_then (Reconciler_api E cr) (\<lambda>api.
      if om_DeletionTimestamp (cc_Meta cr) \<noteq> None then Reconciler_finalize E cr api
      else and_then (ensureFinalizer (ev_lib E) OCluster (ev_Clusters E) cc_Meta cc_Meta_update
             finalizer cr) (\<lambda>cr1. Reconciler_apply E api cr1)))" for cr
    by (rule emits_at_most_before, rule emits_Reconciler_api, simp)
      (use finalize_no_reserve apply_reserves_once in
        \<open>auto intro!: emits_at_most_of_emits [OF finalize_no_reserve]
            emits_at_most_before [OF _ apply_reserves_once] emits_ensureFinalizer simp del: One_nat_def\<close>)
  then show "emits_at_most 1 is_reserve
      (case r of Inl e \<Rightarrow> if IsNotFound e then ret noRequeue else fail e
       | Inr cr \<Rightarrow> and_then (Reconciler_api E cr) (\<lambda>api.
           if om_DeletionTimestamp (cc_Meta cr) \<noteq> None then Reconciler_finalize E cr api
           else and_then (ensureFinalizer (ev_lib E) OCluster (ev_Clusters E) cc_Meta cc_Meta_update
             finalizer cr) (\<lambda>cr1. Reconciler_apply E api cr1)))"
    by (cases r) simp_all
qed

text \<open>
  C10. Registration-only resources never involve the clusterbook server: when the resource read is
  registration-only, the run sends no HTTP request to clusterbook, neither to reserve, nor to
  read, nor (on deletion) to release.
\<close>

theorem registration_only_no_clusterbook:
  assumes "k_Get (ev_Clusters E) key w = (Inr cr, w1)" and "isRegistrationOnly cr"
  shows "\<exists>es. snd (snd (Reconciler_Reconcile E key (w, tr))) = tr @ es
    \<and> list_all (\<lambda>e. \<not> is_http e) es"
proof -
  have run: "Reconciler_Reconcile E key (w, tr) = (and_then (Reconciler_api E cr) (\<lambda>api.
    if om_DeletionTimestamp (cc_Meta cr) \<noteq> None then Reconciler_finalize E cr api
    else and_then (ensureFinalizer (ev_lib E) OCluster (ev_Clusters E) cc_Meta cc_Meta_update
             finalizer cr) (\<lambda>cr1. Reconciler_apply E api cr1))) (w1, tr @ [EGet KCluster key True])"
    unfolding Reconciler_Reconcile_def by (simp add: attempt_kGet_run(1) [OF assms(1)] cong: if_cong)
  show ?thesis unfolding run by (rule emits_after [OF registration_only_emits [OF assms(2)]]) simp
qed

definition kindSpec :: ClusterbookClusterSpec where
  "kindSpec = exampleSpec\<lparr>cc_NetworkKey := [], cc_ClusterType := ''kind''\<rparr>"

theorem registration_only_no_clusterbook_witness:
  "\<exists>es. snd (snd (Reconciler_Reconcile (memEnv exampleLib) ([], ''c1'')
       (exampleWorld (exampleCluster_CR kindSpec []) always_ok, []))) = [] @ es
    \<and> list_all (\<lambda>e. \<not> is_http e) es"
  by (rule registration_only_no_clusterbook [of _ _ _ "exampleCluster_CR kindSpec []"
      "exampleWorld (exampleCluster_CR kindSpec []) always_ok"])
    (simp_all add: memClusters_def exampleWorld_def isRegistrationOnly_def exampleCluster_CR_def
      kindSpec_def exampleSpec_def)

text \<open>
  Once the address is in the status it is final: a run over a resource that carries the
  finalizer and a status address sends no reservation, and the allocation it works with has that
  address, whatever clusterbook's listing says.
\<close>

theorem status_address_is_final:
  assumes "k_Get (ev_Clusters E) key w = (Inr cr, w1)" and "ccs_IP (cc_Status cr) \<noteq> []"
    and "ContainsFinalizer (ev_lib E) (cc_Meta cr) finalizer"
  shows "(\<exists>es. snd (snd (Reconciler_Reconcile E key (w, tr))) = tr @ es
      \<and> list_all (\<lambda>e. \<not> is_reserve e) es)
    \<and> Reconciler_ensureReservation E api cr s = (Inr (knownAllocation cr), s)
    \<and> al_IP (knownAllocation cr) = ccs_IP (cc_Status cr)"
proof -
  have app: "emits (\<lambda>e. \<not> is_reserve e) (Reconciler_apply E api cr)" for api
    by (rule apply_known_no_reserve) (rule assms(2))
  let ?rest = "and_then (Reconciler_api E cr) (\<lambda>api.
      if om_DeletionTimestamp (cc_Meta cr) \<noteq> None then Reconciler_finalize E cr api
      else Reconciler_apply E api cr)"
  have "ensureFinalizer (ev_lib E) OCluster (ev_Clusters E) cc_Meta cc_Meta_update finalizer cr = ret cr"
    by (rule ensureFinalizer_present) (rule assms(3))
  then have "Reconciler_Reconcile E key (w, tr) = ?rest (w1, tr @ [EGet KCluster key True])"
    unfolding Reconciler_Reconcile_def
    by (simp add: attempt_kGet_run(1) [OF assms(1)] cong: if_cong)
  moreover have "emits (\<lambda>e. \<not> is_reserve e) ?rest"
    by (intro emits_struct emits_Reconciler_api finalize_no_reserve app) simp
  ultimately have "\<exists>es. snd (snd (Reconciler_Reconcile E key (w, tr))) = tr @ es
      \<and> list_all (\<lambda>e. \<not> is_reserve e) es"
    using emits_after [of "\<lambda>e. \<not> is_reserve e" ?rest "EGet KCluster key True" w1 tr] by simp
  with assms(2) show ?thesis
    by (simp add: clusterReservation.known_no_traffic clusterReservation.addr_known)
qed

theorem status_address_is_final_witness:
  "\<exists>es. snd (snd (Reconciler_Reconcile (memEnv exampleLib) ([], ''c1'')
       (exampleWorld (exampleCluster_CR exampleSpec ''10.31.103.7'') always_ok, []))) = [] @ es
    \<and> list_all (\<lambda>e. \<not> is_reserve e) es"
proof -
  let ?cr = "exampleCluster_CR exampleSpec ''10.31.103.7''"
  have "k_Get (ev_Clusters (memEnv exampleLib)) ([], ''c1'') (exampleWorld ?cr always_ok) =
      (Inr ?cr, exampleWorld ?cr always_ok)"
    by (simp add: memClusters_def exampleWorld_def)
  then show ?thesis
    using status_address_is_final [of "memEnv exampleLib" "([], ''c1'')" "exampleWorld ?cr always_ok"
        ?cr "exampleWorld ?cr always_ok" "[]" None "(emptyMem, [])"]
    by (simp add: exampleCluster_CR_def exampleStatus_def exampleLib_def)
qed

text \<open>
  Deletion releases before it lets go: a resource with \<open>releaseOnDelete\<close> and an address is
  written during finalization (which removes the finalizer) only as the last call of the run, and
  only right after the release of exactly that address, which clusterbook answered with 200 or
  204. When stripping the Secret or releasing fails, the resource is not written at all.
\<close>

theorem finalizer_removal_needs_release:
  assumes "Reconciler_finalize E cr (Some c) (w, tr) = (r, (w', tr @ es))"
    and "EUpdate (OCluster x) b \<in> set es"
    and "cc_ReleaseOnDelete (cc_Spec cr)" and "ccs_IP (cc_Status cr) \<noteq> []"
    and "req = releaseRequest c (cc_NetworkKey (cc_Spec cr)) (ccs_IP (cc_Status cr))"
  shows "(\<exists>pre. tr @ es = pre @ [EHttp req True, EUpdate (OCluster x) b])
    \<and> x = cc_Meta_update (\<lambda>m. RemoveFinalizer (ev_lib E) m finalizer) cr
    \<and> (\<exists>w0 resp w1. ev_HttpDo E (cl_httpClient c) req w0 = (Inr resp, w1)
        \<and> hp_StatusCode resp \<in> {200, 204})"
proof -
  note r = clusterReleasing.removal_needs_release [OF assms(1,2,3,4), folded assms(5)]
  show ?thesis using r unfolding releasedFirst_def kobj.inject by blast
qed

theorem finalizer_removal_needs_release_witness:
  "\<exists>pre x. snd (snd (Reconciler_finalize (memEnv exampleLib)
      (exampleCluster_CR exampleSpec ''10.31.103.7'') (Some exampleClient)
      (exampleWorld (exampleCluster_CR exampleSpec ''10.31.103.7'') always_ok, []))) =
    pre @ [EHttp (releaseRequest exampleClient ''10.31.103'' ''10.31.103.7'') True,
           EUpdate (OCluster x) True]"
proof -
  let ?cr = "exampleCluster_CR exampleSpec ''10.31.103.7''"
  let ?w = "exampleWorld ?cr always_ok"
  let ?x = "cc_Meta_update (\<lambda>m. RemoveFinalizer exampleLib m finalizer) ?cr"
  let ?req = "releaseRequest exampleClient ''10.31.103'' ''10.31.103.7''"
  obtain w' where run: "Reconciler_finalize (memEnv exampleLib) ?cr (Some exampleClient) (?w, []) =
      (Inr noRequeue, (w', [] @ [EDelete KSecret (''argocd'', ''cluster-c1'') False, EHttp ?req True,
        EUpdate (OCluster ?x) True]))"
    by (simp add: Reconciler_finalize_def Reconciler_cleanup_def run_defs ReleaseIPs_def
        releaseRequest_def argoNamespace_def argoSecretName_def defaultArgoNamespace_def
        example_defs meta_key_def)
  have cr: "cc_ReleaseOnDelete (cc_Spec ?cr)" "ccs_IP (cc_Status ?cr) \<noteq> []"
      "?req = releaseRequest exampleClient (cc_NetworkKey (cc_Spec ?cr)) (ccs_IP (cc_Status ?cr))"
    by (simp_all add: exampleCluster_CR_def exampleSpec_def exampleStatus_def)
  from finalizer_removal_needs_release [OF run _ cr, of ?x True] obtain pre where
    pre: "[] @ [EDelete KSecret (''argocd'', ''cluster-c1'') False, EHttp ?req True,
        EUpdate (OCluster ?x) True] = pre @ [EHttp ?req True, EUpdate (OCluster ?x) True]"
    by auto
  have "snd (snd (Reconciler_finalize (memEnv exampleLib) ?cr (Some exampleClient) (?w, []))) =
      pre @ [EHttp ?req True, EUpdate (OCluster ?x) True]"
    unfolding run snd_conv by (rule pre)
  then show ?thesis by blast
qed

end
