(* ===== verification/ClusterBehaviour.thy ===== *)
theory ClusterBehaviour
  imports ClusterTraffic
begin

text \<open>
  What the \<open>ClusterbookCluster\<close> reconciler computes: the allocation and its recovery, the repair
  of the DNS flag, the readiness gate, the server URL, the watch on source Secrets, and what a
  successful rendering run leaves behind.
\<close>

section \<open>A clusterbook server for the examples\<close>

text \<open>It lists the given entries and reserves the given addresses; a PUT is answered 200.\<close>

definition clusterbook_server :: "IPInfo list \<Rightarrow> string list \<Rightarrow> HttpRequest \<Rightarrow> err + HttpResponse" where
  "clusterbook_server es ips r =
     (if hr_Method r = ''GET'' then Inr \<lparr>hp_StatusCode = 200, hp_Body = jprint (enc_IPInfos es)\<rparr>
      else if hr_Method r = ''POST'' then Inr \<lparr>hp_StatusCode = 201,
        hp_Body = jprint (enc_ReserveResponse \<lparr>rs_IPs = ips, rs_Status = []\<rparr>)\<rparr>
      else Inr \<lparr>hp_StatusCode = 200, hp_Body = []\<rparr>)"

definition listRequest :: "string \<Rightarrow> HttpRequest" where
  "listRequest nk = \<lparr>hr_Method = ''GET'',
     hr_URL = cl_baseURL exampleClient @ ''/api/v1/networks/'' @ nk @ ''/ips'',
     hr_Body = [], hr_ContentType = []\<rparr>"

lemma exampleWorld_answer [simp]: "mm_Answer (exampleWorld cr f) = f"
  by (simp add: exampleWorld_def)

lemma example_listing:
  "list_all ascii_IPInfo es \<Longrightarrow>
   GetIPs (memEnv exampleLib) (Some exampleClient) nk (exampleWorld cr (clusterbook_server es ips), tr)
   = (Inr es, (exampleWorld cr (clusterbook_server es ips), tr @ [EHttp (listRequest nk) True]))"
  by (rule GetIPs_listing) (simp_all add: listRequest_def clusterbook_server_def exampleLib_simps)

definition reserveRequest :: "string \<Rightarrow> ReserveRequest \<Rightarrow> HttpRequest" where
  "reserveRequest nk r = \<lparr>hr_Method = ''POST'',
     hr_URL = cl_baseURL exampleClient @ ''/api/v1/networks/'' @ nk @ ''/reserve'',
     hr_Body = jprint (enc_ReserveRequest r), hr_ContentType = ''application/json''\<rparr>"

lemma example_reserve:
  "\<forall>ip \<in> set ips. ascii ip \<Longrightarrow>
   ReserveIPs (memEnv exampleLib) (Some exampleClient) nk r
     (exampleWorld cr (clusterbook_server es ips), tr)
   = (Inr \<lparr>rs_IPs = ips, rs_Status = []\<rparr>,
      (exampleWorld cr (clusterbook_server es ips), tr @ [EHttp (reserveRequest nk r) True]))"
  by (rule ReserveIPs_answer [where st = 201, OF _ _ _ _ refl])
    (simp_all add: reserveRequest_def clusterbook_server_def exampleLib_simps)

definition exampleEntry :: "string \<Rightarrow> string \<Rightarrow> string \<Rightarrow> IPInfo" where
  "exampleEntry ip cluster st = \<lparr>ip_IP = ip, ip_Digit = ''7'', ip_Status = st, ip_Cluster = cluster,
     ip_FQDN = []\<rparr>"

section \<open>Recovering a reservation\<close>

text \<open>A recovered allocation, and an earlier one of the same resource: address and range.\<close>

lemma recovered_vs_fresh:
  "recoveredAllocation cr e = (case cc_LBRange (cc_Spec cr) of
      None \<Rightarrow> freshAllocation cr ips
    | Some r \<Rightarrow> if lbr_Start r = []
        then (freshAllocation cr ips)\<lparr>al_LBRangeStart := [], al_LBRangeStop := []\<rparr>
        else freshAllocation cr ips)\<lparr>al_IP := ip_IP e\<rparr>"
  by (auto simp: recoveredAllocation_def freshAllocation_def split: option.splits)

lemma recovered_vs_recovered:
  "recoveredAllocation cr e = (case cc_LBRange (cc_Spec cr) of
      None \<Rightarrow> recoveredAllocation cr e'
    | Some r \<Rightarrow> if lbr_Start r = []
        then (recoveredAllocation cr e')\<lparr>al_LBRangeStart := [], al_LBRangeStop := []\<rparr>
        else recoveredAllocation cr e')\<lparr>al_IP := ip_IP e\<rparr>"
  by (auto simp: recoveredAllocation_def split: option.splits)

text \<open>
  C13. What is recovered when a status write was lost: \<open>ensureReservation\<close> produced an allocation
  but the status stayed empty, and clusterbook's listing now holds entries under the cluster's
  name. The next run makes one listing and no reservation, and takes the address of the first entry
  under the name; a range pinned in the spec is the same as before, a range the operator reserved
  with \<open>lbRange.count\<close> is not recovered, its start and stop come back empty. The address is the one
  of before when it is the only one listed under the name; with \<open>lbRange.count\<close>, where several
  entries carry the name, it may be another of them.
\<close>

theorem reservation_recovered:
  assumes "ccs_IP (cc_Status cr) = []"
    and "Reconciler_ensureReservation E api cr s = (Inr a, t)"
    and "GetIPs E api (cc_NetworkKey (cc_Spec cr)) t' = (Inr ips, t'')"
    and "\<exists>e \<in> set ips. ip_Cluster e = cc_ClusterName (cc_Spec cr)"
  shows "\<exists>e. find (\<lambda>e. ip_Cluster e = cc_ClusterName (cc_Spec cr)) ips = Some e
    \<and> Reconciler_ensureReservation E api cr t' =
      (Inr ((case cc_LBRange (cc_Spec cr) of
          None \<Rightarrow> a
        | Some r \<Rightarrow> if lbr_Start r = [] then a\<lparr>al_LBRangeStart := [], al_LBRangeStop := []\<rparr> else a)
        \<lparr>al_IP := ip_IP e\<rparr>), t'')
    \<and> ((\<forall>e' \<in> set ips. ip_Cluster e' = cc_ClusterName (cc_Spec cr) \<longrightarrow> ip_IP e' = al_IP a) \<longrightarrow>
        ip_IP e = al_IP a)"
proof -
  from assms(4) obtain e where e: "find (\<lambda>e. ip_Cluster e = cc_ClusterName (cc_Spec cr)) ips = Some e"
    by (cases "find (\<lambda>e. ip_Cluster e = cc_ClusterName (cc_Spec cr)) ips") (auto simp: find_None_iff)
  from assms(1) have "(\<exists>ips. a = freshAllocation cr ips) \<or> (\<exists>e'. a = recoveredAllocation cr e')"
    by (cases rule: clusterReservation.ensure_success [OF assms(2)]) auto
  then have "recoveredAllocation cr e = (case cc_LBRange (cc_Spec cr) of
        None \<Rightarrow> a
      | Some r \<Rightarrow> if lbr_Start r = [] then a\<lparr>al_LBRangeStart := [], al_LBRangeStop := []\<rparr> else a)
      \<lparr>al_IP := ip_IP e\<rparr>"
    using recovered_vs_fresh recovered_vs_recovered by metis
  moreover have "e \<in> set ips" "ip_Cluster e = cc_ClusterName (cc_Spec cr)"
    using e by (auto simp: find_Some_iff)
  ultimately show ?thesis using clusterReservation.recovers [OF assms(1,3) e] e by simp
qed

text \<open>
  Three addresses reserved, the status lost: the range is gone, and the address is the one the
  listing happens to name first.
\<close>

theorem reservation_recovered_witness:
  "(\<exists>s. Reconciler_ensureReservation (memEnv exampleLib) (Some exampleClient)
     (exampleCluster_CR (exampleSpec\<lparr>cc_LBRange := Some \<lparr>lbr_Count = 2, lbr_Start = [], lbr_Stop = []\<rparr>\<rparr>) [])
     (exampleWorld (exampleCluster_CR exampleSpec [])
        (clusterbook_server [exampleEntry ''10.31.103.7'' ''c1'' ''ASSIGNED''] []), [])
   = (Inr \<lparr>al_IP = ''10.31.103.7'', al_LBRangeStart = [], al_LBRangeStop = []\<rparr>, s)
   \<and> snd s = [EHttp (listRequest ''10.31.103'') True])
   \<and> (\<exists>s. Reconciler_ensureReservation (memEnv exampleLib) (Some exampleClient)
     (exampleCluster_CR (exampleSpec\<lparr>cc_LBRange := Some \<lparr>lbr_Count = 2, lbr_Start = [], lbr_Stop = []\<rparr>\<rparr>) [])
     (exampleWorld (exampleCluster_CR exampleSpec [])
        (clusterbook_server [exampleEntry ''10.31.103.8'' ''c1'' ''ASSIGNED'',
           exampleEntry ''10.31.103.7'' ''c1'' ''ASSIGNED''] []), [])
   = (Inr \<lparr>al_IP = ''10.31.103.8'', al_LBRangeStart = [], al_LBRangeStop = []\<rparr>, s))"
proof -
  let ?cr = "exampleCluster_CR (exampleSpec\<lparr>cc_LBRange := Some \<lparr>lbr_Count = 2, lbr_Start = [],
    lbr_Stop = []\<rparr>\<rparr>) []"
  let ?ips = "[''10.31.103.7'', ''10.31.103.8'', ''10.31.103.9'']"
  let ?E = "memEnv exampleLib" and ?c = "Some exampleClient"
  let ?w = "\<lambda>es ips. exampleWorld (exampleCluster_CR exampleSpec []) (clusterbook_server es ips)"
  have nk: "cc_NetworkKey (cc_Spec ?cr) = ''10.31.103''" "ccs_IP (cc_Status ?cr) = []"
    "cc_ClusterName (cc_Spec ?cr) = ''c1''"
    "cc_LBRange (cc_Spec ?cr) = Some \<lparr>lbr_Count = 2, lbr_Start = [], lbr_Stop = []\<rparr>"
    by (simp_all add: exampleCluster_CR_def exampleSpec_def exampleStatus_def)
  have l0: "GetIPs ?E ?c (cc_NetworkKey (cc_Spec ?cr)) (?w [] ?ips, []) =
      (Inr [], (?w [] ?ips, [] @ [EHttp (listRequest ''10.31.103'') True]))"
    unfolding nk by (rule example_listing) simp
  let ?r = "\<lparr>rr_Cluster = cc_ClusterName (cc_Spec ?cr), rr_Count = reserveCount ?cr, rr_IP = [],
       rr_CreateDNS = cc_CreateDNS (cc_Spec ?cr), rr_Status = []\<rparr>"
  let ?t = "(?w [] ?ips, ([] @ [EHttp (listRequest ''10.31.103'') True])
      @ [EHttp (reserveRequest ''10.31.103'' ?r) True])"
  have r0: "ReserveIPs ?E ?c (cc_NetworkKey (cc_Spec ?cr)) ?r
      (?w [] ?ips, [] @ [EHttp (listRequest ''10.31.103'') True])
    = (Inr \<lparr>rs_IPs = ?ips, rs_Status = []\<rparr>, ?t)"
    unfolding nk(1) by (rule example_reserve) (simp add: ascii_def)
  have first: "Reconciler_ensureReservation ?E ?c ?cr (?w [] ?ips, []) =
      (Inr (freshAllocation ?cr ?ips), ?t)"
    using clusterReservation.reserves_fresh [OF nk(2) l0 _ r0] by simp
  have l1: "GetIPs ?E ?c (cc_NetworkKey (cc_Spec ?cr)) (?w es [], []) =
      (Inr es, (?w es [], [] @ [EHttp (listRequest ''10.31.103'') True]))" if "list_all ascii_IPInfo es" for es
    unfolding nk by (rule example_listing) (rule that)
  have asc: "ascii_IPInfo (exampleEntry ''10.31.103.7'' ''c1'' ''ASSIGNED'')"
    "ascii_IPInfo (exampleEntry ''10.31.103.8'' ''c1'' ''ASSIGNED'')"
    by (simp_all add: ascii_IPInfo_def exampleEntry_def ascii_def)
  note again = reservation_recovered [OF nk(2) first l1]
  have "\<exists>s. Reconciler_ensureReservation ?E ?c ?cr (?w [exampleEntry ''10.31.103.7'' ''c1'' ''ASSIGNED''] [], [])
      = (Inr \<lparr>al_IP = ''10.31.103.7'', al_LBRangeStart = [], al_LBRangeStop = []\<rparr>, s)
    \<and> snd s = [EHttp (listRequest ''10.31.103'') True]"
    using again [of "[exampleEntry ''10.31.103.7'' ''c1'' ''ASSIGNED'']"] asc
    by (simp add: nk exampleEntry_def freshAllocation_def)
  moreover have "\<exists>s. Reconciler_ensureReservation ?E ?c ?cr (?w [exampleEntry ''10.31.103.8'' ''c1'' ''ASSIGNED'',
           exampleEntry ''10.31.103.7'' ''c1'' ''ASSIGNED''] [], [])
      = (Inr \<lparr>al_IP = ''10.31.103.8'', al_LBRangeStart = [], al_LBRangeStop = []\<rparr>, s)"
    using again [of "[exampleEntry ''10.31.103.8'' ''c1'' ''ASSIGNED'', exampleEntry ''10.31.103.7'' ''c1'' ''ASSIGNED'']"] asc
    by (simp add: nk exampleEntry_def freshAllocation_def)
  ultimately show ?thesis by (rule conjI)
qed

section \<open>The DNS flag\<close>

text \<open>
  C14. DNS drift is repaired and then left alone. When the listing shows the address with a status
  that disagrees with \<open>spec.createDNS\<close>, \<open>reconcileDNSDrift\<close> is one listing and one update asking
  for the status of the spec; when a later listing shows the status that was asked for, the run
  is one listing and nothing else.
\<close>

theorem dns_drift_repaired_then_quiet:
  assumes "GetIPs E api (cc_NetworkKey (cc_Spec cr)) s = (Inr ips, s1)"
    and "find (\<lambda>e. ip_IP e = ip) ips = Some e"
    and "Contains (ip_Status e) ''DNS'' \<noteq> cc_CreateDNS (cc_Spec cr)"
    and "req = \<lparr>rr_Cluster = cc_ClusterName (cc_Spec cr), rr_Count = 0, rr_IP = [],
       rr_CreateDNS = cc_CreateDNS (cc_Spec cr),
       rr_Status = (if cc_CreateDNS (cc_Spec cr) then ''ASSIGNED:DNS'' else ''ASSIGNED'')\<rparr>"
    and "GetIPs E api (cc_NetworkKey (cc_Spec cr)) s2 = (Inr ips2, s3)"
    and "find (\<lambda>e. ip_IP e = ip) ips2 = Some e2" and "ip_Status e2 = rr_Status req"
  shows "Reconciler_reconcileDNSDrift E api cr ip s =
      wrap ''update IP'' (UpdateIP E api (cc_NetworkKey (cc_Spec cr)) ip req) s1
    \<and> Reconciler_reconcileDNSDrift E api cr ip s2 = (Inr (), s3)"
proof
  show "Reconciler_reconcileDNSDrift E api cr ip s =
      wrap ''update IP'' (UpdateIP E api (cc_NetworkKey (cc_Spec cr)) ip req) s1"
    using clusterDrift.drift_repairs [OF assms(1-3)] assms(4) by (simp add: dnsStatus_def)
  have "Contains (ip_Status e2) ''DNS'' = cc_CreateDNS (cc_Spec cr)"
    using assms(4,7) Contains_dnsStatus [of "cc_CreateDNS (cc_Spec cr)"]
    by (simp add: dnsStatus_def split: if_splits)
  with assms(6) show "Reconciler_reconcileDNSDrift E api cr ip s2 = (Inr (), s3)"
    by (intro clusterDrift.drift_converged [OF assms(5)]) simp
qed

theorem dns_drift_repaired_then_quiet_witness:
  "let E = memEnv exampleLib; cr = exampleCluster_CR exampleSpec ''10.31.103.7'';
       w = (\<lambda>st. exampleWorld cr (clusterbook_server [exampleEntry ''10.31.103.7'' ''DNS'' st] []))
   in Reconciler_reconcileDNSDrift E (Some exampleClient) cr ''10.31.103.7'' (w ''ASSIGNED'', []) =
        wrap ''update IP'' (UpdateIP E (Some exampleClient) ''10.31.103'' ''10.31.103.7''
          \<lparr>rr_Cluster = ''c1'', rr_Count = 0, rr_IP = [], rr_CreateDNS = True,
           rr_Status = ''ASSIGNED:DNS''\<rparr>)
          (w ''ASSIGNED'', [EHttp (listRequest ''10.31.103'') True])
    \<and> Reconciler_reconcileDNSDrift E (Some exampleClient) cr ''10.31.103.7'' (w ''ASSIGNED:DNS'', []) =
        (Inr (), (w ''ASSIGNED:DNS'', [EHttp (listRequest ''10.31.103'') True]))"
proof -
  let ?E = "memEnv exampleLib" and ?cr = "exampleCluster_CR exampleSpec ''10.31.103.7''"
  let ?es = "\<lambda>st. [exampleEntry ''10.31.103.7'' ''DNS'' st]"
  let ?w = "\<lambda>st. exampleWorld ?cr (clusterbook_server (?es st) [])"
  have cr: "cc_NetworkKey (cc_Spec ?cr) = ''10.31.103''" "cc_CreateDNS (cc_Spec ?cr)"
    "cc_ClusterName (cc_Spec ?cr) = ''c1''"
    by (simp_all add: exampleCluster_CR_def exampleSpec_def)
  have list: "GetIPs ?E (Some exampleClient) (cc_NetworkKey (cc_Spec ?cr)) (?w st, []) =
      (Inr (?es st), (?w st, [] @ [EHttp (listRequest ''10.31.103'') True]))" if "ascii st" for st
    unfolding cr by (rule example_listing) (use that in \<open>simp add: ascii_IPInfo_def exampleEntry_def ascii_def\<close>)
  note l0 = list [of "''ASSIGNED''"] and l1 = list [of "''ASSIGNED:DNS''"]
  show ?thesis
    unfolding Let_def
    using dns_drift_repaired_then_quiet [OF l0 _ _ refl l1,
        of "''10.31.103.7''" "exampleEntry ''10.31.103.7'' ''DNS'' ''ASSIGNED''"
           "exampleEntry ''10.31.103.7'' ''DNS'' ''ASSIGNED:DNS''"]
    by (simp add: cr exampleEntry_def ascii_def HasPrefix_def)
qed

section \<open>The readiness gate\<close>

lemma gate_cases:
  assumes "Reconciler_gate E cr server js s = (Inr (cr', res), t)"
  obtains (Latched) "ccs_ClusterReady (cc_Status cr)" and "cr' = cr" and "res = noRequeue" and "t = s"
  | (Failed) e where "\<not> ccs_ClusterReady (cc_Status cr)" and "probeCluster E server js s = (Inl e, t)"
      and "cr' = setCondition (ev_lib E) \<lparr>cd_Type = conditionClusterReachable,
              cd_Status = ''False'', cd_Reason = ''ProbeFailed'', cd_Message = err_text e\<rparr> cr"
      and "res = \<lparr>res_RequeueAfter = probeRequeue\<rparr>"
  | (Passed) "\<not> ccs_ClusterReady (cc_Status cr)" and "probeCluster E server js s = (Inr (), t)"
      and "cr' = setCondition (ev_lib E) \<lparr>cd_Type = conditionClusterReachable,
              cd_Status = ''True'', cd_Reason = ''ReadyzOK'',
              cd_Message = ''GET '' @ server @ ''/readyz answered 200''\<rparr>
              (cr\<lparr>cc_Status := (cc_Status cr)\<lparr>ccs_ClusterReady := True\<rparr>\<rparr>)"
      and "res = noRequeue"
proof (cases "ccs_ClusterReady (cc_Status cr)")
  case True
  with assms have "cr' = cr" "res = noRequeue" "t = s" by (simp_all add: Reconciler_gate_def ret_run)
  with True show thesis by (rule Latched)
next
  case False
  obtain p t' where p: "probeCluster E server js s = (p, t')" by (rule prod.exhaust)
  show thesis
  proof (cases p)
    case (Inl e)
    then have pe: "attempt (probeCluster E server js) s = (if is_panic e then Inl e else Inr (Inl e), t')"
      using p by (simp add: attempt_def)
    have "\<not> is_panic e"
      using assms False by (auto simp: Reconciler_gate_def pe and_then_def split: if_splits)
    then have "(Inr (cr', res), t) = (Inr (setCondition (ev_lib E) \<lparr>cd_Type = conditionClusterReachable,
              cd_Status = ''False'', cd_Reason = ''ProbeFailed'', cd_Message = err_text e\<rparr> cr,
            \<lparr>res_RequeueAfter = probeRequeue\<rparr>), t')"
      using assms False by (simp add: Reconciler_gate_def pe and_then_def ret_def)
    with False p Inl show thesis by (intro Failed [of e]) simp_all
  next
    case (Inr u)
    then have "attempt (probeCluster E server js) s = (Inr (Inr u), t')"
      using p by (simp add: attempt_def)
    then have "(Inr (cr', res), t) = (Inr (setCondition (ev_lib E) \<lparr>cd_Type = conditionClusterReachable,
              cd_Status = ''True'', cd_Reason = ''ReadyzOK'',
              cd_Message = ''GET '' @ server @ ''/readyz answered 200''\<rparr>
              (cr\<lparr>cc_Status := (cc_Status cr)\<lparr>ccs_ClusterReady := True\<rparr>\<rparr>), noRequeue), t')"
      using assms False by (simp add: Reconciler_gate_def and_then_def ret_def)
    with False p Inr show thesis by (intro Passed) simp_all
  qed
qed

lemma setCondition_frame [simp]:
  "cc_Spec (setCondition L c cr) = cc_Spec cr" "cc_Meta (setCondition L c cr) = cc_Meta cr"
  "ccs_ClusterReady (cc_Status (setCondition L c cr)) = ccs_ClusterReady (cc_Status cr)"
  by (simp_all add: setCondition_def)

text \<open>
  C15. The gate is latching and honest. After it, the resource is ready exactly when nothing is
  requeued, and otherwise the run comes back after 30 seconds. A resource already ready passes
  unchanged without a call. A resource becomes ready only by a probe of the server URL that
  succeeded, and then the rendered labels say \<open>cluster-ready=true\<close>; when it is not ready, the label
  is whatever \<open>spec.labels\<close> holds under that key.
\<close>

theorem readiness_gate:
  assumes "Reconciler_gate E cr server js s = (Inr (cr', res), t)"
  shows "(ccs_ClusterReady (cc_Status cr') \<longleftrightarrow> res_RequeueAfter res = 0)
    \<and> res_RequeueAfter res \<in> {0, 30}
    \<and> (ccs_ClusterReady (cc_Status cr) \<longrightarrow> cr' = cr \<and> t = s)
    \<and> (ccs_ClusterReady (cc_Status cr') \<longrightarrow>
         ccs_ClusterReady (cc_Status cr) \<or> is_ok (fst (probeCluster E server js s)))
    \<and> cc_Spec cr' = cc_Spec cr \<and> cc_Meta cr' = cc_Meta cr
    \<and> fmlookup (argoLabels cr' alloc info) labelClusterReady =
        (if ccs_ClusterReady (cc_Status cr') then Some ''true''
         else fmlookup (cc_Labels (cc_Spec cr)) labelClusterReady)"
proof -
  have label: "fmlookup (argoLabels c alloc info) labelClusterReady =
      (if ccs_ClusterReady (cc_Status c) then Some ''true''
       else fmlookup (cc_Labels (cc_Spec c)) labelClusterReady)" for c
    by (simp add: fmlookup_argoLabels split: option.split)
  have "(ccs_ClusterReady (cc_Status cr') \<longleftrightarrow> res_RequeueAfter res = 0)
    \<and> res_RequeueAfter res \<in> {0, 30}
    \<and> (ccs_ClusterReady (cc_Status cr) \<longrightarrow> cr' = cr \<and> t = s)
    \<and> (ccs_ClusterReady (cc_Status cr') \<longrightarrow>
         ccs_ClusterReady (cc_Status cr) \<or> is_ok (fst (probeCluster E server js s)))
    \<and> cc_Spec cr' = cc_Spec cr \<and> cc_Meta cr' = cc_Meta cr"
    by (cases rule: gate_cases [OF assms]) (simp_all add: noRequeue_def probeRequeue_def)
  then show ?thesis by (simp add: label)
qed

text \<open>A rendered configuration that does not parse is not probed successfully.\<close>

theorem readiness_gate_witness:
  "\<exists>cr' res t. Reconciler_gate (memEnv exampleLib) (exampleCluster_CR exampleSpec [])
       ''https://x:6443'' ''{'' (emptyMem, []) = (Inr (cr', res), t)
    \<and> res_RequeueAfter res = 30 \<and> \<not> ccs_ClusterReady (cc_Status cr')"
proof -
  let ?cr = "exampleCluster_CR exampleSpec []"
  have p: "probeCluster (memEnv exampleLib) ''https://x:6443'' ''{'' (emptyMem, []) =
      (Inl (Errorf ''decode argo cluster config'' (New ''invalid JSON'')), (emptyMem, []))"
  proof -
    have "jparse ''{'' = None" by code_simp
    then show ?thesis
      by (simp add: probeCluster_def restConfigFromArgo_def unmarshal_argo_def wrap_err_def io_defs)
  qed
  have nr: "\<not> ccs_ClusterReady (cc_Status ?cr)"
    by (simp add: exampleCluster_CR_def exampleStatus_def)
  obtain cr' res t where g: "Reconciler_gate (memEnv exampleLib) ?cr ''https://x:6443'' ''{''
      (emptyMem, []) = (Inr (cr', res), t)"
    using nr p by (simp add: Reconciler_gate_def attempt_def and_then_def ret_def)
  note gate = readiness_gate [OF g, of undefined undefined]
  have "\<not> ccs_ClusterReady (cc_Status cr')"
    using gate nr p by (metis fst_conv is_ok_simps(1))
  moreover have "ccs_ClusterReady (cc_Status cr') \<longleftrightarrow> res_RequeueAfter res = 0"
    and "res_RequeueAfter res \<in> {0, 30}"
    using gate by blast+
  ultimately have "res_RequeueAfter res = 30" "\<not> ccs_ClusterReady (cc_Status cr')" by auto
  with g show ?thesis by blast
qed

section \<open>The server URL\<close>

lemma resolvableHost_wildcard:
  "resolvableHost (''*.'' @ domain) sub = (if sub = [] then ''api'' else sub) @ ''.'' @ domain"
  unfolding resolvableHost_def TrimPrefix_append
  by (simp only: HasPrefix_append not_True_eq_False if_False)

text \<open>
  C16. The server a rendered Secret points at, in every case. A resource that preserves the
  kubeconfig's server keeps it, provided the kubeconfig names one; so does every resource the API
  server accepts without a network key. Otherwise: a wildcard FQDN never reaches the URL, when the
  FQDN is used the host is the subdomain (\<open>api\<close> by default) under the wildcard's domain; any other
  FQDN is the host as it stands. When the FQDN is not used, or clusterbook has none (no answer, or
  an empty one), the host is the reserved address. The port is 6443 unless the spec names one.
\<close>

theorem server_url:
  assumes "port = int_decimal (if cc_ServerPort (cc_Spec cr) = 0 then 6443
      else cc_ServerPort (cc_Spec cr))"
    and "preserved \<longleftrightarrow> cc_PreserveKubeconfigServer (cc_Spec cr) \<and> k \<noteq> []"
    and "named \<longleftrightarrow> cc_UseFQDNAsServer (cc_Spec cr) \<and> (\<exists>i. info = Some i \<and> ci_FQDN i \<noteq> [])"
  shows "(valid_ClusterbookClusterSpec (cc_Spec cr) \<and> cc_NetworkKey (cc_Spec cr) = [] \<and> k \<noteq> [] \<longrightarrow> preserved)
    \<and> (preserved \<longrightarrow> buildServerURL cr ip k info = k)
    \<and> (\<not> preserved \<and> named \<and> info = Some i \<and> ci_FQDN i = ''*.'' @ domain \<longrightarrow>
      buildServerURL cr ip k info = ''https://'' @ (if cc_ServerSubdomain (cc_Spec cr) = [] then ''api''
        else cc_ServerSubdomain (cc_Spec cr)) @ ''.'' @ domain @ '':'' @ port)
    \<and> (\<not> preserved \<and> named \<and> info = Some i \<and> \<not> HasPrefix (ci_FQDN i) ''*.'' \<longrightarrow>
      buildServerURL cr ip k info = ''https://'' @ ci_FQDN i @ '':'' @ port)
    \<and> (\<not> preserved \<and> \<not> named \<longrightarrow> buildServerURL cr ip k info = ''https://'' @ ip @ '':'' @ port)"
proof -
  have url: "buildServerURL cr ip k info = ''https://'' @ (case info of
        Some i \<Rightarrow> if named then resolvableHost (ci_FQDN i) (cc_ServerSubdomain (cc_Spec cr)) else ip
      | None \<Rightarrow> ip) @ '':'' @ port" if "\<not> preserved"
    using that by (cases info) (auto simp: assms buildServerURL_def Let_def defaultPort_def)
  have plain: "resolvableHost f sub = f" if "\<not> HasPrefix f ''*.''" for f sub
    using that unfolding resolvableHost_def by (simp only: if_True not_False_eq_True)
  show ?thesis
  proof (intro conjI impI; (elim conjE)?)
    show "buildServerURL cr ip k info = ''https://'' @ (if cc_ServerSubdomain (cc_Spec cr) = [] then ''api''
        else cc_ServerSubdomain (cc_Spec cr)) @ ''.'' @ domain @ '':'' @ port"
      if "\<not> preserved" "named" "info = Some i" and fqdn: "ci_FQDN i = ''*.'' @ domain"
      using url that(1-3) unfolding that(3) option.case fqdn resolvableHost_wildcard by simp
  next
    show "buildServerURL cr ip k info = ''https://'' @ ci_FQDN i @ '':'' @ port"
      if "\<not> preserved" "named" "info = Some i" "\<not> HasPrefix (ci_FQDN i) ''*.''"
      using url that plain [OF that(4)] by simp
  next
    show "buildServerURL cr ip k info = ''https://'' @ ip @ '':'' @ port"
      if "\<not> preserved" "\<not> named"
      using url that by (simp split: option.splits)
  qed (simp_all add: assms(2) valid_ClusterbookClusterSpec_def buildServerURL_def)
qed

theorem server_url_witness:
  "buildServerURL (exampleCluster_CR exampleSpec []) ''10.31.103.7'' ''https://10.0.0.5:6443''
     (Some \<lparr>ci_Cluster = ''c1'', ci_FQDN = ''*.c1.lab'', ci_Zone = ''lab''\<rparr>) =
     ''https://'' @ ''api'' @ ''.'' @ ''c1.lab'' @ '':'' @ int_decimal 6443
   \<and> buildServerURL (exampleCluster_CR exampleSpec []) ''10.31.103.7'' ''https://10.0.0.5:6443''
     (Some \<lparr>ci_Cluster = ''c1'', ci_FQDN = [], ci_Zone = ''lab''\<rparr>) =
     ''https://'' @ ''10.31.103.7'' @ '':'' @ int_decimal 6443"
  using server_url [where cr = "exampleCluster_CR exampleSpec []" and ip = "''10.31.103.7''"
      and k = "''https://10.0.0.5:6443''" and domain = "''c1.lab''"
      and i = "\<lparr>ci_Cluster = ''c1'', ci_FQDN = ''*.c1.lab'', ci_Zone = ''lab''\<rparr>"
      and info = "Some \<lparr>ci_Cluster = ''c1'', ci_FQDN = ''*.c1.lab'', ci_Zone = ''lab''\<rparr>", OF refl refl refl]
    server_url [where cr = "exampleCluster_CR exampleSpec []" and ip = "''10.31.103.7''"
      and k = "''https://10.0.0.5:6443''"
      and info = "Some \<lparr>ci_Cluster = ''c1'', ci_FQDN = [], ci_Zone = ''lab''\<rparr>", OF refl refl refl]
  by (simp add: exampleCluster_CR_def exampleSpec_def)

text \<open>
  The validation rules do not close the registration-only path: there is a specification the
  API server accepts with \<open>skipReservation\<close> and a network key, for which every run renders the
  server URL \<open>https://:6443\<close>, with no host, whatever the kubeconfig's server is.
\<close>

theorem skip_reservation_without_host:
  "\<exists>sp. valid_ClusterbookClusterSpec sp \<and> cc_SkipReservation sp
    \<and> (\<forall>cr k. isRegistrationOnly (cr\<lparr>cc_Spec := sp\<rparr>)
        \<and> buildServerURL (cr\<lparr>cc_Spec := sp\<rparr>)
            (al_IP (registrationOnlyAllocation (cr\<lparr>cc_Spec := sp\<rparr>))) k None = ''https://:6443'')"
proof (intro exI conjI allI)
  let ?sp = "exampleSpec\<lparr>cc_SkipReservation := True\<rparr>"
  show "valid_ClusterbookClusterSpec ?sp"
    by (simp add: valid_ClusterbookClusterSpec_def exampleSpec_def b2n_def)
  show "cc_SkipReservation ?sp" by simp
  fix cr :: ClusterbookCluster and k
  let ?cr = "cr\<lparr>cc_Spec := ?sp\<rparr>"
  show "isRegistrationOnly ?cr" by (simp add: isRegistrationOnly_def)
  have "int_decimal 6443 = ''6443''"
    by (simp add: int_decimal_def nat_decimal.simps digit_def char_of_def bit_0)
  then show "buildServerURL ?cr (al_IP (registrationOnlyAllocation ?cr)) k None = ''https://:6443''"
    by (simp add: buildServerURL_def defaultPort_def registrationOnlyAllocation_def exampleSpec_def)
qed

section \<open>The watch on source Secrets\<close>

text \<open>
  No source Secret is missed: a Secret event is mapped onto exactly the resources whose
  \<open>kubeconfigSecretRef\<close> or \<open>existingSecretRef\<close> names that Secret, in the order of the listing, and
  onto none when the listing fails.
\<close>

theorem secret_watch_complete:
  assumes "k_List (ev_Clusters E) w = (r, w')" and "\<And>e. r = Inl e \<Longrightarrow> \<not> is_panic e"
  shows "\<exists>keys. clustersForSecret E ns name (w, tr) = (Inr keys, (w', tr @ [EList KCluster (is_ok r)]))
    \<and> set keys = {([], om_Name (cc_Meta cr)) | cr. (\<exists>items. r = Inr items \<and> cr \<in> set items)
        \<and> ((\<exists>key. cc_KubeconfigSecretRef (cc_Spec cr) =
                 Some \<lparr>skr_Name = name, skr_Namespace = ns, skr_Key = key\<rparr>)
           \<or> cc_ExistingSecretRef (cc_Spec cr) = Some \<lparr>sor_Name = name, sor_Namespace = ns\<rparr>)}"
proof -
  have ref: "referencesSecret cr ns name \<longleftrightarrow>
      (\<exists>key. cc_KubeconfigSecretRef (cc_Spec cr) =
                 Some \<lparr>skr_Name = name, skr_Namespace = ns, skr_Key = key\<rparr>)
       \<or> cc_ExistingSecretRef (cc_Spec cr) = Some \<lparr>sor_Name = name, sor_Namespace = ns\<rparr>" for cr
  proof -
    have "(skr_Namespace s = ns \<and> skr_Name s = name) =
        (\<exists>key. s = \<lparr>skr_Name = name, skr_Namespace = ns, skr_Key = key\<rparr>)" for s
      by (cases s) auto
    moreover have "(sor_Namespace s = ns \<and> sor_Name s = name) =
        (s = \<lparr>sor_Name = name, sor_Namespace = ns\<rparr>)" for s
      by (cases s) auto
    ultimately show ?thesis by (simp add: referencesSecret_def split: option.split)
  qed
  show ?thesis
  proof (cases r)
    case (Inl e)
    with assms show ?thesis
      by (simp add: clustersForSecret_def kList_def io_defs)
  next
    case (Inr items)
    with assms(1) show ?thesis
      by (auto simp: clustersForSecret_def kList_def io_defs ref)
  qed
qed

theorem secret_watch_complete_witness:
  "\<exists>keys. clustersForSecret (memEnv exampleLib) ''infra'' ''kc''
      (exampleWorld (exampleCluster_CR exampleSpec []) always_ok, []) =
      (Inr keys, (exampleWorld (exampleCluster_CR exampleSpec []) always_ok, [EList KCluster True]))
    \<and> ([], ''c1'') \<in> set keys"
proof -
  let ?w = "exampleWorld (exampleCluster_CR exampleSpec []) always_ok"
  have l: "k_List (ev_Clusters (memEnv exampleLib)) ?w = (Inr [exampleCluster_CR exampleSpec []], ?w)"
    by (simp add: memClusters_def mem_client_def exampleWorld_def sorted_list_of_fset.rep_eq)
  have cr: "om_Name (cc_Meta (exampleCluster_CR exampleSpec [])) = ''c1''"
    "cc_KubeconfigSecretRef (cc_Spec (exampleCluster_CR exampleSpec [])) =
      Some \<lparr>skr_Name = ''kc'', skr_Namespace = ''infra'', skr_Key = []\<rparr>"
    by (simp_all add: exampleCluster_CR_def exampleSpec_def)
  show ?thesis
    using secret_watch_complete [OF l, of "''infra''" "''kc''" "[]"] cr by auto
qed

end
