(* ===== verification/ClusterSecrets.thy ===== *)
theory ClusterSecrets
  imports ClusterBehaviour
begin

text \<open>
  What the \<open>ClusterbookCluster\<close> reconciler writes: the rendered ArgoCD cluster Secret as it ends up
  in the store, the metadata users cannot forge, the exact reversal of enrich mode, and the last
  steps of a successful rendering run.
\<close>

section \<open>Desired metadata\<close>

lemma fmlookup_factAnnotations:
  "fmlookup (factAnnotations cr alloc info h) k =
     (if (case info of None \<Rightarrow> False | Some i \<Rightarrow> ci_Zone i \<noteq> []) \<and> k = annotationZone
      then map_option ci_Zone info
      else if (case info of None \<Rightarrow> False | Some i \<Rightarrow> ci_FQDN i \<noteq> []) \<and> k = annotationFQDN
      then map_option ci_FQDN info
      else if al_LBRangeStop alloc \<noteq> [] \<and> k = annotationLBRangeStop then Some (al_LBRangeStop alloc)
      else if al_LBRangeStart alloc \<noteq> [] \<and> k = annotationLBRangeStart then Some (al_LBRangeStart alloc)
      else if al_IP alloc \<noteq> [] \<and> k = annotationIP then Some (al_IP alloc)
      else if h \<noteq> [] \<and> k = annotationKubeconfigHash then Some h
      else if annotationClusterName = k then Some (cc_ClusterName (cc_Spec cr))
      else None)"
  unfolding factAnnotations_def Let_def
  by (cases info) (simp_all only: option.case option.map fmlookup_put_if fmupd_lookup fmempty_lookup
      simp_thms if_False)

lemma factAnnotations_prefixed:
  "fmlookup (factAnnotations cr alloc info h) k = Some v \<Longrightarrow> HasPrefix k clusterbookPrefix"
  by (auto simp: fmlookup_factAnnotations split: if_splits)

lemma prefixed_keys:
  "fmlookup (prefixed m) k = Some v \<Longrightarrow> HasPrefix k clusterbookPrefix"
  unfolding prefixed_def fmlookup_of_list by (auto dest!: map_of_SomeD)

lemma enrichLabels_prefixed:
  "fmlookup (enrichLabels cr) k = Some v \<Longrightarrow> HasPrefix k clusterbookPrefix"
  unfolding enrichLabels_def fmlookup_put_if using prefixed_keys by (auto split: if_splits)

lemma fmlookup_enrichAnnotations:
  "fmlookup (enrichAnnotations cr alloc info) k =
     (case fmlookup (factAnnotations cr alloc info []) k of
        Some v \<Rightarrow> Some v | None \<Rightarrow> fmlookup (cc_Annotations (cc_Spec cr)) k)"
  unfolding enrichAnnotations_def by (rule fmlookup_addMissing)

lemma valid_key_keys:
  "valid_key annotationIP" "valid_key annotationFQDN" "valid_key annotationZone"
  "valid_key annotationClusterName" "valid_key annotationLBRangeStart"
  "valid_key annotationLBRangeStop" "valid_key annotationKubeconfigHash"
  by (simp_all add: valid_key_def key_defs)

lemma valid_keys_factAnnotations: "valid_keys (factAnnotations cr alloc info h)"
  unfolding valid_keys_def
  by (auto simp: fmlookup_dom_iff fmlookup_factAnnotations valid_key_keys split: if_splits)

lemma valid_keys_addMissing: "valid_keys m \<Longrightarrow> valid_keys user \<Longrightarrow> valid_keys (addMissing m user)"
  by (auto simp: valid_keys_def addMissing_def)

section \<open>Undoing enrich mode\<close>

text \<open>Metadata without anything of clusterbook's, and without the keys of the given map.\<close>

definition untouched :: "ObjectMeta \<Rightarrow> smap \<Rightarrow> bool" where
  "untouched m user \<longleftrightarrow>
     (\<forall>k |\<in>| fmdom (om_Labels m). \<not> HasPrefix k clusterbookPrefix)
   \<and> (\<forall>k |\<in>| fmdom (om_Annotations m). \<not> HasPrefix k clusterbookPrefix \<and> k |\<notin>| fmdom user)"

lemma untouched_lookup:
  assumes "untouched m user" and "HasPrefix k clusterbookPrefix"
  shows "fmlookup (om_Labels m) k = None" and "fmlookup (om_Annotations m) k = None"
  using assms by (auto simp: untouched_def fmlookup_dom_iff)

lemma untouched_user:
  "untouched m user \<Longrightarrow> k |\<in>| fmdom user \<Longrightarrow> fmlookup (om_Annotations m) k = None"
  unfolding untouched_def by (rule fmdom_notD) blast

lemma untouched_owned:
  assumes "untouched m user"
  shows "ownedLabelKeys m = {}" and "ownedAnnotationKeys m = {}"
    and "idx (om_Annotations m) annotationOwnedAnnotations = []"
proof -
  have "fmlookup (om_Annotations m) annotationOwnedLabels = None"
    "fmlookup (om_Annotations m) annotationOwnedAnnotations = None"
    using untouched_lookup(2) [OF assms] by simp_all
  then show "ownedLabelKeys m = {}" and "ownedAnnotationKeys m = {}"
    and "idx (om_Annotations m) annotationOwnedAnnotations = []"
    by (simp_all add: ownedLabelKeys_def ownedAnnotationKeys_def parseOwnedRecord_def)
qed

lemma stripMeta_lookup:
  "fmlookup (om_Labels (stripMeta m)) k =
     (if HasPrefix k clusterbookPrefix then None else fmlookup (om_Labels m) k)"
  "fmlookup (om_Annotations (stripMeta m)) k =
     (if HasPrefix k clusterbookPrefix \<or> k \<in> ownedAnnotationKeys m then None
      else fmlookup (om_Annotations m) k)"
  by (simp_all add: stripMeta_def Let_def ownedAnnotationKeys_def)

lemma stripMeta_frame [simp]:
  "om_Name (stripMeta m) = om_Name m" "om_Namespace (stripMeta m) = om_Namespace m"
  "om_Finalizers (stripMeta m) = om_Finalizers m"
  "om_DeletionTimestamp (stripMeta m) = om_DeletionTimestamp m"
  "om_OwnerReferences (stripMeta m) = om_OwnerReferences m"
  by (simp_all add: stripMeta_def Let_def)

lemma strip_sync:
  assumes m: "untouched m user"
    and L: "\<And>k v. fmlookup L k = Some v \<Longrightarrow> HasPrefix k clusterbookPrefix"
    and A: "\<And>k v. fmlookup A k = Some v \<Longrightarrow> HasPrefix k clusterbookPrefix \<or> k |\<in>| fmdom user"
    and "valid_keys A"
  shows "stripMeta (syncOwned m L A) = m"
proof (rule ObjectMeta_eqI)
  show "om_Labels (stripMeta (syncOwned m L A)) = om_Labels m"
  proof (rule fmap_ext)
    fix k
    show "fmlookup (om_Labels (stripMeta (syncOwned m L A))) k = fmlookup (om_Labels m) k"
    proof (cases "HasPrefix k clusterbookPrefix")
      case True
      then show ?thesis using untouched_lookup(1) [OF m] by (simp only: stripMeta_lookup if_True)
    next
      case False
      then have "fmlookup L k = None" using L [of k] by (cases "fmlookup L k") auto
      with False show ?thesis
        by (simp only: stripMeta_lookup if_False label_syncOwned option.case untouched_owned [OF m]
            empty_iff)
    qed
  qed
  show "om_Annotations (stripMeta (syncOwned m L A)) = om_Annotations m"
  proof (rule fmap_ext)
    fix k
    have own: "ownedAnnotationKeys (syncOwned m L A) = fset (fmdom A)"
      by (rule owned_keys_syncOwned) (rule assms(4))
    show "fmlookup (om_Annotations (stripMeta (syncOwned m L A))) k = fmlookup (om_Annotations m) k"
    proof (cases "HasPrefix k clusterbookPrefix")
      case True
      then show ?thesis using untouched_lookup(2) [OF m] by (simp only: stripMeta_lookup if_True simp_thms)
    next
      case False
      then have rec: "k \<noteq> annotationOwnedAnnotations" "k \<noteq> annotationOwnedLabels" by auto
      show ?thesis
      proof (cases "fmlookup A k")
        case None
        then have "k \<notin> fset (fmdom A)" by (simp add: fmlookup_dom_iff)
        with False rec None show ?thesis
          by (simp only: stripMeta_lookup own if_False simp_thms annotation_syncOwned option.case
              untouched_owned [OF m] empty_iff)
      next
        case (Some v)
        then have "k \<in> fset (fmdom A)" by (simp add: fmlookup_dom_iff)
        moreover have "fmlookup (om_Annotations m) k = None"
          using A [OF Some] False untouched_user [OF m] by blast
        ultimately show ?thesis by (simp only: stripMeta_lookup own simp_thms if_True)
      qed
    qed
  qed
qed simp_all

lemma strip_enrich:
  assumes "untouched m (cc_Annotations (cc_Spec cr))" and "valid_keys (cc_Annotations (cc_Spec cr))"
  shows "stripMeta (syncOwned m (enrichLabels cr) (enrichAnnotations cr alloc info)) = m"
proof (rule strip_sync [OF assms(1)])
  show "fmlookup (enrichLabels cr) k = Some v \<Longrightarrow> HasPrefix k clusterbookPrefix" for k v
    by (rule enrichLabels_prefixed)
  show "fmlookup (enrichAnnotations cr alloc info) k = Some v \<Longrightarrow>
      HasPrefix k clusterbookPrefix \<or> k |\<in>| fmdom (cc_Annotations (cc_Spec cr))" for k v
    using factAnnotations_prefixed [of cr alloc info "[]" k]
    by (auto simp: fmlookup_enrichAnnotations fmlookup_dom_iff split: option.splits)
  show "valid_keys (enrichAnnotations cr alloc info)"
    unfolding enrichAnnotations_def
    by (rule valid_keys_addMissing [OF valid_keys_factAnnotations assms(2)])
qed

section \<open>Properties\<close>

text \<open>
  C19. Enrich mode reverses exactly. Take a foreign Secret that carries nothing of clusterbook's and
  none of the resource's own annotation keys. Enriching it and later stripping it, with nobody
  writing in between, leaves the store with the Secret it started with: every label, annotation,
  owner reference and data key is back. In between, the data was never touched.
\<close>

theorem enrich_strip_roundtrip:
  assumes "kube_client (ev_Secrets E) view (\<lambda>s. meta_key (s_Meta s)) secret_norm"
    and "view w (sor_Namespace ref, sor_Name ref) = Some s0"
    and "meta_key (s_Meta s0) = (sor_Namespace ref, sor_Name ref)" and "secret_norm s0 = s0"
    and "untouched (s_Meta s0) (cc_Annotations (cc_Spec cr))"
    and "valid_keys (cc_Annotations (cc_Spec cr))"
    and "enrichExistingSecret E cr ref alloc info (w, tr) = (Inr False, (w1, tr1))"
    and "stripEnrichedMetadata E ref (w1, tr1) = (Inr (), (w2, tr2))"
  shows "(\<exists>s1. view w1 (sor_Namespace ref, sor_Name ref) = Some s1 \<and> s_Data s1 = s_Data s0
      \<and> om_OwnerReferences (s_Meta s1) = om_OwnerReferences (s_Meta s0))
    \<and> view w2 = view w"
proof -
  let ?n = "(sor_Namespace ref, sor_Name ref)"
  let ?f = "\<lambda>s. s\<lparr>s_Meta := syncOwned (s_Meta s) (enrichLabels cr) (enrichAnnotations cr alloc info)\<rparr>"
  let ?g = "\<lambda>s. s\<lparr>s_Meta := stripMeta (s_Meta s)\<rparr>"
  note modify = kube_client.modify_view [OF assms(1)]
  have key: "meta_key (s_Meta (?f s0)) = ?n" "meta_key (s_Meta (?g (?f s0))) = ?n"
    using assms(3) by (simp_all add: meta_key_def)
  have norm: "secret_norm (?f s0) = ?f s0"
    using assms(4) by (cases s0) (simp add: secret_norm_def)
  have v1: "view w1 = (view w)(?n \<mapsto> ?f s0)"
    using modify [OF assms(7) [unfolded enrichExistingSecret_def] assms(2)] by (simp only: key norm)
  have undo: "?g (?f s0) = s0"
    by (cases s0) (use strip_enrich [OF assms(5,6), of alloc info] in simp)
  have "view w2 = (view w1)(meta_key (s_Meta (?g (?f s0))) \<mapsto> secret_norm (?g (?f s0)))"
    by (rule modify [OF assms(8) [unfolded stripEnrichedMetadata_def]]) (simp add: v1)
  then have "view w2 = (view w1)(?n \<mapsto> s0)"
    unfolding undo assms(3,4) .
  then have "view w2 = view w" using v1 assms(2) by (simp add: fun_upd_idem)
  then show ?thesis using v1 by simp
qed

definition foreignSecret :: Secret where
  "foreignSecret = \<lparr>s_Meta = (new_meta ''argocd'' ''prod'')\<lparr>om_Labels := fmap_of_list [(''team'', ''net'')]\<rparr>,
     s_Data = fmap_of_list [(''server'', ''https://prod'')], s_StringData = fmempty\<rparr>"

definition enrichCR :: ClusterbookCluster where
  "enrichCR = exampleCluster_CR (exampleSpec\<lparr>cc_KubeconfigSecretRef := None,
     cc_ExistingSecretRef := Some \<lparr>sor_Name = ''prod'', sor_Namespace = ''argocd''\<rparr>,
     cc_Annotations := fmap_of_list [(''vault-server'', ''v1'')]\<rparr>) ''10.31.103.7''"

definition enrichWorld :: mem where
  "enrichWorld = (exampleWorld enrichCR always_ok)\<lparr>mm_Secrets :=
     fmap_of_list [((''argocd'', ''prod''), foreignSecret)]\<rparr>"

theorem enrich_strip_roundtrip_witness:
  "\<exists>s1 s2. enrichExistingSecret (memEnv exampleLib) enrichCR
       \<lparr>sor_Name = ''prod'', sor_Namespace = ''argocd''\<rparr> (knownAllocation enrichCR) None (enrichWorld, []) =
       (Inr False, s1)
    \<and> stripEnrichedMetadata (memEnv exampleLib) \<lparr>sor_Name = ''prod'', sor_Namespace = ''argocd''\<rparr> s1 =
       (Inr (), s2)
    \<and> fmlookup (mm_Secrets (fst s2)) = fmlookup (mm_Secrets enrichWorld)"
proof -
  let ?E = "memEnv exampleLib" and ?ref = "\<lparr>sor_Name = ''prod'', sor_Namespace = ''argocd''\<rparr>"
  have key: "meta_key (s_Meta foreignSecret) = (''argocd'', ''prod'')"
    "meta_key (syncOwned (s_Meta foreignSecret) l a) = (''argocd'', ''prod'')"
    "meta_key (stripMeta (syncOwned (s_Meta foreignSecret) l a)) = (''argocd'', ''prod'')" for l a
    by (simp_all add: foreignSecret_def meta_key_def)
  have st: "fmlookup (mm_Secrets enrichWorld) (''argocd'', ''prod'') = Some foreignSecret"
    by (simp add: enrichWorld_def)
  obtain w1 tr1 where e: "enrichExistingSecret ?E enrichCR ?ref (knownAllocation enrichCR) None (enrichWorld, []) =
      (Inr False, (w1, tr1))"
    and w1: "fmlookup (mm_Secrets w1) (''argocd'', ''prod'') = Some (secret_norm (foreignSecret
      \<lparr>s_Meta := syncOwned (s_Meta foreignSecret) (enrichLabels enrichCR)
        (enrichAnnotations enrichCR (knownAllocation enrichCR) None)\<rparr>))"
    by (simp add: enrichExistingSecret_def run_defs st key)
  have nm: "meta_key (s_Meta (secret_norm s)) = meta_key (s_Meta s)"
    "s_Meta (secret_norm s) = s_Meta s" for s by (simp_all add: secret_norm_def)
  obtain w2 tr2 where st2: "stripEnrichedMetadata ?E ?ref (w1, tr1) = (Inr (), (w2, tr2))"
    by (simp add: stripEnrichedMetadata_def run_defs w1 key nm)
  have "fmlookup (mm_Secrets w2) = fmlookup (mm_Secrets enrichWorld)"
  proof (rule enrich_strip_roundtrip [THEN conjunct2, OF _ _ _ _ _ _ e st2])
    show "kube_client (ev_Secrets ?E) (\<lambda>w. fmlookup (mm_Secrets w)) (\<lambda>s. meta_key (s_Meta s)) secret_norm"
      using secretStore.kube_client_axioms by simp
    show "fmlookup (mm_Secrets enrichWorld) (sor_Namespace ?ref, sor_Name ?ref) = Some foreignSecret"
      using st by simp
    show "meta_key (s_Meta foreignSecret) = (sor_Namespace ?ref, sor_Name ?ref)" using key by simp
    show "secret_norm foreignSecret = foreignSecret" by (simp add: secret_norm_def foreignSecret_def)
    show "untouched (s_Meta foreignSecret) (cc_Annotations (cc_Spec enrichCR))"
      by (simp add: untouched_def foreignSecret_def clusterbookPrefix_def HasPrefix_def)
    show "valid_keys (cc_Annotations (cc_Spec enrichCR))"
      by (simp add: enrichCR_def exampleCluster_CR_def exampleSpec_def valid_keys_fmupd valid_key_def)
  qed
  with e st2 show ?thesis by fastforce
qed

text \<open>The Secret an upsert that went through left in the store.\<close>

lemma rendered_data:
  assumes "kube_client (ev_Secrets E) view (\<lambda>s. meta_key (s_Meta s)) secret_norm"
    and "upsertArgoSecret E cr alloc info server h js (w, tr) = (Inr s, (w', tr @ [EUpsert z True]))"
  shows "view w' = (view w)((argoNamespace cr, argoSecretName cr) \<mapsto> s)"
    and "fmlookup (s_Data s) ''name'' = Some (cc_ClusterName (cc_Spec cr))"
    and "fmlookup (s_Data s) ''server'' = Some server" and "fmlookup (s_Data s) ''config'' = Some js"
proof -
  obtain b q where q: "argoSecretMutate (ev_lib E) cr (argoLabels cr alloc info)
        (argoAnnotations cr alloc info h) server js b = Inr q"
    and *: "s = secret_norm q" "view w' = (view w)((argoNamespace cr, argoSecretName cr) \<mapsto> secret_norm q)"
    using kube_client.upsert_view [OF assms(1) assms(2) [unfolded upsertArgoSecret_def]] by auto
  from q obtain m where "q = b\<lparr>s_Meta := m, s_StringData := fmap_of_list
      [(''name'', cc_ClusterName (cc_Spec cr)), (''server'', server), (''config'', js)]\<rparr>"
    by (auto simp: argoSecretMutate_def Let_def split: sum.splits)
  with * show "view w' = (view w)((argoNamespace cr, argoSecretName cr) \<mapsto> s)"
    "fmlookup (s_Data s) ''name'' = Some (cc_ClusterName (cc_Spec cr))"
    "fmlookup (s_Data s) ''server'' = Some server" "fmlookup (s_Data s) ''config'' = Some js"
    by (simp_all add: secret_norm_def)
qed

text \<open>
  C20. The rendered Secret. When the create-or-update of the ArgoCD cluster Secret goes through, the
  store holds, under the resource's namespace and \<open>cluster-\<close> name and nowhere else, a Secret whose
  \<open>name\<close>, \<open>server\<close> and \<open>config\<close> are what was rendered. Every desired label and annotation is set; a
  key an earlier run owned and this one does not want is gone; every other key keeps its value.
  No other data key is touched.
\<close>

theorem rendered_secret:
  assumes "kube_client (ev_Secrets E) view (\<lambda>s. meta_key (s_Meta s)) secret_norm"
    and "owner_laws (ev_lib E)"
    and "n = (argoNamespace cr, argoSecretName cr)"
    and "upsertArgoSecret E cr alloc info server h js (w, tr) = (Inr s, (w', tr @ [EUpsert z True]))"
    and "old = (case view w n of None \<Rightarrow> new_meta (fst n) (snd n) | Some s0 \<Rightarrow> s_Meta s0)"
    and "oldData = (case view w n of None \<Rightarrow> fmempty | Some s0 \<Rightarrow> s_Data s0)"
  shows "view w' = (view w)(n \<mapsto> s)
    \<and> fmlookup (s_Data s) ''name'' = Some (cc_ClusterName (cc_Spec cr))
    \<and> fmlookup (s_Data s) ''server'' = Some server \<and> fmlookup (s_Data s) ''config'' = Some js
    \<and> (\<forall>k. k \<notin> {''name'', ''server'', ''config''} \<longrightarrow> fmlookup (s_Data s) k = fmlookup oldData k)
    \<and> (\<forall>k. fmlookup (om_Labels (s_Meta s)) k = (case fmlookup (argoLabels cr alloc info) k of
          Some v \<Rightarrow> Some v
        | None \<Rightarrow> if k \<in> ownedLabelKeys old then None else fmlookup (om_Labels old) k))
    \<and> (\<forall>k. k \<notin> {annotationOwnedLabels, annotationOwnedAnnotations} \<longrightarrow>
        fmlookup (om_Annotations (s_Meta s)) k = (case fmlookup (argoAnnotations cr alloc info h) k of
          Some v \<Rightarrow> Some v
        | None \<Rightarrow> if k \<in> ownedAnnotationKeys old then None else fmlookup (om_Annotations old) k))"
proof -
  let ?base = "\<lparr>s_Meta = new_meta (argoNamespace cr) (argoSecretName cr), s_Data = fmempty,
        s_StringData = fmempty\<rparr>"
  let ?sd = "fmap_of_list [(''name'', cc_ClusterName (cc_Spec cr)), (''server'', server),
                             (''config'', js)]"
  obtain b q where b: "case view w n of None \<Rightarrow> b = ?base | Some x0 \<Rightarrow> b = x0"
    and q: "argoSecretMutate (ev_lib E) cr (argoLabels cr alloc info) (argoAnnotations cr alloc info h)
        server js b = Inr q"
    and s: "s = secret_norm q" and v: "view w' = (view w)(n \<mapsto> secret_norm q)"
    using kube_client.upsert_view [OF assms(1) assms(4) [unfolded upsertArgoSecret_def]] assms(3) by auto
  have old: "s_Meta b = old" "s_Data b = oldData"
    using b assms(3,5,6) by (auto split: option.splits)
  obtain m where m: "SetControllerReference (ev_lib E) KCluster (cc_Meta cr)
        (syncOwned (s_Meta b) (argoLabels cr alloc info) (argoAnnotations cr alloc info h)) = Inr m"
    and qm: "q = b\<lparr>s_Meta := m, s_StringData := ?sd\<rparr>"
    using q by (auto simp: argoSecretMutate_def Let_def split: sum.splits)
  from m assms(2) have own: "om_Labels m = om_Labels (syncOwned old (argoLabels cr alloc info)
        (argoAnnotations cr alloc info h))"
    "om_Annotations m = om_Annotations (syncOwned old (argoLabels cr alloc info)
        (argoAnnotations cr alloc info h))"
    unfolding owner_laws_def old by (metis ObjectMeta.select_convs(3,4) ObjectMeta.update_convs(7)
        ObjectMeta.surjective)+
  have sm: "s_Meta s = m" "s_Data s = fmadd oldData ?sd"
    using s qm old by (simp_all add: secret_norm_def)
  show ?thesis
    unfolding sm own label_syncOwned annotation_syncOwned using v s by auto
qed

theorem rendered_secret_witness:
  "\<exists>s w'. upsertArgoSecret (memEnv exampleLib) (exampleCluster_CR exampleSpec [])
       \<lparr>al_IP = ''10.31.103.7'', al_LBRangeStart = [], al_LBRangeStop = []\<rparr> None ''https://x:6443'' ''h''
       ''{}'' (emptyMem, []) = (Inr s, (w', [EUpsert (OSecret s) True]))
    \<and> fmlookup (s_Data s) ''server'' = Some ''https://x:6443''
    \<and> fmlookup (om_Labels (s_Meta s)) labelAllocationIP = Some ''10.31.103.7''"
proof -
  let ?E = "memEnv exampleLib" and ?cr = "exampleCluster_CR exampleSpec []"
  let ?a = "\<lparr>al_IP = ''10.31.103.7'', al_LBRangeStart = [], al_LBRangeStop = []\<rparr>"
  let ?n = "(argoNamespace ?cr, argoSecretName ?cr)"
  obtain s w' where run: "upsertArgoSecret ?E ?cr ?a None ''https://x:6443'' ''h'' ''{}'' (emptyMem, []) =
      (Inr s, (w', [] @ [EUpsert (OSecret s) True]))"
    by (simp add: upsertArgoSecret_def run_defs argoSecretMutate_def Let_def exampleLib_def own_def
        emptyMem_def)
  have kc: "kube_client (ev_Secrets ?E) (\<lambda>w. fmlookup (mm_Secrets w)) (\<lambda>s. meta_key (s_Meta s)) secret_norm"
    using secretStore.kube_client_axioms by simp
  have ol: "owner_laws (ev_lib ?E)" by (simp add: exampleLib_def owner_laws_stdLib)
  have lab: "fmlookup (argoLabels ?cr ?a None) labelAllocationIP = Some ''10.31.103.7''"
    by (simp add: fmlookup_argoLabels exampleCluster_CR_def exampleSpec_def exampleStatus_def key_defs)
  note r = rendered_secret [OF kc ol refl run refl refl]
  from r have "fmlookup (s_Data s) ''server'' = Some ''https://x:6443''" by blast
  moreover from r have "\<forall>k. fmlookup (om_Labels (s_Meta s)) k =
      (case fmlookup (argoLabels ?cr ?a None) k of
          Some v \<Rightarrow> Some v
        | None \<Rightarrow> if k \<in> ownedLabelKeys (case fmlookup (mm_Secrets emptyMem) ?n of
              None \<Rightarrow> new_meta (fst ?n) (snd ?n) | Some s0 \<Rightarrow> s_Meta s0) then None
            else fmlookup (om_Labels (case fmlookup (mm_Secrets emptyMem) ?n of
              None \<Rightarrow> new_meta (fst ?n) (snd ?n) | Some s0 \<Rightarrow> s_Meta s0)) k)"
    by (elim conjE) assumption
  then have "fmlookup (om_Labels (s_Meta s)) labelAllocationIP = Some ''10.31.103.7''"
    unfolding lab [symmetric] by (simp only: lab option.case)
  ultimately show ?thesis using run by auto
qed

text \<open>What a run knows about a cluster, under the key it is published as; empty when unknown.\<close>

definition runFacts ::
    "ClusterbookCluster \<Rightarrow> allocation \<Rightarrow> ClusterInfo option \<Rightarrow> string \<Rightarrow> (string \<times> string) list" where
  "runFacts cr alloc info h =
     [(annotationClusterName, cc_ClusterName (cc_Spec cr)),
      (annotationIP, al_IP alloc),
      (annotationLBRangeStart, al_LBRangeStart alloc),
      (annotationLBRangeStop, al_LBRangeStop alloc),
      (annotationFQDN, case info of None \<Rightarrow> [] | Some i \<Rightarrow> ci_FQDN i),
      (annotationZone, case info of None \<Rightarrow> [] | Some i \<Rightarrow> ci_Zone i),
      (annotationKubeconfigHash, h)]"

lemma fact_of_run:
  "(case fmlookup (factAnnotations cr alloc info h) k of
      Some v \<Rightarrow> Some v | None \<Rightarrow> fmlookup user k)
   = (case map_of (runFacts cr alloc info h) k of
        Some v \<Rightarrow> if v = [] \<and> k \<noteq> annotationClusterName then fmlookup user k else Some v
      | None \<Rightarrow> fmlookup user k)"
  unfolding fmlookup_factAnnotations runFacts_def
  by (cases info) (simp_all add: key_defs)

text \<open>
  C21. A resource cannot forge the facts. The annotations of a cluster's Secret, in both modes and
  key by key: \<open>cluster-name\<close> is the spec's name; every fact the run knows (address, start and stop
  of the range, FQDN, zone, and in render mode the hash of the kubeconfig) has the value the run
  knows, whatever \<open>spec.annotations\<close> says under that key. A fact the run does not know is taken from
  \<open>spec.annotations\<close> as it stands there, and so is every key that is no fact's.
\<close>

theorem facts_cannot_be_forged:
  "fmlookup (argoAnnotations cr alloc info h) k = (case map_of (runFacts cr alloc info h) k of
        Some v \<Rightarrow> if v = [] \<and> k \<noteq> annotationClusterName
                  then fmlookup (cc_Annotations (cc_Spec cr)) k else Some v
      | None \<Rightarrow> fmlookup (cc_Annotations (cc_Spec cr)) k)
   \<and> fmlookup (enrichAnnotations cr alloc info) k = (case map_of (runFacts cr alloc info []) k of
        Some v \<Rightarrow> if v = [] \<and> k \<noteq> annotationClusterName
                  then fmlookup (cc_Annotations (cc_Spec cr)) k else Some v
      | None \<Rightarrow> fmlookup (cc_Annotations (cc_Spec cr)) k)"
  unfolding argoAnnotations_def fmlookup_addMissing fmlookup_enrichAnnotations fact_of_run by simp

lemma render_success:
  assumes "Reconciler_render E cr alloc info s = (Inr (cr', name, h, res), t)"
  obtains ref raw js ca srv cr1 sec s2 s3 where "cc_KubeconfigSecretRef (cc_Spec cr) = Some ref"
    and "loadKubeconfig E ref s = (Inr raw, s2)"
    and "argoConfigFromKubeconfig (ev_lib E) raw = Inr (js, ca, srv)"
    and "Reconciler_gate E cr (buildServerURL cr (al_IP alloc) srv info) js s2 = (Inr (cr1, res), s3)"
    and "upsertArgoSecret E cr1 alloc info (buildServerURL cr (al_IP alloc) srv info)
        (kubeconfigHash raw) js s3 = (Inr sec, t)"
    and "cr' = setCondition (ev_lib E) readyCondition cr1" and "name = om_Name (s_Meta sec)"
    and "h = kubeconfigHash raw"
proof -
  obtain ref where ref: "cc_KubeconfigSecretRef (cc_Spec cr) = Some ref"
    using assms by (cases "cc_KubeconfigSecretRef (cc_Spec cr)")
      (simp_all add: Reconciler_render_def fail_run)
  note r = assms [unfolded Reconciler_render_def ref option.case Let_def]
  from r obtain raw s2 where raw: "wrap ''load kubeconfig'' (loadKubeconfig E ref) s = (Inr raw, s2)"
    and r2: "and_then (wrap ''extract kubeconfig'' (lift (argoConfigFromKubeconfig (ev_lib E) raw)))
        (\<lambda>(argoCfg, caData, kubeconfigServer).
          and_then (Reconciler_gate E cr (buildServerURL cr (al_IP alloc) kubeconfigServer info) argoCfg)
            (\<lambda>(cr1, result). and_then (wrap ''upsert argo secret'' (upsertArgoSecret E cr1 alloc info
               (buildServerURL cr (al_IP alloc) kubeconfigServer info) (kubeconfigHash raw) argoCfg))
             (\<lambda>secret. ret (setCondition (ev_lib E) readyCondition cr1, om_Name (s_Meta secret),
                kubeconfigHash raw, result)))) s2 = (Inr (cr', name, h, res), t)"
    by (rule and_then_InrE)
  from r2 obtain x s2' where x: "wrap ''extract kubeconfig'' (lift (argoConfigFromKubeconfig (ev_lib E) raw))
       s2 = (Inr x, s2')"
    and r3: "(case x of (argoCfg, caData, kubeconfigServer) \<Rightarrow>
          and_then (Reconciler_gate E cr (buildServerURL cr (al_IP alloc) kubeconfigServer info) argoCfg)
            (\<lambda>(cr1, result). and_then (wrap ''upsert argo secret'' (upsertArgoSecret E cr1 alloc info
               (buildServerURL cr (al_IP alloc) kubeconfigServer info) (kubeconfigHash raw) argoCfg))
             (\<lambda>secret. ret (setCondition (ev_lib E) readyCondition cr1, om_Name (s_Meta secret),
                kubeconfigHash raw, result)))) s2' = (Inr (cr', name, h, res), t)"
    by (rule and_then_InrE)
  obtain js ca srv where xs: "x = (js, ca, srv)" by (rule prod_cases3)
  have ex: "argoConfigFromKubeconfig (ev_lib E) raw = Inr (js, ca, srv)" "s2' = s2"
    using wrap_InrD [OF x] xs by (simp_all add: lift_def)
  from r3 [unfolded xs prod.case ex(2)] obtain g s3 where
    g: "Reconciler_gate E cr (buildServerURL cr (al_IP alloc) srv info) js s2 = (Inr g, s3)"
    and r4: "(case g of (cr1, result) \<Rightarrow> and_then (wrap ''upsert argo secret'' (upsertArgoSecret E cr1 alloc info
               (buildServerURL cr (al_IP alloc) srv info) (kubeconfigHash raw) js))
             (\<lambda>secret. ret (setCondition (ev_lib E) readyCondition cr1, om_Name (s_Meta secret),
                kubeconfigHash raw, result))) s3 = (Inr (cr', name, h, res), t)"
    by (rule and_then_InrE)
  obtain cr1 res1 where gs: "g = (cr1, res1)" by (rule prod.exhaust)
  from r4 [unfolded gs prod.case] obtain sec s4 where
    u: "wrap ''upsert argo secret'' (upsertArgoSecret E cr1 alloc info
               (buildServerURL cr (al_IP alloc) srv info) (kubeconfigHash raw) js) s3 = (Inr sec, s4)"
    and r5: "ret (setCondition (ev_lib E) readyCondition cr1, om_Name (s_Meta sec),
                kubeconfigHash raw, res1) s4 = (Inr (cr', name, h, res), t)"
    by (rule and_then_InrE)
  have eqs: "cr' = setCondition (ev_lib E) readyCondition cr1" "name = om_Name (s_Meta sec)"
    "h = kubeconfigHash raw" "res1 = res" "s4 = t"
    using r5 by (simp_all add: ret_def)
  show thesis
    by (rule that [OF ref wrap_InrD [OF raw] ex(1) g [unfolded gs eqs(4)]
        wrap_InrD [OF u [unfolded eqs(5)]] eqs(1-3)])
qed

lemma gate_result:
  assumes "Reconciler_gate E cr server js s = (Inr (cr', res), t)"
  shows "cc_Spec cr' = cc_Spec cr"
    and "res_RequeueAfter res = (if ccs_ClusterReady (cc_Status cr') then 0 else 30)"
  by (cases rule: gate_cases [OF assms]; simp add: noRequeue_def probeRequeue_def)+

lemma Reconciler_status_frame [simp]:
  "cc_Spec (Reconciler_status cr alloc info n h) = cc_Spec cr"
  "ccs_IP (cc_Status (Reconciler_status cr alloc info n h)) = al_IP alloc"
  "ccs_SecretName (cc_Status (Reconciler_status cr alloc info n h)) = n"
  "ccs_KubeconfigHash (cc_Status (Reconciler_status cr alloc info n h)) = h"
  "ccs_LBRangeStart (cc_Status (Reconciler_status cr alloc info n h)) = al_LBRangeStart alloc"
  "ccs_LBRangeStop (cc_Status (Reconciler_status cr alloc info n h)) = al_LBRangeStop alloc"
  "ccs_ClusterReady (cc_Status (Reconciler_status cr alloc info n h)) = ccs_ClusterReady (cc_Status cr)"
  by (simp_all add: Reconciler_status_def Let_def split: option.split)

lemma ignore_status_log:
  "and_then (ignore (kStatusUpdate emb c x)) (\<lambda>_. ret r) s = (Inr r', t) \<Longrightarrow>
   r' = r \<and> (\<exists>b. snd t = snd s @ [EStatus (emb x) b])"
  by (cases s) (auto simp: ignore_def kStatusUpdate_def io_defs split: prod.splits sum.splits if_splits)

lemma apply_render:
  assumes "Reconciler_apply E api cr s = (Inr res, t)"
    and "cc_ExistingSecretRef (cc_Spec cr) = None"
  obtains alloc info s1 cr' name h s4 b where "Reconciler_allocate E api cr s = (Inr (alloc, info), s1)"
    and "Reconciler_render E cr alloc info s1 = (Inr (cr', name, h, res), s4)"
    and "snd t = snd s4 @ [EStatus (OCluster (Reconciler_status cr' alloc info name h)) b]"
proof -
  from assms(1) obtain ai s1 where al: "Reconciler_allocate E api cr s = (Inr ai, s1)"
    and r1: "(case ai of (alloc, info) \<Rightarrow>
      and_then (case cc_ExistingSecretRef (cc_Spec cr) of
          Some ref \<Rightarrow> Reconciler_enrich E cr ref alloc info
        | None \<Rightarrow> Reconciler_render E cr alloc info)
       (\<lambda>(cr', secretName, kcHash, result).
       and_then (ignore (kStatusUpdate OCluster (ev_Clusters E)
           (Reconciler_status cr' alloc info secretName kcHash))) (\<lambda>_. ret result))) s1 = (Inr res, t)"
    unfolding Reconciler_apply_def by (rule and_then_InrE)
  obtain alloc info where ai: "ai = (alloc, info)" by (rule prod.exhaust)
  from r1 [unfolded ai prod.case assms(2) option.case] obtain q s4 where
    ren: "Reconciler_render E cr alloc info s1 = (Inr q, s4)"
    and fin: "(case q of (cr', secretName, kcHash, result) \<Rightarrow>
       and_then (ignore (kStatusUpdate OCluster (ev_Clusters E)
           (Reconciler_status cr' alloc info secretName kcHash))) (\<lambda>_. ret result)) s4 = (Inr res, t)"
    by (rule and_then_InrE)
  obtain cr' name h res1 where q: "q = (cr', name, h, res1)" by (rule prod_cases4)
  from ignore_status_log [OF fin [unfolded q prod.case]] obtain b where res: "res1 = res"
    and log: "snd t = snd s4 @ [EStatus (OCluster (Reconciler_status cr' alloc info name h)) b]"
    by blast
  show thesis by (rule that [OF al [unfolded ai] ren [unfolded q res] log])
qed

text \<open>
  C22. A successful rendering run is consistent. It allocated; it read a kubeconfig through the
  reference in the spec and extracted it; the Secret it wrote carries the server URL built from
  that allocation and kubeconfig, the extracted connection JSON and the hash of that kubeconfig;
  and the last call of the run writes a status with the same address, the name of that Secret, the
  same hash and the same range. The run comes back in 30 seconds exactly when that status says
  the cluster is not ready.
\<close>

theorem render_run_consistent:
  assumes "Reconciler_apply E api cr s = (Inr res, t)"
    and "cc_ExistingSecretRef (cc_Spec cr) = None"
  shows "\<exists>alloc info ref raw js ca srv cr1 sec st b s1 s2 s3 s4.
      Reconciler_allocate E api cr s = (Inr (alloc, info), s1)
    \<and> cc_KubeconfigSecretRef (cc_Spec cr) = Some ref
    \<and> loadKubeconfig E ref s1 = (Inr raw, s2)
    \<and> argoConfigFromKubeconfig (ev_lib E) raw = Inr (js, ca, srv)
    \<and> upsertArgoSecret E cr1 alloc info (buildServerURL cr (al_IP alloc) srv info)
        (kubeconfigHash raw) js s3 = (Inr sec, s4)
    \<and> snd t = snd s4 @ [EStatus (OCluster st) b]
    \<and> cc_Spec cr1 = cc_Spec cr \<and> cc_Spec st = cc_Spec cr
    \<and> ccs_IP (cc_Status st) = al_IP alloc
    \<and> ccs_SecretName (cc_Status st) = om_Name (s_Meta sec)
    \<and> ccs_KubeconfigHash (cc_Status st) = kubeconfigHash raw
    \<and> ccs_LBRangeStart (cc_Status st) = al_LBRangeStart alloc
    \<and> ccs_LBRangeStop (cc_Status st) = al_LBRangeStop alloc
    \<and> ccs_ClusterReady (cc_Status st) = ccs_ClusterReady (cc_Status cr1)
    \<and> res_RequeueAfter res = (if ccs_ClusterReady (cc_Status st) then 0 else 30)"
proof -
  from assms obtain alloc info s1 cr' name h s4 b where
    al: "Reconciler_allocate E api cr s = (Inr (alloc, info), s1)"
    and ren: "Reconciler_render E cr alloc info s1 = (Inr (cr', name, h, res), s4)"
    and log: "snd t = snd s4 @ [EStatus (OCluster (Reconciler_status cr' alloc info name h)) b]"
    by (rule apply_render)
  obtain ref raw js ca srv cr1 sec s2 s3 where
    *: "cc_KubeconfigSecretRef (cc_Spec cr) = Some ref" "loadKubeconfig E ref s1 = (Inr raw, s2)"
      "argoConfigFromKubeconfig (ev_lib E) raw = Inr (js, ca, srv)"
    and g: "Reconciler_gate E cr (buildServerURL cr (al_IP alloc) srv info) js s2 = (Inr (cr1, res), s3)"
    and u: "upsertArgoSecret E cr1 alloc info (buildServerURL cr (al_IP alloc) srv info)
        (kubeconfigHash raw) js s3 = (Inr sec, s4)"
    and eqs: "cr' = setCondition (ev_lib E) readyCondition cr1" "name = om_Name (s_Meta sec)"
      "h = kubeconfigHash raw"
    by (rule render_success [OF ren])
  show ?thesis
    by (intro exI conjI, rule al, (rule * u log)+)
      (simp_all add: eqs gate_result [OF g])
qed

text \<open>The same run, forwards, for a concrete resource.\<close>

lemma render_forward:
  assumes "cc_KubeconfigSecretRef (cc_Spec cr) = Some ref" and "loadKubeconfig E ref s = (Inr raw, s2)"
    and "argoConfigFromKubeconfig (ev_lib E) raw = Inr (js, ca, srv)"
    and "Reconciler_gate E cr (buildServerURL cr (al_IP alloc) srv info) js s2 = (Inr (cr1, res), s3)"
    and "upsertArgoSecret E cr1 alloc info (buildServerURL cr (al_IP alloc) srv info)
        (kubeconfigHash raw) js s3 = (Inr sec, t)"
  shows "Reconciler_render E cr alloc info s =
    (Inr (setCondition (ev_lib E) readyCondition cr1, om_Name (s_Meta sec), kubeconfigHash raw, res), t)"
  using assms by (simp add: Reconciler_render_def Let_def wrap_def and_then_def lift_def ret_def)

lemma gate_total:
  assumes "\<not> ccs_ClusterReady (cc_Status cr)" and "probeCluster E server js s = (p, t)"
    and "\<And>e. p = Inl e \<Longrightarrow> \<not> is_panic e"
  obtains cr1 res where "Reconciler_gate E cr server js s = (Inr (cr1, res), t)"
proof (cases p)
  case (Inl e)
  with assms have "attempt (probeCluster E server js) s = (Inr (Inl e), t)" by (simp add: attempt_def)
  with assms(1) that show thesis by (simp add: Reconciler_gate_def and_then_def ret_def)
next
  case (Inr u)
  with assms have "attempt (probeCluster E server js) s = (Inr (Inr u), t)" by (simp add: attempt_def)
  with assms(1) that show thesis by (simp add: Reconciler_gate_def and_then_def ret_def)
qed

definition renderCR :: ClusterbookCluster where
  "renderCR = exampleCluster_CR (exampleSpec\<lparr>cc_SkipReservation := True,
     cc_PreserveKubeconfigServer := True\<rparr>) []"

theorem render_run_consistent_witness:
  "\<exists>res t st b pre. Reconciler_apply (memEnv exampleLib) None renderCR (exampleWorld renderCR always_ok, []) =
       (Inr res, t)
    \<and> snd t = pre @ [EStatus (OCluster st) b] \<and> ccs_IP (cc_Status st) = []
    \<and> cc_Spec st = cc_Spec renderCR"
proof -
  let ?E = "memEnv exampleLib" and ?w = "exampleWorld renderCR always_ok"
  let ?raw = "''kc:https://10.0.0.5:6443''"
  let ?ref = "\<lparr>skr_Name = ''kc'', skr_Namespace = ''infra'', skr_Key = []\<rparr>"
  let ?a = "registrationOnlyAllocation renderCR"
  have cr: "isRegistrationOnly renderCR" "cc_ExistingSecretRef (cc_Spec renderCR) = None"
    "cc_KubeconfigSecretRef (cc_Spec renderCR) = Some ?ref" "al_IP ?a = []"
    "\<not> ccs_ClusterReady (cc_Status renderCR)"
    by (simp_all add: renderCR_def exampleCluster_CR_def exampleSpec_def exampleStatus_def
        isRegistrationOnly_def registrationOnlyAllocation_def)
  have al: "Reconciler_allocate ?E None renderCR s = (Inr (?a, None), s)" for s
    by (simp add: Reconciler_allocate_def cr ret_def)
  have load: "loadKubeconfig ?E ?ref (?w, []) = (Inr ?raw, (?w, [EGet KSecret (''infra'', ''kc'') True]))"
    by (simp add: loadKubeconfig_def run_defs exampleWorld_def)
  let ?cl = "exampleCluster ''https://10.0.0.5:6443''"
  obtain js ca srv where js: "argoConfigFromKubeconfig exampleLib ?raw = Inr (js, ca, srv)"
    and enc: "js = marshal_argo (argo_of ?cl exampleUser)"
    using current_exampleKubeConfig [of "''https://10.0.0.5:6443''"]
    by (force simp: argoConfigFromKubeconfig_ok load_example)
  have rest: "restConfigFromArgo server js = Inr (rest_of_argo server (argo_of ?cl exampleUser))" for server
    unfolding enc restConfigFromArgo_def
    by (subst unmarshal_argo_of) (simp_all add: exampleUser_def ascii_def)
  let ?srv = "buildServerURL renderCR (al_IP ?a) srv None"
  let ?s2 = "(?w, [EGet KSecret (''infra'', ''kc'') True])"
  obtain p s3 where p: "probeCluster ?E ?srv js ?s2 = (p, s3)" by (rule prod.exhaust)
  have np: "\<not> is_panic e" if "p = Inl e" for e
    using p that
    by (simp add: probeCluster_def rest probe_def probeReadyz_def restDo_def io_defs Let_def
        exampleLib_simps always_ok_def)
  from gate_total [OF cr(5) p np] obtain cr1 res where
    g: "Reconciler_gate ?E renderCR ?srv js ?s2 = (Inr (cr1, res), s3)" by blast
  have w3: "fst s3 = ?w"
    using p by (auto simp: probeCluster_def rest probe_def probeReadyz_def restDo_def io_defs Let_def
        exampleLib_simps always_ok_def)
  obtain sec s4 where u: "upsertArgoSecret ?E cr1 ?a None ?srv (kubeconfigHash ?raw) js s3 = (Inr sec, s4)"
    using w3 by (cases s3) (simp add: upsertArgoSecret_def run_defs argoSecretMutate_def Let_def exampleLib_def own_def
        exampleWorld_def argoNamespace_def argoSecretName_def gate_result [OF g])
  have ren: "Reconciler_render ?E renderCR ?a None (?w, []) =
      (Inr (setCondition exampleLib readyCondition cr1, om_Name (s_Meta sec), kubeconfigHash ?raw, res), s4)"
    using render_forward [OF cr(3) load _ g u] js by simp
  have "\<exists>t. Reconciler_apply ?E None renderCR (?w, []) = (Inr res, t)"
    using al [of "(?w, [])"] ren
    by (cases s4) (simp add: Reconciler_apply_def and_then_def cr ignore_run kStatusUpdate_def call_def memClusters_def ret_def
        split: option.splits)
  then obtain t where run: "Reconciler_apply ?E None renderCR (?w, []) = (Inr res, t)" by blast
  from render_run_consistent [OF run cr(2)] al [of "(?w, [])"] cr(4) show ?thesis
    using run by fastforce
qed

end
