(* ===== verification/LoadBalancer.thy ===== *)
theory LoadBalancer
  imports ClusterReconciler
begin

text \<open>
  \<open>controller/loadbalancer_reconciler.go\<close>: the reconciler of \<open>ClusterbookLoadBalancer\<close>. The
  reserved address goes either into a \<open>CiliumLoadBalancerIPPool\<close> (an unstructured object) or into
  \<open>spec.loadBalancerIP\<close> of an existing Service, whose previous value is kept in an annotation of
  the resource and put back on deletion.
\<close>

section \<open>Constants and the selector\<close>

definition lbFinalizer :: string where
  "lbFinalizer = ''clusterbook.stuttgart-things.com/lb-finalizer''"

definition annotationPreviousLBIP :: string where
  "annotationPreviousLBIP = ''clusterbook.stuttgart-things.com/previous-loadbalancer-ip''"

definition requirementToMap :: "LabelSelectorRequirement \<Rightarrow> json" where
  "requirementToMap e = JObj [(''key'', JStr (lsr_Key e)), (''operator'', JStr (lsr_Operator e)),
     (''values'', JArr (map JStr (lsr_Values e)))]"

definition labelSelectorToMap :: "LabelSelector \<Rightarrow> json" where
  "labelSelectorToMap sel = JObj
     (omit (ls_MatchLabels sel = fmempty) ''matchLabels''
        (JObj (map (\<lambda>k. (k, JStr (idx (ls_MatchLabels sel) k)))
          (sorted_list_of_fset (fmdom (ls_MatchLabels sel)))))
      @ omit (ls_MatchExpressions sel = []) ''matchExpressions''
        (JArr (map requirementToMap (ls_MatchExpressions sel))))"

section \<open>The pool\<close>

definition newPool :: "string \<Rightarrow> Unstructured" where
  "newPool poolName = \<lparr>un_Meta = new_meta [] poolName,
     un_Object = JObj [(''apiVersion'', JStr ''cilium.io/v2alpha1''),
                       (''kind'', JStr ''CiliumLoadBalancerIPPool'')]\<rparr>"

definition poolAnnotations :: "string \<Rightarrow> ClusterInfo option \<Rightarrow> smap" where
  "poolAnnotations ip info =
     (let a = fmupd annotationIP ip fmempty in
      case info of
        None \<Rightarrow> a
      | Some i \<Rightarrow> put_if (ci_Zone i \<noteq> []) annotationZone (ci_Zone i)
          (put_if (ci_FQDN i \<noteq> []) annotationFQDN (ci_FQDN i) a))"

definition poolMutate ::
    "lib \<Rightarrow> ClusterbookLoadBalancer \<Rightarrow> CiliumPoolTarget \<Rightarrow> string \<Rightarrow> ClusterInfo option
     \<Rightarrow> Unstructured \<Rightarrow> err + Unstructured" where
  "poolMutate L cr target ip info pool =
     (let m = (un_Meta pool)\<lparr>om_Annotations :=
                fmadd (om_Annotations (un_Meta pool)) (poolAnnotations ip info)\<rparr>;
          blocks = JArr [JObj [(''cidr'', JStr (ip @ ''/32''))]]
      in
      result_bind (SetNestedField L (un_Object pool) blocks [''spec'', ''blocks'']) (\<lambda>o1.
      result_bind (case cpt_ServiceSelector target of
          None \<Rightarrow> Inr o1
        | Some sel \<Rightarrow> SetNestedField L o1 (labelSelectorToMap sel) [''spec'', ''serviceSelector''])
        (\<lambda>o2.
      result_bind (SetControllerReference L KLoadBalancer (lb_Meta cr) m) (\<lambda>m'.
        Inr (pool\<lparr>un_Meta := m', un_Object := o2\<rparr>)))))"

definition upsertCiliumPool ::
    "'w env \<Rightarrow> ClusterbookLoadBalancer \<Rightarrow> CiliumPoolTarget \<Rightarrow> string \<Rightarrow> string
     \<Rightarrow> ClusterInfo option \<Rightarrow> ('w, unit) op" where
  "upsertCiliumPool E cr target poolName ip info =
     and_then (kUpsert OCiliumPool (ev_CiliumPools E) (newPool poolName)
       (poolMutate (ev_lib E) cr target ip info)) (\<lambda>_. ret ())"

section \<open>The Service\<close>

text \<open>The result is the resource: recording the previous value updates it.\<close>

definition patchServiceLBIP ::
    "'w env \<Rightarrow> ClusterbookLoadBalancer \<Rightarrow> ServiceObjectRef \<Rightarrow> string
     \<Rightarrow> ('w, ClusterbookLoadBalancer) op" where
  "patchServiceLBIP E cr ref ip =
     and_then (kGet KService (ev_Services E) (svr_Namespace ref, svr_Name ref)) (\<lambda>svc.
     and_then
       (case fmlookup (om_Annotations (lb_Meta cr)) annotationPreviousLBIP of
          Some v \<Rightarrow> ret cr
        | None \<Rightarrow> wrap ''record previous loadBalancerIP''
            (kUpdate OLoadBalancer (ev_LoadBalancers E)
              (lb_Meta_update (\<lambda>m. m\<lparr>om_Annotations :=
                 fmupd annotationPreviousLBIP (svc_LoadBalancerIP svc) (om_Annotations m)\<rparr>) cr)))
       (\<lambda>cr'.
       if svc_LoadBalancerIP svc = ip then ret cr'
       else and_then (kUpdate OService (ev_Services E) (svc\<lparr>svc_LoadBalancerIP := ip\<rparr>))
              (\<lambda>_. ret cr')))"

definition restoreServiceLBIP ::
    "'w env \<Rightarrow> ClusterbookLoadBalancer \<Rightarrow> ServiceObjectRef \<Rightarrow> ('w, unit) op" where
  "restoreServiceLBIP E cr ref =
     and_then (attempt (kGet KService (ev_Services E) (svr_Namespace ref, svr_Name ref))) (\<lambda>r. case r of
       Inl e \<Rightarrow> if IsNotFound e then ret () else fail e
     | Inr svc \<Rightarrow>
         (let prior = idx (om_Annotations (lb_Meta cr)) annotationPreviousLBIP in
          if svc_LoadBalancerIP svc = prior then ret ()
          else and_then (kUpdate OService (ev_Services E) (svc\<lparr>svc_LoadBalancerIP := prior\<rparr>))
                 (\<lambda>_. ret ())))"

section \<open>The reservation\<close>

definition LoadBalancerReconciler_ensureReservation ::
    "'w env \<Rightarrow> CbkClient option \<Rightarrow> ClusterbookLoadBalancer \<Rightarrow> ('w, string) op" where
  "LoadBalancerReconciler_ensureReservation E api cr =
     (if lbs_IP (lb_Status cr) \<noteq> [] then ret (lbs_IP (lb_Status cr))
      else
        and_then (wrap ''list IPs'' (GetIPs E api (lb_NetworkKey (lb_Spec cr)))) (\<lambda>existing.
          case find (\<lambda>e. ip_Cluster e = lb_Name (lb_Spec cr)) existing of
            Some e \<Rightarrow> ret (ip_IP e)
          | None \<Rightarrow>
              and_then (wrap ''reserve IP'' (ReserveIPs E api (lb_NetworkKey (lb_Spec cr))
                \<lparr>rr_Cluster = lb_Name (lb_Spec cr), rr_Count = 1, rr_IP = [],
                 rr_CreateDNS = lb_CreateDNS (lb_Spec cr), rr_Status = []\<rparr>)) (\<lambda>resv.
              if rs_IPs resv = [] then fail (New ''clusterbook returned no IPs'')
              else ret (rs_IPs resv ! 0))))"

section \<open>The handler\<close>

definition LoadBalancerReconciler_cleanup ::
    "'w env \<Rightarrow> ClusterbookLoadBalancer \<Rightarrow> CbkClient option \<Rightarrow> ('w, unit) op" where
  "LoadBalancerReconciler_cleanup E cr api =
     and_then
       (case lb_ServiceRef (lb_Spec cr) of
          Some ref \<Rightarrow> wrap ''restore service loadBalancerIP'' (restoreServiceLBIP E cr ref)
        | None \<Rightarrow>
            if lbs_PoolName (lb_Status cr) \<noteq> []
            then ignore (kDelete KCiliumPool (ev_CiliumPools E) ([], lbs_PoolName (lb_Status cr)))
            else ret ())
       (\<lambda>_. if lb_ReleaseOnDelete (lb_Spec cr) \<and> lbs_IP (lb_Status cr) \<noteq> []
            then wrap ''release IP'' (ReleaseIPs E api (lb_NetworkKey (lb_Spec cr))
                   \<lparr>rl_IP = lbs_IP (lb_Status cr)\<rparr>)
            else ret ())"

definition LoadBalancerReconciler_finalize ::
    "'w env \<Rightarrow> ClusterbookLoadBalancer \<Rightarrow> CbkClient option \<Rightarrow> ('w, Result) op" where
  "LoadBalancerReconciler_finalize E cr api =
     (if \<not> ContainsFinalizer (ev_lib E) (lb_Meta cr) lbFinalizer then ret noRequeue
      else
        and_then (LoadBalancerReconciler_cleanup E cr api) (\<lambda>_.
        and_then (kUpdate OLoadBalancer (ev_LoadBalancers E)
          (lb_Meta_update (\<lambda>m. RemoveFinalizer (ev_lib E) m lbFinalizer) cr)) (\<lambda>_.
          ret noRequeue)))"

text \<open>The target: the resource, the pool's name, the Service written to.\<close>

definition LoadBalancerReconciler_target ::
    "'w env \<Rightarrow> ClusterbookLoadBalancer \<Rightarrow> string \<Rightarrow> ClusterInfo option
     \<Rightarrow> ('w, ClusterbookLoadBalancer \<times> string \<times> ServiceObjectRef option) op" where
  "LoadBalancerReconciler_target E cr ip info =
     (case lb_CiliumPool (lb_Spec cr) of
        Some target \<Rightarrow>
          (let poolName = (if cpt_PoolName target = [] then lb_Name (lb_Spec cr) @ ''-pool''
                           else cpt_PoolName target) in
           and_then (wrap ''upsert cilium pool'' (upsertCiliumPool E cr target poolName ip info))
             (\<lambda>_. ret (cr, poolName, None)))
      | None \<Rightarrow>
          (case lb_ServiceRef (lb_Spec cr) of
             Some ref \<Rightarrow>
               and_then (wrap ''patch service loadBalancerIP'' (patchServiceLBIP E cr ref ip)) (\<lambda>cr'.
                 case lb_ServiceRef (lb_Spec cr') of
                   None \<Rightarrow> fail nil_deref
                 | Some ref' \<Rightarrow> ret (cr', [], Some ref'))
           | None \<Rightarrow> ret (cr, [], None)))"

definition LoadBalancerReconciler_status ::
    "lib \<Rightarrow> ClusterbookLoadBalancer \<Rightarrow> string \<Rightarrow> string \<Rightarrow> ServiceObjectRef option
     \<Rightarrow> ClusterInfo option \<Rightarrow> ClusterbookLoadBalancer" where
  "LoadBalancerReconciler_status L cr ip poolName svcRef info =
     (let st = (lb_Status cr)\<lparr>lbs_IP := ip, lbs_PoolName := poolName,
                 lbs_TargetServiceRef := svcRef\<rparr>;
          st' = (case info of None \<Rightarrow> st | Some i \<Rightarrow> st\<lparr>lbs_FQDN := ci_FQDN i, lbs_Zone := ci_Zone i\<rparr>)
      in cr\<lparr>lb_Status := st'\<lparr>lbs_Conditions := SetStatusCondition L (lbs_Conditions st')
             readyCondition\<rparr>\<rparr>)"

definition LoadBalancerReconciler_apply ::
    "'w env \<Rightarrow> CbkClient option \<Rightarrow> ClusterbookLoadBalancer \<Rightarrow> ('w, Result) op" where
  "LoadBalancerReconciler_apply E api cr =
     (if lb_CiliumPool (lb_Spec cr) = None \<and> lb_ServiceRef (lb_Spec cr) = None then
        fail (New ''spec.ciliumPool or spec.serviceRef must be set'')
      else if lb_CiliumPool (lb_Spec cr) \<noteq> None \<and> lb_ServiceRef (lb_Spec cr) \<noteq> None then
        fail (New ''spec.ciliumPool and spec.serviceRef are mutually exclusive'')
      else
        and_then (LoadBalancerReconciler_ensureReservation E api cr) (\<lambda>ip.
        and_then (optional (GetClusterInfo E api (lb_Name (lb_Spec cr)))) (\<lambda>info.
        and_then (LoadBalancerReconciler_target E cr ip info) (\<lambda>(cr', poolName, svcRef).
        and_then (ignore (kStatusUpdate OLoadBalancer (ev_LoadBalancers E)
          (LoadBalancerReconciler_status (ev_lib E) cr' ip poolName svcRef info))) (\<lambda>_.
          ret noRequeue)))))"

definition LoadBalancerReconciler_Reconcile :: "'w env \<Rightarrow> objkey \<Rightarrow> ('w, Result) op" where
  "LoadBalancerReconciler_Reconcile E key =
     and_then (attempt (kGet KLoadBalancer (ev_LoadBalancers E) key)) (\<lambda>r. case r of
       Inl e \<Rightarrow> if IsNotFound e then ret noRequeue else fail e
     | Inr cr \<Rightarrow>
         and_then (wrap ''load provider config''
           (loadProviderConfig E (lb_ProviderConfigRef (lb_Spec cr)))) (\<lambda>pc.
         and_then (wrap ''build clusterbook client'' (newClusterbookClient E pc)) (\<lambda>c.
           if om_DeletionTimestamp (lb_Meta cr) \<noteq> None
           then LoadBalancerReconciler_finalize E cr (Some c)
           else
             and_then (ensureFinalizer (ev_lib E) OLoadBalancer (ev_LoadBalancers E) lb_Meta
                 lb_Meta_update lbFinalizer cr) (\<lambda>cr1.
               LoadBalancerReconciler_apply E (Some c) cr1))))"

section \<open>The contracts it implements\<close>

interpretation lbReservation: reservation LoadBalancerReconciler_ensureReservation
    "\<lambda>cr. lbs_IP (lb_Status cr)" "\<lambda>cr. lb_NetworkKey (lb_Spec cr)" "\<lambda>cr. lb_Name (lb_Spec cr)"
    "\<lambda>cr. \<lparr>rr_Cluster = lb_Name (lb_Spec cr), rr_Count = 1, rr_IP = [],
       rr_CreateDNS = lb_CreateDNS (lb_Spec cr), rr_Status = []\<rparr>"
    "\<lambda>cr. lbs_IP (lb_Status cr)" "\<lambda>cr e. ip_IP e" "\<lambda>cr ips. ips ! 0" "\<lambda>ip. ip"
  by unfold_locales (auto simp: LoadBalancerReconciler_ensureReservation_def hd_conv_nth)

interpretation lbFinalizing: finalizing LoadBalancerReconciler_finalize
    LoadBalancerReconciler_cleanup OLoadBalancer ev_LoadBalancers lb_Meta lb_Meta_update lbFinalizer
  by unfold_locales (simp add: LoadBalancerReconciler_finalize_def)

interpretation lbReleasing: releasing LoadBalancerReconciler_finalize
    LoadBalancerReconciler_cleanup OLoadBalancer ev_LoadBalancers lb_Meta lb_Meta_update lbFinalizer
    "\<lambda>E cr. case lb_ServiceRef (lb_Spec cr) of
       Some ref \<Rightarrow> wrap ''restore service loadBalancerIP'' (restoreServiceLBIP E cr ref)
     | None \<Rightarrow>
         if lbs_PoolName (lb_Status cr) \<noteq> []
         then ignore (kDelete KCiliumPool (ev_CiliumPools E) ([], lbs_PoolName (lb_Status cr)))
         else ret ()"
    "\<lambda>cr. lb_ReleaseOnDelete (lb_Spec cr)" "\<lambda>cr. lb_NetworkKey (lb_Spec cr)"
    "\<lambda>cr. lbs_IP (lb_Status cr)"
proof unfold_locales
  fix E :: "'w env" and cr
  show "emits (\<lambda>e. \<forall>x b. e \<noteq> EUpdate (OLoadBalancer x) b) (case lb_ServiceRef (lb_Spec cr) of
       Some ref \<Rightarrow> wrap ''restore service loadBalancerIP'' (restoreServiceLBIP E cr ref)
     | None \<Rightarrow>
         if lbs_PoolName (lb_Status cr) \<noteq> []
         then ignore (kDelete KCiliumPool (ev_CiliumPools E) ([], lbs_PoolName (lb_Status cr)))
         else ret ())"
    unfolding restoreServiceLBIP_def Let_def
    by (intro emits_struct emits_ignore emits_kDelete emits_kGet emits_kUpdate) auto
qed (simp add: LoadBalancerReconciler_cleanup_def cong: if_cong option.case_cong)

end
