(* ===== verification/LoadBalancerProps.thy ===== *)
theory LoadBalancerProps
  imports LoadBalancer ClusterTraffic
begin

text \<open>
  Properties of the \<open>ClusterbookLoadBalancer\<close> reconciler: the Service gets its original address
  back, the pool is pinned to the reserved address, an impossible specification burns no address.
\<close>

section \<open>The Service's address\<close>

text \<open>What the Service round trip needs of the store of the resources themselves: an update keeps
  the annotations sent, and does not touch Services.\<close>

definition lb_store_laws :: "'w env \<Rightarrow> ('w \<Rightarrow> objkey \<Rightarrow> Service option) \<Rightarrow> bool" where
  "lb_store_laws E view \<longleftrightarrow> (\<forall>x w r w'. k_Update (ev_LoadBalancers E) x w = (r, w') \<longrightarrow>
     view w' = view w
     \<and> (\<forall>y. r = Inr y \<longrightarrow> om_Annotations (lb_Meta y) = om_Annotations (lb_Meta x)))"

definition svc_key :: "ServiceObjectRef \<Rightarrow> objkey" where
  "svc_key ref = (svr_Namespace ref, svr_Name ref)"

abbreviation captured :: "ClusterbookLoadBalancer \<Rightarrow> string option" where
  "captured cr \<equiv> fmlookup (om_Annotations (lb_Meta cr)) annotationPreviousLBIP"

lemma capture_step:
  assumes "lb_store_laws E view"
    and "(case captured cr of
          Some v \<Rightarrow> ret cr
        | None \<Rightarrow> wrap ''record previous loadBalancerIP''
            (kUpdate OLoadBalancer (ev_LoadBalancers E)
              (lb_Meta_update (\<lambda>m. m\<lparr>om_Annotations :=
                 fmupd annotationPreviousLBIP old (om_Annotations m)\<rparr>) cr))) (w, tr) = (Inr cr', (w', tr'))"
  shows "view w' = view w"
    and "captured cr' = Some (case captured cr of None \<Rightarrow> old | Some p \<Rightarrow> p)"
proof -
  let ?x = "lb_Meta_update (\<lambda>m. m\<lparr>om_Annotations :=
                 fmupd annotationPreviousLBIP old (om_Annotations m)\<rparr>) cr"
  have "view w' = view w \<and> captured cr' = Some (case captured cr of None \<Rightarrow> old | Some p \<Rightarrow> p)"
  proof (cases "captured cr")
    case None
    with assms(2) have "wrap ''record previous loadBalancerIP''
        (kUpdate OLoadBalancer (ev_LoadBalancers E) ?x) (w, tr) = (Inr cr', (w', tr'))" by simp
    from kube_call_InrD(2) [OF wrap_InrD [OF this]]
    have "k_Update (ev_LoadBalancers E) ?x w = (Inr cr', w')" by auto
    with assms(1) have "view w' = view w" "om_Annotations (lb_Meta cr') = om_Annotations (lb_Meta ?x)"
      unfolding lb_store_laws_def by blast+
    with None show ?thesis by simp
  qed (use assms(2) in \<open>simp add: ret_def\<close>)
  then show "view w' = view w"
    and "captured cr' = Some (case captured cr of None \<Rightarrow> old | Some p \<Rightarrow> p)" by blast+
qed

lemma patch_step:
  assumes "kube_client (ev_Services E) view (\<lambda>s. meta_key (svc_Meta s)) (\<lambda>s. s)"
    and "lb_store_laws E view"
    and "view w = V(svc_key ref \<mapsto> svc\<lparr>svc_LoadBalancerIP := v\<rparr>)"
    and "meta_key (svc_Meta svc) = svc_key ref"
    and "patchServiceLBIP E cr ref ip (w, tr) = (Inr cr', (w', tr'))"
  shows "view w' = V(svc_key ref \<mapsto> svc\<lparr>svc_LoadBalancerIP := ip\<rparr>)"
    and "captured cr' = Some (case captured cr of None \<Rightarrow> v | Some p \<Rightarrow> p)"
proof -
  let ?cap = "\<lambda>s. case captured cr of
          Some v \<Rightarrow> ret cr
        | None \<Rightarrow> wrap ''record previous loadBalancerIP''
            (kUpdate OLoadBalancer (ev_LoadBalancers E)
              (lb_Meta_update (\<lambda>m. m\<lparr>om_Annotations :=
                 fmupd annotationPreviousLBIP (svc_LoadBalancerIP s) (om_Annotations m)\<rparr>) cr))"
  let ?fin = "\<lambda>s cr1. if svc_LoadBalancerIP s = ip then ret cr1
       else and_then (kUpdate OService (ev_Services E) (s\<lparr>svc_LoadBalancerIP := ip\<rparr>)) (\<lambda>_. ret cr1)"
  from assms(5) [unfolded patchServiceLBIP_def] obtain s0 st0 where
    g0: "kGet KService (ev_Services E) (svr_Namespace ref, svr_Name ref) (w, tr) = (Inr s0, st0)"
    and r0: "and_then (?cap s0) (?fin s0) st0 = (Inr cr', (w', tr'))"
    by (rule and_then_InrE)
  obtain w0 tr0 where st0: "st0 = (w0, tr0)" by (rule prod.exhaust)
  note g = g0 [folded svc_key_def, unfolded st0] and r = r0 [unfolded st0]
  have s0: "s0 = svc\<lparr>svc_LoadBalancerIP := v\<rparr>" and v0: "view w0 = view w"
    using kube_client.kGet_view [OF assms(1) g] assms(3) by auto
  from r obtain cr1 st1 where c1: "?cap s0 (w0, tr0) = (Inr cr1, st1)"
    and u1: "?fin s0 cr1 st1 = (Inr cr', (w', tr'))"
    by (rule and_then_InrE)
  obtain w1 tr1 where st1: "st1 = (w1, tr1)" by (rule prod.exhaust)
  note c = c1 [unfolded st1] and u = u1 [unfolded st1]
  note cap = capture_step [OF assms(2) c]
  have "cr1 = cr' \<and> view w' = V(svc_key ref \<mapsto> svc\<lparr>svc_LoadBalancerIP := ip\<rparr>)"
  proof (cases "svc_LoadBalancerIP s0 = ip")
    case True
    with u cap(1) v0 assms(3) s0 show ?thesis by (simp add: ret_def)
  next
    case False
    with u obtain y s2 where k: "kUpdate OService (ev_Services E) (s0\<lparr>svc_LoadBalancerIP := ip\<rparr>) (w1, tr1)
        = (Inr y, s2)" and "ret cr1 s2 = (Inr cr', (w', tr'))"
      by (auto elim!: and_then_InrE)
    then have "cr1 = cr'" "s2 = (w', tr')" by (simp_all add: ret_def)
    with kube_client.kUpdate_view(2) [OF assms(1) k [unfolded this]] cap(1) v0 assms(3,4) s0
    show ?thesis by simp
  qed
  then show "view w' = V(svc_key ref \<mapsto> svc\<lparr>svc_LoadBalancerIP := ip\<rparr>)"
    and "captured cr' = Some (case captured cr of None \<Rightarrow> v | Some p \<Rightarrow> p)"
    using cap(2) s0 by (simp_all cong: option.case_cong)
qed

text \<open>Restoring writes the recorded value, or clears the field when none was recorded.\<close>

lemma restore_step:
  assumes kc: "kube_client (ev_Services E) view (\<lambda>s. meta_key (svc_Meta s)) (\<lambda>s. s)"
    and "view w (svc_key ref) = Some s" and "meta_key (svc_Meta s) = svc_key ref"
    and "restoreServiceLBIP E cr ref (w, tr) = (Inr (), (w', tr'))"
  shows "view w' = (view w)(svc_key ref \<mapsto> s\<lparr>svc_LoadBalancerIP :=
    (case captured cr of None \<Rightarrow> [] | Some p \<Rightarrow> p)\<rparr>)"
proof -
  let ?prior = "idx (om_Annotations (lb_Meta cr)) annotationPreviousLBIP"
  have prior: "?prior = (case captured cr of None \<Rightarrow> [] | Some p \<Rightarrow> p)" by (simp add: idx_def)
  obtain q w3 where g: "k_Get (ev_Services E) (svc_key ref) w = (q, w3)" by (rule prod.exhaust)
  have "view w' = (view w)(svc_key ref \<mapsto> s\<lparr>svc_LoadBalancerIP := ?prior\<rparr>)"
  proof (cases q)
    case (Inl e)
    with kube_client.get_not_found [OF kc, of "svc_key ref" w e w3] g assms(2) have "\<not> IsNotFound e"
      by auto
    with assms(4) g Inl show ?thesis
      by (auto simp: restoreServiceLBIP_def svc_key_def kGet_def call_def and_then_def attempt_def
          fail_def split: if_splits)
  next
    case (Inr s')
    have s': "s' = s" and v3: "view w3 = view w"
      using kube_client.get_ok [OF kc g [unfolded Inr]] assms(2) kube_client.get_frame [OF kc g] by auto
    have r: "(if svc_LoadBalancerIP s = ?prior then ret ()
        else and_then (kUpdate OService (ev_Services E) (s\<lparr>svc_LoadBalancerIP := ?prior\<rparr>))
               (\<lambda>_. ret ())) (w3, tr @ [EGet KService (svc_key ref) True]) = (Inr (), (w', tr'))"
      using assms(4) s'
      by (simp add: restoreServiceLBIP_def svc_key_def Let_def
          attempt_kGet_run(1) [OF g [unfolded Inr svc_key_def]])
    show ?thesis
    proof (cases "svc_LoadBalancerIP s = ?prior")
      case True
      with r have "w' = w3" by (simp add: ret_def)
      moreover from True have "s\<lparr>svc_LoadBalancerIP := ?prior\<rparr> = s" by (cases s) simp
      ultimately show ?thesis using v3 assms(2) by (simp add: fun_upd_idem)
    next
      case False
      with r have "and_then (kUpdate OService (ev_Services E) (s\<lparr>svc_LoadBalancerIP := ?prior\<rparr>))
               (\<lambda>_. ret ()) (w3, tr @ [EGet KService (svc_key ref) True]) = (Inr (), (w', tr'))" by simp
      then obtain y s2 where k: "kUpdate OService (ev_Services E)
          (s\<lparr>svc_LoadBalancerIP := ?prior\<rparr>) (w3, tr @ [EGet KService (svc_key ref) True])
          = (Inr y, s2)" and "ret () s2 = (Inr (), (w', tr'))"
        by (rule and_then_InrE)
      then have "s2 = (w', tr')" by (simp add: ret_def)
      with kube_client.kUpdate_view(2) [OF kc k [unfolded this]] v3 assms(3) show ?thesis by simp
    qed
  qed
  with prior show ?thesis by simp
qed

text \<open>One run after another, each with the address of its time.\<close>

fun patchAll :: "'w env \<Rightarrow> ServiceObjectRef \<Rightarrow> string list \<Rightarrow> ClusterbookLoadBalancer
    \<Rightarrow> ('w, ClusterbookLoadBalancer) op" where
  "patchAll E ref [] cr = ret cr"
| "patchAll E ref (ip # ips) cr = and_then (patchServiceLBIP E cr ref ip) (patchAll E ref ips)"

lemma patchAll_view:
  assumes "kube_client (ev_Services E) view (\<lambda>s. meta_key (svc_Meta s)) (\<lambda>s. s)"
    and "lb_store_laws E view"
    and "meta_key (svc_Meta svc) = svc_key ref"
  shows "view w = V(svc_key ref \<mapsto> svc\<lparr>svc_LoadBalancerIP := v\<rparr>) \<Longrightarrow>
    patchAll E ref ips cr (w, tr) = (Inr cr', (w', tr')) \<Longrightarrow>
    view w' = V(svc_key ref \<mapsto> svc\<lparr>svc_LoadBalancerIP := last (v # ips)\<rparr>)
    \<and> captured cr' = (case captured cr of
        None \<Rightarrow> if ips = [] then None else Some v | Some p \<Rightarrow> Some p)"
proof (induction ips arbitrary: v cr w tr)
  case Nil
  then show ?case by (auto simp: ret_def split: option.split)
next
  case (Cons ip ips)
  from Cons.prems(2) obtain cr1 w1 tr1 where p: "patchServiceLBIP E cr ref ip (w, tr) = (Inr cr1, (w1, tr1))"
    and r: "patchAll E ref ips cr1 (w1, tr1) = (Inr cr', (w', tr'))"
    by (auto elim!: and_then_InrE)
  note step = patch_step [OF assms(1,2) Cons.prems(1) assms(3) p]
  from Cons.IH [OF step(1) r] step(2) show ?case by (auto split: option.splits)
qed

section \<open>Properties\<close>

text \<open>
  C23. The Service gets its original address back. Whatever addresses successive runs patched in,
  and however often, deletion restores the \<open>loadBalancerIP\<close> the Service had before the first of
  them, exactly, and in between the Service carries the latest address and nothing else changed.
\<close>

theorem service_address_restored:
  assumes "kube_client (ev_Services E) view (\<lambda>s. meta_key (svc_Meta s)) (\<lambda>s. s)"
    and "lb_store_laws E view"
    and "view w (svc_key ref) = Some svc" and "meta_key (svc_Meta svc) = svc_key ref"
    and "fmlookup (om_Annotations (lb_Meta cr)) annotationPreviousLBIP = None" and "ips \<noteq> []"
    and "patchAll E ref ips cr (w, tr) = (Inr cr', (w1, tr1))"
    and "restoreServiceLBIP E cr' ref (w1, tr1) = (Inr (), (w2, tr2))"
  shows "view w1 = (view w)(svc_key ref \<mapsto> svc\<lparr>svc_LoadBalancerIP := last ips\<rparr>) \<and> view w2 = view w"
proof -
  have "view w = (view w)(svc_key ref \<mapsto> svc\<lparr>svc_LoadBalancerIP := svc_LoadBalancerIP svc\<rparr>)"
    using assms(3) by (simp add: fun_upd_idem)
  from patchAll_view [OF assms(1,2,4) this assms(7)] assms(5,6)
  have v1: "view w1 = (view w)(svc_key ref \<mapsto> svc\<lparr>svc_LoadBalancerIP := last ips\<rparr>)"
    and cap: "captured cr' = Some (svc_LoadBalancerIP svc)" by auto
  have "view w2 = (view w1)(svc_key ref \<mapsto> (svc\<lparr>svc_LoadBalancerIP := last ips\<rparr>)
      \<lparr>svc_LoadBalancerIP := (case captured cr' of None \<Rightarrow> [] | Some p \<Rightarrow> p)\<rparr>)"
    by (rule restore_step [OF assms(1) _ _ assms(8)]) (use v1 assms(4) in simp_all)
  then have "view w2 = view w" using v1 cap assms(3) by (simp add: fun_upd_idem)
  with v1 show ?thesis by blast
qed

definition exampleService :: Service where
  "exampleService = \<lparr>svc_Meta = new_meta ''ingress'' ''gw'', svc_LoadBalancerIP = ''192.0.2.1''\<rparr>"

definition exampleServiceRef :: ServiceObjectRef where
  "exampleServiceRef = \<lparr>svr_Name = ''gw'', svr_Namespace = ''ingress''\<rparr>"

definition exampleLB :: ClusterbookLoadBalancer where
  "exampleLB = \<lparr>lb_Meta = (new_meta [] ''lb1'')\<lparr>om_Finalizers := [lbFinalizer]\<rparr>,
     lb_Spec = \<lparr>lb_NetworkKey = ''10.31.103'', lb_Name = ''lb1'', lb_CreateDNS = False,
       lb_ProviderConfigRef = ''pc'', lb_CiliumPool = None, lb_ServiceRef = Some exampleServiceRef,
       lb_ReleaseOnDelete = False\<rparr>,
     lb_Status = \<lparr>lbs_IP = [], lbs_FQDN = [], lbs_Zone = [], lbs_PoolName = [],
       lbs_TargetServiceRef = None, lbs_Conditions = []\<rparr>\<rparr>"

definition exampleLBWorld :: mem where
  "exampleLBWorld = emptyMem\<lparr>mm_LoadBalancers := fmap_of_list [(([], ''lb1''), exampleLB)],
     mm_Services := fmap_of_list [((''ingress'', ''gw''), exampleService)]\<rparr>"

lemma lb_store_laws_mem: "lb_store_laws (memEnv L) (\<lambda>w. fmlookup (mm_Services w))"
  by (auto simp: lb_store_laws_def memLoadBalancers_def split: option.splits)

lemma restore_runs_mem:
  assumes "fmlookup (mm_Services w) (svc_key ref) = Some s" and "meta_key (svc_Meta s) = svc_key ref"
  obtains w' tr' where "restoreServiceLBIP (memEnv L) cr ref (w, tr) = (Inr (), (w', tr'))"
proof (cases "svc_LoadBalancerIP s = idx (om_Annotations (lb_Meta cr)) annotationPreviousLBIP")
  case True
  with assms that show thesis
    by (simp add: restoreServiceLBIP_def run_defs svc_key_def Let_def)
next
  case False
  with assms that show thesis
    by (simp add: restoreServiceLBIP_def run_defs svc_key_def Let_def)
qed

theorem service_address_restored_witness:
  "\<exists>cr' s1 s2. patchAll (memEnv exampleLib) exampleServiceRef [''10.31.103.7'', ''10.31.103.9''] exampleLB
       (exampleLBWorld, []) = (Inr cr', s1)
    \<and> restoreServiceLBIP (memEnv exampleLib) cr' exampleServiceRef s1 = (Inr (), s2)
    \<and> fmlookup (mm_Services (fst s1)) (svc_key exampleServiceRef) =
        Some (exampleService\<lparr>svc_LoadBalancerIP := ''10.31.103.9''\<rparr>)
    \<and> fmlookup (mm_Services (fst s2)) = fmlookup (mm_Services exampleLBWorld)"
proof -
  let ?E = "memEnv exampleLib"
  let ?ips = "[''10.31.103.7'', ''10.31.103.9'']"
  have k: "kube_client (ev_Services ?E) (\<lambda>w. fmlookup (mm_Services w)) (\<lambda>s. meta_key (svc_Meta s)) (\<lambda>s. s)"
    using serviceStore.kube_client_axioms by simp
  have v: "fmlookup (mm_Services exampleLBWorld) (svc_key exampleServiceRef) = Some exampleService"
    by (simp add: exampleLBWorld_def exampleServiceRef_def svc_key_def)
  have n: "fmlookup (om_Annotations (lb_Meta exampleLB)) annotationPreviousLBIP = None"
    "meta_key (svc_Meta exampleService) = svc_key exampleServiceRef"
    by (simp_all add: exampleLB_def exampleService_def exampleServiceRef_def svc_key_def)
  obtain cr' w1 tr1 where p: "patchAll ?E exampleServiceRef ?ips exampleLB (exampleLBWorld, []) =
      (Inr cr', (w1, tr1))"
    by (simp add: patchServiceLBIP_def run_defs exampleLB_def exampleLBWorld_def exampleServiceRef_def
        exampleService_def emptyMem_def meta_key_def new_meta_def)
  have "fmlookup (mm_Services exampleLBWorld) = (fmlookup (mm_Services exampleLBWorld))
      (svc_key exampleServiceRef \<mapsto> exampleService\<lparr>svc_LoadBalancerIP := ''192.0.2.1''\<rparr>)"
    using v by (simp add: fun_upd_idem exampleService_def)
  from patchAll_view [OF k lb_store_laws_mem n(2) this p]
  have "fmlookup (mm_Services w1) (svc_key exampleServiceRef) =
      Some (exampleService\<lparr>svc_LoadBalancerIP := ''10.31.103.9''\<rparr>)" by simp
  then obtain w2 tr2 where r: "restoreServiceLBIP ?E cr' exampleServiceRef (w1, tr1) = (Inr (), (w2, tr2))"
    by (rule restore_runs_mem) (use n(2) in simp)
  from service_address_restored [OF k lb_store_laws_mem v n(2,1) _ p r] p r show ?thesis by fastforce
qed

text \<open>
  Deletion before the first patch is not a no-op: a resource whose previous value was never
  recorded (it was deleted before its first complete run) clears \<open>loadBalancerIP\<close> of the Service it
  names, whatever the Service's owner had put there.
\<close>

theorem unpatched_service_cleared:
  assumes "kube_client (ev_Services E) view (\<lambda>s. meta_key (svc_Meta s)) (\<lambda>s. s)"
    and "view w (svc_key ref) = Some svc" and "meta_key (svc_Meta svc) = svc_key ref"
    and "fmlookup (om_Annotations (lb_Meta cr)) annotationPreviousLBIP = None"
    and "restoreServiceLBIP E cr ref (w, tr) = (Inr (), (w', tr'))"
  shows "view w' = (view w)(svc_key ref \<mapsto> svc\<lparr>svc_LoadBalancerIP := []\<rparr>)"
  using restore_step [OF assms(1-3,5)] assms(4) by simp

theorem unpatched_service_cleared_witness:
  "\<exists>s. restoreServiceLBIP (memEnv exampleLib) exampleLB exampleServiceRef (exampleLBWorld, []) = (Inr (), s)
    \<and> svc_LoadBalancerIP exampleService = ''192.0.2.1''
    \<and> fmlookup (mm_Services (fst s)) (svc_key exampleServiceRef) =
        Some (exampleService\<lparr>svc_LoadBalancerIP := []\<rparr>)"
proof -
  let ?E = "memEnv exampleLib"
  have k: "kube_client (ev_Services ?E) (\<lambda>w. fmlookup (mm_Services w)) (\<lambda>s. meta_key (svc_Meta s)) (\<lambda>s. s)"
    using serviceStore.kube_client_axioms by simp
  have v: "fmlookup (mm_Services exampleLBWorld) (svc_key exampleServiceRef) = Some exampleService"
    "meta_key (svc_Meta exampleService) = svc_key exampleServiceRef"
    "fmlookup (om_Annotations (lb_Meta exampleLB)) annotationPreviousLBIP = None"
    by (simp_all add: exampleLBWorld_def exampleServiceRef_def svc_key_def exampleService_def exampleLB_def)
  obtain w' tr' where r: "restoreServiceLBIP ?E exampleLB exampleServiceRef (exampleLBWorld, []) =
      (Inr (), (w', tr'))"
    by (rule restore_runs_mem [OF v(1,2)])
  from unpatched_service_cleared [OF k v r]
  have "fmlookup (mm_Services w') (svc_key exampleServiceRef) = Some (exampleService\<lparr>svc_LoadBalancerIP := []\<rparr>)"
    by simp
  with r show ?thesis by (simp add: exampleService_def)
qed

section \<open>The pool\<close>

text \<open>The two nested writes, and the annotations.\<close>

text \<open>The two fields of the pool the operator sets; a path apart from them is left alone.\<close>

definition apartFrom :: "string list \<Rightarrow> string list \<Rightarrow> bool" where
  "apartFrom p q \<longleftrightarrow> \<not> prefix p q \<and> \<not> prefix q p"

lemma pool_spec:
  assumes "nested_laws L" and o1: "SetNestedField L o0 b [''spec'', ''blocks''] = Inr o1"
    and o2: "(case selector of
          None \<Rightarrow> Inr o1
        | Some sel \<Rightarrow> SetNestedField L o1 (labelSelectorToMap sel) [''spec'', ''serviceSelector'']) = Inr o2"
  shows "jpath o2 [''spec'', ''blocks''] = Some b"
    and "jpath o2 [''spec'', ''serviceSelector''] = (case selector of
         Some sel \<Rightarrow> Some (labelSelectorToMap sel)
       | None \<Rightarrow> jpath o0 [''spec'', ''serviceSelector''])"
    and "apartFrom [''spec'', ''blocks''] q \<Longrightarrow>
      selector = None \<or> apartFrom [''spec'', ''serviceSelector''] q \<Longrightarrow> jpath o2 q = jpath o0 q"
proof -
  note set = assms(1) [unfolded nested_laws_def, THEN conjunct1, rule_format]
  note keep = assms(1) [unfolded nested_laws_def, THEN conjunct2, rule_format]
  have b1: "jpath o1 [''spec'', ''blocks''] = Some b" by (rule set [OF _ o1]) simp
  have k1: "jpath o1 q = jpath o0 q" if "apartFrom [''spec'', ''blocks''] q" for q
    using that unfolding apartFrom_def by (elim conjE) (rule keep [OF o1])
  have k2: "jpath o2 q = jpath o1 q" if "selector = None \<or> apartFrom [''spec'', ''serviceSelector''] q" for q
  proof (cases selector)
    case (Some sel)
    with o2 have n: "SetNestedField L o1 (labelSelectorToMap sel) [''spec'', ''serviceSelector''] = Inr o2" by simp
    from that Some have "apartFrom [''spec'', ''serviceSelector''] q" by simp
    then show ?thesis unfolding apartFrom_def by (elim conjE) (rule keep [OF n])
  qed (use o2 in simp)
  have ap: "apartFrom [''spec'', ''blocks''] [''spec'', ''serviceSelector'']"
    "apartFrom [''spec'', ''serviceSelector''] [''spec'', ''blocks'']" by (simp_all add: apartFrom_def)
  show "jpath o2 [''spec'', ''blocks''] = Some b" using k2 [OF disjI2 [OF ap(2)]] b1 by simp
  show "jpath o2 [''spec'', ''serviceSelector''] = (case selector of
         Some sel \<Rightarrow> Some (labelSelectorToMap sel)
       | None \<Rightarrow> jpath o0 [''spec'', ''serviceSelector''])"
  proof (cases selector)
    case None
    with k2 k1 [OF ap(1)] show ?thesis by (simp del: jpath.simps)
  next
    case (Some sel)
    with o2 have "SetNestedField L o1 (labelSelectorToMap sel) [''spec'', ''serviceSelector''] = Inr o2" by simp
    then have "jpath o2 [''spec'', ''serviceSelector''] = Some (labelSelectorToMap sel)" by (rule set [rotated]) simp
    with Some show ?thesis by simp
  qed
  show "apartFrom [''spec'', ''blocks''] q \<Longrightarrow>
      selector = None \<or> apartFrom [''spec'', ''serviceSelector''] q \<Longrightarrow> jpath o2 q = jpath o0 q"
    using k1 k2 by simp
qed

lemma fmlookup_poolAnnotations:
  "fmlookup (poolAnnotations ip info) k =
      (if (case info of None \<Rightarrow> False | Some i \<Rightarrow> ci_Zone i \<noteq> []) \<and> k = annotationZone
       then map_option ci_Zone info
       else if (case info of None \<Rightarrow> False | Some i \<Rightarrow> ci_FQDN i \<noteq> []) \<and> k = annotationFQDN
       then map_option ci_FQDN info
       else if annotationIP = k then Some ip else None)"
  unfolding poolAnnotations_def Let_def
  by (cases info) (simp_all only: option.case option.map fmlookup_put_if fmupd_lookup
        fmempty_lookup simp_thms if_False)

text \<open>
  C25. The pool is pinned, and nothing else of it is touched. When the create-or-update of a
  \<open>CiliumLoadBalancerIPPool\<close> prepares its object, \<open>spec.blocks\<close> is the one block \<open>ip/32\<close>, a selector
  in the spec is copied to \<open>spec.serviceSelector\<close>, and every other path of the object is as it was;
  without a selector in the spec, the selector the pool had stays. Of the metadata, the annotations
  get the reserved address, and the FQDN and the zone when clusterbook knows them, all other keys
  keep their value; the owner references are those of \<open>SetControllerReference\<close>; name, namespace,
  labels, finalizers and deletion timestamp are as they were.
\<close>

theorem pool_pinned:
  assumes "nested_laws L" and "owner_laws L"
    and "poolMutate L cr target ip info pool = Inr pool'"
  shows "jpath (un_Object pool') [''spec'', ''blocks''] =
      Some (JArr [JObj [(''cidr'', JStr (ip @ ''/32''))]])
    \<and> jpath (un_Object pool') [''spec'', ''serviceSelector''] =
      (case cpt_ServiceSelector target of
         Some sel \<Rightarrow> Some (labelSelectorToMap sel)
       | None \<Rightarrow> jpath (un_Object pool) [''spec'', ''serviceSelector''])
    \<and> (\<forall>q. apartFrom [''spec'', ''blocks''] q
          \<and> (cpt_ServiceSelector target = None \<or> apartFrom [''spec'', ''serviceSelector''] q) \<longrightarrow>
         jpath (un_Object pool') q = jpath (un_Object pool) q)
    \<and> (\<forall>k. fmlookup (om_Annotations (un_Meta pool')) k =
         (if k = annotationIP then Some ip
          else if k = annotationFQDN \<and> (\<exists>i. info = Some i \<and> ci_FQDN i \<noteq> []) then map_option ci_FQDN info
          else if k = annotationZone \<and> (\<exists>i. info = Some i \<and> ci_Zone i \<noteq> []) then map_option ci_Zone info
          else fmlookup (om_Annotations (un_Meta pool)) k))
    \<and> SetControllerReference L KLoadBalancer (lb_Meta cr)
        ((un_Meta pool)\<lparr>om_Annotations := om_Annotations (un_Meta pool')\<rparr>) = Inr (un_Meta pool')
    \<and> un_Meta pool' = (un_Meta pool)\<lparr>om_Annotations := om_Annotations (un_Meta pool'),
        om_OwnerReferences := om_OwnerReferences (un_Meta pool')\<rparr>"
proof -
  let ?b = "JArr [JObj [(''cidr'', JStr (ip @ ''/32''))]]"
  let ?m = "(un_Meta pool)\<lparr>om_Annotations :=
                fmadd (om_Annotations (un_Meta pool)) (poolAnnotations ip info)\<rparr>"
  obtain o1 o2 m' where o1: "SetNestedField L (un_Object pool) ?b [''spec'', ''blocks''] = Inr o1"
    and o2: "(case cpt_ServiceSelector target of
          None \<Rightarrow> Inr o1
        | Some sel \<Rightarrow> SetNestedField L o1 (labelSelectorToMap sel) [''spec'', ''serviceSelector'']) = Inr o2"
    and m': "SetControllerReference L KLoadBalancer (lb_Meta cr) ?m = Inr m'"
    and p: "pool' = pool\<lparr>un_Meta := m', un_Object := o2\<rparr>"
    using assms(3) unfolding poolMutate_def Let_def result_bind_def by (auto split: sum.splits)
  have frame: "m' = ?m\<lparr>om_OwnerReferences := om_OwnerReferences m'\<rparr>"
    using assms(2) m' unfolding owner_laws_def by blast
  have ann: "om_Annotations m' = om_Annotations ?m"
    by (subst frame) simp
  have "fmlookup (om_Annotations m') k =
         (if k = annotationIP then Some ip
          else if k = annotationFQDN \<and> (\<exists>i. info = Some i \<and> ci_FQDN i \<noteq> []) then map_option ci_FQDN info
          else if k = annotationZone \<and> (\<exists>i. info = Some i \<and> ci_Zone i \<noteq> []) then map_option ci_Zone info
          else fmlookup (om_Annotations (un_Meta pool)) k)" for k
    unfolding ann
    by (cases info) (auto simp: fmlookup_fmadd_case fmlookup_poolAnnotations key_defs simp del: fmlookup_add)
  moreover have "m' = (un_Meta pool)\<lparr>om_Annotations := om_Annotations m',
      om_OwnerReferences := om_OwnerReferences m'\<rparr>"
    unfolding ann by (subst frame) simp
  moreover have "SetControllerReference L KLoadBalancer (lb_Meta cr)
      ((un_Meta pool)\<lparr>om_Annotations := om_Annotations m'\<rparr>) = Inr m'"
    using m' unfolding ann by simp
  moreover note pool_spec [OF assms(1) o1 o2]
  ultimately show ?thesis
    unfolding p by (intro conjI allI impI; (elim conjE)?) (simp_all del: jpath.simps)
qed

definition labelledPool :: Unstructured where
  "labelledPool = (newPool ''lb1-pool'')\<lparr>un_Meta := (new_meta [] ''lb1-pool'')
       \<lparr>om_Labels := fmupd ''team'' ''net'' fmempty\<rparr>,
     un_Object := JObj [(''kind'', JStr ''CiliumLoadBalancerIPPool''),
       (''spec'', JObj [(''disabled'', JBool False)])]\<rparr>"

text \<open>A pool someone labelled and gave a field of its own keeps both.\<close>

theorem pool_pinned_witness:
  "\<exists>p. poolMutate exampleLib exampleLB \<lparr>cpt_PoolName = [], cpt_Namespace = [],
      cpt_ServiceSelector = None\<rparr> ''10.31.103.7'' None labelledPool = Inr p
    \<and> jpath (un_Object p) [''spec'', ''blocks''] = Some (JArr [JObj [(''cidr'', JStr (''10.31.103.7'' @ ''/32''))]])
    \<and> jpath (un_Object p) [''spec'', ''disabled''] = Some (JBool False)
    \<and> om_Labels (un_Meta p) = fmupd ''team'' ''net'' fmempty"
proof -
  let ?t = "\<lparr>cpt_PoolName = [], cpt_Namespace = [], cpt_ServiceSelector = None\<rparr>"
  have laws: "nested_laws exampleLib" "owner_laws exampleLib"
    by (simp_all add: exampleLib_def nested_laws_stdLib owner_laws_stdLib)
  obtain p where p: "poolMutate exampleLib exampleLB ?t ''10.31.103.7'' None labelledPool = Inr p"
    by (simp add: poolMutate_def labelledPool_def newPool_def exampleLib_def own_def exampleLB_def Let_def jget_def)
  have old: "jpath (un_Object labelledPool) [''spec'', ''disabled''] = Some (JBool False)"
    "om_Labels (un_Meta labelledPool) = fmupd ''team'' ''net'' fmempty"
    by (simp_all add: labelledPool_def jget_def)
  note r = pool_pinned [OF laws p]
  have "jpath (un_Object p) [''spec'', ''blocks''] = Some (JArr [JObj [(''cidr'', JStr (''10.31.103.7'' @ ''/32''))]])"
    using r by (elim conjE)
  moreover have "jpath (un_Object p) [''spec'', ''disabled''] = Some (JBool False)"
    unfolding old(1) [symmetric] using r [THEN conjunct2, THEN conjunct2, THEN conjunct1, rule_format]
    by (simp add: apartFrom_def del: jpath.simps)
  moreover have "om_Labels (un_Meta p) = om_Labels (un_Meta labelledPool)"
    using r by (elim conjE) (metis ObjectMeta.select_convs(3) ObjectMeta.surjective ObjectMeta.update_convs(4,7))
  ultimately show ?thesis using p old by auto
qed

section \<open>Impossible specifications\<close>

lemma impossible_apply:
  assumes "\<not> valid_ClusterbookLoadBalancerSpec (lb_Spec cr)"
  shows "\<exists>e. \<forall>api x. lb_Spec x = lb_Spec cr \<longrightarrow> LoadBalancerReconciler_apply E api x = fail e"
  using assms by (cases "lb_CiliumPool (lb_Spec cr)"; cases "lb_ServiceRef (lb_Spec cr)")
    (auto simp: valid_ClusterbookLoadBalancerSpec_def b2n_def LoadBalancerReconciler_apply_def)

text \<open>
  C26. A resource with no target, or with both, burns no address: unless it is being deleted, every
  run, the first one included, ends with an error and sends clusterbook nothing, neither a
  reservation nor a read. Assumed is that the API server answers the write that adds the finalizer
  with the specification it was sent. The API server's validation rule excludes exactly these
  resources.
\<close>

theorem impossible_target_burns_nothing:
  assumes "k_Get (ev_LoadBalancers E) key w = (Inr cr, w1)"
    and "om_DeletionTimestamp (lb_Meta cr) = None"
    and "\<And>x u y u'. k_Update (ev_LoadBalancers E) x u = (Inr y, u') \<Longrightarrow> lb_Spec y = lb_Spec x"
    and "\<not> valid_ClusterbookLoadBalancerSpec (lb_Spec cr)"
  shows "\<exists>e es. fst (LoadBalancerReconciler_Reconcile E key (w, tr)) = Inl e
    \<and> snd (snd (LoadBalancerReconciler_Reconcile E key (w, tr))) = tr @ es
    \<and> list_all (\<lambda>e. \<not> is_http e) es"
proof -
  let ?fin = "ensureFinalizer (ev_lib E) OLoadBalancer (ev_LoadBalancers E) lb_Meta lb_Meta_update
      lbFinalizer cr"
  obtain e0 where app: "LoadBalancerReconciler_apply E api x = fail e0" if "lb_Spec x = lb_Spec cr" for api x
    using impossible_apply [OF assms(4)] by blast
  have "lb_Spec x = lb_Spec cr" if "?fin s = (Inr x, t)" for s x t
    using that assms(3)
    by (cases s) (auto simp: ensureFinalizer_def kUpdate_def call_def ret_def split: if_splits prod.splits)
  then have fin: "and_then ?fin (LoadBalancerReconciler_apply E api) = and_then ?fin (\<lambda>_. fail e0)" for api
    by (intro ext) (auto simp: and_then_def app split: prod.splits sum.splits)
  let ?rest = "and_then (wrap ''load provider config''
           (loadProviderConfig E (lb_ProviderConfigRef (lb_Spec cr)))) (\<lambda>pc.
         and_then (wrap ''build clusterbook client'' (newClusterbookClient E pc)) (\<lambda>c.
         and_then ?fin (\<lambda>_. fail e0)))"
  have run: "LoadBalancerReconciler_Reconcile E key (w, tr) =
      (?rest :: ('a, Result) op) (w1, tr @ [EGet KLoadBalancer key True])"
    unfolding LoadBalancerReconciler_Reconcile_def
    by (simp add: attempt_kGet_run(1) [OF assms(1)] assms(2) fin)
  have "emits (\<lambda>e. \<not> is_http e) (?rest :: ('a, Result) op)"
    by (intro emits_struct emits_shared emits_ensureFinalizer) simp_all
  then have ev: "\<exists>es. snd (snd ((?rest :: ('a, Result) op) (w1, tr @ [EGet KLoadBalancer key True]))) = tr @ es
      \<and> list_all (\<lambda>e. \<not> is_http e) es"
    by (rule emits_after) simp
  have "\<nexists>x. fst ((?rest :: ('a, Result) op) s) = Inr x" for s
    by (auto simp: and_then_def fail_def split: prod.splits sum.splits)
  then obtain e where "fst ((?rest :: ('a, Result) op) (w1, tr @ [EGet KLoadBalancer key True])) = Inl e"
    by (metis sumE)
  with ev show ?thesis unfolding run by blast
qed

definition targetlessLB :: ClusterbookLoadBalancer where
  "targetlessLB = exampleLB\<lparr>lb_Meta := new_meta [] ''lb1'',
     lb_Spec := (lb_Spec exampleLB)\<lparr>lb_ServiceRef := None\<rparr>\<rparr>"

text \<open>A first run: the finalizer is not there yet.\<close>

theorem impossible_target_burns_nothing_witness:
  "\<exists>e es. fst (LoadBalancerReconciler_Reconcile (memEnv exampleLib) ([], ''lb1'')
       (exampleLBWorld\<lparr>mm_LoadBalancers := fmap_of_list [(([], ''lb1''), targetlessLB)]\<rparr>, [])) = Inl e
    \<and> snd (snd (LoadBalancerReconciler_Reconcile (memEnv exampleLib) ([], ''lb1'')
       (exampleLBWorld\<lparr>mm_LoadBalancers := fmap_of_list [(([], ''lb1''), targetlessLB)]\<rparr>, []))) = [] @ es
    \<and> list_all (\<lambda>e. \<not> is_http e) es"
proof -
  let ?w = "exampleLBWorld\<lparr>mm_LoadBalancers := fmap_of_list [(([], ''lb1''), targetlessLB)]\<rparr>"
  have "k_Get (ev_LoadBalancers (memEnv exampleLib)) ([], ''lb1'') ?w = (Inr targetlessLB, ?w)"
    by (simp add: memLoadBalancers_def)
  then show ?thesis
    by (rule impossible_target_burns_nothing)
      (auto simp: targetlessLB_def exampleLB_def exampleLib_def valid_ClusterbookLoadBalancerSpec_def b2n_def
        new_meta_def memLoadBalancers_def split: option.splits)
qed

end
