(* ===== verification/Allocation.thy ===== *)
theory Allocation
  imports ClusterReconciler
begin

text \<open>
  \<open>controller/allocation_reconciler.go\<close>: the reconciler of \<open>ClusterbookAllocation\<close>. The reserved
  address, FQDN and zone are published into a ConfigMap the resource owns, as labels and
  annotations on an existing Secret, or both.
\<close>

section \<open>Sinks\<close>

definition allocationFinalizer :: string where
  "allocationFinalizer = ''clusterbook.stuttgart-things.com/allocation-finalizer''"

text \<open>\<open>if v != "" { m[k] = v } else { delete(m, k) }\<close>\<close>

definition put_or_drop :: "string \<Rightarrow> string \<Rightarrow> smap \<Rightarrow> smap" where
  "put_or_drop k v m = (if v \<noteq> [] then fmupd k v m else fmdrop k m)"

definition sinkData ::
    "ClusterbookAllocation \<Rightarrow> string \<Rightarrow> ClusterInfo option \<Rightarrow> smap \<Rightarrow> smap" where
  "sinkData cr ip info d =
     (let d1 = fmupd ''name'' (ca_Name (ca_Spec cr))
                (fmupd ''networkKey'' (ca_NetworkKey (ca_Spec cr)) (fmupd ''ip'' ip d))
      in case info of
           None \<Rightarrow> d1
         | Some i \<Rightarrow> put_or_drop ''zone'' (ci_Zone i) (put_or_drop ''fqdn'' (ci_FQDN i) d1))"

definition sinkMutate ::
    "lib \<Rightarrow> ClusterbookAllocation \<Rightarrow> string \<Rightarrow> ClusterInfo option \<Rightarrow> ConfigMap \<Rightarrow> err + ConfigMap" where
  "sinkMutate L cr ip info cm =
     (case SetControllerReference L KAllocation (ca_Meta cr) (cm_Meta cm) of
        Inl e \<Rightarrow> Inl e
      | Inr m \<Rightarrow> Inr (cm\<lparr>cm_Data := sinkData cr ip info (cm_Data cm), cm_Meta := m\<rparr>))"

definition upsertConfigMapSink ::
    "'w env \<Rightarrow> ClusterbookAllocation \<Rightarrow> string \<Rightarrow> ClusterInfo option \<Rightarrow> ConfigMapSink
     \<Rightarrow> ('w, unit) op" where
  "upsertConfigMapSink E cr ip info s =
     and_then (kCreateOrUpdate OConfigMap (ev_ConfigMaps E)
       \<lparr>cm_Meta = new_meta (cms_Namespace s) (cms_Name s), cm_Data = fmempty\<rparr>
       (sinkMutate (ev_lib E) cr ip info)) (\<lambda>_. ret ())"

definition keyPrefix :: "string \<Rightarrow> string" where
  "keyPrefix name = clusterbookPrefix @ ''allocation-'' @ name"

definition enrichClusterMeta ::
    "string \<Rightarrow> string \<Rightarrow> ClusterInfo option \<Rightarrow> ObjectMeta \<Rightarrow> ObjectMeta" where
  "enrichClusterMeta name ip info m =
     (let k = keyPrefix name;
          ls = fmupd (k @ ''-ip'') ip (fmupd k ''true'' (om_Labels m));
          an = fmupd (k @ ''-ip'') ip (om_Annotations m)
      in case info of
           None \<Rightarrow> m\<lparr>om_Labels := ls, om_Annotations := an\<rparr>
         | Some i \<Rightarrow>
             m\<lparr>om_Labels := put_if (ci_Zone i \<noteq> []) (k @ ''-zone'') (ci_Zone i) ls,
               om_Annotations := put_if (ci_Zone i \<noteq> []) (k @ ''-zone'') (ci_Zone i)
                 (put_if (ci_FQDN i \<noteq> []) (k @ ''-fqdn'') (ci_FQDN i) an)\<rparr>)"

definition clusterSecretNotFound :: "SecretObjectRef \<Rightarrow> Condition" where
  "clusterSecretNotFound ref = \<lparr>cd_Type = ''ClusterSecretFound'', cd_Status = ''False'',
     cd_Reason = ''ClusterSecretNotFound'',
     cd_Message = ''secret '' @ sor_Namespace ref @ ''/'' @ sor_Name ref @ '' not found''\<rparr>"

definition alloc_setCondition ::
    "lib \<Rightarrow> Condition \<Rightarrow> ClusterbookAllocation \<Rightarrow> ClusterbookAllocation" where
  "alloc_setCondition L c cr = cr\<lparr>ca_Status := (ca_Status cr)\<lparr>cas_Conditions :=
     SetStatusCondition L (cas_Conditions (ca_Status cr)) c\<rparr>\<rparr>"

text \<open>The result is the resource: a missing Secret leaves a condition on it.\<close>

definition enrichClusterSecret ::
    "'w env \<Rightarrow> ClusterbookAllocation \<Rightarrow> string \<Rightarrow> ClusterInfo option \<Rightarrow> SecretObjectRef
     \<Rightarrow> ('w, ClusterbookAllocation) op" where
  "enrichClusterSecret E cr ip info ref =
     and_then (attempt (kGet KSecret (ev_Secrets E) (sor_Namespace ref, sor_Name ref))) (\<lambda>r. case r of
       Inl e \<Rightarrow> if IsNotFound e
              then ret (alloc_setCondition (ev_lib E) (clusterSecretNotFound ref) cr)
              else fail e
     | Inr secret \<Rightarrow>
         and_then (kUpdate OSecret (ev_Secrets E)
           (secret\<lparr>s_Meta := enrichClusterMeta (ca_Name (ca_Spec cr)) ip info (s_Meta secret)\<rparr>))
           (\<lambda>_. ret cr))"

definition stripClusterMeta :: "ObjectMeta \<Rightarrow> ObjectMeta" where
  "stripClusterMeta m =
     m\<lparr>om_Labels := fmfilter (\<lambda>k. \<not> HasPrefix k clusterbookPrefix) (om_Labels m),
       om_Annotations := fmfilter (\<lambda>k. \<not> HasPrefix k clusterbookPrefix) (om_Annotations m)\<rparr>"

definition stripClusterSecret :: "'w env \<Rightarrow> SecretObjectRef \<Rightarrow> ('w, unit) op" where
  "stripClusterSecret E ref =
     and_then (attempt (kGet KSecret (ev_Secrets E) (sor_Namespace ref, sor_Name ref))) (\<lambda>r. case r of
       Inl e \<Rightarrow> if IsNotFound e then ret () else fail e
     | Inr secret \<Rightarrow>
         and_then (kUpdate OSecret (ev_Secrets E)
           (secret\<lparr>s_Meta := stripClusterMeta (s_Meta secret)\<rparr>)) (\<lambda>_. ret ()))"

section \<open>The reservation and the DNS flag\<close>

definition AllocationReconciler_ensureReservation ::
    "'w env \<Rightarrow> CbkClient option \<Rightarrow> ClusterbookAllocation \<Rightarrow> ('w, string) op" where
  "AllocationReconciler_ensureReservation E api cr =
     (if cas_IP (ca_Status cr) \<noteq> [] then ret (cas_IP (ca_Status cr))
      else
        and_then (wrap ''list IPs'' (GetIPs E api (ca_NetworkKey (ca_Spec cr)))) (\<lambda>existing.
          case find (\<lambda>e. ip_Cluster e = ca_Name (ca_Spec cr)) existing of
            Some e \<Rightarrow> ret (ip_IP e)
          | None \<Rightarrow>
              and_then (wrap ''reserve IP'' (ReserveIPs E api (ca_NetworkKey (ca_Spec cr))
                \<lparr>rr_Cluster = ca_Name (ca_Spec cr), rr_Count = 1, rr_IP = [],
                 rr_CreateDNS = ca_CreateDNS (ca_Spec cr), rr_Status = []\<rparr>)) (\<lambda>resv.
              if rs_IPs resv = [] then fail (New ''clusterbook returned no IPs'')
              else ret (rs_IPs resv ! 0))))"

definition AllocationReconciler_reconcileDNSDrift ::
    "'w env \<Rightarrow> CbkClient option \<Rightarrow> ClusterbookAllocation \<Rightarrow> string \<Rightarrow> ('w, unit) op" where
  "AllocationReconciler_reconcileDNSDrift E api cr ip =
     and_then (wrap ''list IPs'' (GetIPs E api (ca_NetworkKey (ca_Spec cr)))) (\<lambda>ips.
       case find (\<lambda>e. ip_IP e = ip) ips of
         None \<Rightarrow> ret ()
       | Some entry \<Rightarrow>
           (let observedDNS = Contains (ip_Status entry) ''DNS'' in
            if observedDNS = ca_CreateDNS (ca_Spec cr) then ret ()
            else wrap ''update IP'' (UpdateIP E api (ca_NetworkKey (ca_Spec cr)) ip
              \<lparr>rr_Cluster = ca_Name (ca_Spec cr), rr_Count = 0, rr_IP = [],
               rr_CreateDNS = ca_CreateDNS (ca_Spec cr),
               rr_Status = dnsStatus (ca_CreateDNS (ca_Spec cr))\<rparr>)))"

section \<open>The handler\<close>

definition AllocationReconciler_cleanup ::
    "'w env \<Rightarrow> ClusterbookAllocation \<Rightarrow> CbkClient option \<Rightarrow> ('w, unit) op" where
  "AllocationReconciler_cleanup E cr api =
     and_then
       (case as_ConfigMap (ca_Sinks (ca_Spec cr)) of
          Some s \<Rightarrow> ignore (kDelete KConfigMap (ev_ConfigMaps E) (cms_Namespace s, cms_Name s))
        | None \<Rightarrow> ret ()) (\<lambda>_.
     and_then
       (case as_ClusterSecretLabels (ca_Sinks (ca_Spec cr)) of
          Some s \<Rightarrow> wrap ''strip cluster secret'' (stripClusterSecret E s)
        | None \<Rightarrow> ret ()) (\<lambda>_.
     if ca_ReleaseOnDelete (ca_Spec cr) \<and> cas_IP (ca_Status cr) \<noteq> []
     then wrap ''release IP'' (ReleaseIPs E api (ca_NetworkKey (ca_Spec cr))
            \<lparr>rl_IP = cas_IP (ca_Status cr)\<rparr>)
     else ret ()))"

definition AllocationReconciler_finalize ::
    "'w env \<Rightarrow> ClusterbookAllocation \<Rightarrow> CbkClient option \<Rightarrow> ('w, Result) op" where
  "AllocationReconciler_finalize E cr api =
     (if \<not> ContainsFinalizer (ev_lib E) (ca_Meta cr) allocationFinalizer then ret noRequeue
      else
        and_then (AllocationReconciler_cleanup E cr api) (\<lambda>_.
        and_then (kUpdate OAllocation (ev_Allocations E)
          (ca_Meta_update (\<lambda>m. RemoveFinalizer (ev_lib E) m allocationFinalizer) cr)) (\<lambda>_.
          ret noRequeue)))"

definition AllocationReconciler_status ::
    "lib \<Rightarrow> ClusterbookAllocation \<Rightarrow> string \<Rightarrow> ConfigMapSink option \<Rightarrow> SecretObjectRef option
     \<Rightarrow> ClusterInfo option \<Rightarrow> ClusterbookAllocation" where
  "AllocationReconciler_status L cr ip cmRef secRef info =
     (let st = (ca_Status cr)\<lparr>cas_IP := ip, cas_ConfigMapRef := cmRef,
                 cas_ClusterSecretRef := secRef\<rparr>;
          st' = (case info of None \<Rightarrow> st | Some i \<Rightarrow> st\<lparr>cas_FQDN := ci_FQDN i, cas_Zone := ci_Zone i\<rparr>)
      in alloc_setCondition L readyCondition (cr\<lparr>ca_Status := st'\<rparr>))"

definition AllocationReconciler_apply ::
    "'w env \<Rightarrow> CbkClient option \<Rightarrow> ClusterbookAllocation \<Rightarrow> ('w, Result) op" where
  "AllocationReconciler_apply E api cr =
     and_then (AllocationReconciler_ensureReservation E api cr) (\<lambda>ip.
     and_then (AllocationReconciler_reconcileDNSDrift E api cr ip) (\<lambda>_.
     and_then (optional (GetClusterInfo E api (ca_Name (ca_Spec cr)))) (\<lambda>info.
     and_then
       (case as_ConfigMap (ca_Sinks (ca_Spec cr)) of
          Some s \<Rightarrow> wrap ''upsert configmap sink'' (upsertConfigMapSink E cr ip info s)
        | None \<Rightarrow> ret ()) (\<lambda>_.
     and_then
       (case as_ClusterSecretLabels (ca_Sinks (ca_Spec cr)) of
          Some s \<Rightarrow> wrap ''enrich cluster secret'' (enrichClusterSecret E cr ip info s)
        | None \<Rightarrow> ret cr) (\<lambda>cr'.
     and_then (ignore (kStatusUpdate OAllocation (ev_Allocations E)
       (AllocationReconciler_status (ev_lib E) cr' ip (as_ConfigMap (ca_Sinks (ca_Spec cr)))
         (as_ClusterSecretLabels (ca_Sinks (ca_Spec cr))) info))) (\<lambda>_.
       ret noRequeue))))))"

definition AllocationReconciler_Reconcile :: "'w env \<Rightarrow> objkey \<Rightarrow> ('w, Result) op" where
  "AllocationReconciler_Reconcile E key =
     and_then (attempt (kGet KAllocation (ev_Allocations E) key)) (\<lambda>r. case r of
       Inl e \<Rightarrow> if IsNotFound e then ret noRequeue else fail e
     | Inr cr \<Rightarrow>
         and_then (wrap ''load provider config''
           (loadProviderConfig E (ca_ProviderConfigRef (ca_Spec cr)))) (\<lambda>pc.
         and_then (wrap ''build clusterbook client'' (newClusterbookClient E pc)) (\<lambda>c.
           if om_DeletionTimestamp (ca_Meta cr) \<noteq> None
           then AllocationReconciler_finalize E cr (Some c)
           else
             and_then (ensureFinalizer (ev_lib E) OAllocation (ev_Allocations E) ca_Meta
                 ca_Meta_update allocationFinalizer cr) (\<lambda>cr1.
               AllocationReconciler_apply E (Some c) cr1))))"

section \<open>The contracts it implements\<close>

interpretation allocReservation: reservation AllocationReconciler_ensureReservation
    "\<lambda>cr. cas_IP (ca_Status cr)" "\<lambda>cr. ca_NetworkKey (ca_Spec cr)" "\<lambda>cr. ca_Name (ca_Spec cr)"
    "\<lambda>cr. \<lparr>rr_Cluster = ca_Name (ca_Spec cr), rr_Count = 1, rr_IP = [],
       rr_CreateDNS = ca_CreateDNS (ca_Spec cr), rr_Status = []\<rparr>"
    "\<lambda>cr. cas_IP (ca_Status cr)" "\<lambda>cr e. ip_IP e" "\<lambda>cr ips. ips ! 0" "\<lambda>ip. ip"
  by unfold_locales (auto simp: AllocationReconciler_ensureReservation_def hd_conv_nth)

interpretation allocDrift: dns_drift AllocationReconciler_reconcileDNSDrift
    "\<lambda>cr. ca_NetworkKey (ca_Spec cr)" "\<lambda>cr. ca_Name (ca_Spec cr)" "\<lambda>cr. ca_CreateDNS (ca_Spec cr)"
  by unfold_locales (unfold AllocationReconciler_reconcileDNSDrift_def Let_def, rule refl)

interpretation allocFinalizing: finalizing AllocationReconciler_finalize
    AllocationReconciler_cleanup OAllocation ev_Allocations ca_Meta ca_Meta_update allocationFinalizer
  by unfold_locales (simp add: AllocationReconciler_finalize_def)

interpretation allocReleasing: releasing AllocationReconciler_finalize
    AllocationReconciler_cleanup OAllocation ev_Allocations ca_Meta ca_Meta_update allocationFinalizer
    "\<lambda>E cr. and_then
       (case as_ConfigMap (ca_Sinks (ca_Spec cr)) of
          Some s \<Rightarrow> ignore (kDelete KConfigMap (ev_ConfigMaps E) (cms_Namespace s, cms_Name s))
        | None \<Rightarrow> ret ()) (\<lambda>_.
       case as_ClusterSecretLabels (ca_Sinks (ca_Spec cr)) of
         Some s \<Rightarrow> wrap ''strip cluster secret'' (stripClusterSecret E s)
       | None \<Rightarrow> ret ())"
    "\<lambda>cr. ca_ReleaseOnDelete (ca_Spec cr)" "\<lambda>cr. ca_NetworkKey (ca_Spec cr)"
    "\<lambda>cr. cas_IP (ca_Status cr)"
proof unfold_locales
  fix E :: "'w env" and cr
  show "emits (\<lambda>e. \<forall>x b. e \<noteq> EUpdate (OAllocation x) b) (and_then
       (case as_ConfigMap (ca_Sinks (ca_Spec cr)) of
          Some s \<Rightarrow> ignore (kDelete KConfigMap (ev_ConfigMaps E) (cms_Namespace s, cms_Name s))
        | None \<Rightarrow> ret ()) (\<lambda>_.
       case as_ClusterSecretLabels (ca_Sinks (ca_Spec cr)) of
         Some s \<Rightarrow> wrap ''strip cluster secret'' (stripClusterSecret E s)
       | None \<Rightarrow> ret ()))"
    unfolding stripClusterSecret_def
    by (intro emits_struct emits_ignore emits_kDelete emits_kGet emits_kUpdate) auto
qed (simp add: AllocationReconciler_cleanup_def and_then_assoc)

end
