(* ===== verification/AllocationProps.thy ===== *)
theory AllocationProps
  imports Allocation LoadBalancerProps
begin

text \<open>
  Properties of the \<open>ClusterbookAllocation\<close> reconciler: what the two sinks hold, when several
  allocations can share a Secret, and what deleting one of them does to the others.
\<close>

section \<open>The ConfigMap sink\<close>

lemma fmlookup_put_or_drop [simp]:
  "fmlookup (put_or_drop k v m) k' =
     (if k' = k then (if v = [] then None else Some v) else fmlookup m k')"
  by (simp add: put_or_drop_def)

lemma sinkMutate_data:
  "owner_laws L \<Longrightarrow> sinkMutate L cr ip info cm = Inr cm' \<Longrightarrow>
     cm_Data cm' = sinkData cr ip info (cm_Data cm)"
  by (auto simp: sinkMutate_def split: sum.splits)

text \<open>
  C27. What the ConfigMap sink holds. After a successful write the ConfigMap the resource names has
  the reserved address under \<open>ip\<close> and the two keys of the specification; with clusterbook's facts
  at hand, \<open>fqdn\<close> and \<open>zone\<close> are exactly what clusterbook says, and are removed when it says
  nothing; without them both stay as they were. Every other key of the ConfigMap, and every
  other ConfigMap, is as before.
\<close>

theorem configmap_sink_contents:
  assumes "kube_client (ev_ConfigMaps E) view (\<lambda>c. meta_key (cm_Meta c)) (\<lambda>c. c)"
    and "owner_laws (ev_lib E)"
    and "upsertConfigMapSink E cr ip info s (w, tr) = (Inr u, (w', tr'))"
  shows "\<exists>cm. view w' = (view w)((cms_Namespace s, cms_Name s) \<mapsto> cm)
    \<and> (\<forall>k. fmlookup (cm_Data cm) k =
        (if k = ''ip'' then Some ip
         else if k = ''networkKey'' then Some (ca_NetworkKey (ca_Spec cr))
         else if k = ''name'' then Some (ca_Name (ca_Spec cr))
         else if info \<noteq> None \<and> k = ''fqdn''
           then (if ci_FQDN (the info) = [] then None else Some (ci_FQDN (the info)))
         else if info \<noteq> None \<and> k = ''zone''
           then (if ci_Zone (the info) = [] then None else Some (ci_Zone (the info)))
         else (case view w (cms_Namespace s, cms_Name s) of
                 None \<Rightarrow> None | Some old \<Rightarrow> fmlookup (cm_Data old) k)))"
proof -
  let ?x = "\<lparr>cm_Meta = new_meta (cms_Namespace s) (cms_Name s), cm_Data = fmempty\<rparr>"
  let ?f = "sinkMutate (ev_lib E) cr ip info"
  from assms(3) [unfolded upsertConfigMapSink_def] obtain y s1 where
    u: "kCreateOrUpdate OConfigMap (ev_ConfigMaps E) ?x ?f (w, tr) = (Inr y, s1)"
    and "ret () s1 = (Inr u, (w', tr'))" by (rule and_then_InrE)
  then have "k_CreateOrUpdate (ev_ConfigMaps E) ?x ?f w = (Inr y, w')"
    using kube_call_InrD(4) [OF u] by (auto simp: ret_def)
  from kube_client.upsert_ok [OF assms(1) this] obtain b z where
    b: "case view w (cms_Namespace s, cms_Name s) of None \<Rightarrow> b = ?x | Some x0 \<Rightarrow> b = x0"
    and z: "?f b = Inr z" and v: "view w' = (view w)((cms_Namespace s, cms_Name s) \<mapsto> z)" by auto
  have "cm_Data z = sinkData cr ip info (cm_Data b)"
    by (rule sinkMutate_data [OF assms(2) z])
  moreover have "fmlookup (cm_Data b) k = (case view w (cms_Namespace s, cms_Name s) of
                 None \<Rightarrow> None | Some old \<Rightarrow> fmlookup (cm_Data old) k)" for k
    using b by (auto split: option.splits)
  ultimately have "fmlookup (cm_Data z) k =
        (if k = ''ip'' then Some ip
         else if k = ''networkKey'' then Some (ca_NetworkKey (ca_Spec cr))
         else if k = ''name'' then Some (ca_Name (ca_Spec cr))
         else if info \<noteq> None \<and> k = ''fqdn''
           then (if ci_FQDN (the info) = [] then None else Some (ci_FQDN (the info)))
         else if info \<noteq> None \<and> k = ''zone''
           then (if ci_Zone (the info) = [] then None else Some (ci_Zone (the info)))
         else (case view w (cms_Namespace s, cms_Name s) of
                 None \<Rightarrow> None | Some old \<Rightarrow> fmlookup (cm_Data old) k))" for k
    by (cases info) (simp_all add: sinkData_def Let_def)
  with v show ?thesis by blast
qed

definition exampleSink :: ConfigMapSink where
  "exampleSink = \<lparr>cms_Name = ''facts'', cms_Namespace = ''apps''\<rparr>"

definition exampleSecretRef :: SecretObjectRef where
  "exampleSecretRef = \<lparr>sor_Name = ''prod'', sor_Namespace = ''argocd''\<rparr>"

definition exampleAllocation :: "string \<Rightarrow> ClusterbookAllocation" where
  "exampleAllocation name = \<lparr>ca_Meta = (new_meta [] name)\<lparr>om_Finalizers := [allocationFinalizer]\<rparr>,
     ca_Spec = \<lparr>ca_NetworkKey = ''10.31.103'', ca_Name = name, ca_CreateDNS = False,
       ca_ProviderConfigRef = ''pc'',
       ca_Sinks = \<lparr>as_ConfigMap = Some exampleSink, as_ClusterSecretLabels = Some exampleSecretRef\<rparr>,
       ca_ReleaseOnDelete = True\<rparr>,
     ca_Status = \<lparr>cas_IP = ''10.31.103.7'', cas_FQDN = [], cas_Zone = [], cas_ConfigMapRef = None,
       cas_ClusterSecretRef = None, cas_Conditions = []\<rparr>\<rparr>"

definition exampleSinkWorld :: mem where
  "exampleSinkWorld = emptyMem\<lparr>mm_ConfigMaps := fmap_of_list [((''apps'', ''facts''),
     \<lparr>cm_Meta = new_meta ''apps'' ''facts'',
      cm_Data = fmap_of_list [(''zone'', ''old.example''), (''mine'', ''kept'')]\<rparr>)]\<rparr>"

theorem configmap_sink_contents_witness:
  "\<exists>w' tr' cm. upsertConfigMapSink (memEnv exampleLib) (exampleAllocation ''gw'') ''10.31.103.7''
       (Some \<lparr>ci_Cluster = ''gw'', ci_FQDN = ''gw.lab.example'', ci_Zone = []\<rparr>) exampleSink
       (exampleSinkWorld, []) = (Inr (), (w', tr'))
    \<and> fmlookup (mm_ConfigMaps w') (''apps'', ''facts'') = Some cm
    \<and> fmlookup (cm_Data cm) ''fqdn'' = Some ''gw.lab.example''
    \<and> fmlookup (cm_Data cm) ''zone'' = None \<and> fmlookup (cm_Data cm) ''mine'' = Some ''kept''"
proof -
  let ?E = "memEnv exampleLib"
  let ?i = "Some \<lparr>ci_Cluster = ''gw'', ci_FQDN = ''gw.lab.example'', ci_Zone = []\<rparr>"
  have k: "kube_client (ev_ConfigMaps ?E) (\<lambda>w. fmlookup (mm_ConfigMaps w)) (\<lambda>c. meta_key (cm_Meta c)) (\<lambda>c. c)"
    using configMapStore.kube_client_axioms by simp
  have l: "owner_laws (ev_lib ?E)" by (simp add: exampleLib_def owner_laws_stdLib)
  obtain w' tr' where r: "upsertConfigMapSink ?E (exampleAllocation ''gw'') ''10.31.103.7'' ?i exampleSink
      (exampleSinkWorld, []) = (Inr (), (w', tr'))"
    by (simp add: upsertConfigMapSink_def kCreateOrUpdate_def run_defs exampleSink_def
        exampleSinkWorld_def sinkMutate_def exampleLib_def own_def Let_def)
  from configmap_sink_contents [OF k l r] r show ?thesis
    by (fastforce simp: exampleSink_def exampleSinkWorld_def)
qed

section \<open>Sharing a Secret\<close>

text \<open>
  The keys an allocation writes, and the fixed keys of a registration. In enrich mode a registration
  also writes the labels of its spec, each under the prefix; which those are is up to the spec.
\<close>

definition factKeys :: "string \<Rightarrow> string set" where
  "factKeys n = {keyPrefix n, keyPrefix n @ ''-ip'', keyPrefix n @ ''-fqdn'', keyPrefix n @ ''-zone''}"

definition registrationKeys :: "string set" where
  "registrationKeys = {argoSecretTypeLabel, labelAllocationIP, labelAllocationZone, labelClusterType,
     labelClusterReady, annotationIP, annotationFQDN, annotationZone, annotationClusterName,
     annotationLBRangeStart, annotationLBRangeStop, annotationKubeconfigHash,
     annotationOwnedLabels, annotationOwnedAnnotations}"

text \<open>Two names are apart when neither is the other, or the other with a fact's suffix.\<close>

definition apart :: "string \<Rightarrow> string \<Rightarrow> bool" where
  "apart a b \<longleftrightarrow> (\<forall>s \<in> {[], ''-ip'', ''-fqdn'', ''-zone''}. a \<noteq> b @ s \<and> b \<noteq> a @ s)"

lemma suffix_clash:
  fixes a b :: string
  shows "a @ ''-ip'' = b @ ''-ip'' \<longleftrightarrow> a = b" "a @ ''-fqdn'' = b @ ''-fqdn'' \<longleftrightarrow> a = b"
    "a @ ''-zone'' = b @ ''-zone'' \<longleftrightarrow> a = b"
    "a @ ''-ip'' \<noteq> b @ ''-fqdn''" "a @ ''-ip'' \<noteq> b @ ''-zone''" "a @ ''-fqdn'' \<noteq> b @ ''-zone''"
    "a @ ''-fqdn'' \<noteq> b @ ''-ip''" "a @ ''-zone'' \<noteq> b @ ''-ip''" "a @ ''-zone'' \<noteq> b @ ''-fqdn''"
  by (auto dest: arg_cong [where f = last])

lemma keyPrefix_eq_iff:
  "keyPrefix a @ s = keyPrefix b @ t \<longleftrightarrow> a @ s = b @ t"
  "keyPrefix a = keyPrefix b @ t \<longleftrightarrow> a = b @ t"
  "keyPrefix b @ t = keyPrefix a \<longleftrightarrow> b @ t = a"
  "keyPrefix a = keyPrefix b \<longleftrightarrow> a = b"
  by (auto simp: keyPrefix_def)

lemma factKeys_disjoint_iff: "factKeys a \<inter> factKeys b = {} \<longleftrightarrow> apart a b"
  by (auto simp: factKeys_def apart_def keyPrefix_eq_iff suffix_clash)

lemma factKeys_registration: "factKeys n \<inter> registrationKeys = {} \<longleftrightarrow> n \<notin> {''ip'', ''zone''}"
proof -
  have "keyPrefix n @ s \<in> registrationKeys \<longleftrightarrow> n @ s \<in> {''ip'', ''zone''}" for s
    by (auto simp: registrationKeys_def keyPrefix_def key_defs)
  from this [of "[]"] this [of "''-ip''"] this [of "''-fqdn''"] this [of "''-zone''"]
  show ?thesis by (auto simp: factKeys_def append_eq_Cons_conv)
qed

text \<open>Enriching is overlaying two maps whose keys are the allocation's own.\<close>

definition allocFacts :: "string \<Rightarrow> string \<Rightarrow> ClusterInfo option \<Rightarrow> ObjectMeta" where
  "allocFacts n ip info = enrichClusterMeta n ip info (new_meta [] [])"

lemma enrichClusterMeta_overlay:
  "enrichClusterMeta n ip info m =
     m\<lparr>om_Labels := fmadd (om_Labels m) (om_Labels (allocFacts n ip info)),
       om_Annotations := fmadd (om_Annotations m) (om_Annotations (allocFacts n ip info))\<rparr>"
proof -
  have "om_Labels (enrichClusterMeta n ip info m) =
      fmadd (om_Labels m) (om_Labels (allocFacts n ip info))"
    "om_Annotations (enrichClusterMeta n ip info m) =
      fmadd (om_Annotations m) (om_Annotations (allocFacts n ip info))"
    by (rule fmap_ext, cases info, simp_all only: allocFacts_def enrichClusterMeta_def Let_def
      option.case fmlookup_fmadd_case fmlookup_put_if fmupd_lookup new_meta_simps fmempty_lookup
      ObjectMeta.simps, auto)+
  moreover have "enrichClusterMeta n ip info m = m\<lparr>om_Labels := om_Labels (enrichClusterMeta n ip info m),
      om_Annotations := om_Annotations (enrichClusterMeta n ip info m)\<rparr>"
    by (cases info) (simp_all add: enrichClusterMeta_def Let_def)
  ultimately show ?thesis by simp
qed

lemma allocFacts_keys:
  "fmlookup (om_Labels (allocFacts n ip info)) k \<noteq> None \<Longrightarrow> k \<in> factKeys n"
  "fmlookup (om_Annotations (allocFacts n ip info)) k \<noteq> None \<Longrightarrow> k \<in> factKeys n"
  by (cases info; auto simp: allocFacts_def enrichClusterMeta_def Let_def factKeys_def
      split: if_splits)+

lemma allocFacts_none:
  "k \<notin> factKeys n \<Longrightarrow> fmlookup (om_Labels (allocFacts n ip info)) k = None"
  "k \<notin> factKeys n \<Longrightarrow> fmlookup (om_Annotations (allocFacts n ip info)) k = None"
  using allocFacts_keys by blast+

lemma fmadd_commute:
  assumes "\<And>k. fmlookup a k = None \<or> fmlookup b k = None"
  shows "fmadd (fmadd m a) b = fmadd (fmadd m b) a"
proof (rule fmap_ext)
  fix k
  from assms [of k] show "fmlookup (fmadd (fmadd m a) b) k = fmlookup (fmadd (fmadd m b) a) k"
    by (auto simp only: fmlookup_fmadd_case option.case split: option.split)
qed

text \<open>
  C28. When allocations can share a Secret. The keys two allocations write are disjoint exactly
  when neither name is the other one's, alone or followed by \<open>-ip\<close>, \<open>-fqdn\<close> or \<open>-zone\<close>; then
  the order in which they write does not matter and each one's facts survive the other's write,
  while every key that is not the writer's is left alone. An allocation stays clear of the fixed
  keys of a \<open>ClusterbookCluster\<close> registration exactly when it is not called \<open>ip\<close> or \<open>zone\<close>; the
  labels such a registration takes from its spec may collide with an allocation's keys as well.
\<close>

theorem allocations_coexist:
  "(factKeys a \<inter> factKeys b = {} \<longleftrightarrow> apart a b)
   \<and> (factKeys a \<inter> registrationKeys = {} \<longleftrightarrow> a \<notin> {''ip'', ''zone''})
   \<and> (apart a b \<longrightarrow>
        enrichClusterMeta b ipb ib (enrichClusterMeta a ipa ia m) =
          enrichClusterMeta a ipa ia (enrichClusterMeta b ipb ib m)
      \<and> (\<forall>k \<in> factKeys a.
           fmlookup (om_Labels (enrichClusterMeta b ipb ib (enrichClusterMeta a ipa ia m))) k =
             fmlookup (om_Labels (enrichClusterMeta a ipa ia m)) k
         \<and> fmlookup (om_Annotations (enrichClusterMeta b ipb ib (enrichClusterMeta a ipa ia m))) k =
             fmlookup (om_Annotations (enrichClusterMeta a ipa ia m)) k))
   \<and> (\<forall>k. k \<notin> factKeys a \<longrightarrow>
        fmlookup (om_Labels (enrichClusterMeta a ipa ia m)) k = fmlookup (om_Labels m) k
      \<and> fmlookup (om_Annotations (enrichClusterMeta a ipa ia m)) k = fmlookup (om_Annotations m) k)"
proof -
  have keep: "fmlookup (om_Labels (enrichClusterMeta n ip i m)) k = fmlookup (om_Labels m) k
      \<and> fmlookup (om_Annotations (enrichClusterMeta n ip i m)) k = fmlookup (om_Annotations m) k"
    if "k \<notin> factKeys n" for k n ip i m
    unfolding enrichClusterMeta_overlay [of n ip i m]
    by (simp add: fmlookup_fmadd_case allocFacts_none that del: fmlookup_add)
  have comm: "enrichClusterMeta b ipb ib (enrichClusterMeta a ipa ia m) =
          enrichClusterMeta a ipa ia (enrichClusterMeta b ipb ib m)" if d: "factKeys a \<inter> factKeys b = {}"
  proof -
    let ?A = "allocFacts a ipa ia" and ?B = "allocFacts b ipb ib"
    have "fmlookup (om_Labels ?A) k = None \<or> fmlookup (om_Labels ?B) k = None"
      "fmlookup (om_Annotations ?A) k = None \<or> fmlookup (om_Annotations ?B) k = None" for k
      using d allocFacts_keys by blast+
    note c = this
    have "fmadd (fmadd x (om_Labels ?A)) (om_Labels ?B) = fmadd (fmadd x (om_Labels ?B)) (om_Labels ?A)"
      "fmadd (fmadd x (om_Annotations ?A)) (om_Annotations ?B) =
         fmadd (fmadd x (om_Annotations ?B)) (om_Annotations ?A)" for x
      by (rule fmadd_commute [OF c(1)], rule fmadd_commute [OF c(2)])
    then show ?thesis by (simp add: enrichClusterMeta_overlay)
  qed
  show ?thesis using keep comm factKeys_disjoint_iff [of a b] factKeys_registration [of a] by blast
qed

text \<open>Two ordinary names are apart, \<open>gw\<close> and \<open>gw-ip\<close> are not.\<close>

theorem allocations_coexist_witness:
  "enrichClusterMeta ''b'' ''10.0.0.2'' None (enrichClusterMeta ''a'' ''10.0.0.1'' None (new_meta [] [])) =
     enrichClusterMeta ''a'' ''10.0.0.1'' None (enrichClusterMeta ''b'' ''10.0.0.2'' None (new_meta [] []))
   \<and> factKeys ''gw'' \<inter> factKeys ''gw-ip'' \<noteq> {} \<and> factKeys ''ip'' \<inter> registrationKeys \<noteq> {}"
proof -
  have ap: "apart ''a'' ''b''" "\<not> apart ''gw'' ''gw-ip''" by (simp_all add: apart_def)
  note ab = allocations_coexist [of "''a''" "''b''" "''10.0.0.2''" None "''10.0.0.1''" None "new_meta [] []",
      THEN conjunct2, THEN conjunct2, THEN conjunct1, rule_format, OF ap(1), THEN conjunct1]
  note clash = allocations_coexist [of "''gw''" "''gw-ip''" "[]" None "[]" None "new_meta [] []", THEN conjunct1]
    allocations_coexist [of "''ip''" "[]" "[]" None "[]" None "new_meta [] []", THEN conjunct2, THEN conjunct1]
  show ?thesis using ab clash ap(2) by simp
qed

section \<open>Deleting an allocation\<close>

text \<open>
  C29. Deleting one allocation takes every allocation's facts. Stripping the Secret on delete
  removes every label and every annotation under the clusterbook prefix: its own facts, but also
  those of every other allocation and all that a \<open>ClusterbookCluster\<close> registration put there, the
  prefixed labels of its spec and the records of ownership included. Nothing else changes: all
  other metadata, the data, and every other Secret are as before.
\<close>

theorem strip_takes_every_allocation:
  assumes "kube_client (ev_Secrets E) view (\<lambda>s. meta_key (s_Meta s)) norm"
    and "view w (sor_Namespace ref, sor_Name ref) = Some s"
    and "meta_key (s_Meta s) = (sor_Namespace ref, sor_Name ref)"
    and "stripClusterSecret E ref (w, tr) = (Inr u, (w', tr'))"
  shows "\<exists>m. view w' = (view w)((sor_Namespace ref, sor_Name ref) \<mapsto> norm (s\<lparr>s_Meta := m\<rparr>))
    \<and> (\<forall>k. fmlookup (om_Labels m) k =
         (if HasPrefix k clusterbookPrefix then None else fmlookup (om_Labels (s_Meta s)) k))
    \<and> (\<forall>k. fmlookup (om_Annotations m) k =
         (if HasPrefix k clusterbookPrefix then None else fmlookup (om_Annotations (s_Meta s)) k))
    \<and> m = (s_Meta s)\<lparr>om_Labels := om_Labels m, om_Annotations := om_Annotations m\<rparr>
    \<and> (\<forall>n. \<forall>k \<in> factKeys n. HasPrefix k clusterbookPrefix)
    \<and> (\<forall>k \<in> registrationKeys - {argoSecretTypeLabel}. HasPrefix k clusterbookPrefix)"
proof -
  let ?f = "\<lambda>s. s\<lparr>s_Meta := stripClusterMeta (s_Meta s)\<rparr>"
  let ?m = "stripClusterMeta (s_Meta s)"
  have "view w' = (view w)(meta_key (s_Meta (?f s)) \<mapsto> norm (?f s))"
    by (rule kube_client.modify_view [OF assms(1), of KSecret "(sor_Namespace ref, sor_Name ref)" "()"
      OSecret ?f "()" w tr u w' tr' s]) (use assms(2,4) in \<open>simp_all add: stripClusterSecret_def\<close>)
  then have "view w' = (view w)((sor_Namespace ref, sor_Name ref) \<mapsto> norm (s\<lparr>s_Meta := ?m\<rparr>))"
    using assms(3) by (simp add: stripClusterMeta_def meta_key_def)
  moreover have "HasPrefix k clusterbookPrefix" if "k \<in> factKeys n" for k n
    using that by (auto simp: factKeys_def keyPrefix_def)
  moreover have "HasPrefix k clusterbookPrefix" if "k \<in> registrationKeys - {argoSecretTypeLabel}" for k
    using that by (auto simp: registrationKeys_def key_defs HasPrefix_def)
  ultimately show ?thesis
    by (intro exI [of _ ?m] conjI) (auto simp: stripClusterMeta_def)
qed

definition sharedSecret :: Secret where
  "sharedSecret = \<lparr>s_Meta = enrichClusterMeta ''b'' ''10.0.0.2'' None
      (enrichClusterMeta ''a'' ''10.0.0.1'' None (new_meta ''argocd'' ''prod'')),
     s_Data = fmempty, s_StringData = fmempty\<rparr>"

definition sharedWorld :: mem where
  "sharedWorld = emptyMem\<lparr>mm_Secrets := fmap_of_list [((''argocd'', ''prod''), sharedSecret)]\<rparr>"

theorem strip_takes_every_allocation_witness:
  "\<exists>w' tr' s'. stripClusterSecret (memEnv exampleLib) exampleSecretRef (sharedWorld, []) =
      (Inr (), (w', tr'))
    \<and> fmlookup (om_Labels (s_Meta sharedSecret)) (keyPrefix ''b'') = Some ''true''
    \<and> fmlookup (mm_Secrets w') (''argocd'', ''prod'') = Some s'
    \<and> fmlookup (om_Labels (s_Meta s')) (keyPrefix ''b'') = None"
proof -
  let ?E = "memEnv exampleLib"
  have k: "kube_client (ev_Secrets ?E) (\<lambda>w. fmlookup (mm_Secrets w)) (\<lambda>s. meta_key (s_Meta s)) secret_norm"
    using secretStore.kube_client_axioms by simp
  have v: "fmlookup (mm_Secrets sharedWorld) (sor_Namespace exampleSecretRef, sor_Name exampleSecretRef) =
      Some sharedSecret"
    "meta_key (s_Meta sharedSecret) = (sor_Namespace exampleSecretRef, sor_Name exampleSecretRef)"
    by (simp_all add: sharedWorld_def sharedSecret_def exampleSecretRef_def enrichClusterMeta_def
        Let_def meta_key_def)
  then obtain w' tr' where r: "stripClusterSecret ?E exampleSecretRef (sharedWorld, []) = (Inr (), (w', tr'))"
    by (simp add: stripClusterSecret_def run_defs stripClusterMeta_def meta_key_def)
  have "fmlookup (om_Labels (s_Meta sharedSecret)) (keyPrefix ''b'') = Some ''true''"
    by (simp add: sharedSecret_def enrichClusterMeta_def Let_def)
  moreover have "keyPrefix ''b'' \<in> factKeys ''b''" by (simp add: factKeys_def)
  moreover have "s_Meta (secret_norm (s\<lparr>s_Meta := m\<rparr>)) = m" for s m by (simp add: secret_norm_def)
  ultimately show ?thesis
    using strip_takes_every_allocation [OF k v r] r by (fastforce simp: exampleSecretRef_def)
qed

section \<open>A missing Secret\<close>

lemma find_cond_ready:
  "condition_laws L \<Longrightarrow> find_cond (cas_Conditions (ca_Status (AllocationReconciler_status L cr ip a b i)))
     ''ClusterSecretFound'' = find_cond (cas_Conditions (ca_Status cr)) ''ClusterSecretFound''"
  "condition_laws L \<Longrightarrow> find_cond (cas_Conditions (ca_Status (AllocationReconciler_status L cr ip a b i)))
     ''Ready'' = Some readyCondition"
proof -
  assume l: "condition_laws L"
  have set: "find_cond (SetStatusCondition L cs readyCondition) (cd_Type readyCondition) = Some readyCondition"
    and keep: "t \<noteq> cd_Type readyCondition \<Longrightarrow>
      find_cond (SetStatusCondition L cs readyCondition) t = find_cond cs t" for cs t
    using l unfolding condition_laws_def by blast+
  have t: "cd_Type readyCondition = ''Ready''" by (simp add: readyCondition_def)
  show "find_cond (cas_Conditions (ca_Status (AllocationReconciler_status L cr ip a b i)))
     ''ClusterSecretFound'' = find_cond (cas_Conditions (ca_Status cr)) ''ClusterSecretFound''"
    by (cases i) (simp_all add: AllocationReconciler_status_def alloc_setCondition_def Let_def keep t)
  show "find_cond (cas_Conditions (ca_Status (AllocationReconciler_status L cr ip a b i)))
     ''Ready'' = Some readyCondition"
    by (cases i) (use set t in \<open>simp_all add: AllocationReconciler_status_def alloc_setCondition_def Let_def\<close>)
qed

text \<open>
  C30. A missing Secret is a condition, not an error. When the Secret to enrich does not exist, the
  step succeeds without writing and the status the run ends with carries \<open>ClusterSecretFound\<close> with
  status \<open>False\<close> beside \<open>Ready\<close>. The condition is sticky: a later run that finds the Secret and
  enriches it leaves \<open>ClusterSecretFound\<close> as it was.
\<close>

theorem missing_secret_condition:
  assumes "condition_laws (ev_lib E)"
    and "k_Get (ev_Secrets E) (sor_Namespace ref, sor_Name ref) w = (q, w1)"
    and "enrichClusterSecret E cr ip info ref (w, tr) = (r, (w', tr'))"
  shows "(\<forall>e. q = Inl e \<and> IsNotFound e \<longrightarrow> (\<exists>cr'. r = Inr cr' \<and> w' = w1
        \<and> tr' = tr @ [EGet KSecret (sor_Namespace ref, sor_Name ref) False]
        \<and> find_cond (cas_Conditions (ca_Status (AllocationReconciler_status (ev_lib E) cr' ip a b info)))
            ''ClusterSecretFound'' = Some (clusterSecretNotFound ref)
        \<and> find_cond (cas_Conditions (ca_Status (AllocationReconciler_status (ev_lib E) cr' ip a b info)))
            ''Ready'' = Some readyCondition))
    \<and> (\<forall>s cr'. q = Inr s \<and> r = Inr cr' \<longrightarrow>
        find_cond (cas_Conditions (ca_Status (AllocationReconciler_status (ev_lib E) cr' ip a b info)))
            ''ClusterSecretFound'' = find_cond (cas_Conditions (ca_Status cr)) ''ClusterSecretFound'')"
proof (cases q)
  case (Inl e)
  have t: "cd_Type (clusterSecretNotFound ref) = ''ClusterSecretFound''"
    by (simp add: clusterSecretNotFound_def)
  have set: "find_cond (SetStatusCondition (ev_lib E) cs (clusterSecretNotFound ref)) ''ClusterSecretFound''
      = Some (clusterSecretNotFound ref)" for cs
    using assms(1) unfolding condition_laws_def t [symmetric] by blast
  show ?thesis
  proof (cases "IsNotFound e")
    case True
    then have "\<not> is_panic e" by (rule IsNotFound_not_panic)
    note g = attempt_kGet_run(2) [OF assms(2) [unfolded Inl] this]
    from True assms(3)
    have "r = Inr (alloc_setCondition (ev_lib E) (clusterSecretNotFound ref) cr)" "w' = w1"
      "tr' = tr @ [EGet KSecret (sor_Namespace ref, sor_Name ref) False]"
      by (simp_all add: enrichClusterSecret_def ret_def g)
    with Inl show ?thesis
      by (simp add: find_cond_ready [OF assms(1)]) (simp add: alloc_setCondition_def set)
  qed (use Inl in simp)
next
  case (Inr s)
  from assms(3) have "cr' = cr" if "r = Inr cr'" for cr'
    using that by (simp add: enrichClusterSecret_def attempt_kGet_run(1) [OF assms(2) [unfolded Inr]])
      (auto elim!: and_then_InrE simp: ret_def)
  with Inr show ?thesis by (auto simp: find_cond_ready [OF assms(1)])
qed

theorem missing_secret_condition_witness:
  "\<exists>cr'. enrichClusterSecret (memEnv exampleLib) (exampleAllocation ''a'') ''10.31.103.7'' None
       exampleSecretRef (emptyMem, []) = (Inr cr', (emptyMem, [EGet KSecret (''argocd'', ''prod'') False]))
    \<and> find_cond (cas_Conditions (ca_Status (AllocationReconciler_status exampleLib cr' ''10.31.103.7''
        None None None))) ''ClusterSecretFound'' = Some (clusterSecretNotFound exampleSecretRef)"
proof -
  let ?E = "memEnv exampleLib"
  have c: "condition_laws (ev_lib ?E)" by (simp add: exampleLib_def condition_laws_stdLib)
  have g: "k_Get (ev_Secrets ?E) (sor_Namespace exampleSecretRef, sor_Name exampleSecretRef) emptyMem =
      (Inl (ApiErr NotFound ''not found''), emptyMem)"
    by (simp add: memSecrets_def emptyMem_def)
  obtain r w' tr' where r: "enrichClusterSecret ?E (exampleAllocation ''a'') ''10.31.103.7'' None
      exampleSecretRef (emptyMem, []) = (r, (w', tr'))" by (metis prod_cases3)
  from missing_secret_condition [OF c g r] r show ?thesis
    by (fastforce simp: exampleSecretRef_def)
qed

end
