(* ===== verification/VclusterReconciler.thy ===== *)
theory VclusterReconciler
  imports ClusterReconciler
begin

text \<open>
  \<open>controller/vcluster_reconciler.go\<close>: the reconciler of \<open>Vcluster\<close>. It provisions a virtual
  cluster through an ArgoCD Application, waits for the kubeconfig the chart writes on the host
  cluster, republishes it with a reachable server, and emits a child \<open>ClusterbookCluster\<close> that
  the cluster reconciler turns into an ArgoCD cluster Secret.
\<close>

section \<open>Constants\<close>

definition vclusterFinalizer :: string where
  "vclusterFinalizer = ''clusterbook.stuttgart-things.com/vcluster-finalizer''"

definition defaultVclusterChartVersion :: string where
  "defaultVclusterChartVersion = ''0.33.1''"

definition defaultVclusterServerPort :: int where
  "defaultVclusterServerPort = 443"

definition vclusterChartRepoURL :: string where
  "vclusterChartRepoURL = ''https://charts.loft.sh''"

definition vclusterUpstreamSecretKey :: string where
  "vclusterUpstreamSecretKey = ''config''"

definition vclusterExternalSecretKey :: string where
  "vclusterExternalSecretKey = ''kubeconfig''"

definition registerArgoCD :: "Vcluster \<Rightarrow> bool" where
  "registerArgoCD cr = (case va_Register (vc_ArgoCD (vc_Spec cr)) of None \<Rightarrow> True | Some b \<Rightarrow> b)"

text \<open>\<open>ns := cr.Spec.ArgoCD.Namespace; if ns == "" { ns = defaultArgoNamespace }\<close>\<close>

definition vc_namespace :: "Vcluster \<Rightarrow> string" where
  "vc_namespace cr = (if va_Namespace (vc_ArgoCD (vc_Spec cr)) = [] then defaultArgoNamespace
     else va_Namespace (vc_ArgoCD (vc_Spec cr)))"

definition externalServerURL :: "Vcluster \<Rightarrow> ClusterInfo option \<Rightarrow> string" where
  "externalServerURL cr info =
     (case info of
        Some i \<Rightarrow>
          if ci_FQDN i \<noteq> [] then
            (let port = (if vc_ServerPort (vc_Spec cr) = 0 then defaultVclusterServerPort
                         else vc_ServerPort (vc_Spec cr))
             in ''https://'' @ ci_FQDN i @ '':'' @ int_decimal port)
          else ''https://'' @ vc_ClusterName (vc_Spec cr) @ ''.'' @ vc_TargetNamespace (vc_Spec cr)
      | None \<Rightarrow> ''https://'' @ vc_ClusterName (vc_Spec cr) @ ''.'' @ vc_TargetNamespace (vc_Spec cr))"

section \<open>The Application\<close>

text \<open>
  \<open>json.Unmarshal(raw, &values)\<close> into a map: an object replaces it, \<open>null\<close> makes it nil, anything
  else is an error. A nil map is \<open>JNull\<close> here, and writing to it panics.
\<close>

definition chartValues :: "string option \<Rightarrow> err + json" where
  "chartValues cv = (case cv of
     None \<Rightarrow> Inr (JObj [])
   | Some raw \<Rightarrow>
       if raw = [] then Inr (JObj [])
       else (case jparse raw of
           Some (JObj ms) \<Rightarrow> Inr (JObj ms)
         | Some JNull \<Rightarrow> Inr JNull
         | _ \<Rightarrow> Inl (wrap_err ''decode chartValues'' (New ''invalid JSON''))))"

definition setValue :: "lib \<Rightarrow> json \<Rightarrow> json \<Rightarrow> string list \<Rightarrow> err + json" where
  "setValue L values v path =
     (if values = JNull then Inl (Panic ''assignment to entry in nil map'')
      else SetNestedField L values v path)"

definition buildHelmValues :: "lib \<Rightarrow> Vcluster \<Rightarrow> string \<Rightarrow> ClusterInfo option \<Rightarrow> err + json" where
  "buildHelmValues L cr ip info =
     result_bind (chartValues (vc_ChartValues (vc_Spec cr))) (\<lambda>v0.
     result_bind
       (if ip \<noteq> [] then
          result_bind (setValue L v0 (JStr ''LoadBalancer'')
              [''controlPlane'', ''service'', ''spec'', ''type'']) (\<lambda>v1.
            setValue L v1 (JStr ip) [''controlPlane'', ''service'', ''spec'', ''loadBalancerIP''])
        else Inr v0) (\<lambda>v2.
     case info of
       Some i \<Rightarrow>
         if ci_FQDN i \<noteq> [] then
           setValue L v2 (JArr [JStr (ci_FQDN i)]) [''controlPlane'', ''proxy'', ''extraSANs'']
         else Inr v2
     | None \<Rightarrow> Inr v2))"

text \<open>\<open>obj[k] = v\<close>\<close>

definition jset :: "string \<Rightarrow> json \<Rightarrow> json \<Rightarrow> json" where
  "jset k v j = (case j of
     JObj ms \<Rightarrow> JObj (filter (\<lambda>m. fst m \<noteq> k) ms @ [(k, v)]) | _ \<Rightarrow> JObj [(k, v)])"

definition applicationSpec :: "Vcluster \<Rightarrow> json \<Rightarrow> json \<Rightarrow> json" where
  "applicationSpec cr destination values =
     (let chartVersion = (if vc_ChartVersion (vc_Spec cr) = [] then defaultVclusterChartVersion
                          else vc_ChartVersion (vc_Spec cr)) in
      JObj [(''project'', JStr ''default''),
            (''destination'', destination),
            (''source'', JObj
               [(''repoURL'', JStr vclusterChartRepoURL),
                (''chart'', JStr ''vcluster''),
                (''targetRevision'', JStr chartVersion),
                (''helm'', JObj
                   [(''releaseName'', JStr (vc_ClusterName (vc_Spec cr))),
                    (''valuesObject'', values)])]),
            (''syncPolicy'', JObj
               [(''automated'', JObj [(''prune'', JBool True), (''selfHeal'', JBool True)]),
                (''syncOptions'', JArr [JStr ''CreateNamespace=true''])])])"

definition applicationMutate ::
    "lib \<Rightarrow> Vcluster \<Rightarrow> json \<Rightarrow> json \<Rightarrow> Unstructured \<Rightarrow> err + Unstructured" where
  "applicationMutate L cr destination values app =
     (case SetControllerReference L KVcluster (vc_Meta cr) (un_Meta app) of
        Inl e \<Rightarrow> Inl e
      | Inr m \<Rightarrow> Inr (app\<lparr>un_Meta := m,
          un_Object := jset ''spec'' (applicationSpec cr destination values) (un_Object app)\<rparr>))"

definition newApplication :: "string \<Rightarrow> string \<Rightarrow> Unstructured" where
  "newApplication ns name = \<lparr>un_Meta = new_meta ns name,
     un_Object = JObj [(''apiVersion'', JStr ''argoproj.io/v1alpha1''),
                       (''kind'', JStr ''Application'')]\<rparr>"

definition appName :: "Vcluster \<Rightarrow> string" where
  "appName cr = ''vcluster-'' @ vc_ClusterName (vc_Spec cr)"

definition upsertApplication ::
    "'w env \<Rightarrow> Vcluster \<Rightarrow> json \<Rightarrow> string \<Rightarrow> ClusterInfo option \<Rightarrow> ('w, string) op" where
  "upsertApplication E cr destination ip info =
     and_then (lift (buildHelmValues (ev_lib E) cr ip info)) (\<lambda>values.
     and_then (kUpsert OApplication (ev_Applications E) (newApplication (vc_namespace cr) (appName cr))
       (applicationMutate (ev_lib E) cr destination values)) (\<lambda>_.
       ret (appName cr)))"

section \<open>The host cluster\<close>

text \<open>The client of the target, with the kind its reads are logged under, and the destination.\<close>

record 'w targetResolution =
  tr_Kind :: kind
  tr_Secrets :: "('w, Secret) kclient"
  tr_Destination :: json

definition newTargetClient :: "'w env \<Rightarrow> RestConfig \<Rightarrow> ('w, unit) op" where
  "newTargetClient E cfg = call (ev_NewTargetClient E cfg) (\<lambda>r. ETarget cfg (is_ok r))"

definition resolveTarget :: "'w env \<Rightarrow> Vcluster \<Rightarrow> ('w, 'w targetResolution) op" where
  "resolveTarget E cr =
     (let ns = (''namespace'', JStr (vc_TargetNamespace (vc_Spec cr))) in
      case vc_TargetClusterRef (vc_Spec cr) of
        None \<Rightarrow> ret \<lparr>tr_Kind = KSecret, tr_Secrets = ev_Secrets E,
          tr_Destination = JObj [ns, (''server'', JStr ''https://kubernetes.default.svc'')]\<rparr>
      | Some ref \<Rightarrow>
          and_then (wrap (''get target cluster secret '' @ sor_Namespace ref @ ''/'' @ sor_Name ref)
            (kGet KSecret (ev_Secrets E) (sor_Namespace ref, sor_Name ref))) (\<lambda>s.
          and_then (lift (restConfigFromArgoSecret s)) (\<lambda>restCfg.
          and_then (wrap ''build target client'' (newTargetClient E restCfg)) (\<lambda>_.
            let n = idx (s_Data s) ''name'';
                argoName = (if n = [] then sor_Name ref else n)
            in ret \<lparr>tr_Kind = KTargetSecret, tr_Secrets = ev_TargetSecrets E restCfg,
                 tr_Destination = JObj [ns, (''name'', JStr argoName)]\<rparr>))))"

text \<open>\<open>None\<close> is \<open>found == false\<close>.\<close>

definition readUpstreamKubeconfig ::
    "'w targetResolution \<Rightarrow> Vcluster \<Rightarrow> ('w, string option) op" where
  "readUpstreamKubeconfig target cr =
     (let name = ''vc-'' @ vc_ClusterName (vc_Spec cr); ns = vc_TargetNamespace (vc_Spec cr) in
      and_then (attempt (kGet (tr_Kind target) (tr_Secrets target) (ns, name))) (\<lambda>r. case r of
        Inl e \<Rightarrow> if IsNotFound e then ret None
               else fail (wrap_err (''get vc-secret '' @ ns @ ''/'' @ name) e)
      | Inr s \<Rightarrow>
          (case fmlookup (s_Data s) vclusterUpstreamSecretKey of
             None \<Rightarrow> ret None
           | Some raw \<Rightarrow> if raw = [] then ret None else ret (Some raw))))"

section \<open>The published kubeconfig\<close>

definition kubeconfigMutate ::
    "lib \<Rightarrow> Vcluster \<Rightarrow> string \<Rightarrow> Secret \<Rightarrow> err + Secret" where
  "kubeconfigMutate L cr rewritten s =
     (case SetControllerReference L KVcluster (vc_Meta cr) (s_Meta s) of
        Inl e \<Rightarrow> Inl e
      | Inr m \<Rightarrow> Inr (s\<lparr>s_Data := fmupd vclusterExternalSecretKey rewritten (s_Data s), s_Meta := m\<rparr>))"

definition externalName :: "Vcluster \<Rightarrow> string" where
  "externalName cr = ''vc-'' @ vc_ClusterName (vc_Spec cr) @ ''-external''"

definition writeExternalKubeconfig ::
    "'w env \<Rightarrow> Vcluster \<Rightarrow> string \<Rightarrow> ClusterInfo option \<Rightarrow> ('w, SecretObjectRef) op" where
  "writeExternalKubeconfig E cr raw info =
     and_then (wrap ''rewrite kubeconfig''
       (lift (rewriteKubeconfigServer (ev_lib E) raw (externalServerURL cr info)))) (\<lambda>rewritten.
     and_then (kUpsert OSecret (ev_Secrets E)
       \<lparr>s_Meta = new_meta (vc_namespace cr) (externalName cr), s_Data = fmempty,
        s_StringData = fmempty\<rparr>
       (kubeconfigMutate (ev_lib E) cr rewritten)) (\<lambda>_.
       ret \<lparr>sor_Name = externalName cr, sor_Namespace = vc_namespace cr\<rparr>))"

section \<open>The child cluster\<close>

definition zeroClusterStatus :: ClusterbookClusterStatus where
  "zeroClusterStatus = \<lparr>ccs_IP = [], ccs_FQDN = [], ccs_Zone = [], ccs_LBRangeStart = [],
     ccs_LBRangeStop = [], ccs_SecretName = [], ccs_KubeconfigHash = [], ccs_ClusterReady = False,
     ccs_Conditions = []\<rparr>"

definition childSpec :: "Vcluster \<Rightarrow> SecretObjectRef \<Rightarrow> ClusterbookClusterSpec" where
  "childSpec cr ref = \<lparr>cc_NetworkKey = [], cc_SkipReservation = True,
     cc_ClusterName = vc_ClusterName (vc_Spec cr), cc_CreateDNS = False,
     cc_UseFQDNAsServer = False, cc_ServerPort = 0, cc_ServerSubdomain = [],
     cc_PreserveKubeconfigServer = True,
     cc_KubeconfigSecretRef = Some \<lparr>skr_Name = sor_Name ref, skr_Namespace = sor_Namespace ref,
       skr_Key = vclusterExternalSecretKey\<rparr>,
     cc_ExistingSecretRef = None, cc_ProviderConfigRef = [],
     cc_ArgoCDNamespace = va_Namespace (vc_ArgoCD (vc_Spec cr)),
     cc_Labels = va_Labels (vc_ArgoCD (vc_Spec cr)),
     cc_Annotations = va_Annotations (vc_ArgoCD (vc_Spec cr)),
     cc_ReleaseOnDelete = False, cc_ClusterType = ''vcluster'', cc_LBRange = None\<rparr>"

definition childMutate ::
    "lib \<Rightarrow> Vcluster \<Rightarrow> SecretObjectRef \<Rightarrow> ClusterbookCluster \<Rightarrow> err + ClusterbookCluster" where
  "childMutate L cr ref child =
     (case SetControllerReference L KVcluster (vc_Meta cr) (cc_Meta child) of
        Inl e \<Rightarrow> Inl e
      | Inr m \<Rightarrow> Inr (child\<lparr>cc_Meta := m, cc_Spec := childSpec cr ref\<rparr>))"

definition newChild :: "Vcluster \<Rightarrow> ClusterbookCluster" where
  "newChild cr = \<lparr>cc_Meta = new_meta [] (vc_ClusterName (vc_Spec cr)),
     cc_Spec = \<lparr>cc_NetworkKey = [], cc_SkipReservation = False, cc_ClusterName = [],
       cc_CreateDNS = False, cc_UseFQDNAsServer = False, cc_ServerPort = 0,
       cc_ServerSubdomain = [], cc_PreserveKubeconfigServer = False,
       cc_KubeconfigSecretRef = None, cc_ExistingSecretRef = None, cc_ProviderConfigRef = [],
       cc_ArgoCDNamespace = [], cc_Labels = fmempty, cc_Annotations = fmempty,
       cc_ReleaseOnDelete = False, cc_ClusterType = [], cc_LBRange = None\<rparr>,
     cc_Status = zeroClusterStatus\<rparr>"

definition upsertChildCluster :: "'w env \<Rightarrow> Vcluster \<Rightarrow> SecretObjectRef \<Rightarrow> ('w, string) op" where
  "upsertChildCluster E cr ref =
     and_then (kUpsert OCluster (ev_Clusters E) (newChild cr) (childMutate (ev_lib E) cr ref)) (\<lambda>_.
       ret (vc_ClusterName (vc_Spec cr)))"

section \<open>The reservation\<close>

definition VclusterReconciler_ensureReservation ::
    "'w env \<Rightarrow> CbkClient option \<Rightarrow> Vcluster \<Rightarrow> ('w, string) op" where
  "VclusterReconciler_ensureReservation E api cr =
     (if vcs_IP (vc_Status cr) \<noteq> [] then ret (vcs_IP (vc_Status cr))
      else
        and_then (wrap ''list IPs'' (GetIPs E api (vc_NetworkKey (vc_Spec cr)))) (\<lambda>existing.
          case find (\<lambda>e. ip_Cluster e = vc_ClusterName (vc_Spec cr)) existing of
            Some e \<Rightarrow> ret (ip_IP e)
          | None \<Rightarrow>
              and_then (wrap ''reserve IP'' (ReserveIPs E api (vc_NetworkKey (vc_Spec cr))
                \<lparr>rr_Cluster = vc_ClusterName (vc_Spec cr), rr_Count = 1, rr_IP = [],
                 rr_CreateDNS = True, rr_Status = []\<rparr>)) (\<lambda>resv.
              if rs_IPs resv = [] then fail (New ''clusterbook returned no IPs'')
              else ret (rs_IPs resv ! 0))))"

text \<open>Without a network key there is no client, and no address.\<close>

definition VclusterReconciler_api :: "'w env \<Rightarrow> Vcluster \<Rightarrow> ('w, CbkClient option) op" where
  "VclusterReconciler_api E cr =
     (if vc_NetworkKey (vc_Spec cr) \<noteq> [] then
        and_then (wrap ''load provider config''
          (loadProviderConfig E (vc_ProviderConfigRef (vc_Spec cr)))) (\<lambda>pc.
        and_then (wrap ''build clusterbook client'' (newClusterbookClient E pc)) (\<lambda>c.
          ret (Some c)))
      else ret None)"

definition VclusterReconciler_allocate ::
    "'w env \<Rightarrow> CbkClient option \<Rightarrow> Vcluster \<Rightarrow> ('w, string \<times> ClusterInfo option) op" where
  "VclusterReconciler_allocate E api cr =
     (if api \<noteq> None then
        and_then (VclusterReconciler_ensureReservation E api cr) (\<lambda>ip.
        and_then (optional (GetClusterInfo E api (vc_ClusterName (vc_Spec cr)))) (\<lambda>info.
          ret (ip, info)))
      else ret ([], None))"

section \<open>The status\<close>

definition vc_setCondition :: "lib \<Rightarrow> Condition \<Rightarrow> Vcluster \<Rightarrow> Vcluster" where
  "vc_setCondition L c cr = cr\<lparr>vc_Status := (vc_Status cr)\<lparr>vcs_Conditions :=
     SetStatusCondition L (vcs_Conditions (vc_Status cr)) c\<rparr>\<rparr>"

definition vclusterWaiting :: "Vcluster \<Rightarrow> Condition" where
  "vclusterWaiting cr = \<lparr>cd_Type = ''VclusterReady'', cd_Status = ''False'',
     cd_Reason = ''WaitingForVclusterSecret'',
     cd_Message = ''secret vc-'' @ vc_ClusterName (vc_Spec cr) @ '' not yet present in ''
       @ vc_TargetNamespace (vc_Spec cr)\<rparr>"

definition vcluster_facts :: "Vcluster \<Rightarrow> string \<Rightarrow> ClusterInfo option \<Rightarrow> VclusterStatus" where
  "vcluster_facts cr ip info =
     (let st = (vc_Status cr)\<lparr>vcs_IP := ip\<rparr> in
      case info of None \<Rightarrow> st | Some i \<Rightarrow> st\<lparr>vcs_FQDN := ci_FQDN i, vcs_Zone := ci_Zone i\<rparr>)"

definition VclusterReconciler_waiting ::
    "lib \<Rightarrow> Vcluster \<Rightarrow> string \<Rightarrow> ClusterInfo option \<Rightarrow> string \<Rightarrow> Vcluster" where
  "VclusterReconciler_waiting L cr ip info app =
     vc_setCondition L (vclusterWaiting cr)
       (cr\<lparr>vc_Status := (vcluster_facts cr ip info)\<lparr>vcs_ArgoCDApplicationRef := app\<rparr>\<rparr>)"

definition true_cond :: "string \<Rightarrow> string \<Rightarrow> Condition" where
  "true_cond t reason =
     \<lparr>cd_Type = t, cd_Status = ''True'', cd_Reason = reason, cd_Message = []\<rparr>"

definition VclusterReconciler_ready ::
    "lib \<Rightarrow> Vcluster \<Rightarrow> string \<Rightarrow> ClusterInfo option \<Rightarrow> SecretObjectRef \<Rightarrow> string \<Rightarrow> string \<Rightarrow> Vcluster"
  where
  "VclusterReconciler_ready L cr ip info extRef app childRef =
     (let st = (vcluster_facts cr ip info)\<lparr>vcs_KubeconfigSecretRef := Some extRef,
                 vcs_ArgoCDApplicationRef := app, vcs_ClusterbookClusterRef := childRef\<rparr>;
          c1 = vc_setCondition L (true_cond ''VclusterReady'' ''Reconciled'') (cr\<lparr>vc_Status := st\<rparr>);
          c2 = vc_setCondition L (true_cond ''KubeconfigReady'' ''Written'') c1
      in if registerArgoCD cr
         then vc_setCondition L (true_cond ''ArgoCDRegistered'' ''ChildEmitted'') c2 else c2)"

section \<open>The handler\<close>

text \<open>\<open>if err := m; err != nil && !apierrors.IsNotFound(err) { return err }\<close>\<close>

definition ignoreNotFound :: "('w, 'a) op \<Rightarrow> ('w, unit) op" where
  "ignoreNotFound m = and_then (attempt m) (\<lambda>r. case r of
     Inl e \<Rightarrow> if \<not> IsNotFound e then fail e else ret () | Inr x \<Rightarrow> ret ())"

definition VclusterReconciler_cleanup ::
    "'w env \<Rightarrow> Vcluster \<Rightarrow> CbkClient option \<Rightarrow> ('w, unit) op" where
  "VclusterReconciler_cleanup E cr api =
     and_then
       (if vcs_ClusterbookClusterRef (vc_Status cr) \<noteq> []
        then wrap ''delete child cluster'' (ignoreNotFound
          (kDelete KCluster (ev_Clusters E) ([], vcs_ClusterbookClusterRef (vc_Status cr))))
        else ret ()) (\<lambda>_.
     and_then
       (if vcs_ArgoCDApplicationRef (vc_Status cr) \<noteq> []
        then wrap ''delete application'' (ignoreNotFound
          (kDelete KApplication (ev_Applications E)
            (vc_namespace cr, vcs_ArgoCDApplicationRef (vc_Status cr))))
        else ret ()) (\<lambda>_.
     if api \<noteq> None \<and> vc_ReleaseOnDelete (vc_Spec cr) \<and> vcs_IP (vc_Status cr) \<noteq> []
     then wrap ''release IP'' (ReleaseIPs E api (vc_NetworkKey (vc_Spec cr))
            \<lparr>rl_IP = vcs_IP (vc_Status cr)\<rparr>)
     else ret ()))"

definition VclusterReconciler_finalize ::
    "'w env \<Rightarrow> Vcluster \<Rightarrow> CbkClient option \<Rightarrow> ('w, Result) op" where
  "VclusterReconciler_finalize E cr api =
     (if \<not> ContainsFinalizer (ev_lib E) (vc_Meta cr) vclusterFinalizer then ret noRequeue
      else
        and_then (VclusterReconciler_cleanup E cr api) (\<lambda>_.
        and_then (kUpdate OVcluster (ev_Vclusters E)
          (vc_Meta_update (\<lambda>m. RemoveFinalizer (ev_lib E) m vclusterFinalizer) cr)) (\<lambda>_.
          ret noRequeue)))"

text \<open>Steps 5 to 7, once the kubeconfig \<open>raw\<close> is there.\<close>

definition VclusterReconciler_publish ::
    "'w env \<Rightarrow> Vcluster \<Rightarrow> string \<Rightarrow> ClusterInfo option \<Rightarrow> string \<Rightarrow> string \<Rightarrow> ('w, Result) op" where
  "VclusterReconciler_publish E cr ip info app raw =
     and_then (wrap ''write external kubeconfig'' (writeExternalKubeconfig E cr raw info)) (\<lambda>extRef.
     and_then (if registerArgoCD cr
               then wrap ''upsert child cluster'' (upsertChildCluster E cr extRef)
               else ret []) (\<lambda>childRef.
     and_then (ignore (kStatusUpdate OVcluster (ev_Vclusters E)
       (VclusterReconciler_ready (ev_lib E) cr ip info extRef app childRef))) (\<lambda>_.
       ret noRequeue)))"

text \<open>Step 4, and what follows when the kubeconfig is not there yet.\<close>

definition VclusterReconciler_await ::
    "'w env \<Rightarrow> Vcluster \<Rightarrow> string \<Rightarrow> ClusterInfo option \<Rightarrow> 'w targetResolution \<Rightarrow> string
     \<Rightarrow> ('w, Result) op" where
  "VclusterReconciler_await E cr ip info target app =
     and_then (wrap ''read upstream kubeconfig'' (readUpstreamKubeconfig target cr)) (\<lambda>raw.
       case raw of
         None \<Rightarrow>
           and_then (ignore (kStatusUpdate OVcluster (ev_Vclusters E)
             (VclusterReconciler_waiting (ev_lib E) cr ip info app))) (\<lambda>_.
             ret \<lparr>res_RequeueAfter = 15\<rparr>)
       | Some k \<Rightarrow> VclusterReconciler_publish E cr ip info app k)"

text \<open>Steps 2 and 3.\<close>

definition VclusterReconciler_provision ::
    "'w env \<Rightarrow> Vcluster \<Rightarrow> string \<Rightarrow> ClusterInfo option \<Rightarrow> ('w, Result) op" where
  "VclusterReconciler_provision E cr ip info =
     and_then (wrap ''resolve target'' (resolveTarget E cr)) (\<lambda>target.
     and_then (wrap ''upsert application''
       (upsertApplication E cr (tr_Destination target) ip info)) (\<lambda>app.
       VclusterReconciler_await E cr ip info target app))"

definition VclusterReconciler_apply ::
    "'w env \<Rightarrow> CbkClient option \<Rightarrow> Vcluster \<Rightarrow> ('w, Result) op" where
  "VclusterReconciler_apply E api cr =
     and_then (VclusterReconciler_allocate E api cr) (\<lambda>(ip, info).
       VclusterReconciler_provision E cr ip info)"

definition VclusterReconciler_Reconcile :: "'w env \<Rightarrow> objkey \<Rightarrow> ('w, Result) op" where
  "VclusterReconciler_Reconcile E key =
     and_then (attempt (kGet KVcluster (ev_Vclusters E) key)) (\<lambda>r. case r of
       Inl e \<Rightarrow> if IsNotFound e then ret noRequeue else fail e
     | Inr cr \<Rightarrow>
         and_then (VclusterReconciler_api E cr) (\<lambda>api.
           if om_DeletionTimestamp (vc_Meta cr) \<noteq> None then VclusterReconciler_finalize E cr api
           else
             and_then (ensureFinalizer (ev_lib E) OVcluster (ev_Vclusters E) vc_Meta vc_Meta_update
                 vclusterFinalizer cr) (\<lambda>cr1.
               VclusterReconciler_apply E api cr1)))"

section \<open>The contracts it implements\<close>

interpretation vcReservation: reservation VclusterReconciler_ensureReservation
    "\<lambda>cr. vcs_IP (vc_Status cr)" "\<lambda>cr. vc_NetworkKey (vc_Spec cr)" "\<lambda>cr. vc_ClusterName (vc_Spec cr)"
    "\<lambda>cr. \<lparr>rr_Cluster = vc_ClusterName (vc_Spec cr), rr_Count = 1, rr_IP = [],
       rr_CreateDNS = True, rr_Status = []\<rparr>"
    "\<lambda>cr. vcs_IP (vc_Status cr)" "\<lambda>cr e. ip_IP e" "\<lambda>cr ips. ips ! 0" "\<lambda>ip. ip"
  by unfold_locales (auto simp: VclusterReconciler_ensureReservation_def hd_conv_nth)

interpretation vcFinalizing: finalizing VclusterReconciler_finalize VclusterReconciler_cleanup
    OVcluster ev_Vclusters vc_Meta vc_Meta_update vclusterFinalizer
  by unfold_locales (simp add: VclusterReconciler_finalize_def)

interpretation vcReleasing: releasing VclusterReconciler_finalize VclusterReconciler_cleanup
    OVcluster ev_Vclusters vc_Meta vc_Meta_update vclusterFinalizer
    "\<lambda>E cr. and_then
       (if vcs_ClusterbookClusterRef (vc_Status cr) \<noteq> []
        then wrap ''delete child cluster'' (ignoreNotFound
          (kDelete KCluster (ev_Clusters E) ([], vcs_ClusterbookClusterRef (vc_Status cr))))
        else ret ()) (\<lambda>_.
       if vcs_ArgoCDApplicationRef (vc_Status cr) \<noteq> []
       then wrap ''delete application'' (ignoreNotFound
         (kDelete KApplication (ev_Applications E)
           (vc_namespace cr, vcs_ArgoCDApplicationRef (vc_Status cr))))
       else ret ())"
    "\<lambda>cr. vc_ReleaseOnDelete (vc_Spec cr)" "\<lambda>cr. vc_NetworkKey (vc_Spec cr)"
    "\<lambda>cr. vcs_IP (vc_Status cr)"
proof unfold_locales
  fix E :: "'w env" and cr
  show "emits (\<lambda>e. \<forall>x b. e \<noteq> EUpdate (OVcluster x) b) (and_then
       (if vcs_ClusterbookClusterRef (vc_Status cr) \<noteq> []
        then wrap ''delete child cluster'' (ignoreNotFound
          (kDelete KCluster (ev_Clusters E) ([], vcs_ClusterbookClusterRef (vc_Status cr))))
        else ret ()) (\<lambda>_.
       if vcs_ArgoCDApplicationRef (vc_Status cr) \<noteq> []
       then wrap ''delete application'' (ignoreNotFound
         (kDelete KApplication (ev_Applications E)
           (vc_namespace cr, vcs_ArgoCDApplicationRef (vc_Status cr))))
       else ret ()))"
    unfolding ignoreNotFound_def
    by (intro emits_struct emits_kDelete) auto
qed (simp add: VclusterReconciler_cleanup_def and_then_assoc cong: if_cong)

end
