(* ===== verification/VclusterProps.thy ===== *)
theory VclusterProps
  imports VclusterReconciler AllocationProps
begin

text \<open>
  Properties of the \<open>Vcluster\<close> reconciler: its child never talks to clusterbook, the kubeconfig it
  publishes leads to the server it promised, the operator's Helm values win over the user's, it
  waits without writing, and it tears down in order.
\<close>

section \<open>The child\<close>

text \<open>
  C31. The child is registration-only. The object the create-or-update of the child prepares has a
  specification the API server accepts and that reserves nothing, its status untouched; and
  whenever the cluster reconciler later reads a resource with that specification, being deleted
  or not, its run sends clusterbook no request at all: the parent owns the reservation.
\<close>

theorem child_is_registration_only:
  assumes "childMutate L cr ref child = Inr c"
    and "k_Get (ev_Clusters E) key w = (Inr x, w1)" and "cc_Spec x = cc_Spec c"
  shows "valid_ClusterbookClusterSpec (cc_Spec c) \<and> isRegistrationOnly c
    \<and> cc_Status c = cc_Status child
    \<and> (\<exists>es. snd (snd (Reconciler_Reconcile E key (w, tr))) = tr @ es
        \<and> list_all (\<lambda>e. \<not> is_http e) es)"
proof -
  have c: "cc_Spec c = childSpec cr ref" "cc_Status c = cc_Status child"
    using assms(1) by (auto simp: childMutate_def split: sum.splits)
  then have reg: "isRegistrationOnly c" "isRegistrationOnly x"
    by (simp_all add: isRegistrationOnly_def assms(3) childSpec_def)
  have run: "Reconciler_Reconcile E key (w, tr) = (and_then (Reconciler_api E x) (\<lambda>api.
    if om_DeletionTimestamp (cc_Meta x) \<noteq> None then Reconciler_finalize E x api
    else and_then (ensureFinalizer (ev_lib E) OCluster (ev_Clusters E) cc_Meta cc_Meta_update
             finalizer x) (\<lambda>cr1. Reconciler_apply E api cr1))) (w1, tr @ [EGet KCluster key True])"
    unfolding Reconciler_Reconcile_def by (simp add: attempt_kGet_run(1) [OF assms(2)] cong: if_cong)
  have "\<exists>es. snd (snd (Reconciler_Reconcile E key (w, tr))) = tr @ es
        \<and> list_all (\<lambda>e. \<not> is_http e) es"
    unfolding run by (rule emits_after [OF registration_only_emits [OF reg(2)]]) simp
  moreover have "valid_ClusterbookClusterSpec (cc_Spec c)"
    by (simp add: c valid_ClusterbookClusterSpec_def childSpec_def b2n_def)
  ultimately show ?thesis using c reg by blast
qed

definition exampleVcluster :: Vcluster where
  "exampleVcluster = \<lparr>vc_Meta = (new_meta [] ''v1'')\<lparr>om_Finalizers := [vclusterFinalizer]\<rparr>,
     vc_Spec = \<lparr>vc_ClusterName = ''v1'', vc_TargetClusterRef = None, vc_TargetNamespace = ''vcs'',
       vc_ChartVersion = [], vc_ChartValues = None, vc_NetworkKey = ''10.31.103'',
       vc_ServerPort = 0, vc_ProviderConfigRef = ''pc'',
       vc_ArgoCD = \<lparr>va_Namespace = [], va_Register = None, va_Labels = fmempty,
         va_Annotations = fmempty\<rparr>, vc_ReleaseOnDelete = True\<rparr>,
     vc_Status = \<lparr>vcs_IP = ''10.31.103.7'', vcs_FQDN = [], vcs_Zone = [],
       vcs_KubeconfigSecretRef = None, vcs_ArgoCDApplicationRef = ''vcluster-v1'',
       vcs_ClusterbookClusterRef = ''v1'', vcs_Conditions = []\<rparr>\<rparr>"

definition exampleExternalRef :: SecretObjectRef where
  "exampleExternalRef = \<lparr>sor_Name = ''vc-v1-external'', sor_Namespace = ''argocd''\<rparr>"

theorem child_is_registration_only_witness:
  "\<exists>c es. childMutate exampleLib exampleVcluster exampleExternalRef (newChild exampleVcluster) = Inr c
    \<and> snd (snd (Reconciler_Reconcile (memEnv exampleLib) ([], ''v1'')
        (emptyMem\<lparr>mm_Clusters := fmap_of_list [(([], ''v1''), c)]\<rparr>, []))) = [] @ es
    \<and> list_all (\<lambda>e. \<not> is_http e) es"
proof -
  obtain c where c: "childMutate exampleLib exampleVcluster exampleExternalRef
      (newChild exampleVcluster) = Inr c"
    by (simp add: childMutate_def exampleLib_def own_def newChild_def Let_def)
  let ?w = "emptyMem\<lparr>mm_Clusters := fmap_of_list [(([], ''v1''), c)]\<rparr>"
  have "k_Get (ev_Clusters (memEnv exampleLib)) ([], ''v1'') ?w = (Inr c, ?w)"
    by (simp add: memClusters_def)
  from child_is_registration_only [OF c this refl] c show ?thesis by blast
qed

section \<open>The kubeconfig\<close>

text \<open>What publishing leaves behind: the rewritten kubeconfig, in the Secret it refers to.\<close>

lemma published_object:
  assumes "kube_client (ev_Secrets E) view (\<lambda>s. meta_key (s_Meta s)) secret_norm"
    and "writeExternalKubeconfig E cr raw info (w, tr) = (Inr ref, (w1, tr @ [EUpsert z True]))"
  obtains raw' b q where
    "rewriteKubeconfigServer (ev_lib E) raw (externalServerURL cr info) = Inr raw'"
    and "ref = \<lparr>sor_Name = externalName cr, sor_Namespace = vc_namespace cr\<rparr>"
    and "case view w (vc_namespace cr, externalName cr) of None \<Rightarrow> s_StringData b = fmempty | Some s \<Rightarrow> b = s"
    and "kubeconfigMutate (ev_lib E) cr raw' b = Inr q"
    and "view w1 = (view w)((vc_namespace cr, externalName cr) \<mapsto> secret_norm q)"
proof -
  let ?url = "externalServerURL cr info"
  let ?x = "\<lparr>s_Meta = new_meta (vc_namespace cr) (externalName cr), s_Data = fmempty,
        s_StringData = fmempty\<rparr>"
  from assms(2) [unfolded writeExternalKubeconfig_def] obtain raw' st where
    rw: "wrap ''rewrite kubeconfig'' (lift (rewriteKubeconfigServer (ev_lib E) raw ?url)) (w, tr) = (Inr raw', st)"
    and up: "and_then (kUpsert OSecret (ev_Secrets E) ?x (kubeconfigMutate (ev_lib E) cr raw'))
       (\<lambda>_. ret \<lparr>sor_Name = externalName cr, sor_Namespace = vc_namespace cr\<rparr>) st =
       (Inr ref, (w1, tr @ [EUpsert z True]))"
    by (rule and_then_InrE)
  from wrap_InrD [OF rw] have rw': "rewriteKubeconfigServer (ev_lib E) raw ?url = Inr raw'"
    and st: "st = (w, tr)" by (simp_all add: lift_def)
  from up [unfolded st] obtain y s1 where
    u: "kUpsert OSecret (ev_Secrets E) ?x (kubeconfigMutate (ev_lib E) cr raw') (w, tr) = (Inr y, s1)"
    and r: "ret \<lparr>sor_Name = externalName cr, sor_Namespace = vc_namespace cr\<rparr> s1 =
       (Inr ref, (w1, tr @ [EUpsert z True]))" by (rule and_then_InrE)
  from r have s1: "s1 = (w1, tr @ [EUpsert z True])"
    and ref: "ref = \<lparr>sor_Name = externalName cr, sor_Namespace = vc_namespace cr\<rparr>"
    by (simp_all add: ret_def)
  from kube_client.upsert_view [OF assms(1) u [unfolded s1]] obtain b q where
    b: "case view w (vc_namespace cr, externalName cr) of None \<Rightarrow> b = ?x | Some x0 \<Rightarrow> b = x0"
    and q: "kubeconfigMutate (ev_lib E) cr raw' b = Inr q"
    and v: "view w1 = (view w)((vc_namespace cr, externalName cr) \<mapsto> secret_norm q)" by auto
  show thesis by (rule that [OF rw' ref _ q v]) (use b in \<open>auto split: option.splits\<close>)
qed

lemma published_kubeconfig:
  assumes "kube_client (ev_Secrets E) view (\<lambda>s. meta_key (s_Meta s)) secret_norm"
    and "\<And>s. view w (vc_namespace cr, externalName cr) = Some s \<Longrightarrow> s_StringData s = fmempty"
    and "writeExternalKubeconfig E cr raw info (w, tr) = (Inr ref, (w1, tr @ [EUpsert z True]))"
  obtains raw' q where
    "rewriteKubeconfigServer (ev_lib E) raw (externalServerURL cr info) = Inr raw'"
    and "ref = \<lparr>sor_Name = externalName cr, sor_Namespace = vc_namespace cr\<rparr>"
    and "view w1 = (view w)((vc_namespace cr, externalName cr) \<mapsto> q)"
    and "fmlookup (s_Data q) vclusterExternalSecretKey = Some raw'"
proof -
  from published_object [OF assms(1,3)] obtain raw' b q where
    o: "rewriteKubeconfigServer (ev_lib E) raw (externalServerURL cr info) = Inr raw'"
      "ref = \<lparr>sor_Name = externalName cr, sor_Namespace = vc_namespace cr\<rparr>"
    and b: "case view w (vc_namespace cr, externalName cr) of None \<Rightarrow> s_StringData b = fmempty | Some s \<Rightarrow> b = s"
    and q: "kubeconfigMutate (ev_lib E) cr raw' b = Inr q"
    and v: "view w1 = (view w)((vc_namespace cr, externalName cr) \<mapsto> secret_norm q)" .
  have "s_StringData b = fmempty" using b assms(2) by (auto split: option.splits)
  with q have d: "fmlookup (s_Data (secret_norm q)) vclusterExternalSecretKey = Some raw'"
    by (auto simp: kubeconfigMutate_def secret_norm_def split: sum.splits)
  show thesis by (rule that [OF o v d])
qed

text \<open>What is read back through the child's reference is what was published.\<close>

lemma published_read:
  assumes "kube_client (ev_Secrets E) view (\<lambda>s. meta_key (s_Meta s)) secret_norm"
    and "\<And>s. view w (vc_namespace cr, externalName cr) = Some s \<Longrightarrow> s_StringData s = fmempty"
    and "kubeconfig_laws (ev_lib E)"
    and "argoConfigFromKubeconfig (ev_lib E) raw = Inr (js, ca, upstream)"
    and "writeExternalKubeconfig E cr raw info (w, tr) = (Inr ref, (w1, tr @ [EUpsert z True]))"
    and "cc_Spec child = childSpec cr ref"
    and "loadKubeconfig E (the (cc_KubeconfigSecretRef (cc_Spec child))) (w1, tr1) = (Inr kcfg, s2)"
  shows "argoConfigFromKubeconfig (ev_lib E) kcfg = Inr (js, ca, externalServerURL cr info)"
proof -
  let ?url = "externalServerURL cr info" and ?n = "(vc_namespace cr, externalName cr)"
  obtain raw' q where rw': "rewriteKubeconfigServer (ev_lib E) raw ?url = Inr raw'"
    and ref: "ref = \<lparr>sor_Name = externalName cr, sor_Namespace = vc_namespace cr\<rparr>"
    and v: "view w1 = (view w)(?n \<mapsto> q)"
    and "fmlookup (s_Data q) vclusterExternalSecretKey = Some raw'"
    by (rule published_kubeconfig [OF assms(1,2,5)])
  moreover from assms(7) [unfolded assms(6) loadKubeconfig_def] obtain s t where
    g: "kGet KSecret (ev_Secrets E) ?n (w1, tr1) = (Inr s, t)"
    and d: "fmlookup (s_Data s) vclusterExternalSecretKey = Some kcfg"
    by (auto simp: childSpec_def ref vclusterExternalSecretKey_def Let_def ret_def fail_def
        split: option.splits elim!: and_then_InrE)
  moreover have "s = q"
    using kube_client.kGet_view(2) [OF assms(1)] g v by (cases t) fastforce
  ultimately have kcfg: "kcfg = raw'" by simp
  from assms(4) obtain cfg cluster user where load: "clientcmd_Load (ev_lib E) raw = Inr cfg"
    and cur: "current cfg = Some (cluster, user)"
    and js: "js = marshal_argo (argo_of cluster user)" "ca = kcc_CertificateAuthorityData cluster"
    by (auto simp: argoConfigFromKubeconfig_ok)
  from assms(3) load cur rw' obtain cfg' where "clientcmd_Load (ev_lib E) raw' = Inr cfg'"
    and "current cfg' = Some (cluster\<lparr>kcc_Server := ?url\<rparr>, user)"
    by (rule rewriteKubeconfigServer_current)
  with js kcfg show ?thesis by (simp add: argoConfigFromKubeconfig_ok)
qed

text \<open>The server of the child's Secret is the one in the kubeconfig it reads.\<close>

lemma child_server:
  "cc_Spec child = childSpec cr ref \<Longrightarrow>
   buildServerURL child ip (externalServerURL cr info) info' = externalServerURL cr info"
  by (simp add: buildServerURL_def childSpec_def externalServerURL_def Let_def split: option.split)

text \<open>
  C32. The kubeconfig reaches ArgoCD with the promised server. After the Vcluster reconciler has
  published a kubeconfig, the cluster reconciler that follows the child's \<open>kubeconfigSecretRef\<close>
  reads exactly the published text, extracts from it the connection JSON and CA of the upstream
  kubeconfig, and renders, for the child, the server URL the parent chose, whatever address or
  facts it works with.
\<close>

theorem kubeconfig_pipeline:
  assumes "kube_client (ev_Secrets E) view (\<lambda>s. meta_key (s_Meta s)) secret_norm"
    and "\<And>s. view w (vc_namespace cr, externalName cr) = Some s \<Longrightarrow> s_StringData s = fmempty"
    and "kubeconfig_laws (ev_lib E)"
    and "argoConfigFromKubeconfig (ev_lib E) raw = Inr (js, ca, upstream)"
    and "writeExternalKubeconfig E cr raw info (w, tr) = (Inr ref, (w1, tr @ [EUpsert z True]))"
    and "cc_Spec child = childSpec cr ref"
    and "loadKubeconfig E (the (cc_KubeconfigSecretRef (cc_Spec child))) (w1, tr1) = (Inr kcfg, s2)"
  shows "argoConfigFromKubeconfig (ev_lib E) kcfg = Inr (js, ca, externalServerURL cr info)
    \<and> buildServerURL child ip (externalServerURL cr info) info' = externalServerURL cr info"
  using published_read [OF assms] child_server [OF assms(6)] by blast

theorem kubeconfig_pipeline_witness:
  "\<exists>w1 tr1 kcfg s2 js ca. writeExternalKubeconfig (memEnv exampleLib) exampleVcluster
       ''kc:https://localhost:8443'' (Some \<lparr>ci_Cluster = ''v1'', ci_FQDN = ''v1.lab'', ci_Zone = []\<rparr>)
       (emptyMem, []) = (Inr exampleExternalRef, (w1, tr1))
    \<and> loadKubeconfig (memEnv exampleLib) (the (cc_KubeconfigSecretRef
         (childSpec exampleVcluster exampleExternalRef))) (w1, tr1) = (Inr kcfg, s2)
    \<and> argoConfigFromKubeconfig exampleLib kcfg = Inr (js, ca, ''https://v1.lab:443'')"
proof -
  let ?E = "memEnv exampleLib" and ?cr = "exampleVcluster" and ?raw = "''kc:https://localhost:8443''"
  let ?i = "Some \<lparr>ci_Cluster = ''v1'', ci_FQDN = ''v1.lab'', ci_Zone = []\<rparr>"
  have k: "kube_client (ev_Secrets ?E) (\<lambda>w. fmlookup (mm_Secrets w)) (\<lambda>s. meta_key (s_Meta s)) secret_norm"
    using secretStore.kube_client_axioms by simp
  have l: "kubeconfig_laws (ev_lib ?E)" by (simp add: kubeconfig_laws_example)
  have url: "externalServerURL ?cr ?i = ''https://v1.lab:443''"
    by (simp add: externalServerURL_def exampleVcluster_def defaultVclusterServerPort_def
        int_decimal_def nat_decimal.simps digit_def char_of_def bit_0)
  have rw: "rewriteKubeconfigServer exampleLib ?raw ''https://v1.lab:443'' = Inr ''kc:https://v1.lab:443''"
    using rewrite_example [of "''https://localhost:8443''" "''https://v1.lab:443''"] by simp
  obtain js ca where js: "argoConfigFromKubeconfig (ev_lib ?E) ?raw = Inr (js, ca, ''https://localhost:8443'')"
    using current_exampleKubeConfig [of "''https://localhost:8443''"]
    by (simp add: argoConfigFromKubeconfig_ok load_example exampleCluster_def)
  have nm: "vc_namespace ?cr = ''argocd''" "externalName ?cr = ''vc-v1-external''"
    by (simp_all add: vc_namespace_def externalName_def exampleVcluster_def defaultArgoNamespace_def)
  obtain m where own: "SetControllerReference exampleLib KVcluster (vc_Meta ?cr)
      (new_meta ''argocd'' ''vc-v1-external'') = Inr m" "meta_key m = (''argocd'', ''vc-v1-external'')"
    by (simp add: exampleLib_def own_def meta_key_def)
  obtain w1 z where pub: "writeExternalKubeconfig ?E ?cr ?raw ?i (emptyMem, []) =
      (Inr exampleExternalRef, (w1, [] @ [EUpsert z True]))"
    and w1: "fmlookup (mm_Secrets w1) (''argocd'', ''vc-v1-external'') \<noteq> None"
      "fmlookup (s_Data (the (fmlookup (mm_Secrets w1) (''argocd'', ''vc-v1-external''))))
         vclusterExternalSecretKey = Some ''kc:https://v1.lab:443''"
    by (simp add: writeExternalKubeconfig_def url rw nm own run_defs emptyMem_def
        kubeconfigMutate_def secret_norm_def exampleExternalRef_def)
  obtain s where s: "fmlookup (mm_Secrets w1) (''argocd'', ''vc-v1-external'') = Some s"
    "fmlookup (s_Data s) vclusterExternalSecretKey = Some ''kc:https://v1.lab:443''"
    using w1 by auto
  have ref: "the (cc_KubeconfigSecretRef (childSpec ?cr exampleExternalRef)) =
      \<lparr>skr_Name = ''vc-v1-external'', skr_Namespace = ''argocd'', skr_Key = vclusterExternalSecretKey\<rparr>"
    "vclusterExternalSecretKey \<noteq> []"
    by (simp_all add: childSpec_def exampleExternalRef_def vclusterExternalSecretKey_def)
  let ?child = "(newChild ?cr)\<lparr>cc_Spec := childSpec ?cr exampleExternalRef\<rparr>"
  obtain kcfg s2 where ld: "loadKubeconfig ?E (the (cc_KubeconfigSecretRef
      (childSpec ?cr exampleExternalRef))) (w1, [EUpsert z True]) = (Inr kcfg, s2)"
    unfolding ref by (simp add: loadKubeconfig_def run_defs ref s)
  have "argoConfigFromKubeconfig exampleLib kcfg = Inr (js, ca, ''https://v1.lab:443'')"
    using kubeconfig_pipeline [OF k _ l js pub, of ?child "[EUpsert z True]" kcfg s2] ld url
    by (simp add: emptyMem_def)
  with pub ld show ?thesis by (simp only: append_Nil memEnv_simps) blast
qed

section \<open>The Helm values\<close>

definition servicePath :: "string \<Rightarrow> string list" where
  "servicePath k = [''controlPlane'', ''service'', ''spec'', k]"

definition sansPath :: "string list" where
  "sansPath = [''controlPlane'', ''proxy'', ''extraSANs'']"

text \<open>The paths the operator writes: with an address two of the service, with an FQDN the SANs.\<close>

definition named :: "ClusterInfo option \<Rightarrow> bool" where
  "named info \<longleftrightarrow> (\<exists>i. info = Some i \<and> ci_FQDN i \<noteq> [])"

definition operatorPaths :: "string \<Rightarrow> ClusterInfo option \<Rightarrow> string list set" where
  "operatorPaths ip info =
     (if ip = [] then {} else {servicePath ''type'', servicePath ''loadBalancerIP''})
     \<union> (if named info then {sansPath} else {})"

lemma setValue_laws:
  assumes "nested_laws L" and "setValue L j v p = Inr j'" and "p \<noteq> []"
  shows "jpath j' p = Some v"
    and "apartFrom p q \<Longrightarrow> jpath j' q = jpath j q"
  using assms unfolding setValue_def nested_laws_def apartFrom_def by (metis Inl_Inr_False)+

lemma service_values:
  assumes "nested_laws L"
    and "result_bind (setValue L v0 (JStr ''LoadBalancer'') (servicePath ''type'')) (\<lambda>v1.
            setValue L v1 (JStr ip) (servicePath ''loadBalancerIP'')) = Inr v2"
  shows "jpath v2 (servicePath ''type'') = Some (JStr ''LoadBalancer'')"
    and "jpath v2 (servicePath ''loadBalancerIP'') = Some (JStr ip)"
    and "apartFrom (servicePath ''type'') q \<Longrightarrow> apartFrom (servicePath ''loadBalancerIP'') q \<Longrightarrow>
      jpath v2 q = jpath v0 q"
proof -
  from assms(2) obtain v1 where v1: "setValue L v0 (JStr ''LoadBalancer'') (servicePath ''type'') = Inr v1"
    and v2: "setValue L v1 (JStr ip) (servicePath ''loadBalancerIP'') = Inr v2"
    by (cases "setValue L v0 (JStr ''LoadBalancer'') (servicePath ''type'')") simp_all
  have ne: "servicePath k \<noteq> []" for k by (simp add: servicePath_def)
  show "jpath v2 (servicePath ''loadBalancerIP'') = Some (JStr ip)"
    by (rule setValue_laws(1) [OF assms(1) v2 ne])
  have "jpath v2 (servicePath ''type'') = jpath v1 (servicePath ''type'')"
    by (rule setValue_laws(2) [OF assms(1) v2 ne]) (simp add: servicePath_def apartFrom_def)
  with setValue_laws(1) [OF assms(1) v1 ne]
  show "jpath v2 (servicePath ''type'') = Some (JStr ''LoadBalancer'')" by simp
  show "apartFrom (servicePath ''type'') q \<Longrightarrow> apartFrom (servicePath ''loadBalancerIP'') q \<Longrightarrow>
      jpath v2 q = jpath v0 q"
    using setValue_laws(2) [OF assms(1) v1 ne] setValue_laws(2) [OF assms(1) v2 ne] by simp
qed

text \<open>
  C33. The operator's Helm values win, and only where it has values to give. With an address the
  chart's service is a \<open>LoadBalancer\<close> at that address; with an FQDN it is the one extra SAN, and
  it is the host of the URL the kubeconfig is rewritten to; both whatever \<open>chartValues\<close> said. Every
  other path of \<open>chartValues\<close> stays as the user wrote it: without an address the service too,
  without an FQDN the extra SANs too, each on its own.
\<close>

theorem helm_values_operator_wins:
  assumes "nested_laws L" and "chartValues (vc_ChartValues (vc_Spec cr)) = Inr v0"
    and "buildHelmValues L cr ip info = Inr v"
  shows "(ip \<noteq> [] \<longrightarrow> jpath v (servicePath ''type'') = Some (JStr ''LoadBalancer'')
                \<and> jpath v (servicePath ''loadBalancerIP'') = Some (JStr ip))
    \<and> (\<forall>i. info = Some i \<and> ci_FQDN i \<noteq> [] \<longrightarrow>
         jpath v sansPath = Some (JArr [JStr (ci_FQDN i)])
       \<and> HasPrefix (externalServerURL cr info) (''https://'' @ ci_FQDN i @ '':''))
    \<and> (\<forall>q. (\<forall>p \<in> operatorPaths ip info. apartFrom p q) \<longrightarrow> jpath v q = jpath v0 q)
    \<and> (ip = [] \<longrightarrow> (\<forall>k. jpath v (servicePath k) = jpath v0 (servicePath k)))
    \<and> (\<not> named info \<longrightarrow> jpath v sansPath = jpath v0 sansPath)
    \<and> (ip = [] \<and> \<not> named info \<longrightarrow> v = v0)"
proof -
  from assms(2,3) obtain v2 where
    v2: "(if ip \<noteq> [] then
          result_bind (setValue L v0 (JStr ''LoadBalancer'') (servicePath ''type'')) (\<lambda>v1.
            setValue L v1 (JStr ip) (servicePath ''loadBalancerIP''))
        else Inr v0) = Inr v2"
    and v: "(case info of
         Some i \<Rightarrow> if ci_FQDN i \<noteq> [] then setValue L v2 (JArr [JStr (ci_FQDN i)]) sansPath else Inr v2
       | None \<Rightarrow> Inr v2) = Inr v"
    unfolding buildHelmValues_def servicePath_def sansPath_def
    by (auto split: sum.splits if_splits simp: result_bind_def)
  have ne: "sansPath \<noteq> []" by (simp add: sansPath_def)
  have kept: "v = v2" if "\<not> named info"
    using that v by (auto simp: named_def split: option.splits if_splits)
  have sans: "jpath v sansPath = Some (JArr [JStr (ci_FQDN i)])" if "info = Some i" "ci_FQDN i \<noteq> []" for i
    using that v by (auto intro: setValue_laws(1) [OF assms(1) _ ne])
  have v_v2: "jpath v q = jpath v2 q" if "named info \<longrightarrow> apartFrom sansPath q" for q
    using that v kept setValue_laws(2) [OF assms(1) _ ne] by (cases "named info") (auto simp: named_def)
  have v2_v0: "jpath v2 q = jpath v0 q"
    if "ip = [] \<or> apartFrom (servicePath ''type'') q \<and> apartFrom (servicePath ''loadBalancerIP'') q" for q
    using that v2 service_values(3) [OF assms(1)] by (auto split: if_splits)
  have apart: "apartFrom sansPath (servicePath k)" "apartFrom (servicePath k) sansPath" for k
    by (simp_all add: apartFrom_def servicePath_def sansPath_def)
  have svc: "jpath v (servicePath ''type'') = Some (JStr ''LoadBalancer'')
      \<and> jpath v (servicePath ''loadBalancerIP'') = Some (JStr ip)" if "ip \<noteq> []"
    using that v2 service_values(1,2) [OF assms(1)] v_v2 [OF impI [OF apart(1)]] by simp
  have url: "HasPrefix (externalServerURL cr info) (''https://'' @ ci_FQDN i @ '':'')"
    if "info = Some i" "ci_FQDN i \<noteq> []" for i
    using that by (auto simp: externalServerURL_def HasPrefix_iff Let_def)
  have others: "jpath v q = jpath v0 q" if "\<forall>p \<in> operatorPaths ip info. apartFrom p q" for q
    using that v_v2 [of q] v2_v0 [of q] by (auto simp: operatorPaths_def split: if_splits)
  have service: "jpath v (servicePath k) = jpath v0 (servicePath k)" if "ip = []" for k
    using that v_v2 [OF impI [OF apart(1)]] v2_v0 by simp
  have san: "jpath v sansPath = jpath v0 sansPath" if "\<not> named info"
    using kept [OF that] v2_v0 apart(2) by simp
  have same: "v = v0" if "ip = [] \<and> \<not> named info"
    using that kept v2 by simp
  show ?thesis using svc sans url others service san same by blast
qed

definition chartVcluster :: "string \<Rightarrow> Vcluster" where
  "chartVcluster raw = exampleVcluster\<lparr>vc_Spec := (vc_Spec exampleVcluster)
     \<lparr>vc_ChartValues := Some raw\<rparr>\<rparr>"

definition userValues :: json where
  "userValues = JObj [(''controlPlane'', JObj [(''proxy'', JObj [(''extraSANs'', JArr []),
     (''port'', JStr ''8443'')])])]"

theorem helm_values_operator_wins_witness:
  "\<exists>v. buildHelmValues exampleLib (chartVcluster (jprint userValues)) ''10.31.103.7''
       (Some \<lparr>ci_Cluster = ''v1'', ci_FQDN = ''v1.lab'', ci_Zone = []\<rparr>) = Inr v
    \<and> jpath v (servicePath ''loadBalancerIP'') = Some (JStr ''10.31.103.7'')
    \<and> jpath v sansPath = Some (JArr [JStr ''v1.lab''])
    \<and> jpath v [''controlPlane'', ''proxy'', ''port''] = Some (JStr ''8443'')"
proof -
  let ?i = "Some \<lparr>ci_Cluster = ''v1'', ci_FQDN = ''v1.lab'', ci_Zone = []\<rparr>"
  let ?cr = "chartVcluster (jprint userValues)"
  have "valid_json userValues" by (simp add: userValues_def ascii_def)
  then have "jparse (jprint userValues) = Some userValues" by (rule jparse_jprint)
  moreover have "jprint userValues \<noteq> []" by (simp add: userValues_def)
  ultimately have v0: "chartValues (vc_ChartValues (vc_Spec ?cr)) = Inr userValues"
    by (simp add: chartVcluster_def chartValues_def) (simp add: userValues_def)
  obtain v where v: "buildHelmValues exampleLib ?cr ''10.31.103.7'' ?i = Inr v"
    unfolding buildHelmValues_def v0
    by (simp add: setValue_def userValues_def exampleLib_def jget_def)
  have "\<forall>p \<in> operatorPaths ''10.31.103.7'' ?i. apartFrom p [''controlPlane'', ''proxy'', ''port'']"
    by (simp add: operatorPaths_def apartFrom_def named_def servicePath_def sansPath_def)
  moreover have "jpath userValues [''controlPlane'', ''proxy'', ''port''] = Some (JStr ''8443'')"
    by (simp add: userValues_def jget_def)
  moreover have "nested_laws exampleLib" by (simp add: exampleLib_def nested_laws_stdLib)
  ultimately show ?thesis
    using helm_values_operator_wins [OF _ v0 v] v by (simp del: jpath.simps)
qed

section \<open>Order of the steps\<close>

text \<open>One step of a run that succeeds, with what it logged.\<close>

lemma and_then_step:
  assumes "and_then m f (w, tr) = (Inr y, t)" and "emits P m"
  obtains x w1 es where "list_all P es" and "m (w, tr) = (Inr x, (w1, tr @ es))"
    and "f x (w1, tr @ es) = (Inr y, t)"
proof -
  from assms(1) obtain x s1 where m: "m (w, tr) = (Inr x, s1)" and f: "f x s1 = (Inr y, t)"
    by (rule and_then_InrE)
  obtain w1 tr1 where s1: "s1 = (w1, tr1)" by (rule prod.exhaust)
  from assms(2) m [unfolded s1] obtain es where "tr1 = tr @ es" "list_all P es" by (rule emitsD)
  with m f s1 that show thesis by simp
qed

lemma kUpsert_log:
  "kUpsert emb c x f (w, tr) = (Inr y, t) \<Longrightarrow> \<exists>z b w1. t = (w1, tr @ [EUpsert (emb z) b])"
  by (auto simp: kUpsert_run split: prod.splits sum.splits)

lemma upsert_ret_log:
  assumes "and_then (kUpsert emb c x f) (\<lambda>_. ret v) (w, tr) = (Inr y, t)"
  obtains z b w1 where "t = (w1, tr @ [EUpsert (emb z) b])" and "y = v"
proof -
  from assms obtain u s1 where "kUpsert emb c x f (w, tr) = (Inr u, s1)"
    and "ret v s1 = (Inr y, t)" by (rule and_then_InrE)
  with kUpsert_log [of emb c x f w tr u s1] that show thesis by (auto simp: ret_def)
qed

text \<open>The three objects a run writes, one event each.\<close>

lemma upsert_logs:
  "wrap m1 (upsertApplication E cr d ip info) (w, tr) = (Inr n, t) \<Longrightarrow>
     \<exists>z b w1. t = (w1, tr @ [EUpsert (OApplication z) b])"
  "wrap m2 (writeExternalKubeconfig E cr raw info) (w, tr) = (Inr ref, t) \<Longrightarrow>
     \<exists>z b w1. t = (w1, tr @ [EUpsert (OSecret z) b])"
  "wrap m3 (upsertChildCluster E cr ref') (w, tr) = (Inr c, t) \<Longrightarrow>
     \<exists>z b w1. t = (w1, tr @ [EUpsert (OCluster z) b])"
proof -
  assume "wrap m1 (upsertApplication E cr d ip info) (w, tr) = (Inr n, t)"
  then have "upsertApplication E cr d ip info (w, tr) = (Inr n, t)" by (rule wrap_InrD)
  then show "\<exists>z b w1. t = (w1, tr @ [EUpsert (OApplication z) b])"
    unfolding upsertApplication_def
    by (cases "buildHelmValues (ev_lib E) cr ip info")
      (auto simp: lift_def and_then_def [of "\<lambda>s. (Inl _, s)"] and_then_def [of "\<lambda>s. (Inr _, s)"]
        elim!: upsert_ret_log)
next
  assume "wrap m2 (writeExternalKubeconfig E cr raw info) (w, tr) = (Inr ref, t)"
  then have "writeExternalKubeconfig E cr raw info (w, tr) = (Inr ref, t)" by (rule wrap_InrD)
  then show "\<exists>z b w1. t = (w1, tr @ [EUpsert (OSecret z) b])"
    unfolding writeExternalKubeconfig_def
    by (cases "rewriteKubeconfigServer (ev_lib E) raw (externalServerURL cr info)")
      (auto simp: lift_def wrap_def [of _ "\<lambda>s. (_, s)"] and_then_def [of "\<lambda>s. (Inl _, s)"]
        and_then_def [of "\<lambda>s. (Inr _, s)"] elim!: upsert_ret_log)
next
  assume "wrap m3 (upsertChildCluster E cr ref') (w, tr) = (Inr c, t)"
  then have "upsertChildCluster E cr ref' (w, tr) = (Inr c, t)" by (rule wrap_InrD)
  then show "\<exists>z b w1. t = (w1, tr @ [EUpsert (OCluster z) b])"
    unfolding upsertChildCluster_def by (auto elim!: upsert_ret_log)
qed

text \<open>The steps that only read.\<close>

definition reading :: "event \<Rightarrow> bool" where
  "reading e \<longleftrightarrow> \<not> is_write e"

lemma reading_simps [simp]:
  "reading (EGet k n b)" "reading (EHttp r b)" "reading (ETarget c b)"
  "\<not> reading (EUpsert x b)" "\<not> reading (EStatus x b)" "\<not> reading (EUpdate x b)"
  "\<not> reading (EDelete k n b)"
  by (simp_all add: reading_def)

lemma emits_resolveTarget:
  "(\<And>k n b. P (EGet k n b)) \<Longrightarrow> (\<And>c b. P (ETarget c b)) \<Longrightarrow> emits P (resolveTarget E cr)"
  unfolding resolveTarget_def newTargetClient_def Let_def
  by (intro emits_struct emits_kGet emits_call)

lemma emits_readUpstream: "(\<And>k n b. P (EGet k n b)) \<Longrightarrow> emits P (readUpstreamKubeconfig t cr)"
  unfolding readUpstreamKubeconfig_def Let_def by (intro emits_struct emits_kGet)

lemma emits_vc_allocate: "(\<And>r b. P (EHttp r b)) \<Longrightarrow> emits P (VclusterReconciler_allocate E api cr)"
  unfolding VclusterReconciler_allocate_def
  by (intro emits_struct emits_optional vcReservation.ensure_emits_http emits_api_calls)

lemma ignore_status_run:
  "and_then (ignore (kStatusUpdate emb c x)) (\<lambda>_. ret v) (w, tr) = (Inr y, t) \<Longrightarrow>
     \<exists>b w1. t = (w1, tr @ [EStatus (emb x) b]) \<and> y = v"
  by (auto simp: kStatusUpdate_def call_def ignore_def io_defs split: prod.splits sum.splits)

text \<open>The Secret the chart leaves on the target, and the kubeconfig in it, if it is there.\<close>

definition upstreamKey :: "Vcluster \<Rightarrow> objkey" where
  "upstreamKey cr = (vc_TargetNamespace (vc_Spec cr), ''vc-'' @ vc_ClusterName (vc_Spec cr))"

definition upstreamOf :: "err + Secret \<Rightarrow> string option" where
  "upstreamOf q = (case q of
     Inl e \<Rightarrow> None
   | Inr s \<Rightarrow> (case fmlookup (s_Data s) vclusterUpstreamSecretKey of
        None \<Rightarrow> None | Some k \<Rightarrow> if k = [] then None else Some k))"

lemma read_log:
  assumes "wrap msg (readUpstreamKubeconfig target cr) (w, tr) = (Inr raw, t)"
  obtains q w1 where "k_Get (tr_Secrets target) (upstreamKey cr) w = (q, w1)"
    and "\<forall>e. q = Inl e \<longrightarrow> IsNotFound e" and "raw = upstreamOf q"
    and "t = (w1, tr @ [EGet (tr_Kind target) (upstreamKey cr) (is_ok q)])"
proof -
  obtain q w1 where q: "k_Get (tr_Secrets target) (upstreamKey cr) w = (q, w1)" by (rule prod.exhaust)
  note run = wrap_InrD [OF assms, unfolded readUpstreamKubeconfig_def Let_def, folded upstreamKey_def]
  show thesis
    by (rule that [OF q]; use run q in \<open>auto simp: kGet_def attempt_def call_run and_then_def ret_def fail_def
      upstreamOf_def split: sum.splits option.splits if_splits\<close>)
qed

text \<open>
  The writes \<open>tail\<close> that publish the kubeconfig \<open>k\<close> from the state \<open>s\<close>: the Secret first, under the
  name the child's specification refers to, and then, exactly when registration is wanted, the child
  with that reference. When the write of the Secret went through, the Secret is in the store, with
  the rewritten kubeconfig in its data, before the child is written.
\<close>

definition publishes ::
    "'w env \<Rightarrow> ('w \<Rightarrow> objkey \<Rightarrow> Secret option) \<Rightarrow> Vcluster \<Rightarrow> ClusterInfo option \<Rightarrow> string
     \<Rightarrow> 'w \<times> event list \<Rightarrow> event list \<Rightarrow> bool" where
  "publishes E view cr info k s tail \<longleftrightarrow> (\<exists>ref w1 z b.
     writeExternalKubeconfig E cr k info s = (Inr ref, (w1, snd s @ [EUpsert (OSecret z) b]))
   \<and> cc_KubeconfigSecretRef (childSpec cr ref) = Some \<lparr>skr_Name = externalName cr,
       skr_Namespace = vc_namespace cr, skr_Key = vclusterExternalSecretKey\<rparr>
   \<and> (b \<longrightarrow> (\<exists>raw q. rewriteKubeconfigServer (ev_lib E) k (externalServerURL cr info) = Inr raw
        \<and> view w1 (vc_namespace cr, externalName cr) = Some (secret_norm q)
        \<and> fmlookup (s_Data q) vclusterExternalSecretKey = Some raw))
   \<and> (if registerArgoCD cr
      then \<exists>n t c b'. upsertChildCluster E cr ref (w1, snd s @ [EUpsert (OSecret z) b]) = (Inr n, t)
        \<and> tail = [EUpsert (OSecret z) b, EUpsert (OCluster c) b'] \<and> snd t = snd s @ tail
      else tail = [EUpsert (OSecret z) b]))"

lemma published_when:
  assumes kc: "kube_client (ev_Secrets E) view (\<lambda>s. meta_key (s_Meta s)) secret_norm"
    and wr: "writeExternalKubeconfig E cr k info (w, tr) = (Inr ref, (w1, tr @ [EUpsert (OSecret z) b]))"
  shows "cc_KubeconfigSecretRef (childSpec cr ref) = Some \<lparr>skr_Name = externalName cr,
       skr_Namespace = vc_namespace cr, skr_Key = vclusterExternalSecretKey\<rparr>"
    and "b \<Longrightarrow> \<exists>raw q. rewriteKubeconfigServer (ev_lib E) k (externalServerURL cr info) = Inr raw
        \<and> view w1 (vc_namespace cr, externalName cr) = Some (secret_norm q)
        \<and> fmlookup (s_Data q) vclusterExternalSecretKey = Some raw"
proof -
  have "ref = \<lparr>sor_Name = externalName cr, sor_Namespace = vc_namespace cr\<rparr>"
    using wr unfolding writeExternalKubeconfig_def by (auto elim!: and_then_InrE simp: ret_def)
  then show "cc_KubeconfigSecretRef (childSpec cr ref) = Some \<lparr>skr_Name = externalName cr,
       skr_Namespace = vc_namespace cr, skr_Key = vclusterExternalSecretKey\<rparr>"
    by (simp add: childSpec_def)
  assume b
  with wr have "writeExternalKubeconfig E cr k info (w, tr) =
      (Inr ref, (w1, tr @ [EUpsert (OSecret z) True]))" by simp
  from published_object [OF kc this] obtain raw b0 q where
    "rewriteKubeconfigServer (ev_lib E) k (externalServerURL cr info) = Inr raw"
    "kubeconfigMutate (ev_lib E) cr raw b0 = Inr q"
    "view w1 = (view w)((vc_namespace cr, externalName cr) \<mapsto> secret_norm q)" .
  then show "\<exists>raw q. rewriteKubeconfigServer (ev_lib E) k (externalServerURL cr info) = Inr raw
        \<and> view w1 (vc_namespace cr, externalName cr) = Some (secret_norm q)
        \<and> fmlookup (s_Data q) vclusterExternalSecretKey = Some raw"
    by (intro exI [of _ raw] exI [of _ q]) (auto simp: kubeconfigMutate_def split: sum.splits)
qed

lemma publish_log:
  assumes kc: "kube_client (ev_Secrets E) view (\<lambda>s. meta_key (s_Meta s)) secret_norm"
    and run: "VclusterReconciler_publish E cr ip info app raw (w, tr) = (Inr r, (w', tr'))"
  obtains tail st b where "publishes E view cr info raw (w, tr) tail" and "r = noRequeue"
    and "tr' = tr @ tail @ [EStatus (OVcluster st) b]"
proof -
  from run [unfolded VclusterReconciler_publish_def] obtain ref s1 where
    wr: "wrap ''write external kubeconfig'' (writeExternalKubeconfig E cr raw info) (w, tr) = (Inr ref, s1)"
    and rest: "and_then (if registerArgoCD cr
               then wrap ''upsert child cluster'' (upsertChildCluster E cr ref)
               else ret []) (\<lambda>childRef.
     and_then (ignore (kStatusUpdate OVcluster (ev_Vclusters E)
       (VclusterReconciler_ready (ev_lib E) cr ip info ref app childRef))) (\<lambda>_.
       ret noRequeue)) s1 = (Inr r, (w', tr'))" by (rule and_then_InrE)
  from upsert_logs(2) [OF wr] obtain z b2 w1 where s1: "s1 = (w1, tr @ [EUpsert (OSecret z) b2])" by blast
  note wr' = wrap_InrD [OF wr, unfolded s1]
  note pub = published_when [OF kc wr']
  show thesis
  proof (cases "registerArgoCD cr")
    case False
    have p: "publishes E view cr info raw (w, tr) [EUpsert (OSecret z) b2]"
      unfolding publishes_def snd_conv
      by (intro exI [of _ ref] exI [of _ w1] exI [of _ z] exI [of _ b2] conjI wr' pub impI)
        (use False in auto)
    from rest False s1 obtain st b where "tr' = (tr @ [EUpsert (OSecret z) b2]) @ [EStatus (OVcluster st) b]"
      and "r = noRequeue" by (auto dest!: ignore_status_run)
    with that [OF p] show thesis by simp
  next
    case True
    then have rest': "and_then (wrap ''upsert child cluster'' (upsertChildCluster E cr ref)) (\<lambda>childRef.
     and_then (ignore (kStatusUpdate OVcluster (ev_Vclusters E)
       (VclusterReconciler_ready (ev_lib E) cr ip info ref app childRef))) (\<lambda>_.
       ret noRequeue)) s1 = (Inr r, (w', tr'))" using rest by simp
    then obtain cref s2 where
      ch: "wrap ''upsert child cluster'' (upsertChildCluster E cr ref) s1 = (Inr cref, s2)"
      and st: "and_then (ignore (kStatusUpdate OVcluster (ev_Vclusters E)
       (VclusterReconciler_ready (ev_lib E) cr ip info ref app cref))) (\<lambda>_.
       ret noRequeue) s2 = (Inr r, (w', tr'))" by (rule and_then_InrE)
    from upsert_logs(3) [OF ch [unfolded s1]] obtain c b3 w2 where
      s2: "s2 = (w2, (tr @ [EUpsert (OSecret z) b2]) @ [EUpsert (OCluster c) b3])" by blast
    have p: "publishes E view cr info raw (w, tr) [EUpsert (OSecret z) b2, EUpsert (OCluster c) b3]"
      unfolding publishes_def snd_conv
      by (intro exI [of _ ref] exI [of _ w1] exI [of _ z] exI [of _ b2] conjI wr' pub impI)
        (use True wrap_InrD [OF ch, unfolded s1 s2] in auto)
    from st s2 obtain st b where "tr' = ((tr @ [EUpsert (OSecret z) b2]) @ [EUpsert (OCluster c) b3])
        @ [EStatus (OVcluster st) b]" and "r = noRequeue" by (auto dest!: ignore_status_run)
    with that [OF p] show thesis by simp
  qed
qed

text \<open>The part of a run up to the read of the chart's Secret, and what is left to do then.\<close>

lemma run_until_read:
  assumes "VclusterReconciler_apply E api cr (w, tr) = (Inr r, (w', tr'))"
  obtains es ip info target app a b1 w1 q w2 where "list_all reading es"
    and "\<exists>s s'. VclusterReconciler_allocate E api cr s = (Inr (ip, info), s')"
    and "\<exists>s s'. resolveTarget E cr s = (Inr target, s')"
    and "k_Get (tr_Secrets target) (upstreamKey cr) w1 = (q, w2)"
    and "\<forall>e. q = Inl e \<longrightarrow> IsNotFound e"
    and "(case upstreamOf q of
         None \<Rightarrow>
           and_then (ignore (kStatusUpdate OVcluster (ev_Vclusters E)
             (VclusterReconciler_waiting (ev_lib E) cr ip info app))) (\<lambda>_.
             ret \<lparr>res_RequeueAfter = 15\<rparr>)
       | Some k \<Rightarrow> VclusterReconciler_publish E cr ip info app k)
       (w2, tr @ es @ [EUpsert (OApplication a) b1, EGet (tr_Kind target) (upstreamKey cr) (is_ok q)])
       = (Inr r, (w', tr'))"
proof -
  from assms [unfolded VclusterReconciler_apply_def] obtain xi w1 e1 where e1: "list_all reading e1"
    and al: "VclusterReconciler_allocate E api cr (w, tr) = (Inr xi, (w1, tr @ e1))"
    and p: "(case xi of (ip, info) \<Rightarrow> VclusterReconciler_provision E cr ip info) (w1, tr @ e1) =
      (Inr r, (w', tr'))"
    by (rule and_then_step [where P = reading]) (rule emits_vc_allocate, simp)
  obtain ip info where xi: "xi = (ip, info)" by (rule prod.exhaust)
  with p have "VclusterReconciler_provision E cr ip info (w1, tr @ e1) = (Inr r, (w', tr'))" by simp
  then obtain target w2 e2 where e2: "list_all reading e2"
    and t: "wrap ''resolve target'' (resolveTarget E cr) (w1, tr @ e1) = (Inr target, (w2, (tr @ e1) @ e2))"
    and u: "and_then (wrap ''upsert application''
       (upsertApplication E cr (tr_Destination target) ip info)) (\<lambda>app.
       VclusterReconciler_await E cr ip info target app) (w2, (tr @ e1) @ e2) = (Inr r, (w', tr'))"
    unfolding VclusterReconciler_provision_def
    by (rule and_then_step [where P = reading]) (intro emits_wrap emits_resolveTarget; simp)
  from u obtain app s3 where up: "wrap ''upsert application''
       (upsertApplication E cr (tr_Destination target) ip info) (w2, (tr @ e1) @ e2) = (Inr app, s3)"
    and rd: "VclusterReconciler_await E cr ip info target app s3 = (Inr r, (w', tr'))"
    by (rule and_then_InrE)
  from upsert_logs(1) [OF up] obtain a b1 w3 where
    s3: "s3 = (w3, ((tr @ e1) @ e2) @ [EUpsert (OApplication a) b1])" by blast
  from rd [unfolded s3 VclusterReconciler_await_def] obtain raw s4 where
    read: "wrap ''read upstream kubeconfig'' (readUpstreamKubeconfig target cr)
      (w3, ((tr @ e1) @ e2) @ [EUpsert (OApplication a) b1]) = (Inr raw, s4)"
    and k: "(case raw of
         None \<Rightarrow>
           and_then (ignore (kStatusUpdate OVcluster (ev_Vclusters E)
             (VclusterReconciler_waiting (ev_lib E) cr ip info app))) (\<lambda>_.
             ret \<lparr>res_RequeueAfter = 15\<rparr>)
       | Some k \<Rightarrow> VclusterReconciler_publish E cr ip info app k) s4 = (Inr r, (w', tr'))"
    by (rule and_then_InrE)
  from read obtain q w4 where q: "k_Get (tr_Secrets target) (upstreamKey cr) w3 = (q, w4)"
    "\<forall>e. q = Inl e \<longrightarrow> IsNotFound e" "raw = upstreamOf q"
    and s4: "s4 = (w4, (((tr @ e1) @ e2) @ [EUpsert (OApplication a) b1])
      @ [EGet (tr_Kind target) (upstreamKey cr) (is_ok q)])" by (rule read_log)
  show ?thesis
  proof (rule that)
    show "list_all reading (e1 @ e2)" using e1 e2 by simp
    show "\<exists>s s'. VclusterReconciler_allocate E api cr s = (Inr (ip, info), s')"
      using al unfolding xi by blast
    show "\<exists>s s'. resolveTarget E cr s = (Inr target, s')" using wrap_InrD [OF t] by blast
    show "(case upstreamOf q of
         None \<Rightarrow>
           and_then (ignore (kStatusUpdate OVcluster (ev_Vclusters E)
             (VclusterReconciler_waiting (ev_lib E) cr ip info app))) (\<lambda>_.
             ret \<lparr>res_RequeueAfter = 15\<rparr>)
       | Some k \<Rightarrow> VclusterReconciler_publish E cr ip info app k)
       (w4, tr @ (e1 @ e2) @ [EUpsert (OApplication a) b1, EGet (tr_Kind target) (upstreamKey cr) (is_ok q)])
       = (Inr r, (w', tr'))"
      using k s4 unfolding q(3) by simp
  qed (use q in simp_all)
qed

text \<open>The rest of the run: it waits, or publishes what it read.\<close>

lemma run_after_read:
  assumes "kube_client (ev_Secrets E) view (\<lambda>s. meta_key (s_Meta s)) secret_norm"
    and "(case upstreamOf q of
         None \<Rightarrow>
           and_then (ignore (kStatusUpdate OVcluster (ev_Vclusters E)
             (VclusterReconciler_waiting (ev_lib E) cr ip info app))) (\<lambda>_.
             ret \<lparr>res_RequeueAfter = 15\<rparr>)
       | Some k \<Rightarrow> VclusterReconciler_publish E cr ip info app k) (w, tr)
       = (Inr r, (w', tr'))"
  obtains tail st b where "tr' = tr @ tail @ [EStatus (OVcluster st) b]"
    and "case upstreamOf q of
         None \<Rightarrow> r = \<lparr>res_RequeueAfter = 15\<rparr> \<and> tail = []
       | Some k \<Rightarrow> r = noRequeue \<and> publishes E view cr info k (w, tr) tail"
proof (cases "upstreamOf q")
  case None
  with assms(2) have "\<exists>st b. tr' = tr @ [] @ [EStatus (OVcluster st) b] \<and> r = \<lparr>res_RequeueAfter = 15\<rparr>"
    by (auto dest!: ignore_status_run)
  then show ?thesis using that None by auto
next
  case (Some kc)
  with assms(2) have "VclusterReconciler_publish E cr ip info app kc (w, tr) = (Inr r, (w', tr'))" by simp
  then obtain tail st b where "publishes E view cr info kc (w, tr) tail" "r = noRequeue"
    "tr' = tr @ tail @ [EStatus (OVcluster st) b]" by (rule publish_log [OF assms(1)])
  then show ?thesis using that Some by simp
qed

text \<open>
  C34. The order of a run. A successful run of the handler's body reads, writes the Application,
  and reads the chart's Secret on the target; what that read answered decides the rest. When the
  Secret is missing, or has no kubeconfig or an empty one, the run only writes the status and asks to
  be repeated after 15 seconds. When the kubeconfig is there, that kubeconfig is published and no
  repetition is asked for: the Secret is written, then the child exactly when registration is
  wanted, then the status. The child's specification refers to the Secret just written; unless
  somebody else created the Secret in between, it is in the store with the rewritten kubeconfig when
  the child is written.
\<close>

theorem order_of_a_run:
  assumes "kube_client (ev_Secrets E) view (\<lambda>s. meta_key (s_Meta s)) secret_norm"
    and "VclusterReconciler_apply E api cr (w, tr) = (Inr r, (w', tr'))"
  shows "\<exists>es target info a b1 w1 q w2 tail st b.
      tr' = tr @ es @ [EUpsert (OApplication a) b1, EGet (tr_Kind target) (upstreamKey cr) (is_ok q)]
        @ tail @ [EStatus (OVcluster st) b]
    \<and> list_all reading es
    \<and> (\<exists>ip s s'. VclusterReconciler_allocate E api cr s = (Inr (ip, info), s'))
    \<and> (\<exists>s s'. resolveTarget E cr s = (Inr target, s'))
    \<and> k_Get (tr_Secrets target) (upstreamKey cr) w1 = (q, w2)
    \<and> (\<forall>e. q = Inl e \<longrightarrow> IsNotFound e)
    \<and> (case upstreamOf q of
         None \<Rightarrow> r = \<lparr>res_RequeueAfter = 15\<rparr> \<and> tail = []
       | Some k \<Rightarrow> r = noRequeue \<and> publishes E view cr info k
           (w2, tr @ es @ [EUpsert (OApplication a) b1, EGet (tr_Kind target) (upstreamKey cr) (is_ok q)]) tail)"
proof -
  obtain es ip info target app a b1 w1 q w2 where run: "list_all reading es"
    "\<exists>s s'. VclusterReconciler_allocate E api cr s = (Inr (ip, info), s')"
    "\<exists>s s'. resolveTarget E cr s = (Inr target, s')"
    "k_Get (tr_Secrets target) (upstreamKey cr) w1 = (q, w2)"
    "\<forall>e. q = Inl e \<longrightarrow> IsNotFound e"
    and rest: "(case upstreamOf q of
         None \<Rightarrow>
           and_then (ignore (kStatusUpdate OVcluster (ev_Vclusters E)
             (VclusterReconciler_waiting (ev_lib E) cr ip info app))) (\<lambda>_.
             ret \<lparr>res_RequeueAfter = 15\<rparr>)
       | Some k \<Rightarrow> VclusterReconciler_publish E cr ip info app k)
       (w2, tr @ es @ [EUpsert (OApplication a) b1, EGet (tr_Kind target) (upstreamKey cr) (is_ok q)])
       = (Inr r, (w', tr'))"
    by (rule run_until_read [OF assms(2)])
  let ?tr = "tr @ es @ [EUpsert (OApplication a) b1, EGet (tr_Kind target) (upstreamKey cr) (is_ok q)]"
  obtain tail st b where "tr' = ?tr @ tail @ [EStatus (OVcluster st) b]"
    and tail: "case upstreamOf q of
         None \<Rightarrow> r = \<lparr>res_RequeueAfter = 15\<rparr> \<and> tail = []
       | Some k \<Rightarrow> r = noRequeue \<and> publishes E view cr info k (w2, ?tr) tail"
    by (rule run_after_read [OF assms(1) rest])
  then have "tr' = tr @ es @ [EUpsert (OApplication a) b1, EGet (tr_Kind target) (upstreamKey cr) (is_ok q)]
      @ tail @ [EStatus (OVcluster st) b]" by simp
  moreover have "\<exists>ip s s'. VclusterReconciler_allocate E api cr s = (Inr (ip, info), s')" using run(2) by blast
  moreover note run(1,3-5) tail
  ultimately show ?thesis
    by - (rule exI [of _ es], rule exI [of _ target], rule exI [of _ info], rule exI [of _ a],
      rule exI [of _ b1], rule exI [of _ w1], rule exI [of _ q], rule exI [of _ w2],
      rule exI [of _ tail], rule exI [of _ st], rule exI [of _ b],
      intro conjI; assumption)
qed

lemma waiting_meta [simp]: "vc_Meta (VclusterReconciler_waiting L cr ip info app) = vc_Meta cr"
  by (simp add: VclusterReconciler_waiting_def vc_setCondition_def)

lemma ready_meta [simp]: "vc_Meta (VclusterReconciler_ready L cr ip info ref app child) = vc_Meta cr"
  by (simp add: VclusterReconciler_ready_def vcluster_facts_def vc_setCondition_def Let_def)

definition exampleVcWorld :: mem where
  "exampleVcWorld = emptyMem\<lparr>mm_Vclusters := fmap_of_list [(([], ''v1''), exampleVcluster)]\<rparr>"

text \<open>The control plane is up: the chart has left its Secret on the host cluster.\<close>

definition exampleHostWorld :: mem where
  "exampleHostWorld = exampleVcWorld\<lparr>mm_Secrets := fmap_of_list [((''vcs'', ''vc-v1''),
     \<lparr>s_Meta = new_meta ''vcs'' ''vc-v1'',
      s_Data = fmap_of_list [(vclusterUpstreamSecretKey, ''kc:https://localhost:8443'')],
      s_StringData = fmempty\<rparr>)]\<rparr>"

lemma exampleVcluster_names:
  "vc_namespace exampleVcluster = ''argocd''" "appName exampleVcluster = ''vcluster-v1''"
  "externalName exampleVcluster = ''vc-v1-external''" "upstreamKey exampleVcluster = (''vcs'', ''vc-v1'')"
  "vc_TargetClusterRef (vc_Spec exampleVcluster) = None" "vc_ChartValues (vc_Spec exampleVcluster) = None"
  "vc_TargetNamespace (vc_Spec exampleVcluster) = ''vcs''" "vc_ClusterName (vc_Spec exampleVcluster) = ''v1''"
  "meta_key (vc_Meta exampleVcluster) = ([], ''v1'')" "registerArgoCD exampleVcluster"
  by (simp_all add: vc_namespace_def appName_def externalName_def upstreamKey_def exampleVcluster_def
      defaultArgoNamespace_def meta_key_def registerArgoCD_def)

text \<open>Before, the run waits; after, it publishes and registers.\<close>

theorem order_of_a_run_witness:
  "\<exists>w1 tr1 w2 es a b1 t q z b2 c b3 st b4. VclusterReconciler_apply (memEnv exampleLib) None exampleVcluster
      (exampleVcWorld, []) = (Inr \<lparr>res_RequeueAfter = 15\<rparr>, (w1, tr1))
    \<and> list_all (\<lambda>e. \<forall>x b. e \<noteq> EUpsert (OSecret x) b) tr1
    \<and> VclusterReconciler_apply (memEnv exampleLib) None exampleVcluster (exampleHostWorld, []) =
      (Inr noRequeue, (w2, es @ [EUpsert (OApplication a) b1, EGet t (''vcs'', ''vc-v1'') q,
         EUpsert (OSecret z) b2, EUpsert (OCluster c) b3, EStatus (OVcluster st) b4]))"
proof -
  let ?E = "memEnv exampleLib"
  have k: "kube_client (ev_Secrets ?E) (\<lambda>w. fmlookup (mm_Secrets w)) (\<lambda>s. meta_key (s_Meta s)) secret_norm"
    using secretStore.kube_client_axioms by simp
  obtain m where own: "SetControllerReference exampleLib KVcluster (vc_Meta exampleVcluster)
      (new_meta ''argocd'' ''vcluster-v1'') = Inr m" "meta_key m = (''argocd'', ''vcluster-v1'')"
    by (simp add: exampleLib_def own_def meta_key_def)
  obtain w1 tr1 where run1: "VclusterReconciler_apply ?E None exampleVcluster (exampleVcWorld, []) =
      (Inr \<lparr>res_RequeueAfter = 15\<rparr>, (w1, tr1))"
    by (simp add: VclusterReconciler_apply_def VclusterReconciler_allocate_def
        VclusterReconciler_provision_def VclusterReconciler_await_def resolveTarget_def exampleVcluster_names own
        upsertApplication_def buildHelmValues_def chartValues_def newApplication_def
        applicationMutate_def readUpstreamKubeconfig_def Let_def run_defs exampleVcWorld_def emptyMem_def)
  from order_of_a_run [OF k run1] have quiet: "list_all (\<lambda>e. \<forall>x b. e \<noteq> EUpsert (OSecret x) b) tr1"
    by (auto simp: noRequeue_def list_all_iff split: option.splits dest: bspec)
  have url: "externalServerURL exampleVcluster None = ''https://v1.vcs''"
    by (simp add: externalServerURL_def exampleVcluster_names)
  have rw: "rewriteKubeconfigServer exampleLib ''kc:https://localhost:8443'' ''https://v1.vcs'' =
      Inr ''kc:https://v1.vcs''"
    using rewrite_example [of "''https://localhost:8443''" "''https://v1.vcs''"] by simp
  obtain m2 where own2: "SetControllerReference exampleLib KVcluster (vc_Meta exampleVcluster)
      (new_meta ''argocd'' ''vc-v1-external'') = Inr m2" "meta_key m2 = (''argocd'', ''vc-v1-external'')"
    by (simp add: exampleLib_def own_def meta_key_def)
  obtain m3 where own3: "SetControllerReference exampleLib KVcluster (vc_Meta exampleVcluster)
      (new_meta [] ''v1'') = Inr m3" "meta_key m3 = ([], ''v1'')"
    by (simp add: exampleLib_def own_def meta_key_def)
  obtain w2 tr2 where run2: "VclusterReconciler_apply ?E None exampleVcluster (exampleHostWorld, []) =
      (Inr noRequeue, (w2, tr2))"
    by (simp add: VclusterReconciler_apply_def VclusterReconciler_allocate_def
        VclusterReconciler_provision_def VclusterReconciler_await_def resolveTarget_def exampleVcluster_names own
        upsertApplication_def buildHelmValues_def chartValues_def newApplication_def
        applicationMutate_def readUpstreamKubeconfig_def Let_def run_defs exampleHostWorld_def exampleVcWorld_def
        emptyMem_def VclusterReconciler_publish_def writeExternalKubeconfig_def url rw own2 own3 kubeconfigMutate_def
        secret_norm_def upsertChildCluster_def newChild_def childMutate_def)
  from order_of_a_run [OF k run2] show ?thesis
  proof (elim exE conjE)
    fix es target info a b1 u q v tail st b
    assume tr2: "tr2 = [] @ es @ [EUpsert (OApplication a) b1,
          EGet (tr_Kind target) (upstreamKey exampleVcluster) (is_ok q)] @ tail @ [EStatus (OVcluster st) b]"
      and rest: "case upstreamOf q of
         None \<Rightarrow> noRequeue = \<lparr>res_RequeueAfter = 15\<rparr> \<and> tail = []
       | Some k \<Rightarrow> noRequeue = noRequeue \<and> publishes ?E (\<lambda>w. fmlookup (mm_Secrets w)) exampleVcluster info k
           (v, [] @ es @ [EUpsert (OApplication a) b1,
             EGet (tr_Kind target) (upstreamKey exampleVcluster) (is_ok q)]) tail"
    from rest obtain z b2 c b3 where "tail = [EUpsert (OSecret z) b2, EUpsert (OCluster c) b3]"
      by (auto simp: noRequeue_def publishes_def exampleVcluster_names split: option.splits)
    with tr2 run1 run2 quiet show ?thesis by (simp add: exampleVcluster_names)
  qed
qed

section \<open>Teardown\<close>










section \<open>Without a network key\<close>

lemma emits_vc_upserts:
  assumes "\<And>x b. P (EUpsert x b)"
  shows "emits P (upsertApplication E cr d ip info)"
    and "emits P (writeExternalKubeconfig E cr raw info)"
    and "emits P (upsertChildCluster E cr ref)"
  unfolding upsertApplication_def writeExternalKubeconfig_def upsertChildCluster_def
  by (intro emits_struct emits_kUpsert assms)+

lemma emits_provision:
  assumes "\<And>k n b. P (EGet k n b)" and "\<And>c b. P (ETarget c b)" and "\<And>x b. P (EUpsert x b)"
    and "\<And>st b. vcs_IP (vc_Status st) = ip \<Longrightarrow> P (EStatus (OVcluster st) b)"
  shows "emits P (VclusterReconciler_provision E cr ip info)"
proof -
  have facts: "vcs_IP (vcluster_facts cr ip info) = ip"
    by (simp add: vcluster_facts_def Let_def split: option.split)
  then have "vcs_IP (vc_Status (VclusterReconciler_waiting L cr ip info app)) = ip"
    "vcs_IP (vc_Status (VclusterReconciler_ready L cr ip info ref app cref)) = ip" for L app ref cref
    by (simp_all add: VclusterReconciler_waiting_def VclusterReconciler_ready_def vc_setCondition_def Let_def)
  then show ?thesis
    unfolding VclusterReconciler_provision_def VclusterReconciler_await_def VclusterReconciler_publish_def
    by (intro emits_struct emits_resolveTarget emits_readUpstream emits_vc_upserts emits_ignore
        emits_kStatusUpdate assms) simp_all
qed

lemma emits_vc_cleanup:
  assumes "\<And>k n b. P (EDelete k n b)"
    and "api \<noteq> None \<Longrightarrow> emits P (ReleaseIPs E api (vc_NetworkKey (vc_Spec cr)) \<lparr>rl_IP = vcs_IP (vc_Status cr)\<rparr>)"
  shows "emits P (VclusterReconciler_cleanup E cr api)"
  unfolding VclusterReconciler_cleanup_def ignoreNotFound_def
  by (intro emits_struct emits_kDelete assms) auto

text \<open>
  C36. Without a network key there is no clusterbook. When the resource read has no
  \<open>networkKey\<close>, the run sends clusterbook nothing, on deletion neither, even when the status
  still names an address and \<open>releaseOnDelete\<close> is set; and the status it writes has no address.
  An address reserved before the key was removed is thus never released.
\<close>

theorem no_network_key_no_clusterbook:
  assumes "k_Get (ev_Vclusters E) key w = (Inr cr, w1)" and "vc_NetworkKey (vc_Spec cr) = []"
  shows "\<exists>es. snd (snd (VclusterReconciler_Reconcile E key (w, tr))) = tr @ es
    \<and> list_all (\<lambda>e. \<not> is_http e \<and> (\<forall>st b. e = EStatus (OVcluster st) b \<longrightarrow> vcs_IP (vc_Status st) = [])) es"
proof -
  let ?P = "\<lambda>e. \<not> is_http e \<and> (\<forall>st b. e = EStatus (OVcluster st) b \<longrightarrow> vcs_IP (vc_Status st) = [])"
  let ?rest = "if om_DeletionTimestamp (vc_Meta cr) \<noteq> None then VclusterReconciler_finalize E cr None
    else and_then (ensureFinalizer (ev_lib E) OVcluster (ev_Vclusters E) vc_Meta vc_Meta_update
             vclusterFinalizer cr) (\<lambda>cr1. VclusterReconciler_apply E None cr1)"
  have "emits ?P (VclusterReconciler_finalize E cr None)"
    by (rule vcFinalizing.finalize_emits) (auto intro: emits_vc_cleanup)
  moreover have "emits ?P (VclusterReconciler_apply E None cr1)" for cr1
    unfolding VclusterReconciler_apply_def VclusterReconciler_allocate_def
    by (simp add: emits_provision)
  ultimately have ev: "emits ?P ?rest"
    by (intro emits_if emits_and_then emits_ensureFinalizer) simp_all
  have run: "VclusterReconciler_Reconcile E key (w, tr) = ?rest (w1, tr @ [EGet KVcluster key True])"
    unfolding VclusterReconciler_Reconcile_def
    by (simp add: attempt_kGet_run(1) [OF assms(1)] VclusterReconciler_api_def assms(2) cong: if_cong)
  show ?thesis unfolding run by (rule emits_after [OF ev]) simp
qed

theorem no_network_key_no_clusterbook_witness:
  "\<exists>cr es. cr = exampleVcluster\<lparr>vc_Spec := (vc_Spec exampleVcluster)\<lparr>vc_NetworkKey := []\<rparr>\<rparr>
    \<and> vcs_IP (vc_Status cr) = ''10.31.103.7''
    \<and> snd (snd (VclusterReconciler_Reconcile (memEnv exampleLib) ([], ''v1'')
        (emptyMem\<lparr>mm_Vclusters := fmap_of_list [(([], ''v1''), cr)]\<rparr>, []))) = [] @ es
    \<and> list_all (\<lambda>e. \<not> is_http e) es"
proof -
  let ?cr = "exampleVcluster\<lparr>vc_Spec := (vc_Spec exampleVcluster)\<lparr>vc_NetworkKey := []\<rparr>\<rparr>"
  let ?w = "emptyMem\<lparr>mm_Vclusters := fmap_of_list [(([], ''v1''), ?cr)]\<rparr>"
  have g: "k_Get (ev_Vclusters (memEnv exampleLib)) ([], ''v1'') ?w = (Inr ?cr, ?w)"
    by (simp add: memVclusters_def)
  have "vc_NetworkKey (vc_Spec ?cr) = []" by simp
  from no_network_key_no_clusterbook [OF g this, of "[]"] show ?thesis
    by (auto simp: exampleVcluster_def list_all_iff)
qed

end
