(* ===== verification/Lifecycle.thy ===== *)
theory Lifecycle
  imports ClusterSecrets
begin

text \<open>
  The life of one \<open>ClusterbookCluster\<close>, over any number of runs of its reconciler: a step relation
  on the stored resource, labelled with the calls of the run that made the step, and its
  reflexive and transitive closure. What holds of every life is proved by rule induction from what
  one run may write into the status.
\<close>

section \<open>Steps and lives\<close>

text \<open>
  A run of the handler works on the resource \<open>cr\<close> the API server last answered (the answer to the
  \<open>Get\<close>, or to the \<open>Update\<close> that added the finalizer). It changes the stored resource through the
  status it writes, when the API server takes that write; a run that fails, or whose status write
  is refused, leaves it as it was. Finalization writes metadata only. Users change the
  specification and the metadata, never the status, a subresource of its own; an edit here does
  not turn a resource that reserves into a registration-only one (\<open>switch_forgets_address\<close> says
  what happens otherwise).
\<close>

inductive cluster_step ::
    "'w env \<Rightarrow> ClusterbookCluster \<Rightarrow> event list \<Rightarrow> ClusterbookCluster \<Rightarrow> bool" for E :: "'w env" where
  recorded: "Reconciler_apply E api cr (w, tr) = (r, (w', tr @ es)) \<Longrightarrow>
     EStatus (OCluster x) True \<in> set es \<Longrightarrow>
     cluster_step E cr es (cr\<lparr>cc_Status := cc_Status x\<rparr>)"
| unrecorded: "Reconciler_apply E api cr (w, tr) = (r, (w', tr @ es)) \<Longrightarrow> cluster_step E cr es cr"
| finalized: "Reconciler_finalize E cr api (w, tr) = (r, (w', tr @ es)) \<Longrightarrow>
     cluster_step E cr es (cr\<lparr>cc_Meta := m\<rparr>)"
| edited: "isRegistrationOnly (cr\<lparr>cc_Meta := m, cc_Spec := sp\<rparr>) = isRegistrationOnly cr \<Longrightarrow>
     cluster_step E cr [] (cr\<lparr>cc_Meta := m, cc_Spec := sp\<rparr>)"

inductive cluster_life ::
    "'w env \<Rightarrow> ClusterbookCluster \<Rightarrow> event list \<Rightarrow> ClusterbookCluster \<Rightarrow> bool" for E :: "'w env" where
  start: "cluster_life E cr [] cr"
| more: "cluster_life E a es b \<Longrightarrow> cluster_step E b es' c \<Longrightarrow> cluster_life E a (es @ es') c"

text \<open>The mode is a matter of the specification.\<close>

lemma isRegistrationOnly_frame [simp]:
  "isRegistrationOnly (cr\<lparr>cc_Status := st\<rparr>) = isRegistrationOnly cr"
  "isRegistrationOnly (cr\<lparr>cc_Meta := m\<rparr>) = isRegistrationOnly cr"
  by (simp_all add: isRegistrationOnly_def cong: if_cong)

section \<open>What one run may write into the status\<close>

text \<open>The mode (enrich or render) keeps the latch, the specification and the metadata.\<close>

lemma render_keeps:
  assumes "Reconciler_render E cr alloc info s = (Inr (cr', n, h, res), t)"
  shows "ccs_ClusterReady (cc_Status cr) \<Longrightarrow> ccs_ClusterReady (cc_Status cr')"
proof -
  assume ready: "ccs_ClusterReady (cc_Status cr)"
  from assms obtain ref raw js ca srv cr1 sec s2 s3 where
    g: "Reconciler_gate E cr (buildServerURL cr (al_IP alloc) srv info) js s2 = (Inr (cr1, res), s3)"
    and "cr' = setCondition (ev_lib E) readyCondition cr1"
    by (rule render_success)
  with ready show "ccs_ClusterReady (cc_Status cr')"
    by (cases rule: gate_cases [OF g]) simp_all
qed

lemma enrich_keeps:
  assumes "Reconciler_enrich E cr ref alloc info s = (Inr (cr', n, h, res), t)"
  shows "ccs_ClusterReady (cc_Status cr') = ccs_ClusterReady (cc_Status cr)"
  using assms unfolding Reconciler_enrich_def Let_def
  by (auto simp: ret_run elim!: and_then_InrE split: if_splits)

lemma mode_keeps:
  assumes "(case cc_ExistingSecretRef (cc_Spec cr) of
          Some ref \<Rightarrow> Reconciler_enrich E cr ref alloc info
        | None \<Rightarrow> Reconciler_render E cr alloc info) s = (Inr (cr', n, h, res), t)"
    and "ccs_ClusterReady (cc_Status cr)"
  shows "ccs_ClusterReady (cc_Status cr')"
proof (cases "cc_ExistingSecretRef (cc_Spec cr)")
  case None
  with assms(1) have "Reconciler_render E cr alloc info s = (Inr (cr', n, h, res), t)" by simp
  from render_keeps [OF this assms(2)] show ?thesis .
next
  case (Some ref)
  with assms(1) have "Reconciler_enrich E cr ref alloc info s = (Inr (cr', n, h, res), t)" by simp
  from enrich_keeps [OF this] assms(2) show ?thesis by simp
qed

text \<open>An event of a run over \<open>cr\<close>: a status carries the address \<open>ip\<close> and keeps the latch.\<close>

definition keeps :: "string \<Rightarrow> bool \<Rightarrow> event \<Rightarrow> bool" where
  "keeps ip ready e \<longleftrightarrow> (case e of
     EStatus (OCluster x) b \<Rightarrow>
       ccs_IP (cc_Status x) = ip \<and> (if ready then ccs_ClusterReady (cc_Status x) else True)
   | _ \<Rightarrow> True)"

lemma keeps_simps [simp]:
  "keeps ip ready (EGet k n b)" "keeps ip ready (EUpdate y b)" "keeps ip ready (EUpsert y b)"
  "keeps ip ready (EDelete k n b)" "keeps ip ready (EProbe c b)" "keeps ip ready (EHttp q b)"
  "keeps ip ready (EStatus (OCluster x) b) \<longleftrightarrow>
     ccs_IP (cc_Status x) = ip \<and> (ready \<longrightarrow> ccs_ClusterReady (cc_Status x))"
  by (simp_all add: keeps_def)

text \<open>What follows the allocation, for any allocation.\<close>

lemma publish_keeps:
  "emits (keeps (al_IP alloc) (ccs_ClusterReady (cc_Status cr)))
     (and_then (case cc_ExistingSecretRef (cc_Spec cr) of
          Some ref \<Rightarrow> Reconciler_enrich E cr ref alloc info
        | None \<Rightarrow> Reconciler_render E cr alloc info)
       (\<lambda>(cr', secretName, kcHash, result).
       and_then (ignore (kStatusUpdate OCluster (ev_Clusters E)
           (Reconciler_status cr' alloc info secretName kcHash))) (\<lambda>_. ret result)))"
  (is "emits ?P (and_then ?m ?f)")
proof (rule emits_and_then_post)
  show "emits ?P ?m" by (intro emits_case_option emits_Reconciler_render; simp)
  fix s q t
  assume run: "?m s = (Inr q, t)"
  obtain cr' n h res where q: "q = (cr', n, h, res)" by (rule prod_cases4)
  have "ccs_ClusterReady (cc_Status cr) \<longrightarrow> ccs_ClusterReady (cc_Status cr')"
    using mode_keeps [OF run [unfolded q]] by blast
  then show "emits ?P (?f q)"
    unfolding q prod.case by (intro emits_struct emits_ignore emits_kStatusUpdate) simp
qed

lemma allocate_keeps: "emits (keeps ip ready) (Reconciler_allocate E api cr)"
  unfolding Reconciler_allocate_def
  by (intro emits_struct emits_optional clusterReservation.ensure_emits_http
      clusterDrift.drift_emits_http emits_api_calls; simp)

text \<open>With an address in the status, every status a run writes has that address.\<close>

lemma allocate_result:
  assumes "ccs_IP (cc_Status cr) \<noteq> []" and "\<not> isRegistrationOnly cr"
    and "Reconciler_allocate E api cr s = (Inr (alloc, info), t)"
  shows "al_IP alloc = ccs_IP (cc_Status cr)"
  using assms(3) unfolding Reconciler_allocate_def if_not_P [OF assms(2)]
    clusterReservation.trusts_status [OF assms(1)]
  by (auto simp: ret_run clusterReservation.addr_known elim!: and_then_InrE)

lemma apply_keeps:
  assumes "ccs_IP (cc_Status cr) \<noteq> []" and "\<not> isRegistrationOnly cr"
  shows "emits (keeps (ccs_IP (cc_Status cr)) (ccs_ClusterReady (cc_Status cr)))
    (Reconciler_apply E api cr)"
  unfolding Reconciler_apply_def
proof (rule emits_and_then_post [OF allocate_keeps])
  fix s ai t
  assume run: "Reconciler_allocate E api cr s = (Inr ai, t)"
  obtain alloc info where ai: "ai = (alloc, info)" by (rule prod.exhaust)
  from publish_keeps [of alloc cr E info] allocate_result [OF assms run [unfolded ai]]
  show "emits (keeps (ccs_IP (cc_Status cr)) (ccs_ClusterReady (cc_Status cr)))
    (case ai of (alloc, info) \<Rightarrow> and_then (case cc_ExistingSecretRef (cc_Spec cr) of
          Some ref \<Rightarrow> Reconciler_enrich E cr ref alloc info
        | None \<Rightarrow> Reconciler_render E cr alloc info)
       (\<lambda>(cr', secretName, kcHash, result).
       and_then (ignore (kStatusUpdate OCluster (ev_Clusters E)
           (Reconciler_status cr' alloc info secretName kcHash))) (\<lambda>_. ret result)))"
    unfolding ai prod.case by simp
qed

section \<open>The invariant of every life\<close>

text \<open>One step: the address stays, the latch stays, nothing is reserved, the mode stays.\<close>

lemma step_keeps:
  assumes "cluster_step E cr es cr'" and ip: "ccs_IP (cc_Status cr) \<noteq> []"
    and reg: "\<not> isRegistrationOnly cr"
  shows "ccs_IP (cc_Status cr') = ccs_IP (cc_Status cr)
    \<and> (ccs_ClusterReady (cc_Status cr) \<longrightarrow> ccs_ClusterReady (cc_Status cr'))
    \<and> list_all (\<lambda>e. \<not> is_reserve e) es \<and> \<not> isRegistrationOnly cr'"
  using assms(1)
proof (cases rule: cluster_step.cases)
  case (recorded api w tr r w' x)
  from emits_events [OF apply_keeps [OF ip reg] recorded(2)] recorded(3)
  have "keeps (ccs_IP (cc_Status cr)) (ccs_ClusterReady (cc_Status cr)) (EStatus (OCluster x) True)"
    by (simp only: list_all_iff)
  with recorded(1) emits_events [OF apply_known_no_reserve [OF ip] recorded(2)] reg show ?thesis
    by simp
next
  case (unrecorded api w tr r w')
  with emits_events [OF apply_known_no_reserve [OF ip] unrecorded(2)] reg show ?thesis by simp
next
  case (finalized api w tr r w' m)
  with emits_events [OF finalize_no_reserve finalized(2)] reg show ?thesis
    by simp
next
  case (edited m sp)
  with reg show ?thesis by simp
qed

lemma life_keeps:
  assumes "cluster_life E cr es cr'" and "ccs_IP (cc_Status cr) \<noteq> []" and "\<not> isRegistrationOnly cr"
  shows "ccs_IP (cc_Status cr') = ccs_IP (cc_Status cr)
    \<and> (ccs_ClusterReady (cc_Status cr) \<longrightarrow> ccs_ClusterReady (cc_Status cr'))
    \<and> list_all (\<lambda>e. \<not> is_reserve e) es \<and> \<not> isRegistrationOnly cr'"
  using assms
proof (induction rule: cluster_life.induct)
  case (start cr)
  then show ?case by simp
next
  case (more a es b es' c)
  then have b: "ccs_IP (cc_Status b) = ccs_IP (cc_Status a)" "\<not> isRegistrationOnly b"
    and ih: "ccs_ClusterReady (cc_Status a) \<longrightarrow> ccs_ClusterReady (cc_Status b)"
      "list_all (\<lambda>e. \<not> is_reserve e) es"
    by simp_all
  from more.prems(1) b(1) have "ccs_IP (cc_Status b) \<noteq> []" by simp
  from step_keeps [OF more.hyps(2) this b(2)] b(1) ih show ?case by simp
qed

text \<open>The edit the relation leaves out: the next run of a resource turned registration-only.\<close>

lemma registration_result:
  assumes "isRegistrationOnly cr" and "Reconciler_allocate E api cr s = (Inr (alloc, info), t)"
  shows "al_IP alloc = []"
  using assms
  by (auto simp: Reconciler_allocate_def ret_run registrationOnlyAllocation_def split: option.splits)

lemma switch_forgets_address:
  assumes "isRegistrationOnly cr" and "Reconciler_apply E api cr (w, tr) = (r, (w', tr @ es))"
    and "EStatus (OCluster x) b \<in> set es"
  shows "ccs_IP (cc_Status x) = []"
proof -
  have "emits (keeps [] False) (Reconciler_apply E api cr)"
    unfolding Reconciler_apply_def
  proof (rule emits_and_then_post [OF allocate_keeps])
    fix s ai t
    assume run: "Reconciler_allocate E api cr s = (Inr ai, t)"
    obtain alloc info where ai: "ai = (alloc, info)" by (rule prod.exhaust)
    have weaker: "keeps ip q e \<Longrightarrow> keeps ip False e" for ip q e
      by (auto simp: keeps_def split: event.splits kobj.splits)
    from emits_mono [OF publish_keeps [of alloc cr E info] weaker]
      registration_result [OF assms(1) run [unfolded ai]]
    show "emits (keeps [] False) (case ai of (alloc, info) \<Rightarrow>
        and_then (case cc_ExistingSecretRef (cc_Spec cr) of
          Some ref \<Rightarrow> Reconciler_enrich E cr ref alloc info
        | None \<Rightarrow> Reconciler_render E cr alloc info)
       (\<lambda>(cr', secretName, kcHash, result).
       and_then (ignore (kStatusUpdate OCluster (ev_Clusters E)
           (Reconciler_status cr' alloc info secretName kcHash))) (\<lambda>_. ret result)))"
      unfolding ai prod.case by simp
  qed
  from emits_events [OF this assms(2)] assms(3)
  have "keeps [] False (EStatus (OCluster x) b)" by (simp only: list_all_iff)
  then show ?thesis by simp
qed

text \<open>
  C37. An address is for life. However often the reconciler runs, whatever clusterbook, the API
  server and the probed cluster answer, and however a user edits the resource without turning it
  registration-only: once the stored status has an address, every later status has that address,
  no run asks for another reservation, and a cluster once ready stays ready.
\<close>

theorem address_for_life:
  assumes "cluster_life E cr es cr'" and "ccs_IP (cc_Status cr) \<noteq> []" and "\<not> isRegistrationOnly cr"
  shows "ccs_IP (cc_Status cr') = ccs_IP (cc_Status cr)
    \<and> list_all (\<lambda>e. \<not> is_reserve e) es
    \<and> (ccs_ClusterReady (cc_Status cr) \<longrightarrow> ccs_ClusterReady (cc_Status cr'))"
  using life_keeps [OF assms] by simp

text \<open>A life with a run that records a status (its Secret is missing) and an edit after it.\<close>

definition enrichingCR :: ClusterbookCluster where
  "enrichingCR = exampleCluster_CR (exampleSpec\<lparr>cc_ExistingSecretRef :=
     Some \<lparr>sor_Name = ''c1'', sor_Namespace = ''argocd''\<rparr>\<rparr>) ''10.31.103.7''"

lemma enrichingCR_fields:
  "ccs_IP (cc_Status enrichingCR) = ''10.31.103.7''" "\<not> isRegistrationOnly enrichingCR"
  "cc_ExistingSecretRef (cc_Spec enrichingCR) = Some \<lparr>sor_Name = ''c1'', sor_Namespace = ''argocd''\<rparr>"
  by (simp_all add: enrichingCR_def exampleCluster_CR_def exampleSpec_def exampleStatus_def
      isRegistrationOnly_def)

lemma enriching_run:
  "\<exists>r w' es x. Reconciler_apply (memEnv exampleLib) (Some exampleClient) enrichingCR
      (exampleWorld enrichingCR (clusterbook_server [] []), []) = (r, (w', [] @ es))
    \<and> EStatus (OCluster x) True \<in> set es"
proof -
  let ?E = "memEnv exampleLib" and ?w = "exampleWorld enrichingCR (clusterbook_server [] [])"
  let ?ip = "ccs_IP (cc_Status enrichingCR)" and ?c = "Some exampleClient"
  let ?e = "EHttp (listRequest (cc_NetworkKey (cc_Spec enrichingCR))) True"
  have drift: "Reconciler_reconcileDNSDrift ?E ?c enrichingCR ?ip (?w, []) = (Inr (), (?w, [?e]))"
    by (rule clusterDrift.drift_converged [OF example_listing [of "[]" _ _ _ "[]", simplified]]) simp
  have "jparse_prefix ''[]'' = Some (JArr [])"
    using jparse_prefix_jprint [of "JArr []" "[]"] by simp
  then have "\<exists>e es. \<not> is_panic e \<and> GetClusterInfo ?E ?c cl (?w, tr) = (Inl e, (?w, tr @ es))" for cl tr
    unfolding GetClusterInfo_def
    by (subst apiCall_answer) (auto simp: exampleLib_simps clusterbook_server_def decode_body_def
        enc_IPInfos_def dec_ClusterInfo_def
        dec_object_def)
  then obtain e es where info: "\<not> is_panic e"
      "GetClusterInfo ?E ?c (cc_ClusterName (cc_Spec enrichingCR)) (?w, [?e]) = (Inl e, (?w, ?e # es))"
    by (metis append_Cons append_Nil)
  let ?al = "knownAllocation enrichingCR"
  have al: "Reconciler_allocate ?E ?c enrichingCR (?w, []) = (Inr (?al, None), (?w, ?e # es))"
    using drift info
    by (simp add: Reconciler_allocate_def enrichingCR_fields clusterReservation.trusts_status
        knownAllocation_def and_then_def optional_run ret_def)
  have "fmlookup (mm_Secrets ?w) (''argocd'', ''c1'') = None" by (simp add: exampleWorld_def)
  then have enr: "\<exists>x n h. cc_Meta x = cc_Meta enrichingCR \<and> Reconciler_enrich ?E enrichingCR \<lparr>sor_Name = ''c1'', sor_Namespace = ''argocd''\<rparr>
      ?al None (?w, tr) = (Inr (x, n, h, noRequeue), (?w, tr @ [EGet KSecret (''argocd'', ''c1'') False]))"
    for tr
    by (simp add: Reconciler_enrich_def enrichExistingSecret_def run_defs Let_def)
  then obtain x n h where meta: "cc_Meta x = cc_Meta enrichingCR" and enr: "Reconciler_enrich ?E enrichingCR
      \<lparr>sor_Name = ''c1'', sor_Namespace = ''argocd''\<rparr> ?al None (?w, ?e # es) =
      (Inr (x, n, h, noRequeue), (?w, (?e # es) @ [EGet KSecret (''argocd'', ''c1'') False]))"
    by blast
  let ?x = "Reconciler_status x ?al None n h"
  have "meta_key (cc_Meta ?x) = ([], ''c1'')"
    using meta by (simp add: Reconciler_status_def Let_def enrichingCR_def exampleCluster_CR_def meta_key_def)
  then obtain w' where st: "ignore (kStatusUpdate OCluster (ev_Clusters ?E) ?x)
      (?w, (?e # es) @ [EGet KSecret (''argocd'', ''c1'') False]) =
      (Inr (), (w', ((?e # es) @ [EGet KSecret (''argocd'', ''c1'') False]) @ [EStatus (OCluster ?x) True]))"
    by (simp add: run_defs memClusters_def exampleWorld_def)
  have "Reconciler_apply ?E ?c enrichingCR (?w, []) = (Inr noRequeue, (w', [] @ ((?e # es) @
      [EGet KSecret (''argocd'', ''c1'') False]) @ [EStatus (OCluster ?x) True]))"
    using st by (simp add: Reconciler_apply_def and_then_def al enr enrichingCR_fields ret_def)
  then show ?thesis by (intro exI conjI, assumption) (simp, rule disjI1, rule refl)
qed

theorem address_for_life_witness:
  "\<exists>es cr'. cluster_life (memEnv exampleLib) enrichingCR es cr' \<and> es \<noteq> []
    \<and> ccs_IP (cc_Status cr') = ''10.31.103.7''"
proof -
  obtain r w' es x where run: "Reconciler_apply (memEnv exampleLib) (Some exampleClient) enrichingCR
      (exampleWorld enrichingCR (clusterbook_server [] []), []) = (r, (w', [] @ es))"
    and st: "EStatus (OCluster x) True \<in> set es"
    using enriching_run by blast
  let ?cr = "enrichingCR\<lparr>cc_Status := cc_Status x\<rparr>"
  let ?cr' = "?cr\<lparr>cc_Meta := cc_Meta ?cr, cc_Spec := (cc_Spec ?cr)\<lparr>cc_CreateDNS := False\<rparr>\<rparr>"
  have "isRegistrationOnly ?cr' = isRegistrationOnly ?cr"
    by (simp add: isRegistrationOnly_def cong: if_cong)
  from cluster_life.more [OF cluster_life.more [OF cluster_life.start cluster_step.recorded [OF run st]]
      cluster_step.edited [OF this]]
  have life: "cluster_life (memEnv exampleLib) enrichingCR (([] @ es) @ []) ?cr'" .
  from address_for_life [OF life] enrichingCR_fields have "ccs_IP (cc_Status ?cr') = ''10.31.103.7''"
    by simp
  with life st show ?thesis by (intro exI [of _ "([] @ es) @ []"] exI [of _ ?cr']) auto
qed

end
