(* ===== verification/Handlers.thy ===== *)
theory Handlers
  imports ClusterBehaviour LoadBalancerProps AllocationProps VclusterProps
begin

text \<open>
  What the four reconcilers have in common although each has its own copy of the code: how an
  address is reserved and a DNS flag repaired, what a failed reservation leaves behind, and that
  a finalizer is removed only after the release. The copies are compared with one reference each.
\<close>

section \<open>One reservation, four copies\<close>

text \<open>
  The reference: trust the status; else take over the first entry of the listing under our name;
  else reserve, and take the first address of the answer.
\<close>

definition reserveAddress ::
    "'w env \<Rightarrow> CbkClient option \<Rightarrow> string \<Rightarrow> string \<Rightarrow> string \<Rightarrow> bool \<Rightarrow> int \<Rightarrow> ('w, string) op" where
  "reserveAddress E api known nk name dns count =
     (case known of
        _ # _ \<Rightarrow> ret known
      | [] \<Rightarrow>
          and_then (wrap ''list IPs'' (GetIPs E api nk)) (\<lambda>ips.
            case filter (\<lambda>e. ip_Cluster e = name) ips of
              e # _ \<Rightarrow> ret (ip_IP e)
            | [] \<Rightarrow>
                and_then (wrap ''reserve IP'' (ReserveIPs E api nk
                  \<lparr>rr_Cluster = name, rr_Count = count, rr_IP = [], rr_CreateDNS = dns,
                   rr_Status = []\<rparr>)) (\<lambda>resv.
                case rs_IPs resv of
                  [] \<Rightarrow> fail (New ''clusterbook returned no IPs'')
                | ip # _ \<Rightarrow> ret ip)))"

definition repairDNS ::
    "'w env \<Rightarrow> CbkClient option \<Rightarrow> string \<Rightarrow> string \<Rightarrow> bool \<Rightarrow> string \<Rightarrow> ('w, unit) op" where
  "repairDNS E api nk name dns ip =
     and_then (wrap ''list IPs'' (GetIPs E api nk)) (\<lambda>ips.
       case filter (\<lambda>e. ip_IP e = ip) ips of
         [] \<Rightarrow> ret ()
       | e # _ \<Rightarrow>
           if Contains (ip_Status e) ''DNS'' = dns then ret ()
           else wrap ''update IP'' (UpdateIP E api nk ip
             \<lparr>rr_Cluster = name, rr_Count = 0, rr_IP = [], rr_CreateDNS = dns,
              rr_Status = dnsStatus dns\<rparr>))"

context reservation
begin

text \<open>Whatever a copy answers with, its address is the reference's.\<close>

lemma address_reference:
  assumes "request cr = \<lparr>rr_Cluster = name cr, rr_Count = count, rr_IP = [], rr_CreateDNS = dns,
      rr_Status = []\<rparr>"
  shows "and_then (ensure E api cr) (\<lambda>a. ret (addr a)) =
    reserveAddress E api (statusIP cr) (networkKey cr) (name cr) dns count"
proof (cases "statusIP cr")
  case Nil
  have fresh: "and_then (if ips = [] then fail e else ret (fresh cr ips)) (\<lambda>a. ret (addr a)) =
      (case ips of [] \<Rightarrow> fail e | ip # _ \<Rightarrow> ret ip)" for ips e
    by (cases ips) (simp_all add: addr_fresh)
  have found: "and_then (case find P ips of Some e \<Rightarrow> ret (recovered cr e) | None \<Rightarrow> m) (\<lambda>a. ret (addr a)) =
      (case filter P ips of [] \<Rightarrow> and_then m (\<lambda>a. ret (addr a)) | e # _ \<Rightarrow> ret (ip_IP e))" for P ips m
    unfolding filter_case_find by (cases "find P ips") (simp_all add: addr_recovered)
  show ?thesis
    unfolding lists_then_reserves [OF Nil] reserveAddress_def Nil list.case and_then_assoc found
      fresh assms ..
next
  case (Cons c cs)
  then show ?thesis by (simp add: trusts_status addr_known reserveAddress_def)
qed

end

context dns_drift
begin

lemma drift_reference: "drift E api cr ip = repairDNS E api (networkKey cr) (name cr) (createDNS cr) ip"
  unfolding drift_eq repairDNS_def filter_case_find ..

end

text \<open>
  C39. The four copies of \<open>ensureReservation\<close> do the same: each performs exactly the calls of one
  reference algorithm and ends with its address or its error, for every outside; they differ in
  what they ask for only (DNS, and the number of addresses in the cluster reconciler). The same
  holds of the two copies of \<open>reconcileDNSDrift\<close>.
\<close>

theorem reservation_copies_agree:
  "and_then (Reconciler_ensureReservation E api cc) (\<lambda>a. ret (al_IP a)) =
     reserveAddress E api (ccs_IP (cc_Status cc)) (cc_NetworkKey (cc_Spec cc))
       (cc_ClusterName (cc_Spec cc)) (cc_CreateDNS (cc_Spec cc)) (reserveCount cc)
   \<and> LoadBalancerReconciler_ensureReservation E api lb =
       reserveAddress E api (lbs_IP (lb_Status lb)) (lb_NetworkKey (lb_Spec lb))
         (lb_Name (lb_Spec lb)) (lb_CreateDNS (lb_Spec lb)) 1
   \<and> AllocationReconciler_ensureReservation E api ca =
       reserveAddress E api (cas_IP (ca_Status ca)) (ca_NetworkKey (ca_Spec ca))
         (ca_Name (ca_Spec ca)) (ca_CreateDNS (ca_Spec ca)) 1
   \<and> VclusterReconciler_ensureReservation E api vc =
       reserveAddress E api (vcs_IP (vc_Status vc)) (vc_NetworkKey (vc_Spec vc))
         (vc_ClusterName (vc_Spec vc)) True 1
   \<and> Reconciler_reconcileDNSDrift E api cc ip =
       repairDNS E api (cc_NetworkKey (cc_Spec cc)) (cc_ClusterName (cc_Spec cc))
         (cc_CreateDNS (cc_Spec cc)) ip
   \<and> AllocationReconciler_reconcileDNSDrift E api ca ip =
       repairDNS E api (ca_NetworkKey (ca_Spec ca)) (ca_Name (ca_Spec ca))
         (ca_CreateDNS (ca_Spec ca)) ip"
  using clusterReservation.address_reference [OF refl, of E api cc]
    lbReservation.address_reference [OF refl, of E api lb]
    allocReservation.address_reference [OF refl, of E api ca]
    vcReservation.address_reference [OF refl, of E api vc]
    clusterDrift.drift_reference [of E api cc ip] allocDrift.drift_reference [of E api ca ip]
  by (simp only: and_then_ret_id simp_thms)

section \<open>A failed reservation\<close>

text \<open>
  When the step \<open>m\<close> fails, the handler \<open>run\<close> ends with its error and makes no call after it; the
  calls it made went to clusterbook, at most one of them a reservation and none a release.
\<close>

definition stopsWith :: "('w, 'a) op \<Rightarrow> ('w, 'b) op \<Rightarrow> bool" where
  "stopsWith m run \<longleftrightarrow> (\<forall>w e w' es. m (w, []) = (Inl e, (w', es)) \<longrightarrow>
     run (w, []) = (Inl e, (w', es)) \<and> list_all is_http es
     \<and> length (filter is_reserve es) \<le> 1 \<and> filter is_release es = [])"

context reservation
begin

lemma failure_stops:
  assumes "\<And>w e t. ensure E api cr (w, []) = (Inl e, t) \<Longrightarrow> run (w, []) = (Inl e, t)"
  shows "stopsWith (ensure E api cr) run"
  unfolding stopsWith_def
proof (intro allI impI conjI)
  fix w e w' es
  assume m: "ensure E api cr (w, []) = (Inl e, (w', es))"
  then show "run (w, []) = (Inl e, (w', es))" by (rule assms)
  have m': "ensure E api cr (w, []) = (Inl e, (w', [] @ es))" using m by simp
  show "list_all is_http es" by (rule emitsD [OF ensure_http_only m']) simp
  have "list_all (\<lambda>e. \<not> is_release e) es" by (rule emitsD [OF never_releases m']) simp
  then show "filter is_release es = []" by (simp add: filter_empty_conv list_all_iff)
  have "\<exists>es'. snd (snd (ensure E api cr (w, []))) = snd (w, []) @ es'
      \<and> length (filter is_reserve es') \<le> 1"
    using at_most_one_reserve [of E api cr] unfolding emits_at_most_def by (rule spec)
  with m show "length (filter is_reserve es) \<le> 1" by simp
qed

end

text \<open>
  C40. A reservation that fails stops the run. In each of the four reconcilers, when listing or
  reserving fails (or clusterbook returns no address), the part of the run after the finalizer
  ends with that error: nothing is created, updated or deleted, no status is written, and
  clusterbook was asked for at most one reservation. It holds for a cluster that is not
  registration-only, a load balancer with exactly one target and a virtual cluster with a client.
\<close>

theorem failed_reservation_stops:
  assumes "\<not> isRegistrationOnly cc" and "vapi \<noteq> None"
    and "(lb_CiliumPool (lb_Spec lb) = None) \<noteq> (lb_ServiceRef (lb_Spec lb) = None)"
  shows "stopsWith (Reconciler_ensureReservation E api cc) (Reconciler_apply E api cc)
    \<and> stopsWith (LoadBalancerReconciler_ensureReservation E api lb)
        (LoadBalancerReconciler_apply E api lb)
    \<and> stopsWith (AllocationReconciler_ensureReservation E api ca)
        (AllocationReconciler_apply E api ca)
    \<and> stopsWith (VclusterReconciler_ensureReservation E vapi vc)
        (VclusterReconciler_apply E vapi vc)"
proof (intro conjI)
  show "stopsWith (Reconciler_ensureReservation E api cc) (Reconciler_apply E api cc)"
    by (rule clusterReservation.failure_stops)
      (simp add: Reconciler_apply_def Reconciler_allocate_def assms(1) and_then_err)
  show "stopsWith (LoadBalancerReconciler_ensureReservation E api lb)
        (LoadBalancerReconciler_apply E api lb)"
    using assms(3) by (intro lbReservation.failure_stops)
      (auto simp: LoadBalancerReconciler_apply_def and_then_err)
  show "stopsWith (AllocationReconciler_ensureReservation E api ca)
        (AllocationReconciler_apply E api ca)"
    by (rule allocReservation.failure_stops) (simp add: AllocationReconciler_apply_def and_then_err)
  show "stopsWith (VclusterReconciler_ensureReservation E vapi vc)
        (VclusterReconciler_apply E vapi vc)"
    by (rule vcReservation.failure_stops)
      (simp add: VclusterReconciler_apply_def VclusterReconciler_allocate_def assms(2) and_then_err)
qed

text \<open>Clusterbook is down: the run of a cluster without an address fails after one request.\<close>

definition always_500 :: "HttpRequest \<Rightarrow> err + HttpResponse" where
  "always_500 r = Inr \<lparr>hp_StatusCode = 500, hp_Body = []\<rparr>"

theorem failed_reservation_stops_witness:
  "\<exists>e w' es. Reconciler_apply (memEnv exampleLib) (Some exampleClient)
      (exampleCluster_CR exampleSpec [])
      (exampleWorld (exampleCluster_CR exampleSpec []) always_500, []) = (Inl e, (w', es))
    \<and> es \<noteq> [] \<and> list_all is_http es \<and> length (filter is_reserve es) \<le> 1"
proof -
  let ?E = "memEnv exampleLib" and ?c = "Some exampleClient" and ?cr = "exampleCluster_CR exampleSpec []"
  let ?w = "exampleWorld ?cr always_500"
  let ?lb = "exampleLB"
  have h: "\<not> isRegistrationOnly ?cr" "?c \<noteq> None"
    "(lb_CiliumPool (lb_Spec ?lb) = None) \<noteq> (lb_ServiceRef (lb_Spec ?lb) = None)"
    by (simp_all add: exampleCluster_CR_def exampleSpec_def isRegistrationOnly_def exampleLB_def)
  have ip: "ccs_IP (cc_Status ?cr) = []" by (simp add: exampleCluster_CR_def exampleStatus_def)
  obtain e ev where "GetIPs ?E ?c (cc_NetworkKey (cc_Spec ?cr)) (?w, []) = (Inl e, (?w, [ev]))"
    by (simp add: GetIPs_def apiCall_run exampleLib_simps always_500_def)
  from clusterReservation.listing_fails [OF ip this] obtain e' where
    m: "Reconciler_ensureReservation ?E ?c ?cr (?w, []) = (Inl e', (?w, [ev]))" by blast
  from failed_reservation_stops [OF h, of ?E ?c, THEN conjunct1] m
  have "Reconciler_apply ?E ?c ?cr (?w, []) = (Inl e', (?w, [ev])) \<and> list_all is_http [ev]
    \<and> length (filter is_reserve [ev]) \<le> 1"
    unfolding stopsWith_def by blast
  then show ?thesis by blast
qed

section \<open>Release before letting go\<close>

text \<open>
  A run of \<open>m\<close> writes the resource only as its last call, right after the release \<open>req\<close>, which
  clusterbook answered with 200 or 204; a run that found the finalizer (\<open>has\<close>) succeeds only with
  that write.
\<close>

definition letsGoAfter ::
    "'w env \<Rightarrow> CbkClient \<Rightarrow> HttpRequest \<Rightarrow> ('o \<Rightarrow> kobj) \<Rightarrow> bool \<Rightarrow> ('w, 'a) op \<Rightarrow> bool" where
  "letsGoAfter E c req emb has m \<longleftrightarrow> (\<forall>w r w' es. m (w, []) = (r, (w', es)) \<longrightarrow>
     (\<forall>x b. EUpdate (emb x) b \<in> set es \<longrightarrow> releasedFirst E c req (emb x) b es)
   \<and> (has \<and> is_ok r \<longrightarrow> (\<exists>x. EUpdate (emb x) True \<in> set es)))"

context releasing
begin

lemma lets_go_after:
  assumes "wanted cr" and "address cr \<noteq> []"
  shows "letsGoAfter E c (releaseRequest c (networkKey cr) (address cr)) emb
    (ContainsFinalizer (ev_lib E) (meta cr) name) (finalize E cr (Some c))"
  unfolding letsGoAfter_def
proof (intro allI impI conjI)
  fix w r w' es x b
  assume run: "finalize E cr (Some c) (w, []) = (r, (w', es))" and upd: "EUpdate (emb x) b \<in> set es"
  from run have "finalize E cr (Some c) (w, []) = (r, (w', [] @ es))" by simp
  from removal_needs_release [OF this upd assms, THEN conjunct1]
  show "releasedFirst E c (releaseRequest c (networkKey cr) (address cr)) (emb x) b es" by simp
next
  fix w r w' es
  assume run: "finalize E cr (Some c) (w, []) = (r, (w', es))"
    and ok: "ContainsFinalizer (ev_lib E) (meta cr) name \<and> is_ok r"
  then obtain u where "r = Inr u" by (cases r) simp_all
  with run ok obtain tr1 where
    "es = tr1 @ [EUpdate (emb (meta_upd (\<lambda>m. RemoveFinalizer (ev_lib E) m name) cr)) True]"
    by (metis finalize_success)
  then show "\<exists>x. EUpdate (emb x) True \<in> set es" by auto
qed

end

text \<open>
  C38. With a clusterbook client, no reconciler lets a resource go while its address is still
  booked: with \<open>releaseOnDelete\<close> and an address in the status, the finalizer of a cluster, a load
  balancer, an allocation or a virtual cluster is removed only as the last call of the run, right
  after clusterbook confirmed the release of exactly that address in that network. Without that
  confirmation the resource is not written, and a run that found the finalizer ends with an error:
  the release is not best-effort, as the documentation has it. (Withdrawing what was published is:
  the code ignores most errors of it, and this says nothing of them. A run without a client, that
  is a registration-only cluster or a virtual cluster without a network key, releases nothing.)
\<close>

theorem siblings_release_first:
  assumes "cc_ReleaseOnDelete (cc_Spec cc)" and "ccs_IP (cc_Status cc) \<noteq> []"
    and "lb_ReleaseOnDelete (lb_Spec lb)" and "lbs_IP (lb_Status lb) \<noteq> []"
    and "ca_ReleaseOnDelete (ca_Spec ca)" and "cas_IP (ca_Status ca) \<noteq> []"
    and "vc_ReleaseOnDelete (vc_Spec vc)" and "vcs_IP (vc_Status vc) \<noteq> []"
  shows "letsGoAfter E c (releaseRequest c (cc_NetworkKey (cc_Spec cc)) (ccs_IP (cc_Status cc)))
       OCluster (ContainsFinalizer (ev_lib E) (cc_Meta cc) finalizer) (Reconciler_finalize E cc (Some c))
    \<and> letsGoAfter E c (releaseRequest c (lb_NetworkKey (lb_Spec lb)) (lbs_IP (lb_Status lb)))
       OLoadBalancer (ContainsFinalizer (ev_lib E) (lb_Meta lb) lbFinalizer)
       (LoadBalancerReconciler_finalize E lb (Some c))
    \<and> letsGoAfter E c (releaseRequest c (ca_NetworkKey (ca_Spec ca)) (cas_IP (ca_Status ca)))
       OAllocation (ContainsFinalizer (ev_lib E) (ca_Meta ca) allocationFinalizer)
       (AllocationReconciler_finalize E ca (Some c))
    \<and> letsGoAfter E c (releaseRequest c (vc_NetworkKey (vc_Spec vc)) (vcs_IP (vc_Status vc)))
       OVcluster (ContainsFinalizer (ev_lib E) (vc_Meta vc) vclusterFinalizer)
       (VclusterReconciler_finalize E vc (Some c))"
  by (intro conjI clusterReleasing.lets_go_after lbReleasing.lets_go_after allocReleasing.lets_go_after vcReleasing.lets_go_after
      assms)

text \<open>An allocation is deleted: one release, then the write that lets it go.\<close>

definition bookedLB :: ClusterbookLoadBalancer where
  "bookedLB = exampleLB\<lparr>lb_Spec := (lb_Spec exampleLB)\<lparr>lb_ReleaseOnDelete := True\<rparr>,
     lb_Status := (lb_Status exampleLB)\<lparr>lbs_IP := ''10.31.103.8''\<rparr>\<rparr>"

theorem siblings_release_first_witness:
  "\<exists>w' es x. AllocationReconciler_finalize (memEnv exampleLib) (exampleAllocation ''gw'') (Some exampleClient)
      (emptyMem\<lparr>mm_Answer := always_ok,
         mm_Allocations := fmap_of_list [(([], ''gw''), (exampleAllocation ''gw''))]\<rparr>, []) = (Inr noRequeue, (w', es))
    \<and> EUpdate (OAllocation x) True \<in> set es
    \<and> releasedFirst (memEnv exampleLib) exampleClient
        (releaseRequest exampleClient (ca_NetworkKey (ca_Spec (exampleAllocation ''gw''))) ''10.31.103.7'')
        (OAllocation x) True es"
proof -
  let ?w = "emptyMem\<lparr>mm_Answer := always_ok,
     mm_Allocations := fmap_of_list [(([], ''gw''), (exampleAllocation ''gw''))]\<rparr>"
  let ?fin = "AllocationReconciler_finalize (memEnv exampleLib) (exampleAllocation ''gw'') (Some exampleClient)"
  let ?cc = "exampleCluster_CR exampleSpec ''10.31.103.7''"
  have f: "cc_ReleaseOnDelete (cc_Spec ?cc)" "ccs_IP (cc_Status ?cc) \<noteq> []"
    "lb_ReleaseOnDelete (lb_Spec bookedLB)" "lbs_IP (lb_Status bookedLB) \<noteq> []"
    "ca_ReleaseOnDelete (ca_Spec (exampleAllocation ''gw''))" "cas_IP (ca_Status (exampleAllocation ''gw'')) \<noteq> []"
    "vc_ReleaseOnDelete (vc_Spec exampleVcluster)" "vcs_IP (vc_Status exampleVcluster) \<noteq> []"
    by (simp_all add: exampleCluster_CR_def exampleSpec_def exampleStatus_def bookedLB_def
        exampleAllocation_def exampleVcluster_def)
  have ip: "cas_IP (ca_Status (exampleAllocation ''gw'')) = ''10.31.103.7''"
    by (simp add: exampleAllocation_def)
  let ?x = "ca_Meta_update (\<lambda>m. RemoveFinalizer exampleLib m allocationFinalizer) (exampleAllocation ''gw'')"
  obtain w' es where run: "?fin (?w, []) = (Inr noRequeue, (w', es @ [EUpdate (OAllocation ?x) True]))"
    by (simp add: AllocationReconciler_finalize_def AllocationReconciler_cleanup_def run_defs
        ReleaseIPs_def stripClusterSecret_def exampleAllocation_def exampleSink_def exampleSecretRef_def
        example_defs memAllocations_def memConfigMaps_def meta_key_def)
  from siblings_release_first [OF f, of "memEnv exampleLib" exampleClient, THEN conjunct2, THEN conjunct2,
      THEN conjunct1]
  have "releasedFirst (memEnv exampleLib) exampleClient
      (releaseRequest exampleClient (ca_NetworkKey (ca_Spec (exampleAllocation ''gw'')))
        (cas_IP (ca_Status (exampleAllocation ''gw'')))) (OAllocation ?x) True (es @ [EUpdate (OAllocation ?x) True])"
    using run unfolding letsGoAfter_def by auto
  with run show ?thesis unfolding ip by auto
qed

end
