(* ===== verification/EndToEnd.thy ===== *)
theory EndToEnd
  imports VclusterProps Lifecycle
begin

text \<open>
  The two reconcilers that work hand in hand, composed: the Vcluster reconciler publishes a
  kubeconfig and a child \<open>ClusterbookCluster\<close>, and the cluster reconciler renders the ArgoCD cluster
  Secret of that child. The property follows the connection from the kubeconfig the virtual
  cluster wrote to the client configuration that is read back from the Secret.
\<close>

text \<open>A registration-only run allocates without a call; the reservation is the parent's.\<close>

lemma child_allocates_nothing:
  assumes "cc_Spec child = childSpec cr ref"
  shows "Reconciler_allocate E api child s =
    (Inr (\<lparr>al_IP = [], al_LBRangeStart = [], al_LBRangeStop = []\<rparr>, None), s)"
  using assms by (simp add: Reconciler_allocate_def isRegistrationOnly_def registrationOnlyAllocation_def
      childSpec_def ret_run)

text \<open>An upsert that logged success returned the object it logged.\<close>

lemma upsert_logged:
  assumes "upsertArgoSecret E cr alloc info server h js s = (Inr q, t)"
  obtains b x where "snd t = snd s @ [EUpsert (OSecret x) b]" and "b \<longrightarrow> x = q"
  using assms by (cases s) (auto simp: upsertArgoSecret_def kUpsert_run split: prod.splits sum.splits if_splits)

text \<open>
  C7. From a virtual cluster to ArgoCD and back. The Vcluster reconciler has published the
  kubeconfig of a virtual cluster, and a run of the cluster reconciler over the child it emitted
  wrote the cluster Secret and the status. Then that Secret is named after the virtual cluster and
  points at the URL the parent chose; the client configuration anyone reads back from it (ArgoCD,
  or another Vcluster that targets this one) carries exactly the token, CA, client certificate and
  key of the kubeconfig the virtual cluster wrote; and the child's run sent clusterbook nothing and
  left no address in its status.
\<close>

theorem vcluster_reaches_argocd:
  assumes kube: "kube_client (ev_Secrets E) view (\<lambda>s. meta_key (s_Meta s)) secret_norm"
    and data: "\<And>s. view w (vc_namespace cr, externalName cr) = Some s \<Longrightarrow> s_StringData s = fmempty"
    and laws: "kubeconfig_laws (ev_lib E)"
    and raw: "clientcmd_Load (ev_lib E) raw = Inr cfg" "current cfg = Some (cluster, user)"
      "ascii (kca_Token user)"
    and pub: "writeExternalKubeconfig E cr raw info (w, tr) = (Inr ref, (w1, tr @ [EUpsert z True]))"
    and child: "cc_Spec child = childSpec cr ref"
    and run: "Reconciler_apply E api child (w1, tr1) = (Inr res, (w2, tr2))"
    and wrote: "tr2 = tr1 @ es @ [EUpsert (OSecret sec) True, EStatus (OCluster st) b]"
  shows "fmlookup (s_Data sec) ''name'' = Some (vc_ClusterName (vc_Spec cr))
    \<and> fmlookup (s_Data sec) ''server'' = Some (externalServerURL cr info)
    \<and> restConfigFromArgoSecret sec = Inr
        \<lparr>rc_Host = externalServerURL cr info, rc_BearerToken = kca_Token user,
         rc_Insecure = kcc_InsecureSkipTLSVerify cluster, rc_ServerName = [],
         rc_CAData = kcc_CertificateAuthorityData cluster,
         rc_CertData = kca_ClientCertificateData user, rc_KeyData = kca_ClientKeyData user,
         rc_Timeout = 0\<rparr>
    \<and> list_all (\<lambda>e. \<not> is_http e) es \<and> ccs_IP (cc_Status st) = []"
proof -
  let ?url = "externalServerURL cr info" and ?js = "marshal_argo (argo_of cluster user)"
  let ?a = "\<lparr>al_IP = [], al_LBRangeStart = [], al_LBRangeStop = []\<rparr>"
  have spec: "cc_ExistingSecretRef (cc_Spec child) = None"
    "cc_ClusterName (cc_Spec child) = vc_ClusterName (vc_Spec cr)"
    by (simp_all add: child childSpec_def)
  obtain alloc info' s1 cr' name h s4 b' where
    al: "Reconciler_allocate E api child (w1, tr1) = (Inr (alloc, info'), s1)"
    and ren': "Reconciler_render E child alloc info' s1 = (Inr (cr', name, h, res), s4)"
    and log': "snd (w2, tr2) = snd s4 @ [EStatus (OCluster (Reconciler_status cr' alloc info' name h)) b']"
    by (rule apply_render [OF run spec(1)])
  from al have eqs: "alloc = ?a" "info' = None" "s1 = (w1, tr1)"
    by (simp_all add: child_allocates_nothing [OF child])
  note ren = ren' [unfolded eqs] and log = log' [unfolded eqs, simplified]
  obtain kref kcfg js ca srv cr1 q s2 s3 where
    kref: "cc_KubeconfigSecretRef (cc_Spec child) = Some kref"
    and load: "loadKubeconfig E kref (w1, tr1) = (Inr kcfg, s2)"
    and argo: "argoConfigFromKubeconfig (ev_lib E) kcfg = Inr (js, ca, srv)"
    and gate: "Reconciler_gate E child (buildServerURL child (al_IP ?a) srv None) js s2 = (Inr (cr1, res), s3)"
    and up: "upsertArgoSecret E cr1 ?a None (buildServerURL child (al_IP ?a) srv None)
        (kubeconfigHash kcfg) js s3 = (Inr q, s4)"
    by (rule render_success [OF ren])
  have "argoConfigFromKubeconfig (ev_lib E) raw
      = Inr (?js, kcc_CertificateAuthorityData cluster, kcc_Server cluster)"
    using raw by (simp add: argoConfigFromKubeconfig_ok)
  from published_read [OF kube data laws this pub child, of tr1 kcfg s2] load kref
  have "argoConfigFromKubeconfig (ev_lib E) kcfg = Inr (?js, kcc_CertificateAuthorityData cluster, ?url)"
    by simp
  with argo have js: "js = ?js" and srv: "srv = ?url" by auto
  obtain x b1 where b1: "snd s4 = snd s3 @ [EUpsert (OSecret x) b1]" "b1 \<longrightarrow> x = q"
    by (rule upsert_logged [OF up])
  with log wrote have sec: "q = sec" "snd s3 = tr1 @ es" "snd s4 = (tr1 @ es) @ [EUpsert (OSecret sec) True]"
    and st: "st = Reconciler_status cr' ?a None name h"
    by auto
  obtain w3 tr3 where s3: "s3 = (w3, tr3)" by (rule prod.exhaust)
  obtain w4 tr4 where s4: "s4 = (w4, tr4)" by (rule prod.exhaust)
  have "upsertArgoSecret E cr1 ?a None ?url (kubeconfigHash kcfg) ?js (w3, tr1 @ es) =
      (Inr sec, (w4, (tr1 @ es) @ [EUpsert (OSecret sec) True]))"
    using up sec by (simp add: s3 s4 js srv child_server [OF child])
  note d = rendered_data [OF kube this]
  have "unmarshal_argo ?js = Inr (argo_of cluster user)" by (rule unmarshal_argo_of [OF raw(3)])
  moreover have "?url \<noteq> []" by (simp add: externalServerURL_def Let_def split: option.split)
  ultimately have "restConfigFromArgoSecret sec = Inr (rest_of_argo ?url (argo_of cluster user))"
    using d(3,4) by (simp add: restConfigFromArgoSecret_def)
  moreover have "list_all (\<lambda>e. \<not> is_http e) es"
  proof -
    have "emits (\<lambda>e. \<not> is_http e) (Reconciler_allocate E api child)"
      using child_allocates_nothing [OF child, of E api] by (simp add: emits_def)
    then have "emits (\<lambda>e. \<not> is_http e) (Reconciler_apply E api child)"
      by (intro emits_apply) simp_all
    from emits_events [OF this run [unfolded wrote]] show ?thesis by simp
  qed
  ultimately show ?thesis
    using d gate_result(1) [OF gate] by (simp add: spec st rest_of_argo_def argo_of_def)
qed

text \<open>A child that has been probed before, so that the run is three calls.\<close>

definition exampleChild :: ClusterbookCluster where
  "exampleChild = (newChild exampleVcluster)\<lparr>cc_Spec := childSpec exampleVcluster exampleExternalRef,
     cc_Status := zeroClusterStatus\<lparr>ccs_ClusterReady := True\<rparr>\<rparr>"

theorem vcluster_reaches_argocd_witness:
  "\<exists>w1 z sec. writeExternalKubeconfig (memEnv exampleLib) exampleVcluster
       ''kc:https://localhost:8443'' (Some \<lparr>ci_Cluster = ''v1'', ci_FQDN = ''v1.lab'', ci_Zone = []\<rparr>)
       (emptyMem, []) = (Inr exampleExternalRef, (w1, [EUpsert z True]))
    \<and> fmlookup (s_Data sec) ''server'' = Some ''https://v1.lab:443''
    \<and> (\<exists>cfg. restConfigFromArgoSecret sec = Inr cfg \<and> rc_BearerToken cfg = ''s3cr<t'')"
proof -
  let ?E = "memEnv exampleLib" and ?cr = "exampleVcluster" and ?raw = "''kc:https://localhost:8443''"
  let ?i = "Some \<lparr>ci_Cluster = ''v1'', ci_FQDN = ''v1.lab'', ci_Zone = []\<rparr>"
  have k: "kube_client (ev_Secrets ?E) (\<lambda>w. fmlookup (mm_Secrets w)) (\<lambda>s. meta_key (s_Meta s)) secret_norm"
    using secretStore.kube_client_axioms by simp
  have l: "kubeconfig_laws (ev_lib ?E)" by (simp add: kubeconfig_laws_example)
  have url: "externalServerURL ?cr ?i = ''https://v1.lab:443''"
    by (simp add: externalServerURL_def exampleVcluster_def defaultVclusterServerPort_def
        int_decimal_def nat_decimal.simps digit_def char_of_def bit_0)
  have rw: "rewriteKubeconfigServer exampleLib ?raw ''https://v1.lab:443'' = Inr ''kc:https://v1.lab:443''"
    using rewrite_example [of "''https://localhost:8443''" "''https://v1.lab:443''"] by simp
  have nm: "vc_namespace ?cr = ''argocd''" "externalName ?cr = ''vc-v1-external''"
    by (simp_all add: vc_namespace_def externalName_def exampleVcluster_def defaultArgoNamespace_def)
  obtain m where own: "SetControllerReference exampleLib KVcluster (vc_Meta ?cr)
      (new_meta ''argocd'' ''vc-v1-external'') = Inr m" "meta_key m = (''argocd'', ''vc-v1-external'')"
    by (simp add: exampleLib_def own_def meta_key_def)
  obtain w1 z where pub: "writeExternalKubeconfig ?E ?cr ?raw ?i (emptyMem, []) =
      (Inr exampleExternalRef, (w1, [] @ [EUpsert z True]))" and cl: "mm_Clusters w1 = fmempty"
    by (simp add: writeExternalKubeconfig_def url rw nm own run_defs emptyMem_def
        kubeconfigMutate_def secret_norm_def exampleExternalRef_def)
  obtain raw' q where "rewriteKubeconfigServer (ev_lib ?E) ?raw (externalServerURL ?cr ?i) = Inr raw'"
    and v: "fmlookup (mm_Secrets w1) =
      (fmlookup (mm_Secrets emptyMem))((vc_namespace ?cr, externalName ?cr) \<mapsto> q)"
    and q: "fmlookup (s_Data q) vclusterExternalSecretKey = Some raw'"
    by (rule published_kubeconfig [OF k _ pub]) (auto simp: emptyMem_def)
  then have raw': "raw' = ''kc:https://v1.lab:443''" by (simp add: url rw)
  let ?ref = "\<lparr>skr_Name = ''vc-v1-external'', skr_Namespace = ''argocd'', skr_Key = vclusterExternalSecretKey\<rparr>"
  have ch: "cc_Spec exampleChild = childSpec ?cr exampleExternalRef"
    "cc_KubeconfigSecretRef (cc_Spec exampleChild) = Some ?ref" "vclusterExternalSecretKey \<noteq> []"
    "cc_ExistingSecretRef (cc_Spec exampleChild) = None" "ccs_ClusterReady (cc_Status exampleChild)"
    by (simp_all add: exampleChild_def childSpec_def exampleExternalRef_def vclusterExternalSecretKey_def)
  let ?tr = "[EUpsert z True]" and ?g = "EGet KSecret (''argocd'', ''vc-v1-external'') True"
  have load: "loadKubeconfig ?E ?ref (w1, ?tr) = (Inr raw', (w1, ?tr @ [?g]))"
    using q by (simp add: loadKubeconfig_def run_defs ch v nm)
  obtain js ca srv where js: "argoConfigFromKubeconfig (ev_lib ?E) raw' = Inr (js, ca, srv)"
    using current_exampleKubeConfig [of "''https://v1.lab:443''"]
    by (force simp: raw' argoConfigFromKubeconfig_ok load_example)
  let ?a = "\<lparr>al_IP = [], al_LBRangeStart = [], al_LBRangeStop = []\<rparr>"
  let ?srv = "buildServerURL exampleChild (al_IP ?a) srv None"
  have gate: "Reconciler_gate ?E exampleChild ?srv js s = (Inr (exampleChild, noRequeue), s)" for s
    by (simp add: Reconciler_gate_def ch ret_def)
  have w1: "fmlookup (mm_Secrets w1) (''argocd'', ''cluster-v1'') = None"
    by (simp add: v nm emptyMem_def)
  obtain sec w4 where up: "upsertArgoSecret ?E exampleChild ?a None ?srv (kubeconfigHash raw') js
      (w1, ?tr @ [?g]) = (Inr sec, (w4, ?tr @ [?g, EUpsert (OSecret sec) True]))"
    and cl4: "mm_Clusters w4 = fmempty"
    by (simp add: upsertArgoSecret_def run_defs argoSecretMutate_def Let_def exampleLib_def own_def
        argoNamespace_def argoSecretName_def ch(1) childSpec_def exampleVcluster_def w1 cl
        defaultArgoNamespace_def)
  have ren: "Reconciler_render ?E exampleChild ?a None (w1, ?tr) =
      (Inr (setCondition exampleLib readyCondition exampleChild, om_Name (s_Meta sec),
         kubeconfigHash raw', noRequeue), (w4, ?tr @ [?g, EUpsert (OSecret sec) True]))"
    using render_forward [OF ch(2) load js gate up] by simp
  let ?st = "Reconciler_status (setCondition exampleLib readyCondition exampleChild) ?a None
      (om_Name (s_Meta sec)) (kubeconfigHash raw')"
  have run: "Reconciler_apply ?E None exampleChild (w1, ?tr) = (Inr noRequeue,
      (w4, ?tr @ [?g] @ [EUpsert (OSecret sec) True, EStatus (OCluster ?st) False]))"
    using child_allocates_nothing [OF ch(1), of ?E None "(w1, ?tr)"] ren
    by (simp add: Reconciler_apply_def and_then_def ch(4) ignore_run kStatusUpdate_def call_def
        memClusters_def ret_def cl4 del: append_assoc)
  have "fmlookup (s_Data sec) ''server'' = Some ''https://v1.lab:443''
    \<and> (\<exists>cfg. restConfigFromArgoSecret sec = Inr cfg \<and> rc_BearerToken cfg = ''s3cr<t'')"
    using vcluster_reaches_argocd [OF k _ l _ _ _ pub ch(1) run refl,
        of "exampleKubeConfig ''https://localhost:8443''" "exampleCluster ''https://localhost:8443''"
          exampleUser]
    by (simp add: emptyMem_def load_example current_exampleKubeConfig exampleUser_def ascii_def url)
  with pub show ?thesis by auto
qed

end
