(* ===== verification/Booking.thy ===== *)
theory Booking
  imports Handlers Lifecycle
begin

text \<open>
  All resources of an operator over one clusterbook: whoever holds an address, holds it under its
  own name. The server is seen through its book, which says for each network under whose name an
  address is booked; a step is a run of one of the four handlers over one resource, and the
  invariant of all such histories is proved by rule induction.
\<close>

section \<open>The book\<close>

type_synonym book = "string \<Rightarrow> string \<Rightarrow> string option"

text \<open>No entry is lost, except those of \<open>X\<close>; new ones may appear.\<close>

definition kept :: "('w \<Rightarrow> book) \<Rightarrow> (string \<times> string) set \<Rightarrow> 'w \<Rightarrow> 'w \<Rightarrow> bool" where
  "kept book X w w' \<longleftrightarrow>
     (\<forall>nk ip n. (nk, ip) \<notin> X \<longrightarrow> book w nk ip = Some n \<longrightarrow> book w' nk ip = Some n)"

lemma keptD: "kept book X w w' \<Longrightarrow> (nk, ip) \<notin> X \<Longrightarrow> book w nk ip = Some n \<Longrightarrow> book w' nk ip = Some n"
  by (simp add: kept_def)

lemma kept_refl [simp]: "kept book X w w"
  by (simp add: kept_def)

lemma kept_trans: "kept book X w w' \<Longrightarrow> kept book X w' w'' \<Longrightarrow> kept book X w w''"
  by (simp add: kept_def)

lemma kept_mono: "kept book X w w' \<Longrightarrow> X \<subseteq> Y \<Longrightarrow> kept book Y w w'"
  by (auto simp: kept_def)

lemma kept_any: "kept book {} w w' \<Longrightarrow> kept book X w w'"
  by (simp add: kept_def)

section \<open>What a run does to the book and to the log\<close>

text \<open>
  \<open>guarded book X J Q m\<close>: from a state that satisfies \<open>J\<close>, \<open>m\<close> loses no entry outside \<open>X\<close> and logs
  only events that satisfy \<open>Q\<close>.
\<close>

definition guarded ::
    "('w \<Rightarrow> book) \<Rightarrow> (string \<times> string) set \<Rightarrow> ('w \<Rightarrow> bool) \<Rightarrow> (event \<Rightarrow> bool) \<Rightarrow> ('w, 'a) op \<Rightarrow> bool" where
  "guarded book X J Q m \<longleftrightarrow> (\<forall>s. J (fst s) \<longrightarrow> kept book X (fst s) (fst (snd (m s)))
     \<and> (\<exists>es. snd (snd (m s)) = snd s @ es \<and> list_all Q es))"

text \<open>\<open>J\<close> is not lost by such runs.\<close>

definition stable :: "('w \<Rightarrow> book) \<Rightarrow> (string \<times> string) set \<Rightarrow> ('w \<Rightarrow> bool) \<Rightarrow> bool" where
  "stable book X J \<longleftrightarrow> (\<forall>w w'. J w \<longrightarrow> kept book X w w' \<longrightarrow> J w')"

lemma stable_simps [simp]:
  "stable book X (\<lambda>w. True)"
  "stable book {} (\<lambda>w. book w nk ip = Some n)"
  by (simp_all add: stable_def kept_def)

named_theorems guarded_intros \<open>rules for guarded runs\<close>

lemma guardedD:
  assumes "guarded book X J Q m" and "J w" and "m (w, tr) = (r, (w', tr'))"
  obtains es where "kept book X w w'" and "tr' = tr @ es" and "list_all Q es"
proof -
  from assms(1) [unfolded guarded_def, rule_format, of "(w, tr)"] assms(2,3)
  have "kept book X w w'" "\<exists>es. tr' = tr @ es \<and> list_all Q es" by simp_all
  with that show thesis by blast
qed

lemma guarded_ret [guarded_intros]:
  "guarded book X J Q (ret x)" "guarded book X J Q (fail e)" "guarded book X J Q (lift r)"
  by (simp_all add: guarded_def io_run)

lemma guarded_call:
  "(\<And>w. J w \<Longrightarrow> kept book X w (snd (op w))) \<Longrightarrow> (\<And>r. Q (ev r)) \<Longrightarrow> guarded book X J Q (call op ev)"
  by (auto simp: guarded_def call_def split: prod.splits) (metis snd_conv)

lemma guarded_same:
  "guarded book X J Q m \<Longrightarrow> (\<And>s. snd (k s) = snd (m s)) \<Longrightarrow> guarded book X J Q k"
  by (simp add: guarded_def)

lemma guarded_wrap [guarded_intros]: "guarded book X J Q m \<Longrightarrow> guarded book X J Q (wrap msg m)"
  by (erule guarded_same) simp

lemma guarded_attempt [guarded_intros]: "guarded book X J Q m \<Longrightarrow> guarded book X J Q (attempt m)"
  by (erule guarded_same) simp

text \<open>What follows a step may rely on what the step is known to establish.\<close>

lemma guarded_and_then_post:
  assumes st: "stable book X J" and m: "guarded book X J Q m"
    and f: "\<And>w tr x t. J w \<Longrightarrow> m (w, tr) = (Inr x, t) \<Longrightarrow> guarded book X (\<lambda>w. J w \<and> K x w) Q (f x)"
    and K: "\<And>w tr x w' tr'. J w \<Longrightarrow> m (w, tr) = (Inr x, (w', tr')) \<Longrightarrow> K x w'"
  shows "guarded book X J Q (and_then m f)"
  unfolding guarded_def
proof (intro allI impI)
  fix s :: "_ \<times> event list" assume J: "J (fst s)"
  obtain w tr where s: "s = (w, tr)" by (rule prod.exhaust)
  obtain r w1 tr1 where ms: "m (w, tr) = (r, (w1, tr1))" by (rule prod_cases3)
  from guardedD [OF m _ ms] J s obtain es where
    es: "kept book X w w1" "tr1 = tr @ es" "list_all Q es" by auto
  show "kept book X (fst s) (fst (snd (and_then m f s)))
      \<and> (\<exists>es. snd (snd (and_then m f s)) = snd s @ es \<and> list_all Q es)"
  proof (cases r)
    case (Inl e)
    with ms es show ?thesis by (auto simp: io_run s)
  next
    case (Inr x)
    obtain q w2 tr2 where fs: "f x (w1, tr1) = (q, (w2, tr2))" by (rule prod_cases3)
    have J1: "J w1" using st J es(1) by (auto simp: stable_def s)
    with K [of w tr x w1 tr1] J s ms Inr have "J w1 \<and> K x w1" by simp
    have "J w" using J s by simp
    from guardedD [OF f [OF this ms [unfolded Inr]] \<open>J w1 \<and> K x w1\<close> fs] obtain es2 where
      es2: "kept book X w1 w2" "tr2 = tr1 @ es2" "list_all Q es2" .
    have "and_then m f s = (q, (w2, tr2))" using ms Inr fs by (simp add: io_run s)
    with es es2 kept_trans [OF es(1) es2(1)] show ?thesis by (auto simp: s)
  qed
qed

lemma guarded_and_then [guarded_intros]:
  assumes "stable book X J" and "guarded book X J Q m" and "\<And>x. guarded book X J Q (f x)"
  shows "guarded book X J Q (and_then m f)"
  by (rule guarded_and_then_post [where K = "\<lambda>x w. True"]) (use assms in auto)

lemma guarded_cases [guarded_intros]:
  "(b \<Longrightarrow> guarded book X J Q m) \<Longrightarrow> (\<not> b \<Longrightarrow> guarded book X J Q k) \<Longrightarrow> guarded book X J Q (if b then m else k)"
  "guarded book X J Q m \<Longrightarrow> (\<And>y. guarded book X J Q (f y)) \<Longrightarrow>
     guarded book X J Q (case x of None \<Rightarrow> m | Some y \<Rightarrow> f y)"
  "(\<And>e. guarded book X J Q (h e)) \<Longrightarrow> (\<And>y. guarded book X J Q (g y)) \<Longrightarrow>
     guarded book X J Q (case z of Inl e \<Rightarrow> h e | Inr y \<Rightarrow> g y)"
  "(\<And>a b. guarded book X J Q (q a b)) \<Longrightarrow> guarded book X J Q (case p of (a, b) \<Rightarrow> q a b)"
  by (auto split: option.split sum.split prod.split)

lemma guarded_combinators [guarded_intros]:
  assumes "stable book X J" and "guarded book X J Q m"
  shows "guarded book X J Q (ignore m)" and "guarded book X J Q (optional m)"
    and "guarded book X J Q (ignoreNotFound m)"
  unfolding ignore_def optional_def ignoreNotFound_def
  using assms by (auto intro!: guarded_intros)

section \<open>What is assumed of the outside\<close>

text \<open>
  Documented of clusterbook: a listing shows an address under the name it is booked under, or under
  \<open>DNS\<close> (the comment of \<open>ensureReservation\<close> and the tests report that reservations with a DNS record
  come back with that name), a reservation is booked under the name it was asked for, and no call
  frees an entry but a release, that one only. An update may name its own entry only. Nothing else
  changes the book.
\<close>

definition unnamed :: "string set" where
  "unnamed = {[], ''DNS''}"

definition server_laws :: "'w env \<Rightarrow> CbkClient \<Rightarrow> ('w \<Rightarrow> book) \<Rightarrow> bool" where
  "server_laws E c book \<longleftrightarrow>
     (\<forall>nk s. kept book {} (fst s) (fst (snd (GetIPs E (Some c) nk s))))
   \<and> (\<forall>n s. kept book {} (fst s) (fst (snd (GetClusterInfo E (Some c) n s))))
   \<and> (\<forall>nk req s. kept book {} (fst s) (fst (snd (ReserveIPs E (Some c) nk req s))))
   \<and> (\<forall>nk ip req s. book (fst s) nk ip = Some (rr_Cluster req) \<longrightarrow>
        kept book {} (fst s) (fst (snd (UpdateIP E (Some c) nk ip req s))))
   \<and> (\<forall>nk rel s. kept book {(nk, rl_IP rel)} (fst s) (fst (snd (ReleaseIPs E (Some c) nk rel s))))
   \<and> (\<forall>nk s es t e. GetIPs E (Some c) nk s = (Inr es, t) \<longrightarrow> e \<in> set es \<longrightarrow> ip_Cluster e \<notin> unnamed \<longrightarrow>
        book (fst t) nk (ip_IP e) = Some (ip_Cluster e))
   \<and> (\<forall>nk req s resv t ip. ReserveIPs E (Some c) nk req s = (Inr resv, t) \<longrightarrow> ip \<in> set (rs_IPs resv) \<longrightarrow>
        book (fst t) nk ip = Some (rr_Cluster req))"

definition store_keeps :: "('w \<Rightarrow> book) \<Rightarrow> ('w, 'o) kclient \<Rightarrow> bool" where
  "store_keeps book k \<longleftrightarrow> (\<forall>w. (\<forall>n. kept book {} w (snd (k_Get k n w))) \<and> kept book {} w (snd (k_List k w))
     \<and> (\<forall>x. kept book {} w (snd (k_Update k x w))) \<and> (\<forall>x. kept book {} w (snd (k_StatusUpdate k x w)))
     \<and> (\<forall>n. kept book {} w (snd (k_Delete k n w)))
     \<and> (\<forall>x f. kept book {} w (snd (k_CreateOrUpdate k x f w))))"

definition elsewhere_keeps :: "'w env \<Rightarrow> ('w \<Rightarrow> book) \<Rightarrow> bool" where
  "elsewhere_keeps E book \<longleftrightarrow>
     store_keeps book (ev_Clusters E) \<and> store_keeps book (ev_LoadBalancers E)
   \<and> store_keeps book (ev_Allocations E) \<and> store_keeps book (ev_Vclusters E)
   \<and> store_keeps book (ev_Secrets E) \<and> store_keeps book (ev_ConfigMaps E)
   \<and> store_keeps book (ev_Services E) \<and> store_keeps book (ev_Applications E)
   \<and> store_keeps book (ev_CiliumPools E) \<and> (\<forall>cfg. store_keeps book (ev_TargetSecrets E cfg))
   \<and> (\<forall>cfg r w. kept book {} w (snd (ev_RestDo E cfg r w)))
   \<and> (\<forall>p cfg w. ev_ProbeCluster E = Some p \<longrightarrow> kept book {} w (snd (p cfg w)))
   \<and> (\<forall>cfg w. kept book {} w (snd (ev_NewTargetClient E cfg w)))"

definition booking_laws :: "'w env \<Rightarrow> CbkClient \<Rightarrow> ('w \<Rightarrow> book) \<Rightarrow> bool" where
  "booking_laws E c book \<longleftrightarrow> server_laws E c book \<and> elsewhere_keeps E book"

lemma store_keepsD:
  assumes "store_keeps book k"
  shows "kept book X w (snd (k_Get k n w))" "kept book X w (snd (k_Update k x w))"
    "kept book X w (snd (k_StatusUpdate k x w))" "kept book X w (snd (k_Delete k n w))"
    "kept book X w (snd (k_CreateOrUpdate k x f w))"
  by (rule kept_any; use assms in \<open>unfold store_keeps_def, blast\<close>)+

lemma guarded_kube [guarded_intros]:
  assumes "store_keeps book k"
  shows "(\<And>b. Q (EGet kd n b)) \<Longrightarrow> guarded book X J Q (kGet kd k n)"
    and "(\<And>b. Q (EUpdate (emb x) b)) \<Longrightarrow> guarded book X J Q (kUpdate emb k x)"
    and "(\<And>b. Q (EStatus (emb x) b)) \<Longrightarrow> guarded book X J Q (kStatusUpdate emb k x)"
    and "(\<And>b. Q (EDelete kd n b)) \<Longrightarrow> guarded book X J Q (kDelete kd k n)"
    and "(\<And>y b. Q (EUpsert (emb y) b)) \<Longrightarrow> guarded book X J Q (kCreateOrUpdate emb k x f)"
  unfolding kGet_def kUpdate_def kStatusUpdate_def kDelete_def kCreateOrUpdate_def
  by (rule guarded_call; simp add: store_keepsD [OF assms])+

lemma guarded_kUpsert [guarded_intros]:
  assumes "stable book X J" and "store_keeps book k" and "\<And>y b. Q (EUpsert (emb y) b)"
  shows "guarded book X J Q (kUpsert emb k x f)"
  unfolding kUpsert_def using assms by (auto intro!: guarded_intros)

lemma guarded_of_emits:
  assumes "emits Q m" and "\<And>s. J (fst s) \<Longrightarrow> kept book X (fst s) (fst (snd (m s)))"
  shows "guarded book X J Q m"
  using assms unfolding guarded_def emits_def by blast

lemma guarded_server [guarded_intros]:
  assumes "server_laws E c book" and "\<And>r b. Q (EHttp r b)"
  shows "guarded book X J Q (GetIPs E (Some c) nk)"
    and "guarded book X J Q (GetClusterInfo E (Some c) n)"
    and "guarded book X J Q (ReserveIPs E (Some c) nk req)"
    and "(\<And>w. J w \<Longrightarrow> book w nk ip = Some (rr_Cluster req)) \<Longrightarrow> guarded book X J Q (UpdateIP E (Some c) nk ip req)"
    and "(nk, rl_IP rel) \<in> X \<Longrightarrow> guarded book X J Q (ReleaseIPs E (Some c) nk rel)"
proof -
  note * = assms(1) [unfolded server_laws_def]
  note http = emits_api_calls [where P = Q, OF assms(2)]
  note 1 = * [THEN conjunct1, rule_format]
  show "guarded book X J Q (GetIPs E (Some c) nk)"
    by (rule guarded_of_emits [OF http(2)]) (rule kept_any [OF 1])
  note 2 = * [THEN conjunct2, THEN conjunct1, rule_format]
  show "guarded book X J Q (GetClusterInfo E (Some c) n)"
    by (rule guarded_of_emits [OF http(3)]) (rule kept_any [OF 2])
  note 3 = * [THEN conjunct2, THEN conjunct2, THEN conjunct1, rule_format]
  show "guarded book X J Q (ReserveIPs E (Some c) nk req)"
    by (rule guarded_of_emits [OF http(1)]) (rule kept_any [OF 3])
  note 4 = * [THEN conjunct2, THEN conjunct2, THEN conjunct2, THEN conjunct1, rule_format]
  show "guarded book X J Q (UpdateIP E (Some c) nk ip req)"
    if "\<And>w. J w \<Longrightarrow> book w nk ip = Some (rr_Cluster req)"
    by (rule guarded_of_emits [OF http(5)]) (rule kept_any [OF 4 [OF that]])
  note 5 = * [THEN conjunct2, THEN conjunct2, THEN conjunct2, THEN conjunct2, THEN conjunct1, rule_format]
  show "guarded book X J Q (ReleaseIPs E (Some c) nk rel)" if "(nk, rl_IP rel) \<in> X"
    by (rule guarded_of_emits [OF http(4)]) (rule kept_mono [OF 5], use that in simp)
qed

lemma server_lawsD:
  assumes "server_laws E c book"
  shows "GetIPs E (Some c) nk s = (Inr es, t) \<Longrightarrow> e \<in> set es \<Longrightarrow> ip_Cluster e \<notin> unnamed \<Longrightarrow>
      book (fst t) nk (ip_IP e) = Some (ip_Cluster e)"
    and "ReserveIPs E (Some c) nk req s = (Inr resv, t) \<Longrightarrow> ip \<in> set (rs_IPs resv) \<Longrightarrow>
      book (fst t) nk ip = Some (rr_Cluster req)"
  using assms [unfolded server_laws_def, THEN conjunct2, THEN conjunct2, THEN conjunct2,
      THEN conjunct2, THEN conjunct2] by blast+

section \<open>The reservation\<close>

context reservation
begin

lemma ensure_guarded:
  assumes "server_laws E c book" and "\<And>r b. Q (EHttp r b)" and "stable book X J"
  shows "guarded book X J Q (ensure E (Some c) cr)"
  by (cases "statusIP cr = []")
    (auto simp: lists_then_reserves trusts_status intro!: guarded_intros assms)

lemma ensure_booked:
  assumes laws: "server_laws E c book" and req: "rr_Cluster (request cr) = name cr"
    and name: "name cr \<notin> unnamed"
    and known: "statusIP cr \<noteq> [] \<Longrightarrow> book w (networkKey cr) (statusIP cr) = Some (name cr)"
    and run: "ensure E (Some c) cr (w, tr) = (Inr a, (w', tr'))"
  shows "book w' (networkKey cr) (addr a) = Some (name cr)"
  using run
proof (cases rule: ensure_success)
  case Known
  with known show ?thesis by (simp add: addr_known)
next
  case (Recovered ips e)
  with server_lawsD(1) [OF laws Recovered(2,3)] name show ?thesis by (simp add: addr_recovered)
next
  case (Fresh ips s1 resv)
  then have "addr a \<in> set (rs_IPs resv)" by (simp add: addr_fresh)
  from server_lawsD(2) [OF laws Fresh(4) this] req show ?thesis by simp
qed

end

section \<open>The address a run records\<close>

text \<open>The address of a status write, of whichever kind.\<close>

fun recordedIP :: "event \<Rightarrow> string option" where
  "recordedIP (EStatus (OCluster x) b) = Some (ccs_IP (cc_Status x))"
| "recordedIP (EStatus (OLoadBalancer x) b) = Some (lbs_IP (lb_Status x))"
| "recordedIP (EStatus (OAllocation x) b) = Some (cas_IP (ca_Status x))"
| "recordedIP (EStatus (OVcluster x) b) = Some (vcs_IP (vc_Status x))"
| "recordedIP e = None"

definition records :: "string \<Rightarrow> event \<Rightarrow> bool" where
  "records ip e \<longleftrightarrow> (case recordedIP e of None \<Rightarrow> True | Some ip' \<Rightarrow> ip' = ip)"

lemma records_simps [simp]:
  "records ip (EHttp r b)" "records ip (EGet k n b)" "records ip (EUpdate x b)"
  "records ip (EUpsert x b)" "records ip (EDelete k n b)" "records ip (EProbe c b)"
  "records ip (ETarget c b)"
  "records ip (EStatus (OCluster cl) b) \<longleftrightarrow> ccs_IP (cc_Status cl) = ip"
  "records ip (EStatus (OLoadBalancer lb) b) \<longleftrightarrow> lbs_IP (lb_Status lb) = ip"
  "records ip (EStatus (OAllocation ca) b) \<longleftrightarrow> cas_IP (ca_Status ca) = ip"
  "records ip (EStatus (OVcluster vc) b) \<longleftrightarrow> vcs_IP (vc_Status vc) = ip"
  by (auto simp: records_def)

text \<open>
  \<open>truthful book nk n old m\<close>: when \<open>old\<close>, the address in the status, is booked under the name \<open>n\<close>,
  a run of \<open>m\<close> loses no entry, and every address it records is booked under \<open>n\<close> at its end.
\<close>

definition truthful ::
    "('w \<Rightarrow> book) \<Rightarrow> string \<Rightarrow> string \<Rightarrow> string \<Rightarrow> ('w, 'a) op \<Rightarrow> bool" where
  "truthful book nk n old m \<longleftrightarrow> (\<forall>w tr r w' tr'. (old \<noteq> [] \<longrightarrow> book w nk old = Some n) \<longrightarrow>
     m (w, tr) = (r, (w', tr')) \<longrightarrow> kept book {} w w' \<and> (\<exists>es. tr' = tr @ es
       \<and> list_all (\<lambda>e. case recordedIP e of None \<Rightarrow> True | Some ip \<Rightarrow> book w' nk ip = Some n) es))"

lemma truthful_fail: "truthful book nk n old (fail e)"
  by (simp add: truthful_def io_run)

context reservation
begin

lemma apply_truthful:
  assumes laws: "server_laws E c book" and req: "rr_Cluster (request cr) = name cr"
    and name: "name cr \<notin> unnamed"
    and rest: "\<And>a. guarded book {} (\<lambda>w. book w (networkKey cr) (addr a) = Some (name cr))
        (records (addr a)) (rest a)"
  shows "truthful book (networkKey cr) (name cr) (statusIP cr) (and_then (ensure E (Some c) cr) rest)"
  unfolding truthful_def
proof (intro allI impI)
  fix w tr r w' tr'
  assume known: "statusIP cr \<noteq> [] \<longrightarrow> book w (networkKey cr) (statusIP cr) = Some (name cr)"
    and run: "and_then (ensure E (Some c) cr) rest (w, tr) = (r, (w', tr'))"
  let ?ok = "\<lambda>e. case recordedIP e of None \<Rightarrow> True | Some ip \<Rightarrow> book w' (networkKey cr) ip = Some (name cr)"
  obtain q w1 tr1 where ms: "ensure E (Some c) cr (w, tr) = (q, (w1, tr1))" by (rule prod_cases3)
  have g: "guarded book {} (\<lambda>w. True) (\<lambda>e. recordedIP e = None) (ensure E (Some c) cr)"
    by (rule ensure_guarded [OF laws]) simp_all
  obtain es1 where es1: "kept book {} w w1" "tr1 = tr @ es1" "list_all (\<lambda>e. recordedIP e = None) es1"
    by (rule guardedD [OF g _ ms]) simp_all
  then have ok1: "list_all ?ok es1" by (simp add: list_all_iff)
  show "kept book {} w w' \<and> (\<exists>es. tr' = tr @ es \<and> list_all ?ok es)"
  proof (cases q)
    case (Inl e)
    with run ms es1 ok1 show ?thesis by (auto simp: io_run)
  next
    case (Inr a)
    have fs: "rest a (w1, tr1) = (r, (w', tr'))" using run ms Inr by (simp add: io_run)
    have b: "book w1 (networkKey cr) (addr a) = Some (name cr)"
      by (rule ensure_booked [OF laws req name _ ms [unfolded Inr]]) (use known in simp)
    obtain es2 where es2: "kept book {} w1 w'" "tr' = tr1 @ es2" "list_all (records (addr a)) es2"
      by (rule guardedD [OF rest b fs])
    have "book w' (networkKey cr) (addr a) = Some (name cr)" using keptD [OF es2(1) _ b] by simp
    then have "list_all ?ok es2"
      using es2(3) by (auto simp: list_all_iff records_def split: option.splits)
    with es1 es2 ok1 show ?thesis by (auto intro: kept_trans)
  qed
qed

end

context dns_drift
begin

lemma drift_guarded:
  assumes "server_laws E c book"
  shows "guarded book {} (\<lambda>w. book w (networkKey cr) ip = Some (name cr)) (records ip') (drift E (Some c) cr ip)"
  unfolding drift_eq by (intro guarded_intros stable_simps assms) simp_all

end

section \<open>The four handlers\<close>

lemma elsewhere_keepsD:
  assumes "elsewhere_keeps E book"
  shows "store_keeps book (ev_Clusters E)" "store_keeps book (ev_LoadBalancers E)"
    "store_keeps book (ev_Allocations E)" "store_keeps book (ev_Vclusters E)"
    "store_keeps book (ev_Secrets E)" "store_keeps book (ev_ConfigMaps E)"
    "store_keeps book (ev_Services E)" "store_keeps book (ev_Applications E)"
    "store_keeps book (ev_CiliumPools E)" "store_keeps book (ev_TargetSecrets E cfg)"
    "kept book {} w (snd (ev_RestDo E cfg r w))"
    "ev_ProbeCluster E = Some p \<Longrightarrow> kept book {} w (snd (p cfg w))"
    "kept book {} w (snd (ev_NewTargetClient E cfg w))"
  using assms by (simp_all add: elsewhere_keeps_def)

lemma guarded_probe:
  assumes "elsewhere_keeps E book" and "stable book {} J"
  shows "guarded book {} J (records ip) (probeCluster E server js)"
proof (cases "ev_ProbeCluster E")
  case None
  show ?thesis
    unfolding probeCluster_def probe_def probeReadyz_def restDo_def Let_def None option.case
    by (intro guarded_intros guarded_call assms) (simp_all add: elsewhere_keepsD [OF assms(1)])
next
  case (Some p)
  show ?thesis
    unfolding probeCluster_def probe_def Some option.case
    by (intro guarded_intros guarded_call assms) (simp_all add: elsewhere_keepsD(12) [OF assms(1) Some])
qed

lemma cluster_truthful:
  assumes laws: "booking_laws E c book" and reg: "\<not> isRegistrationOnly cr"
    and name: "cc_ClusterName (cc_Spec cr) \<notin> unnamed"
  shows "truthful book (cc_NetworkKey (cc_Spec cr)) (cc_ClusterName (cc_Spec cr))
    (ccs_IP (cc_Status cr)) (Reconciler_apply E (Some c) cr)"
proof -
  note s = laws [unfolded booking_laws_def, THEN conjunct1]
    and k = elsewhere_keepsD [OF laws [unfolded booking_laws_def, THEN conjunct2]]
  note intros = guarded_intros guarded_server [OF s] guarded_kube stable_simps
  have "guarded book {} (\<lambda>w. book w (cc_NetworkKey (cc_Spec cr)) (al_IP a) = Some (cc_ClusterName (cc_Spec cr)))
      (records (al_IP a)) (and_then (Reconciler_reconcileDNSDrift E (Some c) cr (al_IP a)) (\<lambda>_.
        and_then (optional (GetClusterInfo E (Some c) (cc_ClusterName (cc_Spec cr)))) (\<lambda>info.
        and_then (case cc_ExistingSecretRef (cc_Spec cr) of
            Some ref \<Rightarrow> Reconciler_enrich E cr ref a info
          | None \<Rightarrow> Reconciler_render E cr a info) (\<lambda>(cr', secretName, kcHash, result).
        and_then (ignore (kStatusUpdate OCluster (ev_Clusters E)
            (Reconciler_status cr' a info secretName kcHash))) (\<lambda>_. ret result)))))" for a
    unfolding Reconciler_enrich_def enrichExistingSecret_def Reconciler_render_def loadKubeconfig_def
      Reconciler_gate_def upsertArgoSecret_def Let_def
    by (intro guarded_intros guarded_probe clusterDrift.drift_guarded stable_simps s k laws [unfolded booking_laws_def, THEN conjunct2];
        simp)
  from clusterReservation.apply_truthful [OF s _ name this] reg show ?thesis
    by (simp add: Reconciler_apply_def Reconciler_allocate_def and_then_assoc)
qed

lemma load_balancer_truthful:
  assumes laws: "booking_laws E c book" and name: "lb_Name (lb_Spec cr) \<notin> unnamed"
  shows "truthful book (lb_NetworkKey (lb_Spec cr)) (lb_Name (lb_Spec cr)) (lbs_IP (lb_Status cr))
    (LoadBalancerReconciler_apply E (Some c) cr)"
proof -
  note s = laws [unfolded booking_laws_def, THEN conjunct1]
    and k = elsewhere_keepsD [OF laws [unfolded booking_laws_def, THEN conjunct2]]
  have "guarded book {} (\<lambda>w. book w (lb_NetworkKey (lb_Spec cr)) ip = Some (lb_Name (lb_Spec cr)))
      (records ip) (and_then (optional (GetClusterInfo E (Some c) (lb_Name (lb_Spec cr)))) (\<lambda>info.
        and_then (LoadBalancerReconciler_target E cr ip info) (\<lambda>(cr', poolName, svcRef).
        and_then (ignore (kStatusUpdate OLoadBalancer (ev_LoadBalancers E)
          (LoadBalancerReconciler_status (ev_lib E) cr' ip poolName svcRef info))) (\<lambda>_.
          ret noRequeue))))" for ip
    unfolding LoadBalancerReconciler_target_def upsertCiliumPool_def patchServiceLBIP_def Let_def
    by (intro guarded_intros stable_simps s k)
      (simp_all add: LoadBalancerReconciler_status_def Let_def split: option.split)
  from lbReservation.apply_truthful [OF s _ name this] show ?thesis
    by (simp add: LoadBalancerReconciler_apply_def truthful_fail)
qed

lemma allocation_truthful:
  assumes laws: "booking_laws E c book" and name: "ca_Name (ca_Spec cr) \<notin> unnamed"
  shows "truthful book (ca_NetworkKey (ca_Spec cr)) (ca_Name (ca_Spec cr)) (cas_IP (ca_Status cr))
    (AllocationReconciler_apply E (Some c) cr)"
proof -
  note s = laws [unfolded booking_laws_def, THEN conjunct1]
    and k = elsewhere_keepsD [OF laws [unfolded booking_laws_def, THEN conjunct2]]
  have "guarded book {} (\<lambda>w. book w (ca_NetworkKey (ca_Spec cr)) ip = Some (ca_Name (ca_Spec cr)))
      (records ip) (and_then (AllocationReconciler_reconcileDNSDrift E (Some c) cr ip) (\<lambda>_.
        and_then (optional (GetClusterInfo E (Some c) (ca_Name (ca_Spec cr)))) (\<lambda>info.
        and_then
          (case as_ConfigMap (ca_Sinks (ca_Spec cr)) of
             Some s \<Rightarrow> wrap ''upsert configmap sink'' (upsertConfigMapSink E cr ip info s)
           | None \<Rightarrow> ret ()) (\<lambda>_.
        and_then
          (case as_ClusterSecretLabels (ca_Sinks (ca_Spec cr)) of
             Some s \<Rightarrow> wrap ''enrich cluster secret'' (enrichClusterSecret E cr ip info s)
           | None \<Rightarrow> ret cr) (\<lambda>cr'.
        and_then (ignore (kStatusUpdate OAllocation (ev_Allocations E)
          (AllocationReconciler_status (ev_lib E) cr' ip (as_ConfigMap (ca_Sinks (ca_Spec cr)))
            (as_ClusterSecretLabels (ca_Sinks (ca_Spec cr))) info))) (\<lambda>_.
          ret noRequeue))))))" for ip
    unfolding upsertConfigMapSink_def enrichClusterSecret_def Let_def
    by (intro guarded_intros allocDrift.drift_guarded stable_simps s k)
      (simp_all add: AllocationReconciler_status_def alloc_setCondition_def Let_def split: option.split)
  from allocReservation.apply_truthful [OF s _ name this] show ?thesis
    by (simp add: AllocationReconciler_apply_def)
qed

text \<open>The client of the target is that of this cluster or of the target's.\<close>

lemma resolveTarget_store:
  assumes "elsewhere_keeps E book"
  shows "resolveTarget E cr s = (Inr t, s') \<Longrightarrow> store_keeps book (tr_Secrets t)"
  using elsewhere_keepsD [OF assms]
  by (auto simp: resolveTarget_def Let_def ret_run split: option.splits elim!: and_then_InrE)

lemma vcluster_truthful:
  assumes laws: "booking_laws E c book" and name: "vc_ClusterName (vc_Spec cr) \<notin> unnamed"
  shows "truthful book (vc_NetworkKey (vc_Spec cr)) (vc_ClusterName (vc_Spec cr)) (vcs_IP (vc_Status cr))
    (VclusterReconciler_apply E (Some c) cr)"
proof -
  note s = laws [unfolded booking_laws_def, THEN conjunct1]
    and e = laws [unfolded booking_laws_def, THEN conjunct2]
  note k = elsewhere_keepsD [OF e]
  let ?J = "\<lambda>ip w. book w (vc_NetworkKey (vc_Spec cr)) ip = Some (vc_ClusterName (vc_Spec cr))"
  have await: "guarded book {} (?J ip) (records ip) (and_then
      (wrap ''upsert application'' (upsertApplication E cr (tr_Destination target) ip info))
      (VclusterReconciler_await E cr ip info target))"
    if "store_keeps book (tr_Secrets target)" for ip info and target
    unfolding VclusterReconciler_await_def VclusterReconciler_publish_def readUpstreamKubeconfig_def
      upsertApplication_def writeExternalKubeconfig_def upsertChildCluster_def Let_def
    by (intro guarded_intros stable_simps s k that)
      (simp_all add: VclusterReconciler_waiting_def VclusterReconciler_ready_def vcluster_facts_def
        vc_setCondition_def Let_def split: option.split)
  have target: "guarded book {} (?J ip) (records ip) (resolveTarget E cr)" for ip
    unfolding resolveTarget_def newTargetClient_def Let_def
    by (intro guarded_intros guarded_call stable_simps k) simp_all
  have "guarded book {} (?J ip) (records ip) (VclusterReconciler_provision E cr ip info)" for ip info
    unfolding VclusterReconciler_provision_def
  proof (rule guarded_and_then_post [where K = "\<lambda>x w. True"])
    fix w tr t s' assume "wrap ''resolve target'' (resolveTarget E cr) (w, tr) = (Inr t, s')"
    from resolveTarget_store [OF e wrap_InrD [OF this]]
    show "guarded book {} (\<lambda>w. ?J ip w \<and> True) (records ip) (and_then
        (wrap ''upsert application'' (upsertApplication E cr (tr_Destination t) ip info))
        (VclusterReconciler_await E cr ip info t))"
      unfolding simp_thms by (rule await)
  qed (simp_all add: guarded_wrap target)
  then have "guarded book {} (?J ip) (records ip)
      (and_then (optional (GetClusterInfo E (Some c) (vc_ClusterName (vc_Spec cr)))) (\<lambda>info.
        VclusterReconciler_provision E cr ip info))" for ip
    by (intro guarded_intros stable_simps s) simp_all
  from vcReservation.apply_truthful [OF s _ name this] show ?thesis
    by (simp add: VclusterReconciler_apply_def VclusterReconciler_allocate_def and_then_assoc)
qed

section \<open>Deletion\<close>

text \<open>Finalization frees at most the address in the status.\<close>

lemma finalize_frees:
  assumes laws: "booking_laws E c book"
  shows "guarded book {(cc_NetworkKey (cc_Spec cc), ccs_IP (cc_Status cc))} (\<lambda>w. True) (\<lambda>e. True)
      (Reconciler_finalize E cc (Some c))"
    and "guarded book {(lb_NetworkKey (lb_Spec lb), lbs_IP (lb_Status lb))} (\<lambda>w. True) (\<lambda>e. True)
      (LoadBalancerReconciler_finalize E lb (Some c))"
    and "guarded book {(ca_NetworkKey (ca_Spec ca), cas_IP (ca_Status ca))} (\<lambda>w. True) (\<lambda>e. True)
      (AllocationReconciler_finalize E ca (Some c))"
    and "guarded book {(vc_NetworkKey (vc_Spec vc), vcs_IP (vc_Status vc))} (\<lambda>w. True) (\<lambda>e. True)
      (VclusterReconciler_finalize E vc (Some c))"
proof -
  note s = laws [unfolded booking_laws_def, THEN conjunct1]
    and k = elsewhere_keepsD [OF laws [unfolded booking_laws_def, THEN conjunct2]]
  show "guarded book {(cc_NetworkKey (cc_Spec cc), ccs_IP (cc_Status cc))} (\<lambda>w. True) (\<lambda>e. True)
      (Reconciler_finalize E cc (Some c))"
    unfolding Reconciler_finalize_def Reconciler_cleanup_def stripEnrichedMetadata_def
    by (intro guarded_intros stable_simps s k) simp_all
  show "guarded book {(lb_NetworkKey (lb_Spec lb), lbs_IP (lb_Status lb))} (\<lambda>w. True) (\<lambda>e. True)
      (LoadBalancerReconciler_finalize E lb (Some c))"
    unfolding LoadBalancerReconciler_finalize_def LoadBalancerReconciler_cleanup_def
      restoreServiceLBIP_def Let_def
    by (intro guarded_intros stable_simps s k) simp_all
  show "guarded book {(ca_NetworkKey (ca_Spec ca), cas_IP (ca_Status ca))} (\<lambda>w. True) (\<lambda>e. True)
      (AllocationReconciler_finalize E ca (Some c))"
    unfolding AllocationReconciler_finalize_def AllocationReconciler_cleanup_def stripClusterSecret_def
    by (intro guarded_intros stable_simps s k) simp_all
  show "guarded book {(vc_NetworkKey (vc_Spec vc), vcs_IP (vc_Status vc))} (\<lambda>w. True) (\<lambda>e. True)
      (VclusterReconciler_finalize E vc (Some c))"
    unfolding VclusterReconciler_finalize_def VclusterReconciler_cleanup_def
    by (intro guarded_intros stable_simps s k) simp_all
qed

section \<open>Histories of an operator\<close>

datatype resource =
    RCluster ClusterbookCluster
  | RLoadBalancer ClusterbookLoadBalancer
  | RAllocation ClusterbookAllocation
  | RVcluster Vcluster

fun res_name :: "resource \<Rightarrow> string" where
  "res_name (RCluster x) = cc_ClusterName (cc_Spec x)"
| "res_name (RLoadBalancer x) = lb_Name (lb_Spec x)"
| "res_name (RAllocation x) = ca_Name (ca_Spec x)"
| "res_name (RVcluster x) = vc_ClusterName (vc_Spec x)"

fun res_network :: "resource \<Rightarrow> string" where
  "res_network (RCluster x) = cc_NetworkKey (cc_Spec x)"
| "res_network (RLoadBalancer x) = lb_NetworkKey (lb_Spec x)"
| "res_network (RAllocation x) = ca_NetworkKey (ca_Spec x)"
| "res_network (RVcluster x) = vc_NetworkKey (vc_Spec x)"

fun res_ip :: "resource \<Rightarrow> string" where
  "res_ip (RCluster x) = ccs_IP (cc_Status x)"
| "res_ip (RLoadBalancer x) = lbs_IP (lb_Status x)"
| "res_ip (RAllocation x) = cas_IP (ca_Status x)"
| "res_ip (RVcluster x) = vcs_IP (vc_Status x)"

text \<open>A resource that books: it has a name other than \<open>DNS\<close>, and its handler builds a client.\<close>

fun res_books :: "resource \<Rightarrow> bool" where
  "res_books (RCluster x) = (cc_ClusterName (cc_Spec x) \<notin> unnamed \<and> \<not> isRegistrationOnly x)"
| "res_books (RLoadBalancer x) = (lb_Name (lb_Spec x) \<notin> unnamed)"
| "res_books (RAllocation x) = (ca_Name (ca_Spec x) \<notin> unnamed)"
| "res_books (RVcluster x) = (vc_ClusterName (vc_Spec x) \<notin> unnamed \<and> vc_NetworkKey (vc_Spec x) \<noteq> [])"

fun res_apply :: "'w env \<Rightarrow> CbkClient \<Rightarrow> resource \<Rightarrow> ('w, Result) op" where
  "res_apply E c (RCluster x) = Reconciler_apply E (Some c) x"
| "res_apply E c (RLoadBalancer x) = LoadBalancerReconciler_apply E (Some c) x"
| "res_apply E c (RAllocation x) = AllocationReconciler_apply E (Some c) x"
| "res_apply E c (RVcluster x) = VclusterReconciler_apply E (Some c) x"

fun res_finalize :: "'w env \<Rightarrow> CbkClient \<Rightarrow> resource \<Rightarrow> ('w, Result) op" where
  "res_finalize E c (RCluster x) = Reconciler_finalize E x (Some c)"
| "res_finalize E c (RLoadBalancer x) = LoadBalancerReconciler_finalize E x (Some c)"
| "res_finalize E c (RAllocation x) = AllocationReconciler_finalize E x (Some c)"
| "res_finalize E c (RVcluster x) = VclusterReconciler_finalize E x (Some c)"

lemma res_apply_truthful:
  "booking_laws E c book \<Longrightarrow> res_books x \<Longrightarrow>
   truthful book (res_network x) (res_name x) (res_ip x) (res_apply E c x)"
  by (cases x) (simp_all add: cluster_truthful load_balancer_truthful allocation_truthful vcluster_truthful)

lemma res_finalize_frees:
  "booking_laws E c book \<Longrightarrow>
   guarded book {(res_network x, res_ip x)} (\<lambda>w. True) (\<lambda>e. True) (res_finalize E c x)"
  by (cases x) (simp_all add: finalize_frees)

text \<open>
  What is stored: for each network and name, the address in the status of the one resource that
  books there, empty when there is none. A run of a handler works on a resource with the stored
  address; what it recorded is stored, unless the API server refused the write; a finalization that
  succeeds removes the resource. In between, others may use clusterbook, and free none of our
  entries.
\<close>

type_synonym held = "string \<Rightarrow> string \<Rightarrow> string"

definition hold :: "string \<Rightarrow> string \<Rightarrow> string \<Rightarrow> held \<Rightarrow> held" where
  "hold nk n ip H = H(nk := (H nk)(n := ip))"

inductive operates ::
    "'w env \<Rightarrow> CbkClient \<Rightarrow> ('w \<Rightarrow> book) \<Rightarrow> 'w \<times> held \<Rightarrow> 'w \<times> held \<Rightarrow> bool"
  for E :: "'w env" and c :: CbkClient and book :: "'w \<Rightarrow> book" and st :: "'w \<times> held" where
  start: "operates E c book st st"
| recorded: "operates E c book st (w, H) \<Longrightarrow> res_books x \<Longrightarrow> res_ip x = H (res_network x) (res_name x) \<Longrightarrow>
     res_apply E c x (w, tr) = (r, (w', tr @ es)) \<Longrightarrow> e \<in> set es \<Longrightarrow> recordedIP e = Some ip \<Longrightarrow>
     operates E c book st (w', hold (res_network x) (res_name x) ip H)"
| unrecorded: "operates E c book st (w, H) \<Longrightarrow> res_books x \<Longrightarrow> res_ip x = H (res_network x) (res_name x) \<Longrightarrow>
     res_apply E c x (w, tr) = (r, (w', tr')) \<Longrightarrow> operates E c book st (w', H)"
| finalized: "operates E c book st (w, H) \<Longrightarrow> res_ip x = H (res_network x) (res_name x) \<Longrightarrow>
     res_finalize E c x (w, tr) = (Inr u, (w', tr')) \<Longrightarrow>
     operates E c book st (w', hold (res_network x) (res_name x) [] H)"
| others: "operates E c book st (w, H) \<Longrightarrow> kept book {} w w' \<Longrightarrow> operates E c book st (w', H)"

definition all_booked :: "('w \<Rightarrow> book) \<Rightarrow> 'w \<times> held \<Rightarrow> bool" where
  "all_booked book = (\<lambda>(w, H). \<forall>nk n. H nk n \<noteq> [] \<longrightarrow> book w nk (H nk n) = Some n)"

lemma all_booked_kept: "all_booked book (w, H) \<Longrightarrow> kept book {} w w' \<Longrightarrow> all_booked book (w', H)"
  by (auto simp: all_booked_def kept_def)

lemma truthfulD:
  assumes "truthful book nk n old m" and "old \<noteq> [] \<longrightarrow> book w nk old = Some n" and "m (w, tr) = (r, (w', tr'))"
  shows "kept book {} w w'"
    and "tr' = tr @ es \<Longrightarrow> e \<in> set es \<Longrightarrow> recordedIP e = Some ip \<Longrightarrow> book w' nk ip = Some n"
proof -
  note t = assms(1) [unfolded truthful_def, rule_format, OF assms(2) [rule_format] assms(3)]
  show "kept book {} w w'" using t by (rule conjunct1)
  assume "tr' = tr @ es" and e: "e \<in> set es" "recordedIP e = Some ip"
  with t [THEN conjunct2] have "list_all (\<lambda>e. case recordedIP e of None \<Rightarrow> True
      | Some ip \<Rightarrow> book w' nk ip = Some n) es" by simp
  with e show "book w' nk ip = Some n" by (simp add: list_all_iff split: option.splits)
qed

lemma all_bookedD: "all_booked book (w, H) \<Longrightarrow> H nk n \<noteq> [] \<Longrightarrow> book w nk (H nk n) = Some n"
  by (simp add: all_booked_def)

lemma run_known:
  "all_booked book (w, H) \<Longrightarrow> res_ip x = H (res_network x) (res_name x) \<Longrightarrow>
   res_ip x \<noteq> [] \<longrightarrow> book w (res_network x) (res_ip x) = Some (res_name x)"
  by (simp add: all_bookedD)

lemma operates_booked:
  assumes laws: "booking_laws E c book" and "operates E c book st st'" and "all_booked book st"
  shows "all_booked book st'"
  using assms(2)
proof (induction rule: operates.induct)
  case start
  show ?case by (rule assms(3))
next
  case (recorded w H x tr r w' es e ip)
  note t = truthfulD [OF res_apply_truthful [OF laws recorded(2)] run_known [OF recorded(7,3)] recorded(4)]
  have "book w' (res_network x) ip = Some (res_name x)" by (rule t(2) [OF refl recorded(5,6)])
  moreover have "all_booked book (w', H)" by (rule all_booked_kept [OF recorded(7) t(1)])
  ultimately show ?case by (simp add: all_booked_def hold_def)
next
  case (unrecorded w H x tr r w' tr')
  show ?case
    by (rule all_booked_kept [OF unrecorded(5) truthfulD(1) [OF res_apply_truthful [OF laws unrecorded(2)]
      run_known [OF unrecorded(5,3)] unrecorded(4)]])
next
  case (finalized w H x tr u w' tr')
  note booked = finalized(4)
  have k: "kept book {(res_network x, res_ip x)} w w'"
    by (rule guardedD [OF res_finalize_frees [OF laws] _ finalized(3)]) simp_all
  have "book w' nk (H nk n) = Some n"
    if H: "H nk n \<noteq> []" and other: "nk \<noteq> res_network x \<or> n \<noteq> res_name x" for nk n
  proof (cases "nk = res_network x \<and> H nk n = res_ip x")
    case True
    then have ip: "res_ip x = H nk n" and nk: "res_network x = nk" by (rule conjE, simp)+
    from run_known [OF booked finalized(2)] H have "book w nk (H nk n) = Some (res_name x)"
      unfolding ip nk by simp
    with all_bookedD [OF booked H] True other show ?thesis by simp
  next
    case False
    then show ?thesis by (intro keptD [OF k _ all_bookedD [OF booked H]]) simp
  qed
  then show ?case by (simp add: all_booked_def hold_def)
next
  case (others w H w')
  show ?case by (rule all_booked_kept [OF others(3,2)])
qed

text \<open>
  C18. No address is held twice. Take any history of an operator over one clusterbook: runs of the
  four handlers over any resources of any networks, one after the other, that succeed or fail
  anywhere, that record the address they allocated or are refused the write; completed deletions;
  and, in between, other users of clusterbook. If every address held at the start is booked under
  the name of its holder, so is every address held at the end; two names of one network therefore
  never hold the same address. Assumed are the laws of clusterbook: a listing shows an address under
  the name it is booked under, or under \<open>DNS\<close>, as the comment of \<open>ensureReservation\<close> reports; a
  reservation is booked under the name asked for; only a release frees an entry, and only the one
  named. The histories tell resources apart by network and name: two resources do not share both, a
  resource that holds an address keeps both (nothing in the CRDs makes them immutable, and an
  address in the status is never checked against an edited \<open>networkKey\<close>), and none is called \<open>DNS\<close>,
  which would take such entries for its own. A finalization that released the address but could not
  remove the finalizer is no step here: the next attempt releases by address alone, whoever has
  been given it in between.
\<close>

theorem no_address_held_twice:
  assumes "booking_laws E c book" and "operates E c book st (w, H)" and "all_booked book st"
  shows "(\<forall>nk n. H nk n \<noteq> [] \<longrightarrow> book w nk (H nk n) = Some n)
    \<and> (\<forall>nk n n'. H nk n \<noteq> [] \<and> H nk n = H nk n' \<longrightarrow> n = n')"
  using operates_booked [OF assms] unfolding all_booked_def by (auto dest: spec) (metis option.inject)

section \<open>A clusterbook in memory\<close>

text \<open>
  A clusterbook with one network, whose state is its table of entries. It lists the table, showing
  the entries with a DNS record under \<open>DNS\<close>, and it reserves one address for \<open>lb2\<close>, which it then
  adds to the table; all other requests, and a table it cannot print, are refused.
\<close>

definition listed :: "IPInfo \<Rightarrow> IPInfo" where
  "listed e = (if ip_Status e = ''ASSIGNED:DNS'' then e\<lparr>ip_Cluster := ''DNS''\<rparr> else e)"

definition lb2Request :: ReserveRequest where
  "lb2Request = \<lparr>rr_Cluster = ''lb2'', rr_Count = 1, rr_IP = [], rr_CreateDNS = False, rr_Status = []\<rparr>"

definition lb2Entry :: IPInfo where
  "lb2Entry = exampleEntry ''10.31.103.8'' ''lb2'' ''ASSIGNED''"

definition tableDo :: "HttpRequest \<Rightarrow> IPInfo list \<Rightarrow> (err + HttpResponse) \<times> IPInfo list" where
  "tableDo r w =
     (if r = listRequest ''10.31.103'' \<and> list_all ascii_IPInfo w \<and> distinct (map ip_IP w) then
        (Inr \<lparr>hp_StatusCode = 200, hp_Body = jprint (enc_IPInfos (map listed w))\<rparr>, w)
      else if r = reserveRequest ''10.31.103'' lb2Request \<and> ip_IP lb2Entry \<notin> set (map ip_IP w) then
        (Inr \<lparr>hp_StatusCode = 201, hp_Body = jprint (enc_ReserveResponse
           \<lparr>rs_IPs = [ip_IP lb2Entry], rs_Status = []\<rparr>)\<rparr>, w @ [lb2Entry])
      else (Inl (New ''connection refused''), w))"

definition tableBook :: "IPInfo list \<Rightarrow> book" where
  "tableBook w nk ip = (if nk = ''10.31.103'' then
     map_option ip_Cluster (find (\<lambda>e. ip_IP e = ip) w) else None)"

text \<open>Stores that accept every write, and have nothing to read.\<close>

definition accepting :: "('w, 'o) kclient" where
  "accepting = \<lparr>k_Get = (\<lambda>n w. (Inl (ApiErr NotFound ''not found''), w)), k_List = (\<lambda>w. (Inr [], w)),
     k_Update = (\<lambda>x w. (Inr x, w)), k_StatusUpdate = (\<lambda>x w. (Inr x, w)),
     k_Delete = (\<lambda>n w. (Inr (), w)), k_CreateOrUpdate = (\<lambda>x f w. (f x, w))\<rparr>"

definition tableEnv :: "IPInfo list env" where
  "tableEnv = \<lparr>ev_lib = exampleLib, ev_Clusters = accepting, ev_ProviderConfigs = accepting,
     ev_LoadBalancers = accepting, ev_Allocations = accepting, ev_Vclusters = accepting,
     ev_Secrets = accepting, ev_ConfigMaps = accepting, ev_Services = accepting,
     ev_Applications = accepting, ev_CiliumPools = accepting, ev_HttpDo = (\<lambda>hc. tableDo),
     ev_RestDo = (\<lambda>cfg r w. (Inl (New ''connection refused''), w)), ev_ProbeCluster = None,
     ev_NewTargetClient = (\<lambda>cfg w. (Inr (), w)), ev_TargetSecrets = (\<lambda>cfg. accepting)\<rparr>"

lemma tableEnv_simps [simp]:
  "ev_lib tableEnv = exampleLib" "ev_HttpDo tableEnv hc = tableDo" "ev_CiliumPools tableEnv = accepting"
  "ev_LoadBalancers tableEnv = accepting"
  by (simp_all add: tableEnv_def)

lemma find_append: "find P (xs @ ys) = (case find P xs of None \<Rightarrow> find P ys | Some x \<Rightarrow> Some x)"
  by (induction xs) simp_all

lemma table_kept: "kept tableBook X w (snd (tableDo r w))"
  by (auto simp: tableDo_def kept_def tableBook_def find_append split: option.split)

text \<open>A call of the clusterbook client leaves the table as its one request leaves it.\<close>

lemma api_kept:
  "kept tableBook X (fst s) (fst (snd (apiCall tableEnv (Some c) mk cn fl look s)))"
  by (cases s) (simp add: apiCall_run exampleLib_simps table_kept split: prod.split; metis table_kept snd_conv)

text \<open>What is reserved is reserved for \<open>lb2\<close>: its name can be read off the request.\<close>

lemma escape_plain:
  assumes "escape a @ CHR 0x22 # R = d # X" and "byte d < 128" and "d \<noteq> CHR 0x22" and "d \<noteq> CHR 0x5C"
  obtains a' where "a = d # a'" and "escape a' @ CHR 0x22 # R = X"
proof (cases a)
  case Nil
  with assms show thesis by simp
next
  case (Cons c s)
  have esc: "esc_ascii c = [c] \<or> (\<exists>y. esc_ascii c = CHR 0x5C # y)" by (simp add: esc_ascii_def)
  show thesis
  proof (cases "byte c < 128")
    case True
    with assms Cons esc have "c = d" "escape s @ CHR 0x22 # R = X" by auto
    with that Cons show thesis by simp
  next
    case False
    let ?n = "utf8_len (c # s)"
    have "take ?n (c # s) = c # take (?n - 1) s" if "?n \<noteq> 0" using that by (cases ?n) simp_all
    with assms(1) False Cons assms(4) have "c = d"
      by (auto simp: Let_def simp del: take_Suc_Cons split: if_splits)
    with assms(2) False show thesis by simp
  qed
qed

lemma escape_quote:
  assumes "escape a @ CHR 0x22 # R = CHR 0x22 # X"
  shows "a = []"
proof (cases a)
  case (Cons c s)
  have esc: "esc_ascii c = [c] \<and> c \<noteq> CHR 0x22 \<or> (\<exists>y. esc_ascii c = CHR 0x5C # y)" by (simp add: esc_ascii_def)
  show ?thesis
  proof (cases "byte c < 128")
    case True
    with assms Cons esc show ?thesis by auto
  next
    case False
    let ?n = "utf8_len (c # s)"
    have "take ?n (c # s) = c # take (?n - 1) s" if "?n \<noteq> 0" using that by (cases ?n) simp_all
    with assms(1) False Cons have "c = CHR 0x22"
      by (auto simp: Let_def simp del: take_Suc_Cons split: if_splits)
    with False show ?thesis by simp
  qed
qed simp

lemma request_name:
  assumes "jprint (enc_ReserveRequest req) = jprint (enc_ReserveRequest lb2Request)"
  shows "rr_Cluster req = ''lb2''"
proof -
  obtain R where "jprint (enc_ReserveRequest req) =
      CHR ''{'' # jquote ''cluster'' @ '':'' @ CHR 0x22 # escape (rr_Cluster req) @ CHR 0x22 # R"
    by (simp add: enc_ReserveRequest_def jquote_def)
  moreover obtain Q where "jprint (enc_ReserveRequest lb2Request) =
      CHR ''{'' # jquote ''cluster'' @ '':'' @ CHR 0x22 # ''lb2'' @ CHR 0x22 # Q"
    by (simp add: enc_ReserveRequest_def lb2Request_def jquote_def esc_ascii_def)
  ultimately have "escape (rr_Cluster req) @ CHR 0x22 # R = CHR ''l'' # CHR ''b'' # CHR ''2'' # CHR 0x22 # Q"
    using assms by simp
  then obtain a where a: "rr_Cluster req = CHR ''l'' # a"
      "escape a @ CHR 0x22 # R = CHR ''b'' # CHR ''2'' # CHR 0x22 # Q" by (rule escape_plain) simp_all
  from a(2) obtain b where b: "a = CHR ''b'' # b" "escape b @ CHR 0x22 # R = CHR ''2'' # CHR 0x22 # Q"
    by (rule escape_plain) simp_all
  from b(2) obtain c where "b = CHR ''2'' # c" "escape c @ CHR 0x22 # R = CHR 0x22 # Q"
    by (rule escape_plain) simp_all
  with a(1) b(1) escape_quote show ?thesis by simp
qed

lemma tableEnv_laws: "booking_laws tableEnv exampleClient tableBook"
proof -
  have listing: "tableBook (fst t) nk (ip_IP e) = Some (ip_Cluster e)"
    if run: "GetIPs tableEnv (Some exampleClient) nk (w, tr) = (Inr es, t)" and e: "e \<in> set es"
      and named: "ip_Cluster e \<notin> unnamed" for nk w tr es t e
  proof -
    let ?req = "\<lparr>hr_Method = ''GET'', hr_URL = cl_baseURL exampleClient @ ''/api/v1/networks/'' @ nk @ ''/ips'',
           hr_Body = [], hr_ContentType = []\<rparr>"
    from apiCall_InrD [OF run [unfolded GetIPs_def]] obtain resp w' where
      do: "tableDo ?req w = (Inr resp, w')" and t: "fst t = w'" by auto
    have "?req \<noteq> reserveRequest ''10.31.103'' lb2Request" by (simp add: reserveRequest_def)
    with do have req: "?req = listRequest ''10.31.103''" and ok: "list_all ascii_IPInfo w" "distinct (map ip_IP w)"
      and w': "w' = w" by (auto simp: tableDo_def split: if_splits)
    from req have nk: "nk = ''10.31.103''"
      unfolding listRequest_def HttpRequest.simps same_append_eq append_same_eq by blast
    have "list_all ascii_IPInfo (map listed w)"
      using ok(1) by (auto simp: list_all_iff listed_def ascii_IPInfo_def ascii_def)
    then have "GetIPs tableEnv (Some exampleClient) nk (w, tr) = (Inr (map listed w), (w, tr @ [EHttp ?req True]))"
      by (intro GetIPs_listing) (use ok req in \<open>simp_all add: exampleLib_simps tableDo_def\<close>)
    with run e obtain e0 where e0: "e0 \<in> set w" "e = listed e0" by auto
    with named have "e = e0" by (auto simp: listed_def unnamed_def split: if_splits)
    with e0 ok(2) have "find (\<lambda>x. ip_IP x = ip_IP e) w = Some e"
    proof (induction w)
      case (Cons x w)
      then show ?case by (cases "x = e") auto
    qed simp
    then show ?thesis by (simp add: t w' nk tableBook_def)
  qed
  have reserving: "tableBook (fst t) nk ip = Some (rr_Cluster req)"
    if run: "ReserveIPs tableEnv (Some exampleClient) nk req (w, tr) = (Inr resv, t)"
      and ip: "ip \<in> set (rs_IPs resv)" for nk req w tr resv t ip
  proof -
    let ?req = "reserveRequest nk req"
    from apiCall_InrD [OF run [unfolded ReserveIPs_def]] obtain resp w' where
      do: "tableDo ?req w = (Inr resp, w')" and t: "fst t = w'" by (auto simp: reserveRequest_def)
    have "?req \<noteq> listRequest ''10.31.103''" by (simp add: reserveRequest_def listRequest_def)
    with do have req: "?req = reserveRequest ''10.31.103'' lb2Request"
      and free: "ip_IP lb2Entry \<notin> set (map ip_IP w)" and w': "w' = w @ [lb2Entry]"
      and resp: "resp = \<lparr>hp_StatusCode = 201, hp_Body = jprint (enc_ReserveResponse
           \<lparr>rs_IPs = [ip_IP lb2Entry], rs_Status = []\<rparr>)\<rparr>"
      by (auto simp: tableDo_def split: if_splits)
    from req have nk: "nk = ''10.31.103''" and body: "jprint (enc_ReserveRequest req) = jprint (enc_ReserveRequest lb2Request)"
      unfolding reserveRequest_def HttpRequest.simps HttpRequest.ext_inject same_append_eq append_same_eq by blast+
    have "ReserveIPs tableEnv (Some exampleClient) nk req (w, tr) =
        (Inr \<lparr>rs_IPs = [ip_IP lb2Entry], rs_Status = []\<rparr>, (w', tr @ [EHttp ?req True]))"
      by (rule ReserveIPs_answer [where st = 201])
        (use do resp in \<open>simp_all add: exampleLib_simps reserveRequest_def ascii_def lb2Entry_def exampleEntry_def\<close>)
    with run ip have "ip = ip_IP lb2Entry" by auto
    moreover have "find (\<lambda>e. ip_IP e = ip_IP lb2Entry) w = None" using free
      by (force simp: find_None_iff image_iff)
    ultimately show ?thesis
      by (simp add: t w' nk tableBook_def find_append request_name [OF body]) (simp add: lb2Entry_def exampleEntry_def)
  qed
  have "server_laws tableEnv exampleClient tableBook"
    unfolding server_laws_def
    by (intro conjI allI impI; (unfold api_defs, rule api_kept)?) (auto intro: listing reserving)
  moreover have "elsewhere_keeps tableEnv tableBook"
    by (simp add: elsewhere_keeps_def store_keeps_def tableEnv_def accepting_def)
  ultimately show ?thesis by (simp add: booking_laws_def)
qed


text \<open>
  Two load balancers with a pool each. The table has an entry of \<open>lb1\<close>, whose status was lost, and
  an entry listed under \<open>DNS\<close>: \<open>lb1\<close> recovers its address, \<open>lb2\<close> reserves one.
\<close>

definition pooledLB :: "string \<Rightarrow> ClusterbookLoadBalancer" where
  "pooledLB n = exampleLB\<lparr>lb_Spec := (lb_Spec exampleLB)\<lparr>lb_Name := n, lb_ServiceRef := None,
     lb_CiliumPool := Some \<lparr>cpt_PoolName = [], cpt_Namespace = [], cpt_ServiceSelector = None\<rparr>\<rparr>\<rparr>"

definition exampleTable :: "IPInfo list" where
  "exampleTable = [exampleEntry ''10.31.103.9'' ''c1'' ''ASSIGNED:DNS'',
     exampleEntry ''10.31.103.7'' ''lb1'' ''ASSIGNED'']"

lemma table_listing:
  assumes "list_all ascii_IPInfo w" and "distinct (map ip_IP w)"
  shows "GetIPs tableEnv (Some exampleClient) ''10.31.103'' (w, tr) =
    (Inr (map listed w), (w, tr @ [EHttp (listRequest ''10.31.103'') True]))"
proof (rule GetIPs_listing)
  show "list_all ascii_IPInfo (map listed w)"
    using assms(1) by (auto simp: list_all_iff listed_def ascii_IPInfo_def ascii_def)
qed (use assms in \<open>simp_all add: exampleLib_simps tableDo_def listRequest_def\<close>)

lemma pooled_run:
  assumes "LoadBalancerReconciler_ensureReservation tableEnv (Some exampleClient) (pooledLB n) (w, []) =
    (Inr ip, (w1, tr1))"
  shows "\<exists>r es x. LoadBalancerReconciler_apply tableEnv (Some exampleClient) (pooledLB n) (w, []) =
      (r, (w1, [] @ es)) \<and> EStatus (OLoadBalancer x) True \<in> set es \<and> lbs_IP (lb_Status x) = ip"
proof -
  let ?c = "Some exampleClient"
  obtain g where info: "optional (GetClusterInfo tableEnv ?c n) (w1, tr1) = (Inr None, (w1, tr1 @ [g]))"
    by (simp add: GetClusterInfo_def apiCall_run optional_run exampleLib_simps tableDo_def listRequest_def
        reserveRequest_def)
  obtain p where target: "LoadBalancerReconciler_target tableEnv (pooledLB n) ip None (w1, tr1 @ [g]) =
      (Inr (pooledLB n, n @ ''-pool'', None), (w1, (tr1 @ [g]) @ [p]))"
    by (simp add: LoadBalancerReconciler_target_def pooledLB_def upsertCiliumPool_def run_defs accepting_def
        poolMutate_def newPool_def exampleLib_def own_def exampleLB_def Let_def jget_def)
  let ?x = "LoadBalancerReconciler_status exampleLib (pooledLB n) ip (n @ ''-pool'') None None"
  have st: "ignore (kStatusUpdate OLoadBalancer (ev_LoadBalancers tableEnv) ?x) (w1, (tr1 @ [g]) @ [p]) =
      (Inr (), (w1, ((tr1 @ [g]) @ [p]) @ [EStatus (OLoadBalancer ?x) True]))"
    by (simp add: run_defs accepting_def)
  have names: "lb_Name (lb_Spec (pooledLB n)) = n" "lb_ServiceRef (lb_Spec (pooledLB n)) = None"
    "lb_CiliumPool (lb_Spec (pooledLB n)) =
      Some \<lparr>cpt_PoolName = [], cpt_Namespace = [], cpt_ServiceSelector = None\<rparr>" by (simp_all add: pooledLB_def)
  have "LoadBalancerReconciler_apply tableEnv ?c (pooledLB n) (w, []) =
      (Inr noRequeue, (w1, [] @ (((tr1 @ [g]) @ [p]) @ [EStatus (OLoadBalancer ?x) True])))"
    using assms info target st names
    by (simp add: LoadBalancerReconciler_apply_def and_then_def ret_def)
  then show ?thesis
    by (intro exI [of _ ?x] exI conjI) (assumption, simp, simp add: LoadBalancerReconciler_status_def Let_def)
qed

theorem no_address_held_twice_witness:
  "\<exists>w H. operates tableEnv exampleClient tableBook (exampleTable, \<lambda>nk n. []) (w, H)
    \<and> tableBook exampleTable ''10.31.103'' ''10.31.103.8'' = None
    \<and> H ''10.31.103'' ''lb1'' = ''10.31.103.7'' \<and> H ''10.31.103'' ''lb2'' = ''10.31.103.8''
    \<and> tableBook w ''10.31.103'' ''10.31.103.8'' = Some ''lb2''"
proof -
  let ?nk = "''10.31.103''" and ?c = "Some exampleClient"
  let ?op = "operates tableEnv exampleClient tableBook (exampleTable, \<lambda>nk n. [])"
  let ?H1 = "hold ?nk ''lb1'' ''10.31.103.7'' (\<lambda>nk n. [])"
  let ?H2 = "hold ?nk ''lb2'' ''10.31.103.8'' ?H1" and ?w = "exampleTable @ [lb2Entry]"
  have lb: "lbs_IP (lb_Status (pooledLB n)) = []" "lb_NetworkKey (lb_Spec (pooledLB n)) = ?nk"
    "lb_Name (lb_Spec (pooledLB n)) = n" "lb_CreateDNS (lb_Spec (pooledLB n)) = False" for n
    by (simp_all add: pooledLB_def exampleLB_def)
  have ok: "list_all ascii_IPInfo exampleTable" "distinct (map ip_IP exampleTable)"
    by (simp_all add: exampleTable_def exampleEntry_def ascii_IPInfo_def ascii_def)
  have list: "GetIPs tableEnv ?c (lb_NetworkKey (lb_Spec (pooledLB n))) (exampleTable, []) =
      (Inr (map listed exampleTable), (exampleTable, [] @ [EHttp (listRequest ?nk) True]))" for n
    unfolding lb by (rule table_listing [OF ok])
  have first: "find (\<lambda>e. ip_Cluster e = lb_Name (lb_Spec (pooledLB ''lb1''))) (map listed exampleTable) =
      Some (exampleEntry ''10.31.103.7'' ''lb1'' ''ASSIGNED'')"
    by (simp add: lb exampleTable_def listed_def exampleEntry_def)
  have second: "find (\<lambda>e. ip_Cluster e = lb_Name (lb_Spec (pooledLB ''lb2''))) (map listed exampleTable) = None"
    by (simp add: lb exampleTable_def listed_def exampleEntry_def)
  have run1: "LoadBalancerReconciler_ensureReservation tableEnv ?c (pooledLB ''lb1'') (exampleTable, []) =
      (Inr ''10.31.103.7'', (exampleTable, [] @ [EHttp (listRequest ?nk) True]))"
    using lbReservation.recovers [OF lb(1) list first] by (simp add: exampleEntry_def)
  have "ReserveIPs tableEnv ?c (lb_NetworkKey (lb_Spec (pooledLB ''lb2'')))
      \<lparr>rr_Cluster = lb_Name (lb_Spec (pooledLB ''lb2'')), rr_Count = 1, rr_IP = [],
       rr_CreateDNS = lb_CreateDNS (lb_Spec (pooledLB ''lb2'')), rr_Status = []\<rparr>
      (exampleTable, [] @ [EHttp (listRequest ?nk) True]) =
      (Inr \<lparr>rs_IPs = [''10.31.103.8''], rs_Status = []\<rparr>,
       (?w, ([] @ [EHttp (listRequest ?nk) True]) @ [EHttp (reserveRequest ?nk lb2Request) True]))"
    unfolding lb
    by (rule ReserveIPs_answer [where st = 201])
      (simp_all add: exampleLib_simps reserveRequest_def tableDo_def lb2Request_def lb2Entry_def ascii_def
        exampleTable_def exampleEntry_def listRequest_def)
  from lbReservation.reserves_fresh [OF lb(1) list second this]
  have run2: "LoadBalancerReconciler_ensureReservation tableEnv ?c (pooledLB ''lb2'') (exampleTable, []) =
      (Inr ''10.31.103.8'',
       (?w, ([] @ [EHttp (listRequest ?nk) True]) @ [EHttp (reserveRequest ?nk lb2Request) True]))" by simp
  have step: "?op (w1, hold ?nk n ip H)"
    if op: "?op (exampleTable, H)" and free: "H ?nk n = []" "n \<notin> unnamed"
      and got: "LoadBalancerReconciler_ensureReservation tableEnv ?c (pooledLB n) (exampleTable, []) = (Inr ip, (w1, tr1))"
    for n ip H w1 tr1
  proof -
    obtain r es x where run: "LoadBalancerReconciler_apply tableEnv ?c (pooledLB n) (exampleTable, []) =
        (r, (w1, [] @ es))" "EStatus (OLoadBalancer x) True \<in> set es" "lbs_IP (lb_Status x) = ip"
      using pooled_run [OF got] by blast
    from operates.recorded [OF op, of "RLoadBalancer (pooledLB n)" "[]" r w1 es
        "EStatus (OLoadBalancer x) True" ip] run free lb [of n] show ?thesis by simp
  qed
  have op1: "?op (exampleTable, ?H1)"
    by (rule step [OF operates.start _ _ run1]) (simp_all add: unnamed_def)
  have op2: "?op (?w, ?H2)"
    by (rule step [OF op1 _ _ run2]) (simp_all add: unnamed_def hold_def)
  have held: "?H2 ?nk ''lb2'' = ''10.31.103.8''" "?H2 ?nk ''lb1'' = ''10.31.103.7''"
    by (simp_all add: hold_def)
  have "all_booked tableBook (exampleTable, \<lambda>nk n. [])" by (simp add: all_booked_def)
  from no_address_held_twice [OF tableEnv_laws op2 this, THEN conjunct1, rule_format, of ?nk "''lb2''"]
  have "tableBook ?w ?nk ''10.31.103.8'' = Some ''lb2''" unfolding held by simp
  moreover have "tableBook exampleTable ?nk ''10.31.103.8'' = None"
    by (simp add: tableBook_def exampleTable_def exampleEntry_def)
  ultimately show ?thesis using op2 held by (intro exI conjI)
qed

end
