(* ===== verification/Access.thy ===== *)
theory Access
  imports Handlers
begin

text \<open>
  What a run of each handler may do at most: how many calls it makes, and to which objects. The
  second half is the deployment's side of it, the ClusterRole of \<open>kcl/rbac.k\<close>: every request a
  handler sends to the API server has to be granted by a rule of that role.
\<close>

section \<open>Bounded runs\<close>

text \<open>\<open>within n P m\<close>: from every state, \<open>m\<close> logs at most \<open>n\<close> events, all of which satisfy \<open>P\<close>.\<close>

definition within :: "nat \<Rightarrow> ('e \<Rightarrow> bool) \<Rightarrow> ('w, 'e, 'a) io \<Rightarrow> bool" where
  "within n P m \<longleftrightarrow>
     (\<forall>s. \<exists>es. snd (snd (m s)) = snd s @ es \<and> length es \<le> n \<and> list_all P es)"

named_theorems within_intros \<open>rules for bounded runs\<close>

lemma within_mono: "within i P m \<Longrightarrow> i \<le> n \<Longrightarrow> within n P m"
  unfolding within_def by (meson le_trans)

lemma within_weaken: "within n P m \<Longrightarrow> (\<And>e. P e \<Longrightarrow> Q e) \<Longrightarrow> within n Q m"
  unfolding within_def by (metis list.pred_mono_strong)

lemma within_at: "within n P m \<Longrightarrow>
    \<exists>es. snd (snd (m (w, tr))) = tr @ es \<and> length es \<le> n \<and> list_all P es"
  unfolding within_def by (metis snd_conv)

lemma within_ret [within_intros]: "within 0 P (ret x)" "within 0 P (fail e)" "within 0 P (lift r)"
  by (auto simp: within_def io_run)

lemma within_call: "(\<And>r. P (ev r)) \<Longrightarrow> within 1 P (call op ev)"
  by (auto simp: within_def call_def split: prod.splits)

lemma within_and_then_post:
  assumes m: "within i P m" and f: "\<And>s x t. m s = (Inr x, t) \<Longrightarrow> within j P (f x)"
  shows "within (i + j) P (and_then m f)"
  unfolding within_def
proof
  fix s
  obtain r w1 tr1 where ms: "m s = (r, (w1, tr1))" by (rule prod_cases3)
  with m obtain es1 where e1: "tr1 = snd s @ es1" "length es1 \<le> i" "list_all P es1"
    unfolding within_def by (metis snd_conv)
  show "\<exists>es. snd (snd (and_then m f s)) = snd s @ es \<and> length es \<le> i + j \<and> list_all P es"
  proof (cases r)
    case (Inl e)
    with ms e1 show ?thesis by (auto simp: io_run)
  next
    case (Inr x)
    from within_at [OF f [OF ms [unfolded Inr]], of w1 tr1] obtain es2 where
      "snd (snd (f x (w1, tr1))) = tr1 @ es2" "length es2 \<le> j" "list_all P es2" by blast
    with ms Inr e1 show ?thesis by (intro exI [of _ "es1 @ es2"]) (simp add: io_run)
  qed
qed

lemma within_and_then [within_intros]:
  "within i P m \<Longrightarrow> (\<And>x. within j P (f x)) \<Longrightarrow> within (i + j) P (and_then m f)"
  by (rule within_and_then_post)

lemma within_same_log:
  "within n P m \<Longrightarrow> (\<And>s. snd (k s) = snd (m s)) \<Longrightarrow> within n P k"
  by (simp add: within_def)

lemma within_wrap [within_intros]: "within n P m \<Longrightarrow> within n P (wrap msg m)"
  by (erule within_same_log) simp

lemma within_attempt [within_intros]: "within n P m \<Longrightarrow> within n P (attempt m)"
  by (erule within_same_log) simp

lemma within_cases [within_intros]:
  "(b \<Longrightarrow> within i P m) \<Longrightarrow> (\<not> b \<Longrightarrow> within j P k) \<Longrightarrow> within (max i j) P (if b then m else k)"
  "within i P m \<Longrightarrow> (\<And>y. within j P (f y)) \<Longrightarrow>
     within (max i j) P (case x of None \<Rightarrow> m | Some y \<Rightarrow> f y)"
  "(\<And>e. within i P (h e)) \<Longrightarrow> (\<And>y. within j P (g y)) \<Longrightarrow>
     within (max i j) P (case z of Inl e \<Rightarrow> h e | Inr y \<Rightarrow> g y)"
  "(\<And>a b. within i P (q a b)) \<Longrightarrow> within i P (case p of (a, b) \<Rightarrow> q a b)"
  by (auto split: option.split sum.split prod.split intro: within_mono [OF _ max.cobounded1]
      within_mono [OF _ max.cobounded2])

lemma within_combinators [within_intros]:
  "within n P m \<Longrightarrow> within n P (ignore m)"
  "within n P m \<Longrightarrow> within n P (optional m)"
  "within n P m \<Longrightarrow> within n P (ignoreNotFound m)"
  unfolding ignore_def optional_def ignoreNotFound_def
  by (rule within_mono, (rule within_intros | assumption)+, simp)+

text \<open>The calls themselves.\<close>

lemma within_kube [within_intros]:
  "(\<And>b. P (EGet kd key b)) \<Longrightarrow> within 1 P (kGet kd c key)"
  "(\<And>b. P (EUpdate (emb x) b)) \<Longrightarrow> within 1 P (kUpdate emb c x)"
  "(\<And>b. P (EStatus (emb x) b)) \<Longrightarrow> within 1 P (kStatusUpdate emb c x)"
  "(\<And>b. P (EDelete kd key b)) \<Longrightarrow> within 1 P (kDelete kd c key)"
  unfolding kGet_def kUpdate_def kStatusUpdate_def kDelete_def by (rule within_call; simp)+

lemma within_kUpsert [within_intros]:
  assumes "\<And>y b. P (EUpsert (emb y) b)"
  shows "within 1 P (kUpsert emb c x f)"
  unfolding kUpsert_def kCreateOrUpdate_def
  by (rule within_mono, (rule within_intros within_call | (simp add: assms; fail))+)

lemma within_ensureFinalizer [within_intros]:
  assumes "\<And>x b. P (EUpdate (emb x) b)"
  shows "within 1 P (ensureFinalizer L emb c meta upd f cr)"
  unfolding ensureFinalizer_def
  by (rule within_mono, (rule within_intros | (simp add: assms; fail))+)

lemma within_api [within_intros]:
  assumes "\<And>r b. P (EHttp r b)"
  shows "within 1 P (ReserveIPs E api nk req)" and "within 1 P (GetIPs E api nk)"
    and "within 1 P (GetClusterInfo E api cl)" and "within 1 P (ReleaseIPs E api nk rel)"
    and "within 1 P (UpdateIP E api nk ip req)"
proof -
  have "within 1 P (apiCall E api mk cn fl look)" for mk cn fl and look :: "HttpResponse \<Rightarrow> err + 'x"
    unfolding apiCall_def httpDo_def
    by (rule within_mono, (rule within_intros within_call | (simp add: assms; fail))+)
  then show "within 1 P (ReserveIPs E api nk req)" "within 1 P (GetIPs E api nk)"
    "within 1 P (GetClusterInfo E api cl)" "within 1 P (ReleaseIPs E api nk rel)"
    "within 1 P (UpdateIP E api nk ip req)"
    by (simp_all add: api_defs)
qed

section \<open>The permissions of the deployment\<close>

text \<open>
  \<open>clusterRole\<close> of \<open>kcl/rbac.k\<close>: API groups, resources, verbs of each rule. A rule grants the
  product of its lists.
\<close>

type_synonym rbac_rule = "string list \<times> string list \<times> string list"

definition clusterRole :: "rbac_rule list" where
  "clusterRole = (let own = ''clusterbook.stuttgart-things.com'' in
    [([own], [''clusterbookclusters''],
        [''get'', ''list'', ''watch'', ''create'', ''update'', ''patch'', ''delete'']),
     ([own], [''clusterbookproviderconfigs''], [''get'', ''list'', ''watch'']),
     ([own], [''clusterbookclusters/status''], [''get'', ''update'', ''patch'']),
     ([own], [''clusterbookclusters/finalizers''], [''update'']),
     ([own], [''clusterbookloadbalancers''], [''get'', ''list'', ''watch'', ''update'', ''patch'']),
     ([own], [''clusterbookloadbalancers/status''], [''get'', ''update'', ''patch'']),
     ([own], [''clusterbookloadbalancers/finalizers''], [''update'']),
     ([own], [''clusterbookallocations''], [''get'', ''list'', ''watch'', ''update'', ''patch'']),
     ([own], [''clusterbookallocations/status''], [''get'', ''update'', ''patch'']),
     ([own], [''clusterbookallocations/finalizers''], [''update'']),
     ([own], [''vclusters''], [''get'', ''list'', ''watch'', ''update'', ''patch'']),
     ([own], [''vclusters/status''], [''get'', ''update'', ''patch'']),
     ([own], [''vclusters/finalizers''], [''update'']),
     ([''argoproj.io''], [''applications''],
        [''get'', ''list'', ''watch'', ''create'', ''update'', ''patch'', ''delete'']),
     ([[]], [''configmaps''],
        [''get'', ''list'', ''watch'', ''create'', ''update'', ''patch'', ''delete'']),
     ([''cilium.io''], [''ciliumloadbalancerippools''],
        [''get'', ''list'', ''watch'', ''create'', ''update'', ''patch'', ''delete'']),
     ([[]], [''secrets''],
        [''get'', ''list'', ''watch'', ''create'', ''update'', ''patch'', ''delete'']),
     ([[]], [''events''], [''create'', ''patch'']),
     ([''coordination.k8s.io''], [''leases''],
        [''get'', ''list'', ''watch'', ''create'', ''update'', ''patch'', ''delete''])])"

definition grants :: "rbac_rule list \<Rightarrow> string \<Rightarrow> string \<Rightarrow> string \<Rightarrow> bool" where
  "grants role g r v \<longleftrightarrow> list_ex (\<lambda>(gs, rs, vs). g \<in> set gs \<and> r \<in> set rs \<and> v \<in> set vs) role"

text \<open>The resource a kind is served as; the Secrets of a target cluster are on another server.\<close>

fun kind_resource :: "kind \<Rightarrow> (string \<times> string) option" where
  "kind_resource KCluster = Some (''clusterbook.stuttgart-things.com'', ''clusterbookclusters'')"
| "kind_resource KProviderConfig =
     Some (''clusterbook.stuttgart-things.com'', ''clusterbookproviderconfigs'')"
| "kind_resource KLoadBalancer =
     Some (''clusterbook.stuttgart-things.com'', ''clusterbookloadbalancers'')"
| "kind_resource KAllocation =
     Some (''clusterbook.stuttgart-things.com'', ''clusterbookallocations'')"
| "kind_resource KVcluster = Some (''clusterbook.stuttgart-things.com'', ''vclusters'')"
| "kind_resource KSecret = Some ([], ''secrets'')"
| "kind_resource KConfigMap = Some ([], ''configmaps'')"
| "kind_resource KService = Some ([], ''services'')"
| "kind_resource KApplication = Some (''argoproj.io'', ''applications'')"
| "kind_resource KCiliumPool = Some (''cilium.io'', ''ciliumloadbalancerippools'')"
| "kind_resource KTargetSecret = None"

fun kobj_kind :: "kobj \<Rightarrow> kind" where
  "kobj_kind (OCluster x) = KCluster"
| "kobj_kind (OLoadBalancer x) = KLoadBalancer"
| "kobj_kind (OAllocation x) = KAllocation"
| "kobj_kind (OVcluster x) = KVcluster"
| "kobj_kind (OSecret x) = KSecret"
| "kobj_kind (OConfigMap x) = KConfigMap"
| "kobj_kind (OService x) = KService"
| "kobj_kind (OApplication x) = KApplication"
| "kobj_kind (OCiliumPool x) = KCiliumPool"

text \<open>
  The kind and verbs of a call, with the suffix of a subresource. Reads of the manager's client are
  served from a cache that lists and watches the kind, and \<open>CreateOrUpdate\<close> reads first.
\<close>

definition cached_read :: "string list" where
  "cached_read = [''get'', ''list'', ''watch'']"

fun kube_request :: "event \<Rightarrow> (kind \<times> string \<times> string list) option" where
  "kube_request (EGet k n b) = Some (k, [], cached_read)"
| "kube_request (EList k b) = Some (k, [], cached_read)"
| "kube_request (EUpdate x b) = Some (kobj_kind x, [], [''update''])"
| "kube_request (EStatus x b) = Some (kobj_kind x, ''/status'', [''update''])"
| "kube_request (EUpsert x b) = Some (kobj_kind x, [], cached_read @ [''create'', ''update''])"
| "kube_request (EDelete k n b) = Some (k, [], [''delete''])"
| "kube_request (EHttp r b) = None"
| "kube_request (EProbe c b) = None"
| "kube_request (ETarget c b) = None"

definition allows :: "rbac_rule list \<Rightarrow> kind \<Rightarrow> string \<Rightarrow> string list \<Rightarrow> bool" where
  "allows role k sub vs = (case kind_resource k of
     None \<Rightarrow> True | Some (g, r) \<Rightarrow> list_all (grants role g (r @ sub)) vs)"

definition permitted :: "rbac_rule list \<Rightarrow> event \<Rightarrow> bool" where
  "permitted role e =
     (case kube_request e of None \<Rightarrow> True | Some (k, sub, vs) \<Rightarrow> allows role k sub vs)"

lemma role_allows:
  "list_all (\<lambda>k. allows clusterRole k [] cached_read)
     [KCluster, KProviderConfig, KLoadBalancer, KAllocation, KVcluster, KSecret, KConfigMap,
      KApplication, KCiliumPool, KTargetSecret]"
  "list_all (\<lambda>k. allows clusterRole k [] [''update''] \<and> allows clusterRole k ''/status'' [''update''])
     [KCluster, KLoadBalancer, KAllocation, KVcluster]"
  "list_all (\<lambda>k. allows clusterRole k [] (cached_read @ [''create'', ''update''])
       \<and> allows clusterRole k [] [''update''] \<and> allows clusterRole k [] [''delete''])
     [KCluster, KSecret, KConfigMap, KApplication, KCiliumPool]"
  "\<not> allows clusterRole KService [] cached_read"
  "\<not> allows clusterRole KService [] [''update'']"
  "\<not> allows clusterRole KVcluster [] (cached_read @ [''create'', ''update''])"
  by code_simp+

lemma role_reads: "k \<noteq> KService \<Longrightarrow> allows clusterRole k [] cached_read"
  using role_allows(1) by (cases k) simp_all

lemmas role_rules = role_reads role_allows [simplified]

lemma permitted_simps [simp]:
  "k \<noteq> KService \<Longrightarrow> permitted clusterRole (EGet k n b)"
  "k \<noteq> KService \<Longrightarrow> permitted clusterRole (EList k b)"
  "permitted clusterRole (EUpdate (OCluster c) b)"
  "permitted clusterRole (EUpdate (OLoadBalancer l) b)"
  "permitted clusterRole (EUpdate (OAllocation a) b)"
  "permitted clusterRole (EUpdate (OVcluster v) b)"
  "permitted clusterRole (EUpdate (OSecret s) b)"
  "permitted clusterRole (EStatus (OCluster c) b)"
  "permitted clusterRole (EStatus (OLoadBalancer l) b)"
  "permitted clusterRole (EStatus (OAllocation a) b)"
  "permitted clusterRole (EStatus (OVcluster v) b)"
  "permitted clusterRole (EUpsert (OCluster c) b)"
  "permitted clusterRole (EUpsert (OSecret s) b)"
  "permitted clusterRole (EUpsert (OConfigMap m) b)"
  "permitted clusterRole (EUpsert (OApplication u) b)"
  "permitted clusterRole (EUpsert (OCiliumPool u) b)"
  "permitted clusterRole (EDelete KCluster n b)"
  "permitted clusterRole (EDelete KSecret n b)"
  "permitted clusterRole (EDelete KConfigMap n b)"
  "permitted clusterRole (EDelete KApplication n b)"
  "permitted clusterRole (EDelete KCiliumPool n b)"
  "permitted role (EHttp r b)"
  "permitted role (EProbe p b)"
  "permitted role (ETarget p b)"
  "\<not> permitted clusterRole (EGet KService n b)"
  "\<not> permitted clusterRole (EUpdate (OService y) b)"
  "\<not> permitted clusterRole (EUpsert (OVcluster v) b)"
  by (simp_all add: permitted_def role_rules)

section \<open>The handlers\<close>

text \<open>
  What a handler may do: requests the role grants, and objects created of the given kinds only.
\<close>

definition creates :: "kind list \<Rightarrow> event \<Rightarrow> bool" where
  "creates ks e = (case e of EUpsert x b \<Rightarrow> kobj_kind x \<in> set ks | _ \<Rightarrow> True)"

definition handles :: "kind list \<Rightarrow> event \<Rightarrow> bool" where
  "handles ks e \<longleftrightarrow> permitted clusterRole e \<and> creates ks e"

lemmas handles_simps [simp] = handles_def creates_def

lemma within_shared [within_intros]:
  assumes "\<And>k n b. k \<noteq> KService \<Longrightarrow> P (EGet k n b)"
  shows "within 1 P (loadProviderConfig E name)" and "within 1 P (newClusterbookClient E pc)"
  unfolding loadProviderConfig_def newClusterbookClient_def Let_def
  by (rule within_mono, (rule within_intros | (simp add: assms; fail))+)+

lemma within_probe [within_intros]:
  "(\<And>c b. P (EProbe c b)) \<Longrightarrow> within 1 P (probeCluster E server js)"
  unfolding probeCluster_def probe_def probeReadyz_def restDo_def Let_def
  by (rule within_mono, (rule within_intros within_call | simp)+)

lemma within_cluster_parts [within_intros]:
  "within 1 (handles [KSecret]) (loadKubeconfig E ref)"
  "within 1 (handles [KSecret]) (upsertArgoSecret E cr alloc info server h js)"
  "within 2 (handles [KSecret]) (enrichExistingSecret E cr sref alloc info)"
  "within 2 (handles [KSecret]) (stripEnrichedMetadata E sref)"
  unfolding loadKubeconfig_def upsertArgoSecret_def enrichExistingSecret_def stripEnrichedMetadata_def
    Let_def
  by (rule within_mono, (rule within_intros | (simp; fail))+)+

lemma within_cluster_steps [within_intros]:
  "within 2 (handles [KSecret]) (Reconciler_api E cr)"
  "within 2 (handles [KSecret]) (Reconciler_ensureReservation E api cr)"
  "within 2 (handles [KSecret]) (Reconciler_reconcileDNSDrift E api cr ip)"
  "within 3 (handles [KSecret]) (Reconciler_cleanup E cr api)"
  "within 1 (handles [KSecret]) (Reconciler_gate E cr server js)"
  unfolding Reconciler_api_def Reconciler_ensureReservation_def Reconciler_reconcileDNSDrift_def
    Reconciler_cleanup_def Reconciler_gate_def Let_def
  by (rule within_mono, (rule within_intros | (simp; fail))+)+

lemma within_cluster_modes [within_intros]:
  "within 5 (handles [KSecret]) (Reconciler_allocate E api cr)"
  "within 2 (handles [KSecret]) (Reconciler_enrich E cr sref alloc info)"
  "within 3 (handles [KSecret]) (Reconciler_render E cr alloc info)"
  "within 4 (handles [KSecret]) (Reconciler_finalize E cr api)"
  unfolding Reconciler_allocate_def Reconciler_enrich_def Reconciler_render_def
    Reconciler_finalize_def Let_def
  by (rule within_mono, (rule within_intros | (simp; fail))+)+

lemma within_cluster: "within 13 (handles [KSecret]) (Reconciler_Reconcile E key)"
  unfolding Reconciler_Reconcile_def Reconciler_apply_def
  by (rule within_mono, (rule within_intros | (simp; fail))+)

lemma within_allocation_steps [within_intros]:
  "within 2 (handles [KConfigMap]) (AllocationReconciler_ensureReservation E api cr)"
  "within 2 (handles [KConfigMap]) (AllocationReconciler_reconcileDNSDrift E api cr ip)"
  "within 1 (handles [KConfigMap]) (upsertConfigMapSink E cr ip info s)"
  "within 2 (handles [KConfigMap]) (enrichClusterSecret E cr ip info ref)"
  "within 2 (handles [KConfigMap]) (stripClusterSecret E ref)"
  unfolding AllocationReconciler_ensureReservation_def AllocationReconciler_reconcileDNSDrift_def
    upsertConfigMapSink_def enrichClusterSecret_def stripClusterSecret_def kCreateOrUpdate_def Let_def
  by (rule within_mono, (rule within_intros within_call | (simp; fail))+)+

lemma within_allocation:
  "within 13 (handles [KConfigMap]) (AllocationReconciler_Reconcile E key)"
  unfolding AllocationReconciler_Reconcile_def AllocationReconciler_apply_def
    AllocationReconciler_finalize_def AllocationReconciler_cleanup_def
  by (rule within_mono, (rule within_intros | (simp; fail))+)

lemma within_vcluster_steps [within_intros]:
  "within 2 (handles [KApplication, KSecret, KCluster]) (VclusterReconciler_api E cr)"
  "within 2 (handles [KApplication, KSecret, KCluster]) (VclusterReconciler_ensureReservation E api cr)"
  "within 2 (handles [KApplication, KSecret, KCluster]) (resolveTarget E cr)"
  "within 1 (handles [KApplication, KSecret, KCluster]) (upsertApplication E cr dest ip info)"
  "within 1 (handles [KApplication, KSecret, KCluster]) (writeExternalKubeconfig E cr raw info)"
  "within 1 (handles [KApplication, KSecret, KCluster]) (upsertChildCluster E cr sref)"
  "within 3 (handles [KApplication, KSecret, KCluster]) (VclusterReconciler_cleanup E cr api)"
  unfolding VclusterReconciler_api_def VclusterReconciler_ensureReservation_def resolveTarget_def
    newTargetClient_def upsertApplication_def writeExternalKubeconfig_def upsertChildCluster_def
    VclusterReconciler_cleanup_def Let_def
  by (rule within_mono, (rule within_intros within_call | (simp; fail))+)+

text \<open>The kubeconfig is a Secret, of this cluster or of the target's.\<close>

lemma resolveTarget_kind:
  "resolveTarget E cr s = (Inr t, s') \<Longrightarrow> tr_Kind t \<noteq> KService"
  by (auto simp: resolveTarget_def Let_def ret_run split: option.splits elim!: and_then_InrE)

lemma within_provision [within_intros]:
  "within 7 (handles [KApplication, KSecret, KCluster]) (VclusterReconciler_provision E cr ip info)"
proof -
  have "within 5 (handles [KApplication, KSecret, KCluster]) (and_then
      (wrap ''upsert application'' (upsertApplication E cr (tr_Destination target) ip info))
      (VclusterReconciler_await E cr ip info target))" if "tr_Kind target \<noteq> KService" for target
    unfolding VclusterReconciler_await_def VclusterReconciler_publish_def readUpstreamKubeconfig_def Let_def
    by (rule within_mono, (rule within_intros | (simp add: that; fail))+)
  then have "within (2 + 5) (handles [KApplication, KSecret, KCluster]) (VclusterReconciler_provision E cr ip info)"
    unfolding VclusterReconciler_provision_def
    by (intro within_and_then_post within_wrap within_vcluster_steps)
      (use resolveTarget_kind in \<open>fastforce dest: wrap_InrD\<close>)
  then show ?thesis by simp
qed

lemma within_vcluster:
  "within 15 (handles [KApplication, KSecret, KCluster]) (VclusterReconciler_Reconcile E key)"
  unfolding VclusterReconciler_Reconcile_def VclusterReconciler_apply_def
    VclusterReconciler_allocate_def VclusterReconciler_finalize_def
  by (rule within_mono, (rule within_intros | (simp; fail))+)

text \<open>The load balancer reconciler also reads and updates the Service it is pointed at.\<close>

fun on_service :: "event \<Rightarrow> bool" where
  "on_service (EGet k n b) = (k = KService)"
| "on_service (EUpdate (OService x) b) = True"
| "on_service e = False"

definition permitted_or_service :: "event \<Rightarrow> bool" where
  "permitted_or_service e \<longleftrightarrow>
     (permitted clusterRole e \<or> on_service e) \<and> creates [KCiliumPool] e"

lemma permitted_or_service_simps [simp]:
  "handles [KCiliumPool] e \<Longrightarrow> permitted_or_service e"
  "permitted_or_service (EGet k n b)"
  "permitted_or_service (EUpdate (OService x) b)"
  by (auto simp: permitted_or_service_def)

lemma within_load_balancer_steps [within_intros]:
  "within 2 permitted_or_service (LoadBalancerReconciler_ensureReservation E api cr)"
  "within 1 permitted_or_service (upsertCiliumPool E cr target pool ip info)"
  "within 3 permitted_or_service (patchServiceLBIP E cr ref ip)"
  "within 2 permitted_or_service (restoreServiceLBIP E cr ref)"
  unfolding LoadBalancerReconciler_ensureReservation_def upsertCiliumPool_def patchServiceLBIP_def
    restoreServiceLBIP_def Let_def
  by (rule within_mono, (rule within_intros | (simp; fail))+)+

lemma within_load_balancer:
  "within 11 permitted_or_service (LoadBalancerReconciler_Reconcile E key)"
  unfolding LoadBalancerReconciler_Reconcile_def LoadBalancerReconciler_apply_def
    LoadBalancerReconciler_target_def LoadBalancerReconciler_finalize_def
    LoadBalancerReconciler_cleanup_def Let_def
  by (rule within_mono, (rule within_intros | (simp; fail))+)

section \<open>The first call\<close>

definition starts :: "('e \<Rightarrow> bool) \<Rightarrow> ('w, 'e, 'a) io \<Rightarrow> bool" where
  "starts Q m \<longleftrightarrow> (\<forall>w tr. \<exists>e es. snd (snd (m (w, tr))) = tr @ e # es \<and> Q e)"

lemma startsD: "starts Q m \<Longrightarrow> \<exists>e es. snd (snd (m (w, tr))) = tr @ e # es \<and> Q e"
  by (simp add: starts_def)

lemma starts_call: "(\<And>r. Q (ev r)) \<Longrightarrow> starts Q (call op ev)"
  by (auto simp: starts_def call_def split: prod.splits)

lemma starts_attempt: "starts Q m \<Longrightarrow> starts Q (attempt m)"
  by (simp add: starts_def)

lemma starts_and_then:
  assumes m: "starts Q m" and f: "\<And>x. within n P (f x)"
  shows "starts Q (and_then m f)"
  unfolding starts_def
proof (intro allI)
  fix w tr
  obtain r w1 tr1 where ms: "m (w, tr) = (r, (w1, tr1))" by (rule prod_cases3)
  with startsD [OF m, of w tr] obtain e es where e: "tr1 = tr @ e # es" "Q e" by auto
  show "\<exists>e es. snd (snd (and_then m f (w, tr))) = tr @ e # es \<and> Q e"
  proof (cases r)
    case (Inl x)
    with ms e show ?thesis by (auto simp: io_run)
  next
    case (Inr x)
    with within_at [OF f, of x w1 tr1] ms e show ?thesis by (auto simp: io_run)
  qed
qed

lemma starts_service:
  "starts (\<lambda>e. \<not> permitted clusterRole e) (patchServiceLBIP E cr ref ip)"
  "starts (\<lambda>e. \<not> permitted clusterRole e) (restoreServiceLBIP E cr ref)"
  unfolding patchServiceLBIP_def restoreServiceLBIP_def kGet_def Let_def
  by (rule starts_and_then [where P = permitted_or_service], rule starts_attempt starts_call,
      (rule starts_call | (simp; fail))+, (rule within_intros | (simp; fail))+)+

section \<open>The properties\<close>

lemma run_events:
  assumes "within n P m" and "\<And>e. P e \<Longrightarrow> Q e"
  shows "\<exists>es. snd (snd (m (w, tr))) = tr @ es \<and> list_all Q es"
proof -
  have "within n Q m" by (rule within_weaken [OF assms])
  from within_at [OF this, of w tr] show ?thesis by blast
qed

text \<open>
  C9. Every run ends after a fixed number of calls, whatever the API server, clusterbook and the
  probed cluster answer: 13 for a cluster, 11 for a load balancer, 13 for an allocation and 15 for
  a virtual cluster. No handler retries, polls or pages inside a run (what is not there yet is left
  to the next one; \<open>CreateOrUpdate\<close> counts as one call), and among the calls of a cluster's run is at most one reservation.
\<close>

theorem bounded_runs:
  "(\<exists>es. snd (snd (Reconciler_Reconcile E key (w, tr))) = tr @ es
      \<and> length es \<le> 13 \<and> length (filter is_reserve es) \<le> 1)
   \<and> (\<exists>es. snd (snd (LoadBalancerReconciler_Reconcile E key (w, tr))) = tr @ es \<and> length es \<le> 11)
   \<and> (\<exists>es. snd (snd (AllocationReconciler_Reconcile E key (w, tr))) = tr @ es \<and> length es \<le> 13)
   \<and> (\<exists>es. snd (snd (VclusterReconciler_Reconcile E key (w, tr))) = tr @ es \<and> length es \<le> 15)"
proof -
  obtain es fs where
    es: "snd (snd (Reconciler_Reconcile E key (w, tr))) = tr @ es" "length es \<le> 13" and
    fs: "snd (snd (Reconciler_Reconcile E key (w, tr))) = tr @ fs" "length (filter is_reserve fs) \<le> 1"
    using within_at [OF within_cluster, of E key w tr] reconcile_reserves_at_most_once [of E key]
    unfolding emits_at_most_def by (metis snd_conv)
  then have "es = fs" by simp
  with es fs show ?thesis
    using within_at [OF within_load_balancer, of E key w tr]
      within_at [OF within_allocation, of E key w tr] within_at [OF within_vcluster, of E key w tr]
    by blast
qed

text \<open>
  C12. The permissions of the deployment and the code. Every request the cluster, the allocation
  and the virtual cluster reconciler send to the API server is granted by the ClusterRole the
  operator is deployed with: reads with the list and watch of the cache behind them, writes of the
  status as a subresource, creation and deletion of what they own. The load balancer reconciler
  needs one thing more, the Services it is pointed at, and that the role does not grant: the first
  request of patching a Service, and of restoring it on deletion, is forbidden.
\<close>

theorem permissions_cover_handlers:
  "(\<exists>es. snd (snd (Reconciler_Reconcile E key (w, tr))) = tr @ es \<and> list_all (permitted clusterRole) es)
   \<and> (\<exists>es. snd (snd (AllocationReconciler_Reconcile E key (w, tr))) = tr @ es
        \<and> list_all (permitted clusterRole) es)
   \<and> (\<exists>es. snd (snd (VclusterReconciler_Reconcile E key (w, tr))) = tr @ es
        \<and> list_all (permitted clusterRole) es)
   \<and> (\<exists>es. snd (snd (LoadBalancerReconciler_Reconcile E key (w, tr))) = tr @ es
        \<and> list_all (\<lambda>e. permitted clusterRole e \<or> on_service e) es)
   \<and> (\<exists>e es. snd (snd (patchServiceLBIP E cr ref ip (w, tr))) = tr @ e # es \<and> \<not> permitted clusterRole e)
   \<and> (\<exists>e es. snd (snd (restoreServiceLBIP E cr ref (w, tr))) = tr @ e # es \<and> \<not> permitted clusterRole e)"
  by (intro conjI run_events [OF within_cluster] run_events [OF within_allocation]
      run_events [OF within_vcluster] run_events [OF within_load_balancer]
      startsD [OF starts_service(1)] startsD [OF starts_service(2)])
    (simp_all add: permitted_or_service_def)

end
