(* ===== verification/Wiring.thy ===== *)
theory Wiring
  imports Access
begin

text \<open>
  How the program is put together: the types \<open>api/v1alpha1\<close> registers with the scheme, the
  \<open>SetupWithManager\<close> methods, and \<open>main\<close>, which starts the manager. Every call of a library is an
  event with its answer; what the libraries answer is a parameter.
\<close>

section \<open>Scheme registration\<close>

definition GroupVersion :: "string \<times> string" where
  "GroupVersion = (''clusterbook.stuttgart-things.com'', ''v1alpha1'')"

text \<open>The \<open>init\<close> functions of the package, each with the types it registers.\<close>

definition init_allocation :: "string list" where
  "init_allocation = [''ClusterbookAllocation'', ''ClusterbookAllocationList'']"

definition init_loadbalancer :: "string list" where
  "init_loadbalancer = [''ClusterbookLoadBalancer'', ''ClusterbookLoadBalancerList'']"

definition init_groupversion :: "string list" where
  "init_groupversion = [''ClusterbookCluster'', ''ClusterbookClusterList'']"

definition init_types :: "string list" where
  "init_types = [''ClusterbookProviderConfig'', ''ClusterbookProviderConfigList'']"

definition init_vcluster :: "string list" where
  "init_vcluster = [''Vcluster'', ''VclusterList'']"

text \<open>Go runs them in the order of the file names, before \<open>main\<close>.\<close>

definition SchemeBuilder :: "string list" where
  "SchemeBuilder = init_allocation @ init_loadbalancer @ init_groupversion @ init_types
     @ init_vcluster"

section \<open>The controllers\<close>

record controller =
  ct_For :: kind
  ct_Owns :: "kind list"
  ct_Watches :: "kind list"

definition Reconciler_SetupWithManager :: controller where
  "Reconciler_SetupWithManager = \<lparr>ct_For = KCluster, ct_Owns = [KSecret], ct_Watches = [KSecret]\<rparr>"

definition LoadBalancerReconciler_SetupWithManager :: controller where
  "LoadBalancerReconciler_SetupWithManager =
     \<lparr>ct_For = KLoadBalancer, ct_Owns = [], ct_Watches = []\<rparr>"

definition AllocationReconciler_SetupWithManager :: controller where
  "AllocationReconciler_SetupWithManager =
     \<lparr>ct_For = KAllocation, ct_Owns = [KConfigMap], ct_Watches = []\<rparr>"

text \<open>
  The Vcluster reconciler fills in \<open>NewTargetClient\<close> before it builds its controller: \<open>standard\<close> is
  \<open>client.New\<close> with the manager's scheme.
\<close>

definition setup_NewTargetClient :: "('cfg \<Rightarrow> 'client) option \<Rightarrow> ('cfg \<Rightarrow> 'client) \<Rightarrow> 'cfg \<Rightarrow> 'client" where
  "setup_NewTargetClient injected standard =
     (case injected of None \<Rightarrow> standard | Some f \<Rightarrow> f)"

definition VclusterReconciler_SetupWithManager :: controller where
  "VclusterReconciler_SetupWithManager =
     \<lparr>ct_For = KVcluster, ct_Owns = [KSecret, KCluster], ct_Watches = []\<rparr>"

section \<open>main\<close>

record ManagerOptions =
  mo_Scheme :: "string list"
  mo_HealthProbeBindAddress :: string
  mo_MetricsBindAddress :: string

datatype wcall =
    AddClientGoTypes
  | AddTypes "string \<times> string" "string list"
  | GetConfig
  | NewManager ManagerOptions
  | Complete controller
  | AddHealthzCheck string
  | AddReadyzCheck string
  | Start

type_synonym wevent = "wcall \<times> bool"
type_synonym 'w answers = "wcall \<Rightarrow> 'w \<Rightarrow> (err + unit) \<times> 'w"

definition lib_call :: "'w answers \<Rightarrow> wcall \<Rightarrow> ('w, wevent, unit) io" where
  "lib_call A c = call (A c) (\<lambda>r. (c, is_ok r))"

text \<open>\<open>if err := m; err != nil { ctrl.Log.Error(err, msg); os.Exit(1) }\<close>: an error ends the process.\<close>

definition orExit :: "string \<Rightarrow> ('w, 'e, 'a) io \<Rightarrow> ('w, 'e, 'a) io" where
  "orExit msg m = wrap msg m"

text \<open>\<open>utilruntime.Must\<close>, and \<open>GetConfigOrDie\<close>: an error ends the process as well.\<close>

definition orDie :: "('w, 'e, 'a) io \<Rightarrow> ('w, 'e, 'a) io" where
  "orDie m = m"

definition main_init :: "'w answers \<Rightarrow> ('w, wevent, string list) io" where
  "main_init A =
     and_then (orDie (lib_call A AddClientGoTypes)) (\<lambda>_.
     and_then (orDie (lib_call A (AddTypes GroupVersion SchemeBuilder))) (\<lambda>_.
       ret SchemeBuilder))"

text \<open>\<open>flag.StringVar\<close>: the value on the command line, or the default.\<close>

definition flagVar :: "(string \<Rightarrow> string option) \<Rightarrow> string \<Rightarrow> string \<Rightarrow> string" where
  "flagVar args name std = (case args name of None \<Rightarrow> std | Some v \<Rightarrow> v)"

definition main :: "'w answers \<Rightarrow> (string \<Rightarrow> string option) \<Rightarrow> ('w, wevent, unit) io" where
  "main A args =
     and_then (main_init A) (\<lambda>scheme.
     let metricsAddr = flagVar args ''metrics-bind-address'' '':8080'';
         probeAddr = flagVar args ''health-probe-bind-address'' '':8081'' in
     and_then (orDie (lib_call A GetConfig)) (\<lambda>_.
     and_then (orExit ''manager'' (lib_call A (NewManager
       \<lparr>mo_Scheme = scheme, mo_HealthProbeBindAddress = probeAddr, mo_MetricsBindAddress = []\<rparr>))) (\<lambda>_.
     and_then (orExit ''setup ClusterbookCluster reconciler''
       (lib_call A (Complete Reconciler_SetupWithManager))) (\<lambda>_.
     and_then (orExit ''setup ClusterbookLoadBalancer reconciler''
       (lib_call A (Complete LoadBalancerReconciler_SetupWithManager))) (\<lambda>_.
     and_then (orExit ''setup ClusterbookAllocation reconciler''
       (lib_call A (Complete AllocationReconciler_SetupWithManager))) (\<lambda>_.
     and_then (orExit ''setup Vcluster reconciler''
       (lib_call A (Complete VclusterReconciler_SetupWithManager))) (\<lambda>_.
     and_then (orExit ''set up healthz'' (lib_call A (AddHealthzCheck ''healthz''))) (\<lambda>_.
     and_then (orExit ''set up readyz'' (lib_call A (AddReadyzCheck ''readyz''))) (\<lambda>_.
       orExit ''run manager'' (lib_call A Start))))))))))"

section \<open>A sequence of calls that stops at the first error\<close>

text \<open>
  \<open>stops m cs\<close>: from every state, \<open>m\<close> makes the calls \<open>cs\<close> in order; it succeeds when all were made
  and went through, and otherwise its last call is the first that failed.
\<close>

definition stops :: "('w, wevent, 'a) io \<Rightarrow> wcall list \<Rightarrow> bool" where
  "stops m cs \<longleftrightarrow> (\<forall>s. \<exists>es. snd (snd (m s)) = snd s @ es \<and> prefix (map fst es) cs
     \<and> (if is_ok (fst (m s)) then map fst es = cs \<and> list_all snd es
        else es \<noteq> [] \<and> list_all snd (butlast es) \<and> \<not> snd (last es)))"

named_theorems stops_intros \<open>rules for sequences of calls\<close>

lemma stops_ret [stops_intros]: "stops (ret x) []"
  by (simp add: stops_def ret_def)

lemma stops_call [stops_intros]: "stops (lib_call A c) [c]"
  unfolding stops_def
proof
  fix s
  show "\<exists>es. snd (snd (lib_call A c s)) = snd s @ es \<and> prefix (map fst es) [c]
     \<and> (if is_ok (fst (lib_call A c s)) then map fst es = [c] \<and> list_all snd es
        else es \<noteq> [] \<and> list_all snd (butlast es) \<and> \<not> snd (last es))"
    by (intro exI [of _ "[(c, is_ok (fst (A c (fst s))))]"])
      (auto simp: lib_call_def call_def split: prod.splits)
qed

lemma stops_exit [stops_intros]:
  "stops m cs \<Longrightarrow> stops (orExit msg m) cs" "stops m cs \<Longrightarrow> stops (orDie m) cs"
proof -
  have "is_ok (fst (wrap msg m s)) = is_ok (fst (m s))" for s
    by (auto simp: wrap_def split: prod.splits sum.splits)
  then show "stops m cs \<Longrightarrow> stops (orExit msg m) cs" "stops m cs \<Longrightarrow> stops (orDie m) cs"
    by (simp_all add: stops_def orExit_def orDie_def)
qed

lemma stopsD:
  assumes "stops m cs" and "m (w, tr) = (r, (w', tr'))"
  obtains es where "tr' = tr @ es" "prefix (map fst es) cs"
    "if is_ok r then map fst es = cs \<and> list_all snd es
     else es \<noteq> [] \<and> list_all snd (butlast es) \<and> \<not> snd (last es)"
  using assms unfolding stops_def by (metis fst_conv snd_conv)

lemma stops_and_then [stops_intros]:
  assumes m: "stops m cs" and f: "\<And>x. stops (f x) ds"
  shows "stops (and_then m f) (cs @ ds)"
  unfolding stops_def
proof
  fix s
  obtain r w1 tr1 where ms: "m s = (r, (w1, tr1))" by (rule prod_cases3)
  with stopsD [OF m, of "fst s" "snd s"] obtain es where es: "tr1 = snd s @ es" "prefix (map fst es) cs"
      "if is_ok r then map fst es = cs \<and> list_all snd es
       else es \<noteq> [] \<and> list_all snd (butlast es) \<and> \<not> snd (last es)"
    by (metis prod.collapse)
  show "\<exists>es. snd (snd (and_then m f s)) = snd s @ es \<and> prefix (map fst es) (cs @ ds)
     \<and> (if is_ok (fst (and_then m f s)) then map fst es = cs @ ds \<and> list_all snd es
        else es \<noteq> [] \<and> list_all snd (butlast es) \<and> \<not> snd (last es))"
  proof (cases r)
    case (Inl e)
    with ms es show ?thesis by (auto simp: io_run)
  next
    case (Inr x)
    obtain q w2 tr2 where fs: "f x (w1, tr1) = (q, (w2, tr2))" by (rule prod_cases3)
    from stopsD [OF f fs] obtain fs' where fs': "tr2 = tr1 @ fs'" "prefix (map fst fs') ds"
        "if is_ok q then map fst fs' = ds \<and> list_all snd fs'
         else fs' \<noteq> [] \<and> list_all snd (butlast fs') \<and> \<not> snd (last fs')" .
    have "and_then m f s = (q, (w2, tr2))" using ms fs Inr by (simp add: io_run)
    with es fs' Inr show ?thesis
      by (intro exI [of _ "es @ fs'"]) (auto simp: butlast_append split: if_splits)
  qed
qed

text \<open>The calls of \<open>main\<close>, when none fails.\<close>

definition startup :: "(string \<Rightarrow> string option) \<Rightarrow> wcall list" where
  "startup args =
     [AddClientGoTypes, AddTypes GroupVersion SchemeBuilder, GetConfig,
      NewManager \<lparr>mo_Scheme = SchemeBuilder,
        mo_HealthProbeBindAddress = flagVar args ''health-probe-bind-address'' '':8081'',
        mo_MetricsBindAddress = []\<rparr>,
      Complete Reconciler_SetupWithManager, Complete LoadBalancerReconciler_SetupWithManager,
      Complete AllocationReconciler_SetupWithManager, Complete VclusterReconciler_SetupWithManager,
      AddHealthzCheck ''healthz'', AddReadyzCheck ''readyz'', Start]"

lemma stops_main: "stops (main A args) (startup args)"
proof -
  have init: "stops (and_then (main_init A) f)
      ([AddClientGoTypes, AddTypes GroupVersion SchemeBuilder] @ cs)"
    if "stops (f SchemeBuilder) cs" for f :: "string list \<Rightarrow> ('a, wevent, unit) io" and cs
  proof -
    have "stops (and_then (orDie (lib_call A AddClientGoTypes)) (\<lambda>_.
        and_then (orDie (lib_call A (AddTypes GroupVersion SchemeBuilder))) (\<lambda>_. f SchemeBuilder)))
        ([AddClientGoTypes] @ [AddTypes GroupVersion SchemeBuilder] @ cs)"
      by (intro stops_intros that)
    then show ?thesis by (simp add: main_init_def and_then_assoc)
  qed
  have "stops (main A args)
      ([AddClientGoTypes, AddTypes GroupVersion SchemeBuilder] @ [GetConfig]
       @ [NewManager \<lparr>mo_Scheme = SchemeBuilder,
            mo_HealthProbeBindAddress = flagVar args ''health-probe-bind-address'' '':8081'',
            mo_MetricsBindAddress = []\<rparr>]
       @ [Complete Reconciler_SetupWithManager] @ [Complete LoadBalancerReconciler_SetupWithManager]
       @ [Complete AllocationReconciler_SetupWithManager]
       @ [Complete VclusterReconciler_SetupWithManager]
       @ [AddHealthzCheck ''healthz''] @ [AddReadyzCheck ''readyz''] @ [Start])"
    unfolding main_def Let_def by (intro init stops_intros)
  then show ?thesis by (simp add: startup_def)
qed

section \<open>The properties\<close>

definition controllers :: "controller list" where
  "controllers = [Reconciler_SetupWithManager, LoadBalancerReconciler_SetupWithManager,
     AllocationReconciler_SetupWithManager, VclusterReconciler_SetupWithManager]"

text \<open>The name of a kind of the API group, empty for the kinds of others.\<close>

definition api_kind :: "kind \<Rightarrow> string" where
  "api_kind k = (case k of
     KCluster \<Rightarrow> ''ClusterbookCluster'' | KLoadBalancer \<Rightarrow> ''ClusterbookLoadBalancer''
   | KAllocation \<Rightarrow> ''ClusterbookAllocation'' | KVcluster \<Rightarrow> ''Vcluster'' | _ \<Rightarrow> [])"

text \<open>
  C24. Starting up. \<open>main\<close> makes its calls in one order: the types are registered, then the manager
  is made with the scheme they are in, then the four controllers and both health checks are added,
  and last the manager is started. It stops at the first call that fails: nothing after it
  happens, in particular the manager never runs with a controller missing; and it returns without
  an error exactly when every call went through. The flag \<open>metrics-bind-address\<close> has no effect.
\<close>

theorem startup_stops_at_first_error:
  "\<exists>es. snd (snd (main A args (w, tr))) = tr @ es
    \<and> prefix (map fst es) (startup args)
    \<and> (if is_ok (fst (main A args (w, tr)))
       then map fst es = startup args \<and> list_all snd es
       else es \<noteq> [] \<and> list_all snd (butlast es) \<and> \<not> snd (last es))
    \<and> main A (args(''metrics-bind-address'' := v)) = main A args"
proof -
  have "main A (args(''metrics-bind-address'' := v)) = main A args"
    by (simp add: main_def flagVar_def Let_def)
  with stops_main [of A args] show ?thesis unfolding stops_def by fastforce
qed

text \<open>
  A change of the Secret \<open>k\<close> wakes the cluster \<open>cr\<close>: its controller watches Secrets, and the function
  the watch maps them with names \<open>cr\<close>, on the listing it gets in \<open>w\<close>.
\<close>

definition wakes :: "'w env \<Rightarrow> 'w \<Rightarrow> ClusterbookCluster \<Rightarrow> objkey \<Rightarrow> bool" where
  "wakes E w cr k \<longleftrightarrow> KSecret \<in> set (ct_Watches Reconciler_SetupWithManager)
     \<and> (case fst (clustersForSecret E (fst k) (snd k) (w, [])) of
          Inl e \<Rightarrow> False | Inr keys \<Rightarrow> ([], om_Name (cc_Meta cr)) \<in> set keys)"

definition wakesOnReads :: "'w env \<Rightarrow> 'w \<Rightarrow> ClusterbookCluster \<Rightarrow> event \<Rightarrow> bool" where
  "wakesOnReads E w cr e = (case e of EGet KSecret k b \<Rightarrow> wakes E w cr k | _ \<Rightarrow> True)"

lemma wakesOnReads_simps [simp]:
  "wakesOnReads E w cr (EGet KSecret k b) \<longleftrightarrow> wakes E w cr k"
  "k' \<noteq> KSecret \<Longrightarrow> wakesOnReads E w cr (EGet k' n b)"
  "wakesOnReads E w cr (EUpdate x b)" "wakesOnReads E w cr (EUpsert x b)" "wakesOnReads E w cr (EStatus x b)"
  "wakesOnReads E w cr (EDelete k' n b)" "wakesOnReads E w cr (EProbe c b)" "wakesOnReads E w cr (EHttp r b)"
  "wakesOnReads E w cr (ETarget c b)"
  by (simp_all add: wakesOnReads_def split: kind.split)

lemma wakes_referenced:
  assumes "k_List (ev_Clusters E) w = (Inr items, w')" and "cr \<in> set items"
    and "referencesSecret cr (fst k) (snd k)"
  shows "wakes E w cr k"
  using assms by (auto simp: wakes_def clustersForSecret_def kList_def io_defs Reconciler_SetupWithManager_def)

lemma referenced:
  "cc_KubeconfigSecretRef (cc_Spec cr) = Some ref \<Longrightarrow> referencesSecret cr (skr_Namespace ref) (skr_Name ref)"
  "cc_ExistingSecretRef (cc_Spec cr) = Some sref \<Longrightarrow> referencesSecret cr (sor_Namespace sref) (sor_Name sref)"
  by (simp_all add: referencesSecret_def)

text \<open>The Secrets a cluster's run reads are those its specification refers to.\<close>

lemma cluster_reads:
  assumes "k_List (ev_Clusters E) w = (Inr items, w')" and "cr \<in> set items"
  shows "emits (wakesOnReads E w cr) (Reconciler_apply E api cr)"
    and "emits (wakesOnReads E w cr) (Reconciler_finalize E cr api)"
proof -
  note wake = wakes_referenced [OF assms]
  have load: "emits (wakesOnReads E w cr) (loadKubeconfig E ref)"
    if "cc_KubeconfigSecretRef (cc_Spec cr) = Some ref" for ref
    unfolding loadKubeconfig_def Let_def
    by (intro emits_struct emits_kGet) (simp add: wake referenced(1) [OF that])
  have existing: "emits (wakesOnReads E w cr) (enrichExistingSecret E cr sref alloc info)"
      "emits (wakesOnReads E w cr) (stripEnrichedMetadata E sref)"
    if "cc_ExistingSecretRef (cc_Spec cr) = Some sref" for sref alloc info
    unfolding enrichExistingSecret_def stripEnrichedMetadata_def Let_def
    by (intro emits_struct emits_kGet emits_kUpdate; simp add: wake referenced(2) [OF that])+
  have alloc: "emits (wakesOnReads E w cr) (Reconciler_allocate E api cr)"
    unfolding Reconciler_allocate_def Reconciler_reconcileDNSDrift_def Let_def
    by (intro emits_struct emits_optional clusterReservation.ensure_emits_http emits_api_calls; simp)
  show "emits (wakesOnReads E w cr) (Reconciler_apply E api cr)"
    unfolding Reconciler_apply_def Reconciler_render_def Reconciler_enrich_def upsertArgoSecret_def Let_def
    by (intro emits_struct emits_ignore emits_kStatusUpdate emits_kUpsert emits_Reconciler_gate alloc load existing; simp)
  show "emits (wakesOnReads E w cr) (Reconciler_finalize E cr api)"
    unfolding Reconciler_finalize_def Reconciler_cleanup_def
    by (intro emits_struct emits_ignore emits_kDelete emits_kUpdate emits_api_calls existing; simp)
qed

text \<open>
  C17. What the controllers watch, against what the runs read and write. Each of the four kinds has
  exactly one controller, is registered with the scheme together with its list, and may be listed
  and watched with the role the operator is deployed with, like every kind a controller owns or
  watches. No input of a cluster is missed: every Secret the body of a run or a finalization over a
  listed cluster reads is one whose change wakes that cluster through the watch on Secrets. (The
  one other Secret of a run, the CA of a provider configuration, is read before the body and is
  not watched.) What a cluster's, an allocation's or a virtual cluster's run creates
  it owns, so that a change of it is reconciled; the exceptions are the two unstructured kinds, the
  Cilium pool and the ArgoCD Application, which no controller watches or owns. Apart from the
  clusters' Secrets nothing is watched: what the other three only read is seen at their next run.
\<close>

theorem controllers_watch_what_they_create:
  assumes "k_List (ev_Clusters E) w0 = (Inr items, w1)" and "cr \<in> set items"
  shows "map ct_For controllers = [KCluster, KLoadBalancer, KAllocation, KVcluster]
   \<and> map ct_Watches controllers = [[KSecret], [], [], []]
   \<and> list_all (\<lambda>c. KCiliumPool \<notin> set (ct_For c # ct_Owns c @ ct_Watches c)
        \<and> KApplication \<notin> set (ct_For c # ct_Owns c @ ct_Watches c)) controllers
   \<and> list_all (\<lambda>c. api_kind (ct_For c) \<in> set SchemeBuilder
        \<and> api_kind (ct_For c) @ ''List'' \<in> set SchemeBuilder
        \<and> list_all (\<lambda>k. allows clusterRole k [] [''list'', ''watch''])
            (ct_For c # ct_Owns c @ ct_Watches c)) controllers
   \<and> (\<exists>es. snd (snd (Reconciler_apply E api cr (w, tr))) = tr @ es \<and> list_all (wakesOnReads E w0 cr) es)
   \<and> (\<exists>es. snd (snd (Reconciler_finalize E cr api (w, tr))) = tr @ es \<and> list_all (wakesOnReads E w0 cr) es)
   \<and> (\<exists>es. snd (snd (Reconciler_Reconcile E key (w, tr))) = tr @ es
        \<and> list_all (creates (ct_Owns Reconciler_SetupWithManager)) es)
   \<and> (\<exists>es. snd (snd (LoadBalancerReconciler_Reconcile E key (w, tr))) = tr @ es
        \<and> list_all (creates (KCiliumPool # ct_Owns LoadBalancerReconciler_SetupWithManager)) es)
   \<and> (\<exists>es. snd (snd (AllocationReconciler_Reconcile E key (w, tr))) = tr @ es
        \<and> list_all (creates (ct_Owns AllocationReconciler_SetupWithManager)) es)
   \<and> (\<exists>es. snd (snd (VclusterReconciler_Reconcile E key (w, tr))) = tr @ es
        \<and> list_all (creates (KApplication # ct_Owns VclusterReconciler_SetupWithManager)) es)"
  (is "?for \<and> ?watches \<and> ?none \<and> ?known \<and> ?apply \<and> ?finalize \<and> ?runs")
proof (intro conjI)
  note setups = controllers_def Reconciler_SetupWithManager_def LoadBalancerReconciler_SetupWithManager_def
    AllocationReconciler_SetupWithManager_def VclusterReconciler_SetupWithManager_def
  show ?for ?watches ?none by (simp_all add: setups)
  show ?known by code_simp
  show ?apply ?finalize
    using cluster_reads [OF assms] unfolding emits_def by (metis snd_conv)+
qed (rule run_events [OF within_cluster] run_events [OF within_load_balancer]
      run_events [OF within_allocation] run_events [OF within_vcluster],
    simp add: permitted_or_service_def Reconciler_SetupWithManager_def
      LoadBalancerReconciler_SetupWithManager_def AllocationReconciler_SetupWithManager_def
      VclusterReconciler_SetupWithManager_def split: event.splits)+

text \<open>A registration-only cluster whose Secret is missing: the run reads it, and its change wakes the cluster.\<close>

definition wokenCluster :: ClusterbookCluster where
  "wokenCluster = exampleCluster_CR (exampleSpec\<lparr>cc_SkipReservation := True\<rparr>) []"

definition wokenWorld :: mem where
  "wokenWorld = emptyMem\<lparr>mm_Clusters := fmap_of_list [(([], ''c1''), wokenCluster)]\<rparr>"

theorem controllers_watch_what_they_create_witness:
  "\<exists>k. snd (snd (Reconciler_apply (memEnv exampleLib) None wokenCluster (wokenWorld, []))) =
      [EGet KSecret k False]
    \<and> wakes (memEnv exampleLib) wokenWorld wokenCluster k"
proof -
  let ?E = "memEnv exampleLib"
  have list: "\<exists>items w. k_List (ev_Clusters ?E) wokenWorld = (Inr items, w) \<and> wokenCluster \<in> set items"
    by (simp add: memClusters_def mem_client_def wokenWorld_def)
  obtain k where run: "snd (snd (Reconciler_apply ?E None wokenCluster (wokenWorld, []))) = [EGet KSecret k False]"
    by (simp add: Reconciler_apply_def Reconciler_allocate_def wokenCluster_def Reconciler_render_def
      isRegistrationOnly_def loadKubeconfig_def run_defs example_defs wokenWorld_def emptyMem_def)
  from list obtain items v where "k_List (ev_Clusters ?E) wokenWorld = (Inr items, v)" "wokenCluster \<in> set items"
    by blast
  note watched = controllers_watch_what_they_create [OF this, of None wokenWorld "[]"]
  have "\<exists>es. snd (snd (Reconciler_apply ?E None wokenCluster (wokenWorld, []))) = [] @ es
      \<and> list_all (wakesOnReads ?E wokenWorld wokenCluster) es"
    by (rule watched [where key = "([], [])", THEN conjunct2, THEN conjunct2, THEN conjunct2, THEN conjunct2,
      THEN conjunct1])
  with run have "wakes ?E wokenWorld wokenCluster k" by simp
  with run show ?thesis by blast
qed

end
