(* ===== verification/GoMemory.thy ===== *)
theory GoMemory
  imports Prelude
begin

text \<open>
  Go values in memory, for the code whose point is aliasing: the deep copies of
  \<open>zz_generated.deepcopy.go\<close>. A struct is the list of its fields; a pointer, a map and a slice are
  an address or nil; memory is the list of its cells, so a fresh address is the length of memory.
  \<open>denote\<close> reads the value a variable of some type stands for, together with the addresses it is
  made of (its footprint); the combinators are the statements the generated functions consist of;
  \<open>copies\<close> is the contract of a function that copies deeply, with one rule for each combinator.
\<close>

section \<open>Values, types and memory\<close>

type_synonym addr = nat

datatype gv =
    GStr string
  | GInt int
  | GBool bool
  | GStruct "(string \<times> gv) list"
  | GPtr "addr option"
  | GMap "addr option"
  | GSlice "addr option"

datatype cell = CVal gv | CMap smap | CArr "gv list"

type_synonym heap = "cell list"

text \<open>The types of fields; \<open>TLib n\<close> is the type \<open>n\<close> of a library, whose fields are not known here.\<close>

datatype gtype =
    TStr
  | TInt
  | TBool
  | TStruct "(string \<times> gtype) list"
  | TPtr gtype
  | TMap
  | TSlice gtype
  | TLib string

text \<open>What a variable stands for, with no addresses left in it.\<close>

datatype val =
    VStr string
  | VInt int
  | VBool bool
  | VStruct "(string \<times> val) list"
  | VNil
  | VPtr val
  | VMap smap
  | VSlice "val list"

text \<open>\<open>None\<close> is a panic: a nil or dangling address, or a value that is not of the static type.\<close>

type_synonym 'a mem = "heap \<Rightarrow> ('a \<times> heap) option"

definition mret :: "'a \<Rightarrow> 'a mem" where
  "mret x = (\<lambda>h. Some (x, h))"

definition mfail :: "'a mem" where
  "mfail = (\<lambda>h. None)"

definition mbind :: "'a mem \<Rightarrow> ('a \<Rightarrow> 'b mem) \<Rightarrow> 'b mem" where
  "mbind m f = (\<lambda>h. case m h of None \<Rightarrow> None | Some (x, h') \<Rightarrow> f x h')"

definition new :: "cell \<Rightarrow> addr mem" where
  "new c = (\<lambda>h. Some (length h, h @ [c]))"

definition load :: "addr \<Rightarrow> cell mem" where
  "load a = (\<lambda>h. if a < length h then Some (h ! a, h) else None)"

definition store :: "addr \<Rightarrow> cell \<Rightarrow> unit mem" where
  "store a c = (\<lambda>h. if a < length h then Some ((), h[a := c]) else None)"

text \<open>\<open>make([]T, n)\<close>, \<open>s[i]\<close> and \<open>s[i] = v\<close>.\<close>

definition getElem :: "addr \<Rightarrow> nat \<Rightarrow> gv mem" where
  "getElem a i = mbind (load a) (\<lambda>c. case c of
     CArr xs \<Rightarrow> if i < length xs then mret (xs ! i) else mfail | _ \<Rightarrow> mfail)"

definition setElem :: "addr \<Rightarrow> nat \<Rightarrow> gv \<Rightarrow> unit mem" where
  "setElem a i y = mbind (load a) (\<lambda>c. case c of
     CArr xs \<Rightarrow> if i < length xs then store a (CArr (xs[i := y])) else mfail | _ \<Rightarrow> mfail)"

lemmas mem_defs = mret_def mfail_def mbind_def new_def load_def store_def getElem_def setElem_def

section \<open>What a variable stands for\<close>

text \<open>
  The libraries whose types the API uses: how a value of one of their types is read, which of
  their types hold no references, and their own \<open>DeepCopyInto\<close>.
\<close>

record golib =
  gl_read :: "string \<Rightarrow> heap \<Rightarrow> gv \<Rightarrow> (val \<times> addr list) option"
  gl_flat :: "string \<Rightarrow> bool"
  gl_copy :: "string \<Rightarrow> gv \<Rightarrow> gv mem"

fun denote_fields ::
    "heap \<Rightarrow> (string \<times> (heap \<Rightarrow> gv \<Rightarrow> (val \<times> addr list) option)) list \<Rightarrow> (string \<times> gv) list
     \<Rightarrow> ((string \<times> val) list \<times> addr list) option" where
  "denote_fields h [] [] = Some ([], [])"
| "denote_fields h ((k, d) # fs) ((k', x) # xs) =
     (if k \<noteq> k' then None
      else case d h x of
        None \<Rightarrow> None
      | Some (v, A) \<Rightarrow>
          (case denote_fields h fs xs of
             None \<Rightarrow> None | Some (vs, B) \<Rightarrow> Some ((k, v) # vs, A @ B)))"
| "denote_fields h _ _ = None"

fun denote_elems ::
    "(gv \<Rightarrow> (val \<times> addr list) option) \<Rightarrow> gv list \<Rightarrow> (val list \<times> addr list) option" where
  "denote_elems d [] = Some ([], [])"
| "denote_elems d (x # xs) =
     (case d x of
        None \<Rightarrow> None
      | Some (v, A) \<Rightarrow>
          (case denote_elems d xs of None \<Rightarrow> None | Some (vs, B) \<Rightarrow> Some (v # vs, A @ B)))"

primrec denote :: "golib \<Rightarrow> gtype \<Rightarrow> heap \<Rightarrow> gv \<Rightarrow> (val \<times> addr list) option" where
  "denote L TStr = (\<lambda>h v. case v of GStr s \<Rightarrow> Some (VStr s, []) | _ \<Rightarrow> None)"
| "denote L TInt = (\<lambda>h v. case v of GInt i \<Rightarrow> Some (VInt i, []) | _ \<Rightarrow> None)"
| "denote L TBool = (\<lambda>h v. case v of GBool b \<Rightarrow> Some (VBool b, []) | _ \<Rightarrow> None)"
| "denote L (TStruct fs) = (\<lambda>h v. case v of
     GStruct xs \<Rightarrow> map_option (map_prod VStruct id)
       (denote_fields h (map (map_prod id (denote L)) fs) xs)
   | _ \<Rightarrow> None)"
| "denote L (TPtr t) = (\<lambda>h v. case v of
     GPtr None \<Rightarrow> Some (VNil, [])
   | GPtr (Some a) \<Rightarrow>
       if a < length h then
         (case h ! a of CVal x \<Rightarrow> map_option (map_prod VPtr (Cons a)) (denote L t h x) | _ \<Rightarrow> None)
       else None
   | _ \<Rightarrow> None)"
| "denote L TMap = (\<lambda>h v. case v of
     GMap None \<Rightarrow> Some (VNil, [])
   | GMap (Some a) \<Rightarrow>
       if a < length h then (case h ! a of CMap m \<Rightarrow> Some (VMap m, [a]) | _ \<Rightarrow> None) else None
   | _ \<Rightarrow> None)"
| "denote L (TSlice t) = (\<lambda>h v. case v of
     GSlice None \<Rightarrow> Some (VNil, [])
   | GSlice (Some a) \<Rightarrow>
       if a < length h then
         (case h ! a of
            CArr xs \<Rightarrow> map_option (map_prod VSlice (Cons a)) (denote_elems (denote L t h) xs)
          | _ \<Rightarrow> None)
       else None
   | _ \<Rightarrow> None)"
| "denote L (TLib n) = gl_read L n"

section \<open>The statements of a deep copy\<close>

text \<open>\<open>out.k = y\<close>\<close>

definition setField :: "string \<Rightarrow> gv \<Rightarrow> (string \<times> gv) list \<Rightarrow> (string \<times> gv) list" where
  "setField k y xs = map (\<lambda>(k', x). (k', if k' = k then y else x)) xs"

text \<open>The statements of a function in order, each with the field it reads and writes.\<close>

fun copyFields ::
    "(string \<times> (gv \<Rightarrow> gv mem)) list \<Rightarrow> (string \<times> gv) list \<Rightarrow> (string \<times> gv) list
     \<Rightarrow> (string \<times> gv) list mem" where
  "copyFields [] xs ys = mret ys"
| "copyFields ((k, f) # ss) xs ys =
     (case map_of xs k of
        None \<Rightarrow> mfail
      | Some x \<Rightarrow> mbind (f x) (\<lambda>y. copyFields ss xs (setField k y ys)))"

text \<open>\<open>*out = *in\<close>, then the statements.\<close>

definition structCopy :: "(string \<times> (gv \<Rightarrow> gv mem)) list \<Rightarrow> gv \<Rightarrow> gv mem" where
  "structCopy ss v = (case v of
     GStruct xs \<Rightarrow> mbind (copyFields ss xs xs) (\<lambda>ys. mret (GStruct ys))
   | _ \<Rightarrow> mfail)"

text \<open>\<open>out.F = in.F\<close> and \<open>**out = **in\<close>: plain assignment.\<close>

definition assign :: "gv \<Rightarrow> gv mem" where
  "assign v = mret v"

text \<open>
  \<open>if in.F != nil { in, out := &in.F, &out.F; *out = new(T); (*in).DeepCopyInto(*out) }\<close>, with
  \<open>f\<close> for the last statement; a nil field is what \<open>*out = *in\<close> left there.
\<close>

definition copyPtr :: "(gv \<Rightarrow> gv mem) \<Rightarrow> gv \<Rightarrow> gv mem" where
  "copyPtr f v = (case v of
     GPtr None \<Rightarrow> mret (GPtr None)
   | GPtr (Some a) \<Rightarrow>
       mbind (new (CVal (GStruct []))) (\<lambda>b.
       mbind (load a) (\<lambda>c. case c of
         CVal x \<Rightarrow> mbind (f x) (\<lambda>y. mbind (store b (CVal y)) (\<lambda>_. mret (GPtr (Some b))))
       | _ \<Rightarrow> mfail))
   | _ \<Rightarrow> mfail)"

text \<open>\<open>for key, val := range *in { (*out)[key] = val }\<close>\<close>

definition copyEntries :: "smap \<Rightarrow> smap" where
  "copyEntries m = fold (\<lambda>k out. fmupd k (idx m k) out) (sorted_list_of_fset (fmdom m)) fmempty"

definition copyMap :: "gv \<Rightarrow> gv mem" where
  "copyMap v = (case v of
     GMap None \<Rightarrow> mret (GMap None)
   | GMap (Some a) \<Rightarrow>
       mbind (new (CMap fmempty)) (\<lambda>b.
       mbind (load a) (\<lambda>c. case c of
         CMap m \<Rightarrow> mbind (store b (CMap (copyEntries m))) (\<lambda>_. mret (GMap (Some b)))
       | _ \<Rightarrow> mfail))
   | _ \<Rightarrow> mfail)"

text \<open>\<open>for i := range *in { (*in)[i].DeepCopyInto(&(*out)[i]) }\<close>\<close>

fun copyElems :: "(gv \<Rightarrow> gv mem) \<Rightarrow> addr \<Rightarrow> addr \<Rightarrow> nat list \<Rightarrow> unit mem" where
  "copyElems f a b [] = mret ()"
| "copyElems f a b (i # is) =
     mbind (getElem a i) (\<lambda>x. mbind (f x) (\<lambda>y. mbind (setElem b i y) (\<lambda>_. copyElems f a b is)))"

definition copySlice :: "(gv \<Rightarrow> gv mem) \<Rightarrow> gv \<Rightarrow> gv mem" where
  "copySlice f v = (case v of
     GSlice None \<Rightarrow> mret (GSlice None)
   | GSlice (Some a) \<Rightarrow>
       mbind (load a) (\<lambda>c. case c of
         CArr xs \<Rightarrow>
           mbind (new (CArr (replicate (length xs) (GStruct [])))) (\<lambda>b.
           mbind (copyElems f a b [0..<length xs]) (\<lambda>_. mret (GSlice (Some b))))
       | _ \<Rightarrow> mfail)
   | _ \<Rightarrow> mfail)"

text \<open>
  \<open>DeepCopy\<close>: nil for nil, else a new variable \<open>DeepCopyInto\<close> writes into. \<open>DeepCopyObject\<close> returns
  an interface: nil, or the dynamic type with the pointer.
\<close>

definition deepCopyOf :: "(gv \<Rightarrow> gv mem) \<Rightarrow> gv \<Rightarrow> gv mem" where
  "deepCopyOf into p = copyPtr into p"

definition objectOf :: "string \<Rightarrow> (gv \<Rightarrow> gv mem) \<Rightarrow> gv \<Rightarrow> (string \<times> addr) option mem" where
  "objectOf name copy p = mbind (copy p) (\<lambda>c. case c of
     GPtr (Some b) \<Rightarrow> mret (Some (name, b)) | _ \<Rightarrow> mret None)"

section \<open>The contract\<close>

text \<open>
  Documented of the libraries: reading a value visits only the cells of its footprint, a flat type
  has none, and their \<open>DeepCopyInto\<close> is a deep copy.
\<close>

definition unchanged :: "addr set \<Rightarrow> heap \<Rightarrow> heap \<Rightarrow> bool" where
  "unchanged A h h' \<longleftrightarrow> (\<forall>a \<in> A. a < length h' \<and> h' ! a = h ! a)"

definition readsLocally :: "(heap \<Rightarrow> gv \<Rightarrow> (val \<times> addr list) option) \<Rightarrow> bool" where
  "readsLocally d \<longleftrightarrow> (\<forall>h v x A. d h v = Some (x, A) \<longrightarrow> set A \<subseteq> {..<length h}
     \<and> (\<forall>h'. unchanged (set A) h h' \<longrightarrow> d h' v = Some (x, A)))"

text \<open>
  \<open>f\<close> copies deeply: it does not panic, leaves every existing cell as it is, and returns the same
  value, made of new cells only.
\<close>

definition copying ::
    "(heap \<Rightarrow> gv \<Rightarrow> (val \<times> addr list) option) \<Rightarrow> (gv \<Rightarrow> gv mem) \<Rightarrow> bool" where
  "copying d f \<longleftrightarrow> (\<forall>h v x A. d h v = Some (x, A) \<longrightarrow>
     (\<exists>v' h' A'. f v h = Some (v', h') \<and> prefix h h' \<and> d h' v' = Some (x, A')
        \<and> set A' \<subseteq> {length h..<length h'}))"

definition golib_laws :: "golib \<Rightarrow> bool" where
  "golib_laws L \<longleftrightarrow> (\<forall>n. readsLocally (gl_read L n) \<and> copying (gl_read L n) (gl_copy L n)
     \<and> (gl_flat L n \<longrightarrow> (\<forall>h v x A. gl_read L n h v = Some (x, A) \<longrightarrow> A = [])))"

definition copies :: "golib \<Rightarrow> gtype \<Rightarrow> (gv \<Rightarrow> gv mem) \<Rightarrow> bool" where
  "copies L t f \<longleftrightarrow> copying (denote L t) f"

text \<open>A type with no reference in it.\<close>

primrec flat :: "golib \<Rightarrow> gtype \<Rightarrow> bool" where
  "flat L TStr = True"
| "flat L TInt = True"
| "flat L TBool = True"
| "flat L (TStruct fs) = list_all snd (map (map_prod id (flat L)) fs)"
| "flat L (TPtr t) = False"
| "flat L TMap = False"
| "flat L (TSlice t) = False"
| "flat L (TLib n) = gl_flat L n"

end
