(* ===== verification/GoCopying.thy ===== *)
theory GoCopying
  imports GoMemory
begin

text \<open>
  The rules of the contract \<open>copies\<close>: one for each statement a generated deep copy is made of, so
  that a function copies deeply because its statements cover the references of its type. From the
  contract follows what callers rely on: writing through the copy never changes the original, nor
  the other way round.
\<close>

named_theorems copy_rules \<open>which function copies which type deeply\<close>

section \<open>Reading is local\<close>

lemma unchanged_mono: "unchanged B h h' \<Longrightarrow> A \<subseteq> B \<Longrightarrow> unchanged A h h'"
  by (auto simp: unchanged_def)

lemma unchanged_prefix: "prefix h h' \<Longrightarrow> A \<subseteq> {..<length h} \<Longrightarrow> unchanged A h h'"
  by (auto simp: unchanged_def prefix_def nth_append)

lemma readsLocallyI:
  assumes "\<And>h v x A. d h v = Some (x, A) \<Longrightarrow> set A \<subseteq> {..<length h}"
    and "\<And>h v x A h'. d h v = Some (x, A) \<Longrightarrow> unchanged (set A) h h' \<Longrightarrow> d h' v = Some (x, A)"
  shows "readsLocally d"
  using assms unfolding readsLocally_def by blast

lemma readsLocallyD:
  assumes "readsLocally d" and "d h v = Some (x, A)"
  shows "set A \<subseteq> {..<length h}" and "unchanged (set A) h h' \<Longrightarrow> d h' v = Some (x, A)"
  using assms unfolding readsLocally_def by blast+

lemma unchanged_Un [simp]: "unchanged (A \<union> B) h h' \<longleftrightarrow> unchanged A h h' \<and> unchanged B h h'"
  by (auto simp: unchanged_def)

lemma unchanged_insert [simp]:
  "unchanged (insert a A) h h' \<longleftrightarrow> a < length h' \<and> h' ! a = h ! a \<and> unchanged A h h'"
  by (auto simp: unchanged_def)

lemma unchanged_empty [simp]: "unchanged {} h h'"
  by (simp add: unchanged_def)

lemma denote_fields_local:
  assumes "\<forall>d \<in> set (map snd fs). readsLocally d" and "denote_fields h fs xs = Some (vs, A)"
  shows "set A \<subseteq> {..<length h}
    \<and> (\<forall>h'. unchanged (set A) h h' \<longrightarrow> denote_fields h' fs xs = Some (vs, A))"
  using assms
proof (induction h fs xs arbitrary: vs A rule: denote_fields.induct)
  case (2 h k d fs k' x xs)
  from 2(3) obtain v B ws C where *: "k = k'" "d h x = Some (v, B)"
      "denote_fields h fs xs = Some (ws, C)" "vs = (k, v) # ws" "A = B @ C"
    by (auto split: if_splits option.splits prod.splits)
  have d: "readsLocally d" and r: "\<forall>d \<in> set (map snd fs). readsLocally d" using 2(2) by auto
  have ih: "set C \<subseteq> {..<length h}
      \<and> (\<forall>h'. unchanged (set C) h h' \<longrightarrow> denote_fields h' fs xs = Some (ws, C))"
    using 2(1) *(1-3) r by simp
  from readsLocallyD [OF d *(2)] ih show ?case by (auto simp: *)
qed auto

lemma denote_elems_local:
  assumes "readsLocally d" and "denote_elems (d h) xs = Some (vs, A)"
  shows "set A \<subseteq> {..<length h}
    \<and> (\<forall>h'. unchanged (set A) h h' \<longrightarrow> denote_elems (d h') xs = Some (vs, A))"
  using assms(2)
proof (induction xs arbitrary: vs A)
  case (Cons x xs)
  from Cons.prems obtain v B ws C where *: "d h x = Some (v, B)"
      "denote_elems (d h) xs = Some (ws, C)" "vs = v # ws" "A = B @ C"
    by (auto split: option.splits prod.splits)
  from readsLocallyD [OF assms(1) *(1)] Cons.IH [OF *(2)] show ?case by (auto simp: *)
qed simp

text \<open>A variable of any type is read locally when the libraries' types are.\<close>

lemma denote_local:
  assumes "golib_laws L"
  shows "readsLocally (denote L t)"
proof (induction t)
  case (TStruct fs)
  then have r: "\<forall>d \<in> set (map snd (map (map_prod id (denote L)) fs)). readsLocally d"
    by (auto simp: snds.simps)
  show ?case
    by (rule readsLocallyI)
      (auto split: gv.splits dest: denote_fields_local [OF r])
next
  case (TSlice t)
  note local = denote_elems_local [OF TSlice]
  show ?case
    by (rule readsLocallyI)
      (auto split: gv.splits option.splits cell.splits if_splits
        dest: local [THEN conjunct1, THEN subsetD] local [THEN conjunct2, rule_format])
next
  case (TPtr t)
  show ?case
    by (rule readsLocallyI)
      (auto split: gv.splits option.splits cell.splits if_splits dest: readsLocallyD(1) [OF TPtr, THEN subsetD] readsLocallyD(2) [OF TPtr])
next
  case (TLib n)
  with assms show ?case by (simp add: golib_laws_def)
qed (rule readsLocallyI; auto split: gv.splits option.splits cell.splits if_splits)+

section \<open>What may be assigned, and what the copiers of references do\<close>

lemma denote_fields_flat:
  assumes "\<forall>d \<in> set (map snd ds). \<forall>x v B. d h x = Some (v, B) \<longrightarrow> B = []"
    and "denote_fields h ds xs = Some (vs, A)"
  shows "A = []"
  using assms
  by (induction h ds xs arbitrary: vs A rule: denote_fields.induct)
    (fastforce split: if_splits option.splits prod.splits)+

lemma flat_no_cells:
  assumes "golib_laws L" and "flat L t" and "denote L t h v = Some (x, A)"
  shows "A = []"
  using assms(2,3)
proof (induction t arbitrary: h v x A)
  case (TStruct fs)
  have "\<forall>d \<in> set (map snd (map (map_prod id (denote L)) fs)). \<forall>x v B. d h x = Some (v, B) \<longrightarrow> B = []"
    using TStruct by (auto simp: list_all_iff snds.simps)
  from denote_fields_flat [OF this] TStruct.prems(2) show ?case by (auto split: gv.splits)
next
  case (TLib n)
  with assms(1) show ?case unfolding golib_laws_def by auto
qed (auto split: gv.splits)

lemma copiesI:
  assumes "\<And>h v x A. denote L t h v = Some (x, A) \<Longrightarrow>
    \<exists>v' h' A'. f v h = Some (v', h') \<and> prefix h h' \<and> denote L t h' v' = Some (x, A')
      \<and> set A' \<subseteq> {length h..<length h'}"
  shows "copies L t f"
  using assms unfolding copies_def copying_def by blast

lemma copied:
  "\<lbrakk>f v h = Some (v', h'); prefix h h'; denote L t h' v' = Some (x, A');
    set A' \<subseteq> {length h..<length h'}\<rbrakk> \<Longrightarrow>
    \<exists>v' h' A'. f v h = Some (v', h') \<and> prefix h h' \<and> denote L t h' v' = Some (x, A')
      \<and> set A' \<subseteq> {length h..<length h'}"
  by blast

lemma copiesE:
  assumes "copies L t f" and "denote L t h v = Some (x, A)"
  obtains v' h' A' where "f v h = Some (v', h')" and "prefix h h'"
    and "denote L t h' v' = Some (x, A')" and "set A' \<subseteq> {length h..<length h'}"
  using assms unfolding copies_def copying_def by blast

lemma copies_assign:
  assumes "golib_laws L" and "flat L t"
  shows "copies L t assign"
proof (rule copiesI)
  fix h v x A assume d: "denote L t h v = Some (x, A)"
  with flat_no_cells [OF assms] have "A = []" by blast
  with d show "\<exists>v' h' A'. assign v h = Some (v', h') \<and> prefix h h' \<and> denote L t h' v' = Some (x, A')
      \<and> set A' \<subseteq> {length h..<length h'}"
    by (auto simp: assign_def mret_def)
qed

lemma copies_lib: "golib_laws L \<Longrightarrow> copies L (TLib n) (gl_copy L n)"
  by (simp add: golib_laws_def copies_def)

lemma copyEntries_id [simp]: "copyEntries m = m"
proof -
  have "fmlookup (fold (\<lambda>k out. fmupd k (idx m k) out) ks out0) k
      = (if k \<in> set ks then Some (idx m k) else fmlookup out0 k)" for ks out0 k
    by (induction ks arbitrary: out0) auto
  then show ?thesis
    by (intro fmap_ext) (auto simp: copyEntries_def idx_def fmdom_notD split: option.splits)
qed

lemma prefix_new: "prefix h (h @ xs)"
  by simp

lemma prefix_update: "prefix h g \<Longrightarrow> length h \<le> a \<Longrightarrow> prefix h (g[a := c])"
  by (auto simp: prefix_def list_update_append)

lemma copies_map: "copies L TMap copyMap"
proof (rule copiesI)
  fix h v x A assume d: "denote L TMap h v = Some (x, A)"
  show "\<exists>v' h' A'. copyMap v h = Some (v', h') \<and> prefix h h' \<and> denote L TMap h' v' = Some (x, A')
      \<and> set A' \<subseteq> {length h..<length h'}"
  proof (cases "v = GMap None")
    case True
    with d show ?thesis by (auto simp: copyMap_def mret_def)
  next
    case False
    with d obtain a m where v: "v = GMap (Some a)" "a < length h" "h ! a = CMap m" "x = VMap m"
      by (auto split: gv.splits option.splits if_splits cell.splits)
    then have "copyMap v h = Some (GMap (Some (length h)), h @ [CMap m])"
      by (simp add: copyMap_def mem_defs nth_append)
    with v show ?thesis by auto
  qed
qed

lemma copies_ptr:
  assumes L: "golib_laws L" and f: "copies L t f"
  shows "copies L (TPtr t) (copyPtr f)"
proof (rule copiesI)
  fix h v x A assume d: "denote L (TPtr t) h v = Some (x, A)"
  show "\<exists>v' h' A'. copyPtr f v h = Some (v', h') \<and> prefix h h' \<and> denote L (TPtr t) h' v' = Some (x, A')
      \<and> set A' \<subseteq> {length h..<length h'}"
  proof (cases "v = GPtr None")
    case True
    with d show ?thesis by (auto simp: copyPtr_def mret_def)
  next
    case False
    with d obtain a u w B where v: "v = GPtr (Some a)" "a < length h" "h ! a = CVal u"
        "denote L t h u = Some (w, B)" "x = VPtr w" "A = a # B"
      by (auto split: gv.splits option.splits if_splits cell.splits)
    let ?b = "length h" and ?h1 = "h @ [CVal (GStruct [])]"
    note local = readsLocallyD [OF denote_local [OF L]]
    from local(1) [OF v(4)] have "denote L t ?h1 u = Some (w, B)"
      by (intro local(2) [OF v(4)] unchanged_prefix) auto
    then obtain y h2 C where y: "f u ?h1 = Some (y, h2)" "prefix ?h1 h2"
        "denote L t h2 y = Some (w, C)" "set C \<subseteq> {Suc ?b..<length h2}"
      by (rule copiesE [OF f]) simp
    let ?h3 = "h2[?b := CVal y]"
    have len: "Suc ?b \<le> length h2" using prefix_length_le [OF y(2)] by simp
    have "denote L t ?h3 y = Some (w, C)"
      using y(4) by (intro local(2) [OF y(3)]) (auto simp: unchanged_def)
    then have "denote L (TPtr t) ?h3 (GPtr (Some ?b)) = Some (x, ?b # C)"
      using v len by simp
    moreover have "prefix h ?h3"
      by (rule prefix_update [OF prefix_order.trans [OF prefix_new y(2)]]) simp
    moreover have "copyPtr f v h = Some (GPtr (Some ?b), ?h3)"
      using v y len by (simp add: copyPtr_def mem_defs nth_append)
    moreover have "set (?b # C) \<subseteq> {?b..<length ?h3}"
      using len by (auto dest: subsetD [OF y(4)])
    ultimately show ?thesis by (intro copied)
  qed
qed

lemma denote_elems_append:
  "denote_elems d xs = Some (vs, A) \<Longrightarrow> denote_elems d ys = Some (ws, B)
    \<Longrightarrow> denote_elems d (xs @ ys) = Some (vs @ ws, A @ B)"
  by (induction xs arbitrary: vs A) (auto split: option.splits prod.splits)

text \<open>
  The loop over a slice: the elements before \<open>k\<close> are copied, the rest of the original is still to
  be read; the loop writes no cell but that of the new array.
\<close>

lemma copyElems_loop:
  assumes L: "golib_laws L" and f: "copies L t f"
  shows "\<lbrakk>a < b; b < length h; h ! a = CArr xs; h ! b = CArr ys; length ys = length xs; k \<le> length xs;
      denote_elems (denote L t h) (take k ys) = Some (vs, A); set A \<subseteq> {Suc b..<length h};
      denote_elems (denote L t h) (drop k xs) = Some (ws, B); set B \<subseteq> {..<b}\<rbrakk> \<Longrightarrow>
    \<exists>h' ys' A'. copyElems f a b [k..<length xs] h = Some ((), h') \<and> length h \<le> length h'
      \<and> take b h' = take b h \<and> h' ! b = CArr ys' \<and> length ys' = length xs
      \<and> denote_elems (denote L t h') ys' = Some (vs @ ws, A') \<and> set A' \<subseteq> {Suc b..<length h'}"
proof (induction "length xs - k" arbitrary: k h ys vs A ws B)
  case 0
  then show ?case by (auto simp: mret_def)
next
  case (Suc n)
  then have k: "k < length xs" by simp
  obtain w ws' B1 B2 where w: "denote L t h (xs ! k) = Some (w, B1)"
      "denote_elems (denote L t h) (drop (Suc k) xs) = Some (ws', B2)" "ws = w # ws'" "B = B1 @ B2"
    using Suc.prems(9) k by (auto simp: Cons_nth_drop_Suc [symmetric] split: option.splits prod.splits)
  obtain y h1 C where y: "f (xs ! k) h = Some (y, h1)" "prefix h h1"
      "denote L t h1 y = Some (w, C)" "set C \<subseteq> {length h..<length h1}"
    by (rule copiesE [OF f w(1)])
  let ?h2 = "h1[b := CArr (ys[k := y])]"
  from y(2) have pre: "length h \<le> length h1" "\<And>i. i < length h \<Longrightarrow> h1 ! i = h ! i"
    by (auto simp: prefix_def nth_append)
  note local = denote_elems_local [OF denote_local [OF L], THEN conjunct2, rule_format]
  have old: "unchanged (set A) h ?h2" "unchanged (set B2) h ?h2"
    using Suc.prems(1,2,8,10) w(4) pre
    by (auto simp: unchanged_def nth_list_update dest!: subsetD)
  have "denote L t ?h2 y = Some (w, C)"
    using y(4) Suc.prems(2) pre
    by (intro readsLocallyD(2) [OF denote_local [OF L] y(3)]) (auto simp: unchanged_def dest!: subsetD)
  then have "denote_elems (denote L t ?h2) [y] = Some ([w], C)"
    by simp
  from denote_elems_append [OF local [OF Suc.prems(7) old(1)] this]
  have front: "denote_elems (denote L t ?h2) (take (Suc k) (ys[k := y])) = Some (vs @ [w], A @ C)"
    using k Suc.prems(5) by (simp add: take_Suc_conv_app_nth)
  have cells: "set (A @ C) \<subseteq> {Suc b..<length ?h2}"
    using Suc.prems(2) pre by (auto dest!: subsetD [OF Suc.prems(8)] subsetD [OF y(4)])
  have "\<exists>h' ys' A'. copyElems f a b [Suc k..<length xs] ?h2 = Some ((), h') \<and> length ?h2 \<le> length h'
      \<and> take b h' = take b ?h2 \<and> h' ! b = CArr ys' \<and> length ys' = length xs
      \<and> denote_elems (denote L t h') ys' = Some ((vs @ [w]) @ ws', A')
      \<and> set A' \<subseteq> {Suc b..<length h'}"
    by (rule Suc.hyps(1) [OF _ _ _ _ _ _ _ front cells local [OF w(2) old(2)]])
      (use k Suc.hyps(2) Suc.prems(1-5,10) w(4) pre in auto)
  then obtain h' ys' A' where *: "copyElems f a b [Suc k..<length xs] ?h2 = Some ((), h')"
      "length ?h2 \<le> length h'" "take b h' = take b ?h2" "h' ! b = CArr ys'" "length ys' = length xs"
      "denote_elems (denote L t h') ys' = Some (vs @ ws, A')" "set A' \<subseteq> {Suc b..<length h'}"
    using w(3) by auto
  have "take b ?h2 = take b h"
    using Suc.prems(2) y(2) by (auto simp: prefix_def)
  moreover have "copyElems f a b [k..<length xs] h = Some ((), h')"
    using k Suc.prems(1-5) pre y(1) *(1)
    by (simp add: upt_conv_Cons mem_defs nth_list_update)
  ultimately show ?case using *(2-) pre by (intro exI conjI) auto
qed

lemma copies_slice:
  assumes L: "golib_laws L" and f: "copies L t f"
  shows "copies L (TSlice t) (copySlice f)"
proof (rule copiesI)
  fix h v x A assume d: "denote L (TSlice t) h v = Some (x, A)"
  show "\<exists>v' h' A'. copySlice f v h = Some (v', h') \<and> prefix h h'
      \<and> denote L (TSlice t) h' v' = Some (x, A') \<and> set A' \<subseteq> {length h..<length h'}"
  proof (cases "v = GSlice None")
    case True
    with d show ?thesis by (auto simp: copySlice_def mret_def)
  next
    case False
    with d obtain a xs ws B where v: "v = GSlice (Some a)" "a < length h" "h ! a = CArr xs"
        "denote_elems (denote L t h) xs = Some (ws, B)" "x = VSlice ws" "A = a # B"
      by (auto split: gv.splits option.splits if_splits cell.splits)
    let ?b = "length h" and ?ys = "replicate (length xs) (GStruct [])"
    let ?h1 = "h @ [CArr ?ys]"
    note local = denote_elems_local [OF denote_local [OF L] v(4)]
    have B: "set B \<subseteq> {..<?b}" by (rule local [THEN conjunct1])
    have "denote_elems (denote L t ?h1) xs = Some (ws, B)"
      by (rule local [THEN conjunct2, rule_format, OF unchanged_prefix [OF prefix_new B]])
    then obtain h' ys' A' where *: "copyElems f a ?b [0..<length xs] ?h1 = Some ((), h')"
        "length ?h1 \<le> length h'" "take ?b h' = take ?b ?h1" "h' ! ?b = CArr ys'"
        "denote_elems (denote L t h') ys' = Some (ws, A')" "set A' \<subseteq> {Suc ?b..<length h'}"
      using copyElems_loop [OF L f, of a ?b ?h1 xs ?ys 0 "[]" "[]" ws B] v(2,3) B
      by (auto simp: nth_append)
    have "denote L (TSlice t) h' (GSlice (Some ?b)) = Some (x, ?b # A')"
      using *(2,4,5) v(5) by simp
    moreover have "prefix h h'"
      using *(3) by (metis append_eq_conv_conj append_take_drop_id prefixI)
    moreover have "copySlice f v h = Some (GSlice (Some ?b), h')"
      using v *(1) by (simp add: copySlice_def mem_defs nth_append)
    moreover have "set (?b # A') \<subseteq> {?b..<length h'}"
      using *(2) by (auto dest: subsetD [OF *(6)])
    ultimately show ?thesis by (intro copied)
  qed
qed

section \<open>Structs\<close>

text \<open>With distinct field names, a struct is read field by field, in any order.\<close>

definition fieldReads ::
    "heap \<Rightarrow> (string \<Rightarrow> val) \<Rightarrow> addr set \<Rightarrow> (string \<times> gv) list
     \<Rightarrow> string \<times> (heap \<Rightarrow> gv \<Rightarrow> (val \<times> addr list) option) \<Rightarrow> bool" where
  "fieldReads h w S xs = (\<lambda>(k, d). \<exists>x B. map_of xs k = Some x \<and> d h x = Some (w k, B) \<and> set B \<subseteq> S)"

lemma fieldReads_head:
  "fieldReads h w S ((k, x) # xs) (k, d) \<longleftrightarrow> (\<exists>B. d h x = Some (w k, B) \<and> set B \<subseteq> S)"
  by (simp add: fieldReads_def)

lemma fieldReads_tail: "fst kd \<noteq> k \<Longrightarrow> fieldReads h w S ((k, x) # xs) kd = fieldReads h w S xs kd"
  by (auto simp: fieldReads_def split: prod.splits)

lemma fieldReads_upd: "fst kd \<noteq> k \<Longrightarrow> fieldReads h (w(k := v)) S xs kd = fieldReads h w S xs kd"
  by (auto simp: fieldReads_def split: prod.splits)

lemma fieldReads_mono: "fieldReads h w S xs kd \<Longrightarrow> S \<subseteq> T \<Longrightarrow> fieldReads h w T xs kd"
  by (fastforce simp: fieldReads_def)

lemma distinct_headD: "distinct (map fst ((k, d) # ds)) \<Longrightarrow> kd \<in> set ds \<Longrightarrow> fst kd \<noteq> k"
  by auto

lemma denote_fieldsI:
  assumes "distinct (map fst ds)" and "map fst xs = map fst ds" and "\<forall>kd \<in> set ds. fieldReads h w S xs kd"
  shows "\<exists>A. denote_fields h ds xs = Some (map (\<lambda>(k, d). (k, w k)) ds, A) \<and> set A \<subseteq> S"
  using assms
proof (induction ds arbitrary: xs)
  case (Cons kd ds)
  obtain k d where kd: "kd = (k, d)" by (rule prod.exhaust)
  with Cons.prems(2) obtain x ys where xs: "xs = (k, x) # ys" "map fst ys = map fst ds" by auto
  from Cons.prems(3) obtain B where B: "d h x = Some (w k, B)" "set B \<subseteq> S"
    by (auto simp: kd xs fieldReads_head)
  have "\<forall>kd \<in> set ds. fieldReads h w S ys kd"
    using Cons.prems(3) fieldReads_tail [OF distinct_headD [OF Cons.prems(1) [unfolded kd]]]
    by (auto simp: xs)
  with Cons.IH [OF _ xs(2)] Cons.prems(1) obtain A where
    "denote_fields h ds ys = Some (map (\<lambda>(k, d). (k, w k)) ds, A)" "set A \<subseteq> S" by auto
  with B show ?case by (simp add: kd xs)
qed simp

lemma denote_fieldsD:
  assumes "denote_fields h ds xs = Some (vs, A)" and "distinct (map fst ds)"
  shows "map fst xs = map fst ds
    \<and> (\<exists>w. vs = map (\<lambda>(k, d). (k, w k)) ds \<and> (\<forall>kd \<in> set ds. fieldReads h w (set A) xs kd))"
  using assms
proof (induction ds arbitrary: xs vs A)
  case Nil
  then show ?case by (cases xs) auto
next
  case (Cons kd ds)
  obtain k d where kd: "kd = (k, d)" by (rule prod.exhaust)
  with Cons.prems(1) obtain x ys v B us C where *: "xs = (k, x) # ys" "d h x = Some (v, B)"
      "denote_fields h ds ys = Some (us, C)" "vs = (k, v) # us" "A = B @ C"
    by (cases xs) (auto split: if_splits option.splits prod.splits)
  from Cons.IH [OF *(3)] Cons.prems(2) obtain w where w: "map fst ys = map fst ds"
      "us = map (\<lambda>(k, d). (k, w k)) ds" "\<forall>kd \<in> set ds. fieldReads h w (set C) ys kd"
    by auto
  note other = distinct_headD [OF Cons.prems(2) [unfolded kd]]
  have "\<forall>kd \<in> set ds. fieldReads h (w(k := v)) (set A) xs kd"
    using w(3) other fieldReads_mono [of h w "set C" ys _ "set A"]
    by (auto simp: *(1,5) fieldReads_tail fieldReads_upd)
  moreover have "fieldReads h (w(k := v)) (set A) xs (k, d)"
    using *(2) by (auto simp: *(1,5) fieldReads_head)
  moreover have "vs = map (\<lambda>(j, d). (j, (w(k := v)) j)) (kd # ds)"
    using w(2) other by (auto simp: *(4) kd)
  ultimately show ?case using w(1) by (intro conjI exI [of _ "w(k := v)"]) (auto simp: kd *(1) simp del: fun_upd_apply)
qed

lemma setField_keys [simp]: "map fst (setField k y xs) = map fst xs"
  by (auto simp: setField_def)

lemma map_of_setField:
  "map_of (setField k y xs) k' = (if k' = k then map_option (\<lambda>_. y) (map_of xs k) else map_of xs k')"
  by (induction xs) (auto simp: setField_def)

lemma map_of_keys: "k \<in> fst ` set ds \<Longrightarrow> map fst xs = map fst ds \<Longrightarrow> \<exists>x. map_of xs k = Some x"
  by (metis domD dom_map_of_conv_image_fst list.set_map)

text \<open>
  The statements in order: the fields no later statement writes have been copied, and memory only
  grows.
\<close>

lemma copyFields_correct:
  assumes local: "\<forall>kd \<in> set ds. readsLocally (snd kd)"
    and "\<forall>(k, f) \<in> set ss. \<exists>d. (k, d) \<in> set ds \<and> copying d f" and dist: "distinct (map fst ds)"
    and "map fst ys = map fst ds" and "n \<le> length h"
    and "\<forall>kd \<in> set ds. fieldReads h w {..<n} xs kd"
    and "\<forall>kd \<in> set ds. fst kd \<notin> set (map fst ss) \<longrightarrow> fieldReads h w {n..<length h} ys kd"
  shows "\<exists>ys' h'. copyFields ss xs ys h = Some (ys', h') \<and> prefix h h' \<and> map fst ys' = map fst ds
    \<and> (\<forall>kd \<in> set ds. fieldReads h' w {n..<length h'} ys' kd)"
  using assms(2,4-)
proof (induction ss arbitrary: ys h)
  case Nil
  then show ?case by (simp add: mret_def)
next
  case (Cons s ss)
  obtain k f where s: "s = (k, f)" by (rule prod.exhaust)
  from Cons.prems(1) obtain d where d: "(k, d) \<in> set ds" "copying d f" by (auto simp: s)
  from Cons.prems(4) d(1) obtain x B where x: "map_of xs k = Some x" "d h x = Some (w k, B)"
    by (fastforce simp: fieldReads_def)
  from d(2) x(2) obtain y h1 C where y: "f x h = Some (y, h1)" "prefix h h1" "d h1 y = Some (w k, C)"
      "set C \<subseteq> {length h..<length h1}"
    unfolding copying_def by blast
  have len: "length h \<le> length h1" using y(2) by (rule prefix_length_le)
  have same: "fieldReads h1 w T zs kd" if kd: "kd \<in> set ds" "fieldReads h w S zs kd" "S \<subseteq> T"
      "S \<subseteq> {..<length h}" for kd S T zs
  proof -
    obtain z D where "map_of zs (fst kd) = Some z" "snd kd h z = Some (w (fst kd), D)" "set D \<subseteq> S"
      using kd(2) by (auto simp: fieldReads_def split: prod.splits)
    with kd readsLocallyD(2) [OF local [rule_format, OF kd(1)], of h z "w (fst kd)" D h1]
      unchanged_prefix [OF y(2), of "set D"]
    show ?thesis by (fastforce simp: fieldReads_def split: prod.splits)
  qed
  have 1: "\<forall>(k, f) \<in> set ss. \<exists>d. (k, d) \<in> set ds \<and> copying d f" using Cons.prems(1) by simp
  have 2: "map fst (setField k y ys) = map fst ds" using Cons.prems(2) by simp
  have 3: "n \<le> length h1" using Cons.prems(3) len by simp
  have 4: "\<forall>kd \<in> set ds. fieldReads h1 w {..<n} xs kd"
    using same Cons.prems(3,4) by fastforce
  have 5: "\<forall>kd \<in> set ds. fst kd \<notin> set (map fst ss)
      \<longrightarrow> fieldReads h1 w {n..<length h1} (setField k y ys) kd"
  proof (intro ballI impI)
    fix kd assume kd: "kd \<in> set ds" "fst kd \<notin> set (map fst ss)"
    show "fieldReads h1 w {n..<length h1} (setField k y ys) kd"
    proof (cases "fst kd = k")
      case True
      with d(1) kd(1) dist have [simp]: "kd = (k, d)" by (metis eq_key_imp_eq_value prod.collapse)
      have "set C \<subseteq> {n..<length h1}" using y(4) Cons.prems(3) by fastforce
      with map_of_keys [of k ds ys] d(1) Cons.prems(2) y(3) show ?thesis
        by (force simp: fieldReads_def map_of_setField)
    next
      case False
      with Cons.prems(5) kd have old: "fieldReads h w {n..<length h} ys kd" by (simp add: s)
      have "{n..<length h} \<subseteq> {n..<length h1}" "{n..<length h} \<subseteq> {..<length h}" using len by auto
      from same [OF kd(1) old this] False show ?thesis
        by (auto simp: fieldReads_def map_of_setField split: prod.splits)
    qed
  qed
  from Cons.IH [OF 1 2 3 4 5] obtain ys' h' where
    "copyFields ss xs (setField k y ys) h1 = Some (ys', h')" "prefix h1 h'" "map fst ys' = map fst ds"
    "\<forall>kd \<in> set ds. fieldReads h' w {n..<length h'} ys' kd" by blast
  with x(1) y(1,2) show ?case
    by (auto simp: s mbind_def intro: prefix_order.trans)
qed

text \<open>
  A struct is copied deeply when every statement copies its field deeply and every other field
  holds no reference.
\<close>

lemma copies_struct:
  assumes L: "golib_laws L" and dist: "distinct (map fst fs)"
    and steps: "\<forall>(k, f) \<in> set ss. \<exists>t. (k, t) \<in> set fs \<and> copies L t f"
    and rest: "\<forall>(k, t) \<in> set fs. k \<in> set (map fst ss) \<or> flat L t"
  shows "copies L (TStruct fs) (structCopy ss)"
proof (rule copiesI)
  fix h v x A assume d: "denote L (TStruct fs) h v = Some (x, A)"
  let ?ds = "map (map_prod id (denote L)) fs"
  from d obtain xs vs where v: "v = GStruct xs" "denote_fields h ?ds xs = Some (vs, A)" "x = VStruct vs"
    by (auto split: gv.splits)
  have dist': "distinct (map fst ?ds)" using dist by (simp add: comp_def)
  from denote_fieldsD [OF v(2) dist'] obtain w where w: "map fst xs = map fst ?ds"
      "vs = map (\<lambda>(k, d). (k, w k)) ?ds" "\<forall>kd \<in> set ?ds. fieldReads h w (set A) xs kd" by blast
  have local: "\<forall>kd \<in> set ?ds. readsLocally (snd kd)" using denote_local [OF L] by auto
  have "set A \<subseteq> {..<length h}" using readsLocallyD(1) [OF denote_local [OF L] d] .
  with w(3) have reads: "\<forall>kd \<in> set ?ds. fieldReads h w {..<length h} xs kd"
    using fieldReads_mono by blast
  have steps': "\<forall>(k, f) \<in> set ss. \<exists>d. (k, d) \<in> set ?ds \<and> copying d f"
    using steps unfolding copies_def by force
  have flat: "\<forall>kd \<in> set ?ds. fst kd \<notin> set (map fst ss)
      \<longrightarrow> fieldReads h w {length h..<length h} xs kd"
  proof (intro ballI impI)
    fix kd assume kd: "kd \<in> set ?ds" "fst kd \<notin> set (map fst ss)"
    then obtain k t where t: "(k, t) \<in> set fs" "kd = (k, denote L t)" by auto
    with rest kd(2) have "flat L t" by auto
    with reads kd(1) t(2) show "fieldReads h w {length h..<length h} xs kd"
      using flat_no_cells [OF L] by (fastforce simp: fieldReads_def)
  qed
  from copyFields_correct [OF local steps' dist' w(1) order.refl reads flat] obtain ys h' where
    *: "copyFields ss xs xs h = Some (ys, h')" "prefix h h'" "map fst ys = map fst ?ds"
      "\<forall>kd \<in> set ?ds. fieldReads h' w {length h..<length h'} ys kd" by blast
  from denote_fieldsI [OF dist' *(3,4)] obtain C where
    C: "denote_fields h' ?ds ys = Some (vs, C)" "set C \<subseteq> {length h..<length h'}" using w(2) by blast
  have "structCopy ss v h = Some (GStruct ys, h')"
    using *(1) v(1) by (simp add: structCopy_def mem_defs)
  moreover have "denote L (TStruct fs) h' (GStruct ys) = Some (x, C)"
    using C(1) v(3) by simp
  ultimately show "\<exists>v' h' A'. structCopy ss v h = Some (v', h') \<and> prefix h h'
      \<and> denote L (TStruct fs) h' v' = Some (x, A') \<and> set A' \<subseteq> {length h..<length h'}"
    using *(2) C(2) by (intro copied)
qed

section \<open>What callers rely on\<close>

text \<open>
  The copy stands for the same value as the original, and neither sees what is later written
  through the other: any memory that agrees on the cells of one still holds its value.
\<close>

definition independentCopy :: "golib \<Rightarrow> gtype \<Rightarrow> (gv \<Rightarrow> gv mem) \<Rightarrow> bool" where
  "independentCopy L t f \<longleftrightarrow> (\<forall>h p x A. denote L t h p = Some (x, A) \<longrightarrow>
     (\<exists>q h' B. f p h = Some (q, h') \<and> denote L t h' p = Some (x, A) \<and> denote L t h' q = Some (x, B)
        \<and> (\<forall>g. unchanged (- set B \<inter> {..<length h'}) h' g \<longrightarrow> denote L t g p = Some (x, A))
        \<and> (\<forall>g. unchanged (- set A \<inter> {..<length h'}) h' g \<longrightarrow> denote L t g q = Some (x, B))))"

lemma copies_independent:
  assumes L: "golib_laws L" and f: "copies L t f"
  shows "independentCopy L t f"
  unfolding independentCopy_def
proof (intro allI impI)
  fix h p x A assume d: "denote L t h p = Some (x, A)"
  obtain q h' B where q: "f p h = Some (q, h')" "prefix h h'" "denote L t h' q = Some (x, B)"
      "set B \<subseteq> {length h..<length h'}"
    by (rule copiesE [OF f d])
  note local = readsLocallyD [OF denote_local [OF L]]
  have A: "set A \<subseteq> {..<length h}" by (rule local(1) [OF d])
  have p: "denote L t h' p = Some (x, A)" by (rule local(2) [OF d unchanged_prefix [OF q(2) A]])
  have len: "length h \<le> length h'" by (rule prefix_length_le [OF q(2)])
  have sep: "set A \<subseteq> - set B \<inter> {..<length h'}" "set B \<subseteq> - set A \<inter> {..<length h'}"
    using A q(4) len by fastforce+
  from q(1,3) p local(2) [OF p unchanged_mono [OF _ sep(1)]] local(2) [OF q(3) unchanged_mono [OF _ sep(2)]]
  show "\<exists>q h' B. f p h = Some (q, h') \<and> denote L t h' p = Some (x, A) \<and> denote L t h' q = Some (x, B)
      \<and> (\<forall>g. unchanged (- set B \<inter> {..<length h'}) h' g \<longrightarrow> denote L t g p = Some (x, A))
      \<and> (\<forall>g. unchanged (- set A \<inter> {..<length h'}) h' g \<longrightarrow> denote L t g q = Some (x, B))"
    by blast
qed

text \<open>
  The same of \<open>DeepCopyObject\<close>, through the interface it returns; of a nil pointer the interface
  itself is nil, not an interface that holds a nil pointer.
\<close>

definition independentObject ::
    "golib \<Rightarrow> string \<Rightarrow> gtype \<Rightarrow> (gv \<Rightarrow> (string \<times> addr) option mem) \<Rightarrow> bool" where
  "independentObject L n t f \<longleftrightarrow>
     (\<forall>h. f (GPtr None) h = Some (None, h))
     \<and> (\<forall>h a x A. denote L (TPtr t) h (GPtr (Some a)) = Some (x, A) \<longrightarrow>
         (\<exists>b h' B. f (GPtr (Some a)) h = Some (Some (n, b), h')
            \<and> denote L (TPtr t) h' (GPtr (Some a)) = Some (x, A)
            \<and> denote L (TPtr t) h' (GPtr (Some b)) = Some (x, B)
            \<and> (\<forall>g. unchanged (- set B \<inter> {..<length h'}) h' g
                 \<longrightarrow> denote L (TPtr t) g (GPtr (Some a)) = Some (x, A))
            \<and> (\<forall>g. unchanged (- set A \<inter> {..<length h'}) h' g
                 \<longrightarrow> denote L (TPtr t) g (GPtr (Some b)) = Some (x, B))))"

lemma object_independent:
  assumes L: "golib_laws L" and f: "copies L t f"
  shows "independentObject L n t (objectOf n (deepCopyOf f))"
  unfolding independentObject_def
proof (intro conjI allI impI)
  fix h show "objectOf n (deepCopyOf f) (GPtr None) h = Some (None, h)"
    by (simp add: objectOf_def deepCopyOf_def copyPtr_def mem_defs)
next
  fix h a x A assume d: "denote L (TPtr t) h (GPtr (Some a)) = Some (x, A)"
  from copies_independent [OF L copies_ptr [OF L f]] d obtain q h' B where
    q: "copyPtr f (GPtr (Some a)) h = Some (q, h')" "denote L (TPtr t) h' q = Some (x, B)"
    and *: "denote L (TPtr t) h' (GPtr (Some a)) = Some (x, A)"
      "\<forall>g. unchanged (- set B \<inter> {..<length h'}) h' g
         \<longrightarrow> denote L (TPtr t) g (GPtr (Some a)) = Some (x, A)"
      "\<forall>g. unchanged (- set A \<inter> {..<length h'}) h' g \<longrightarrow> denote L (TPtr t) g q = Some (x, B)"
    unfolding independentCopy_def by blast
  from d have "x \<noteq> VNil" by (auto split: if_splits cell.splits)
  with q(2) obtain b where b: "q = GPtr (Some b)" by (auto split: gv.splits option.splits)
  have "objectOf n (deepCopyOf f) (GPtr (Some a)) h = Some (Some (n, b), h')"
    using q(1) by (simp add: objectOf_def deepCopyOf_def mem_defs b)
  with q(2) * show "\<exists>b h' B. objectOf n (deepCopyOf f) (GPtr (Some a)) h = Some (Some (n, b), h')
      \<and> denote L (TPtr t) h' (GPtr (Some a)) = Some (x, A)
      \<and> denote L (TPtr t) h' (GPtr (Some b)) = Some (x, B)
      \<and> (\<forall>g. unchanged (- set B \<inter> {..<length h'}) h' g
           \<longrightarrow> denote L (TPtr t) g (GPtr (Some a)) = Some (x, A))
      \<and> (\<forall>g. unchanged (- set A \<inter> {..<length h'}) h' g
           \<longrightarrow> denote L (TPtr t) g (GPtr (Some b)) = Some (x, B))"
    unfolding b by blast
qed

end
