(* ===== verification/DeepCopy.thy ===== *)
theory DeepCopy
  imports GoCopying
begin

text \<open>
  The generated deep copies \<open>api/v1alpha1/zz_generated.deepcopy.go\<close> of the API types: for each
  struct of the package its fields as they lie in memory, \<open>DeepCopyInto\<close> as the statements it
  consists of, \<open>DeepCopy\<close>, and \<open>DeepCopyObject\<close> for the kinds and their lists. The types of
  \<open>apimachinery\<close> (\<open>TypeMeta\<close>, \<open>ObjectMeta\<close>, \<open>ListMeta\<close>, \<open>Condition\<close>, \<open>LabelSelector\<close>, \<open>JSON\<close>) and
  \<open>corev1.LocalObjectReference\<close> are parameters \<open>L\<close>, with their own \<open>DeepCopyInto\<close> for \<open>gl_copy\<close>.
\<close>

section \<open>The functions\<close>

definition ConfigMapSink_type :: gtype where
  "ConfigMapSink_type = TStruct
     [(''Name'', TStr), (''Namespace'', TStr)]"

definition ConfigMapSink_DeepCopyInto :: "golib \<Rightarrow> gv \<Rightarrow> gv mem" where
  "ConfigMapSink_DeepCopyInto L = structCopy []"

definition ConfigMapSink_DeepCopy :: "golib \<Rightarrow> gv \<Rightarrow> gv mem" where
  "ConfigMapSink_DeepCopy L = deepCopyOf (ConfigMapSink_DeepCopyInto L)"

definition SecretObjectRef_type :: gtype where
  "SecretObjectRef_type = TStruct
     [(''Name'', TStr), (''Namespace'', TStr)]"

definition SecretObjectRef_DeepCopyInto :: "golib \<Rightarrow> gv \<Rightarrow> gv mem" where
  "SecretObjectRef_DeepCopyInto L = structCopy []"

definition SecretObjectRef_DeepCopy :: "golib \<Rightarrow> gv \<Rightarrow> gv mem" where
  "SecretObjectRef_DeepCopy L = deepCopyOf (SecretObjectRef_DeepCopyInto L)"

definition AllocationSinks_type :: gtype where
  "AllocationSinks_type = TStruct
     [(''ConfigMap'', TPtr ConfigMapSink_type),
      (''ClusterSecretLabels'', TPtr SecretObjectRef_type)]"

definition AllocationSinks_DeepCopyInto :: "golib \<Rightarrow> gv \<Rightarrow> gv mem" where
  "AllocationSinks_DeepCopyInto L = structCopy
     [(''ConfigMap'', copyPtr assign), (''ClusterSecretLabels'', copyPtr assign)]"

definition AllocationSinks_DeepCopy :: "golib \<Rightarrow> gv \<Rightarrow> gv mem" where
  "AllocationSinks_DeepCopy L = deepCopyOf (AllocationSinks_DeepCopyInto L)"

definition ClusterbookAllocationSpec_type :: gtype where
  "ClusterbookAllocationSpec_type = TStruct
     [(''NetworkKey'', TStr), (''Name'', TStr), (''CreateDNS'', TBool),
      (''ProviderConfigRef'', TLib ''LocalObjectReference''), (''Sinks'', AllocationSinks_type),
      (''ReleaseOnDelete'', TBool)]"

definition ClusterbookAllocationSpec_DeepCopyInto :: "golib \<Rightarrow> gv \<Rightarrow> gv mem" where
  "ClusterbookAllocationSpec_DeepCopyInto L = structCopy
     [(''ProviderConfigRef'', assign), (''Sinks'', AllocationSinks_DeepCopyInto L)]"

definition ClusterbookAllocationSpec_DeepCopy :: "golib \<Rightarrow> gv \<Rightarrow> gv mem" where
  "ClusterbookAllocationSpec_DeepCopy L = deepCopyOf (ClusterbookAllocationSpec_DeepCopyInto L)"

definition ClusterbookAllocationStatus_type :: gtype where
  "ClusterbookAllocationStatus_type = TStruct
     [(''IP'', TStr), (''FQDN'', TStr), (''Zone'', TStr),
      (''ConfigMapRef'', TPtr ConfigMapSink_type),
      (''ClusterSecretRef'', TPtr SecretObjectRef_type),
      (''Conditions'', TSlice (TLib ''Condition''))]"

definition ClusterbookAllocationStatus_DeepCopyInto :: "golib \<Rightarrow> gv \<Rightarrow> gv mem" where
  "ClusterbookAllocationStatus_DeepCopyInto L = structCopy
     [(''ConfigMapRef'', copyPtr assign), (''ClusterSecretRef'', copyPtr assign),
      (''Conditions'', copySlice (gl_copy L ''Condition''))]"

definition ClusterbookAllocationStatus_DeepCopy :: "golib \<Rightarrow> gv \<Rightarrow> gv mem" where
  "ClusterbookAllocationStatus_DeepCopy L = deepCopyOf (ClusterbookAllocationStatus_DeepCopyInto L)"

definition ClusterbookAllocation_type :: gtype where
  "ClusterbookAllocation_type = TStruct
     [(''TypeMeta'', TLib ''TypeMeta''), (''ObjectMeta'', TLib ''ObjectMeta''),
      (''Spec'', ClusterbookAllocationSpec_type), (''Status'', ClusterbookAllocationStatus_type)]"

definition ClusterbookAllocation_DeepCopyInto :: "golib \<Rightarrow> gv \<Rightarrow> gv mem" where
  "ClusterbookAllocation_DeepCopyInto L = structCopy
     [(''TypeMeta'', assign), (''ObjectMeta'', gl_copy L ''ObjectMeta''),
      (''Spec'', ClusterbookAllocationSpec_DeepCopyInto L),
      (''Status'', ClusterbookAllocationStatus_DeepCopyInto L)]"

definition ClusterbookAllocation_DeepCopy :: "golib \<Rightarrow> gv \<Rightarrow> gv mem" where
  "ClusterbookAllocation_DeepCopy L = deepCopyOf (ClusterbookAllocation_DeepCopyInto L)"

definition ClusterbookAllocation_DeepCopyObject :: "golib \<Rightarrow> gv \<Rightarrow> (string \<times> addr) option mem" where
  "ClusterbookAllocation_DeepCopyObject L = objectOf ''ClusterbookAllocation'' (ClusterbookAllocation_DeepCopy L)"

definition ClusterbookAllocationList_type :: gtype where
  "ClusterbookAllocationList_type = TStruct
     [(''TypeMeta'', TLib ''TypeMeta''), (''ListMeta'', TLib ''ListMeta''),
      (''Items'', TSlice ClusterbookAllocation_type)]"

definition ClusterbookAllocationList_DeepCopyInto :: "golib \<Rightarrow> gv \<Rightarrow> gv mem" where
  "ClusterbookAllocationList_DeepCopyInto L = structCopy
     [(''TypeMeta'', assign), (''ListMeta'', gl_copy L ''ListMeta''),
      (''Items'', copySlice (ClusterbookAllocation_DeepCopyInto L))]"

definition ClusterbookAllocationList_DeepCopy :: "golib \<Rightarrow> gv \<Rightarrow> gv mem" where
  "ClusterbookAllocationList_DeepCopy L = deepCopyOf (ClusterbookAllocationList_DeepCopyInto L)"

definition ClusterbookAllocationList_DeepCopyObject :: "golib \<Rightarrow> gv \<Rightarrow> (string \<times> addr) option mem" where
  "ClusterbookAllocationList_DeepCopyObject L = objectOf ''ClusterbookAllocationList'' (ClusterbookAllocationList_DeepCopy L)"

definition CiliumPoolTarget_type :: gtype where
  "CiliumPoolTarget_type = TStruct
     [(''PoolName'', TStr), (''Namespace'', TStr),
      (''ServiceSelector'', TPtr (TLib ''LabelSelector''))]"

definition CiliumPoolTarget_DeepCopyInto :: "golib \<Rightarrow> gv \<Rightarrow> gv mem" where
  "CiliumPoolTarget_DeepCopyInto L = structCopy
     [(''ServiceSelector'', copyPtr (gl_copy L ''LabelSelector''))]"

definition CiliumPoolTarget_DeepCopy :: "golib \<Rightarrow> gv \<Rightarrow> gv mem" where
  "CiliumPoolTarget_DeepCopy L = deepCopyOf (CiliumPoolTarget_DeepCopyInto L)"

definition ServiceObjectRef_type :: gtype where
  "ServiceObjectRef_type = TStruct
     [(''Name'', TStr), (''Namespace'', TStr)]"

definition ServiceObjectRef_DeepCopyInto :: "golib \<Rightarrow> gv \<Rightarrow> gv mem" where
  "ServiceObjectRef_DeepCopyInto L = structCopy []"

definition ServiceObjectRef_DeepCopy :: "golib \<Rightarrow> gv \<Rightarrow> gv mem" where
  "ServiceObjectRef_DeepCopy L = deepCopyOf (ServiceObjectRef_DeepCopyInto L)"

definition ClusterbookLoadBalancerSpec_type :: gtype where
  "ClusterbookLoadBalancerSpec_type = TStruct
     [(''NetworkKey'', TStr), (''Name'', TStr), (''CreateDNS'', TBool),
      (''ProviderConfigRef'', TLib ''LocalObjectReference''),
      (''CiliumPool'', TPtr CiliumPoolTarget_type), (''ServiceRef'', TPtr ServiceObjectRef_type),
      (''ReleaseOnDelete'', TBool)]"

definition ClusterbookLoadBalancerSpec_DeepCopyInto :: "golib \<Rightarrow> gv \<Rightarrow> gv mem" where
  "ClusterbookLoadBalancerSpec_DeepCopyInto L = structCopy
     [(''ProviderConfigRef'', assign),
      (''CiliumPool'', copyPtr (CiliumPoolTarget_DeepCopyInto L)),
      (''ServiceRef'', copyPtr assign)]"

definition ClusterbookLoadBalancerSpec_DeepCopy :: "golib \<Rightarrow> gv \<Rightarrow> gv mem" where
  "ClusterbookLoadBalancerSpec_DeepCopy L = deepCopyOf (ClusterbookLoadBalancerSpec_DeepCopyInto L)"

definition ClusterbookLoadBalancerStatus_type :: gtype where
  "ClusterbookLoadBalancerStatus_type = TStruct
     [(''IP'', TStr), (''FQDN'', TStr), (''Zone'', TStr), (''PoolName'', TStr),
      (''TargetServiceRef'', TPtr ServiceObjectRef_type),
      (''Conditions'', TSlice (TLib ''Condition''))]"

definition ClusterbookLoadBalancerStatus_DeepCopyInto :: "golib \<Rightarrow> gv \<Rightarrow> gv mem" where
  "ClusterbookLoadBalancerStatus_DeepCopyInto L = structCopy
     [(''TargetServiceRef'', copyPtr assign),
      (''Conditions'', copySlice (gl_copy L ''Condition''))]"

definition ClusterbookLoadBalancerStatus_DeepCopy :: "golib \<Rightarrow> gv \<Rightarrow> gv mem" where
  "ClusterbookLoadBalancerStatus_DeepCopy L = deepCopyOf (ClusterbookLoadBalancerStatus_DeepCopyInto L)"

definition ClusterbookLoadBalancer_type :: gtype where
  "ClusterbookLoadBalancer_type = TStruct
     [(''TypeMeta'', TLib ''TypeMeta''), (''ObjectMeta'', TLib ''ObjectMeta''),
      (''Spec'', ClusterbookLoadBalancerSpec_type),
      (''Status'', ClusterbookLoadBalancerStatus_type)]"

definition ClusterbookLoadBalancer_DeepCopyInto :: "golib \<Rightarrow> gv \<Rightarrow> gv mem" where
  "ClusterbookLoadBalancer_DeepCopyInto L = structCopy
     [(''TypeMeta'', assign), (''ObjectMeta'', gl_copy L ''ObjectMeta''),
      (''Spec'', ClusterbookLoadBalancerSpec_DeepCopyInto L),
      (''Status'', ClusterbookLoadBalancerStatus_DeepCopyInto L)]"

definition ClusterbookLoadBalancer_DeepCopy :: "golib \<Rightarrow> gv \<Rightarrow> gv mem" where
  "ClusterbookLoadBalancer_DeepCopy L = deepCopyOf (ClusterbookLoadBalancer_DeepCopyInto L)"

definition ClusterbookLoadBalancer_DeepCopyObject :: "golib \<Rightarrow> gv \<Rightarrow> (string \<times> addr) option mem" where
  "ClusterbookLoadBalancer_DeepCopyObject L = objectOf ''ClusterbookLoadBalancer'' (ClusterbookLoadBalancer_DeepCopy L)"

definition ClusterbookLoadBalancerList_type :: gtype where
  "ClusterbookLoadBalancerList_type = TStruct
     [(''TypeMeta'', TLib ''TypeMeta''), (''ListMeta'', TLib ''ListMeta''),
      (''Items'', TSlice ClusterbookLoadBalancer_type)]"

definition ClusterbookLoadBalancerList_DeepCopyInto :: "golib \<Rightarrow> gv \<Rightarrow> gv mem" where
  "ClusterbookLoadBalancerList_DeepCopyInto L = structCopy
     [(''TypeMeta'', assign), (''ListMeta'', gl_copy L ''ListMeta''),
      (''Items'', copySlice (ClusterbookLoadBalancer_DeepCopyInto L))]"

definition ClusterbookLoadBalancerList_DeepCopy :: "golib \<Rightarrow> gv \<Rightarrow> gv mem" where
  "ClusterbookLoadBalancerList_DeepCopy L = deepCopyOf (ClusterbookLoadBalancerList_DeepCopyInto L)"

definition ClusterbookLoadBalancerList_DeepCopyObject :: "golib \<Rightarrow> gv \<Rightarrow> (string \<times> addr) option mem" where
  "ClusterbookLoadBalancerList_DeepCopyObject L = objectOf ''ClusterbookLoadBalancerList'' (ClusterbookLoadBalancerList_DeepCopy L)"

definition SecretKeyRef_type :: gtype where
  "SecretKeyRef_type = TStruct
     [(''Name'', TStr), (''Namespace'', TStr), (''Key'', TStr)]"

definition SecretKeyRef_DeepCopyInto :: "golib \<Rightarrow> gv \<Rightarrow> gv mem" where
  "SecretKeyRef_DeepCopyInto L = structCopy []"

definition SecretKeyRef_DeepCopy :: "golib \<Rightarrow> gv \<Rightarrow> gv mem" where
  "SecretKeyRef_DeepCopy L = deepCopyOf (SecretKeyRef_DeepCopyInto L)"

definition LBRange_type :: gtype where
  "LBRange_type = TStruct
     [(''Count'', TInt), (''Start'', TStr), (''Stop'', TStr)]"

definition LBRange_DeepCopyInto :: "golib \<Rightarrow> gv \<Rightarrow> gv mem" where
  "LBRange_DeepCopyInto L = structCopy []"

definition LBRange_DeepCopy :: "golib \<Rightarrow> gv \<Rightarrow> gv mem" where
  "LBRange_DeepCopy L = deepCopyOf (LBRange_DeepCopyInto L)"

definition ClusterbookClusterSpec_type :: gtype where
  "ClusterbookClusterSpec_type = TStruct
     [(''NetworkKey'', TStr), (''SkipReservation'', TBool), (''ClusterName'', TStr),
      (''CreateDNS'', TBool), (''UseFQDNAsServer'', TBool), (''ServerPort'', TInt),
      (''ServerSubdomain'', TStr), (''PreserveKubeconfigServer'', TBool),
      (''KubeconfigSecretRef'', TPtr SecretKeyRef_type),
      (''ExistingSecretRef'', TPtr SecretObjectRef_type),
      (''ProviderConfigRef'', TLib ''LocalObjectReference''), (''ArgoCDNamespace'', TStr),
      (''Labels'', TMap), (''Annotations'', TMap), (''ReleaseOnDelete'', TBool),
      (''ClusterType'', TStr), (''LBRange'', TPtr LBRange_type)]"

definition ClusterbookClusterSpec_DeepCopyInto :: "golib \<Rightarrow> gv \<Rightarrow> gv mem" where
  "ClusterbookClusterSpec_DeepCopyInto L = structCopy
     [(''KubeconfigSecretRef'', copyPtr assign), (''ExistingSecretRef'', copyPtr assign),
      (''ProviderConfigRef'', assign), (''Labels'', copyMap), (''Annotations'', copyMap),
      (''LBRange'', copyPtr assign)]"

definition ClusterbookClusterSpec_DeepCopy :: "golib \<Rightarrow> gv \<Rightarrow> gv mem" where
  "ClusterbookClusterSpec_DeepCopy L = deepCopyOf (ClusterbookClusterSpec_DeepCopyInto L)"

definition ClusterbookClusterStatus_type :: gtype where
  "ClusterbookClusterStatus_type = TStruct
     [(''IP'', TStr), (''FQDN'', TStr), (''Zone'', TStr), (''LBRangeStart'', TStr),
      (''LBRangeStop'', TStr), (''SecretName'', TStr), (''KubeconfigHash'', TStr),
      (''ClusterReady'', TBool), (''Conditions'', TSlice (TLib ''Condition''))]"

definition ClusterbookClusterStatus_DeepCopyInto :: "golib \<Rightarrow> gv \<Rightarrow> gv mem" where
  "ClusterbookClusterStatus_DeepCopyInto L = structCopy
     [(''Conditions'', copySlice (gl_copy L ''Condition''))]"

definition ClusterbookClusterStatus_DeepCopy :: "golib \<Rightarrow> gv \<Rightarrow> gv mem" where
  "ClusterbookClusterStatus_DeepCopy L = deepCopyOf (ClusterbookClusterStatus_DeepCopyInto L)"

definition ClusterbookCluster_type :: gtype where
  "ClusterbookCluster_type = TStruct
     [(''TypeMeta'', TLib ''TypeMeta''), (''ObjectMeta'', TLib ''ObjectMeta''),
      (''Spec'', ClusterbookClusterSpec_type), (''Status'', ClusterbookClusterStatus_type)]"

definition ClusterbookCluster_DeepCopyInto :: "golib \<Rightarrow> gv \<Rightarrow> gv mem" where
  "ClusterbookCluster_DeepCopyInto L = structCopy
     [(''TypeMeta'', assign), (''ObjectMeta'', gl_copy L ''ObjectMeta''),
      (''Spec'', ClusterbookClusterSpec_DeepCopyInto L),
      (''Status'', ClusterbookClusterStatus_DeepCopyInto L)]"

definition ClusterbookCluster_DeepCopy :: "golib \<Rightarrow> gv \<Rightarrow> gv mem" where
  "ClusterbookCluster_DeepCopy L = deepCopyOf (ClusterbookCluster_DeepCopyInto L)"

definition ClusterbookCluster_DeepCopyObject :: "golib \<Rightarrow> gv \<Rightarrow> (string \<times> addr) option mem" where
  "ClusterbookCluster_DeepCopyObject L = objectOf ''ClusterbookCluster'' (ClusterbookCluster_DeepCopy L)"

definition ClusterbookClusterList_type :: gtype where
  "ClusterbookClusterList_type = TStruct
     [(''TypeMeta'', TLib ''TypeMeta''), (''ListMeta'', TLib ''ListMeta''),
      (''Items'', TSlice ClusterbookCluster_type)]"

definition ClusterbookClusterList_DeepCopyInto :: "golib \<Rightarrow> gv \<Rightarrow> gv mem" where
  "ClusterbookClusterList_DeepCopyInto L = structCopy
     [(''TypeMeta'', assign), (''ListMeta'', gl_copy L ''ListMeta''),
      (''Items'', copySlice (ClusterbookCluster_DeepCopyInto L))]"

definition ClusterbookClusterList_DeepCopy :: "golib \<Rightarrow> gv \<Rightarrow> gv mem" where
  "ClusterbookClusterList_DeepCopy L = deepCopyOf (ClusterbookClusterList_DeepCopyInto L)"

definition ClusterbookClusterList_DeepCopyObject :: "golib \<Rightarrow> gv \<Rightarrow> (string \<times> addr) option mem" where
  "ClusterbookClusterList_DeepCopyObject L = objectOf ''ClusterbookClusterList'' (ClusterbookClusterList_DeepCopy L)"

definition ClusterbookProviderConfigSpec_type :: gtype where
  "ClusterbookProviderConfigSpec_type = TStruct
     [(''APIURL'', TStr), (''InsecureSkipVerify'', TBool),
      (''CustomCASecretRef'', TPtr SecretKeyRef_type)]"

definition ClusterbookProviderConfigSpec_DeepCopyInto :: "golib \<Rightarrow> gv \<Rightarrow> gv mem" where
  "ClusterbookProviderConfigSpec_DeepCopyInto L = structCopy
     [(''CustomCASecretRef'', copyPtr assign)]"

definition ClusterbookProviderConfigSpec_DeepCopy :: "golib \<Rightarrow> gv \<Rightarrow> gv mem" where
  "ClusterbookProviderConfigSpec_DeepCopy L = deepCopyOf (ClusterbookProviderConfigSpec_DeepCopyInto L)"

definition ClusterbookProviderConfig_type :: gtype where
  "ClusterbookProviderConfig_type = TStruct
     [(''TypeMeta'', TLib ''TypeMeta''), (''ObjectMeta'', TLib ''ObjectMeta''),
      (''Spec'', ClusterbookProviderConfigSpec_type)]"

definition ClusterbookProviderConfig_DeepCopyInto :: "golib \<Rightarrow> gv \<Rightarrow> gv mem" where
  "ClusterbookProviderConfig_DeepCopyInto L = structCopy
     [(''TypeMeta'', assign), (''ObjectMeta'', gl_copy L ''ObjectMeta''),
      (''Spec'', ClusterbookProviderConfigSpec_DeepCopyInto L)]"

definition ClusterbookProviderConfig_DeepCopy :: "golib \<Rightarrow> gv \<Rightarrow> gv mem" where
  "ClusterbookProviderConfig_DeepCopy L = deepCopyOf (ClusterbookProviderConfig_DeepCopyInto L)"

definition ClusterbookProviderConfig_DeepCopyObject :: "golib \<Rightarrow> gv \<Rightarrow> (string \<times> addr) option mem" where
  "ClusterbookProviderConfig_DeepCopyObject L = objectOf ''ClusterbookProviderConfig'' (ClusterbookProviderConfig_DeepCopy L)"

definition ClusterbookProviderConfigList_type :: gtype where
  "ClusterbookProviderConfigList_type = TStruct
     [(''TypeMeta'', TLib ''TypeMeta''), (''ListMeta'', TLib ''ListMeta''),
      (''Items'', TSlice ClusterbookProviderConfig_type)]"

definition ClusterbookProviderConfigList_DeepCopyInto :: "golib \<Rightarrow> gv \<Rightarrow> gv mem" where
  "ClusterbookProviderConfigList_DeepCopyInto L = structCopy
     [(''TypeMeta'', assign), (''ListMeta'', gl_copy L ''ListMeta''),
      (''Items'', copySlice (ClusterbookProviderConfig_DeepCopyInto L))]"

definition ClusterbookProviderConfigList_DeepCopy :: "golib \<Rightarrow> gv \<Rightarrow> gv mem" where
  "ClusterbookProviderConfigList_DeepCopy L = deepCopyOf (ClusterbookProviderConfigList_DeepCopyInto L)"

definition ClusterbookProviderConfigList_DeepCopyObject :: "golib \<Rightarrow> gv \<Rightarrow> (string \<times> addr) option mem" where
  "ClusterbookProviderConfigList_DeepCopyObject L = objectOf ''ClusterbookProviderConfigList'' (ClusterbookProviderConfigList_DeepCopy L)"

definition VclusterArgoCD_type :: gtype where
  "VclusterArgoCD_type = TStruct
     [(''Namespace'', TStr), (''Register'', TPtr TBool), (''Labels'', TMap),
      (''Annotations'', TMap)]"

definition VclusterArgoCD_DeepCopyInto :: "golib \<Rightarrow> gv \<Rightarrow> gv mem" where
  "VclusterArgoCD_DeepCopyInto L = structCopy
     [(''Register'', copyPtr assign), (''Labels'', copyMap), (''Annotations'', copyMap)]"

definition VclusterArgoCD_DeepCopy :: "golib \<Rightarrow> gv \<Rightarrow> gv mem" where
  "VclusterArgoCD_DeepCopy L = deepCopyOf (VclusterArgoCD_DeepCopyInto L)"

definition VclusterSpec_type :: gtype where
  "VclusterSpec_type = TStruct
     [(''ClusterName'', TStr), (''TargetClusterRef'', TPtr SecretObjectRef_type),
      (''TargetNamespace'', TStr), (''ChartVersion'', TStr),
      (''ChartValues'', TPtr (TLib ''JSON'')), (''NetworkKey'', TStr), (''ServerPort'', TInt),
      (''ProviderConfigRef'', TLib ''LocalObjectReference''), (''ArgoCD'', VclusterArgoCD_type),
      (''ReleaseOnDelete'', TBool)]"

definition VclusterSpec_DeepCopyInto :: "golib \<Rightarrow> gv \<Rightarrow> gv mem" where
  "VclusterSpec_DeepCopyInto L = structCopy
     [(''TargetClusterRef'', copyPtr assign), (''ChartValues'', copyPtr (gl_copy L ''JSON'')),
      (''ProviderConfigRef'', assign), (''ArgoCD'', VclusterArgoCD_DeepCopyInto L)]"

definition VclusterSpec_DeepCopy :: "golib \<Rightarrow> gv \<Rightarrow> gv mem" where
  "VclusterSpec_DeepCopy L = deepCopyOf (VclusterSpec_DeepCopyInto L)"

definition VclusterStatus_type :: gtype where
  "VclusterStatus_type = TStruct
     [(''IP'', TStr), (''FQDN'', TStr), (''Zone'', TStr),
      (''KubeconfigSecretRef'', TPtr SecretObjectRef_type), (''ArgoCDApplicationRef'', TStr),
      (''ClusterbookClusterRef'', TStr), (''Conditions'', TSlice (TLib ''Condition''))]"

definition VclusterStatus_DeepCopyInto :: "golib \<Rightarrow> gv \<Rightarrow> gv mem" where
  "VclusterStatus_DeepCopyInto L = structCopy
     [(''KubeconfigSecretRef'', copyPtr assign),
      (''Conditions'', copySlice (gl_copy L ''Condition''))]"

definition VclusterStatus_DeepCopy :: "golib \<Rightarrow> gv \<Rightarrow> gv mem" where
  "VclusterStatus_DeepCopy L = deepCopyOf (VclusterStatus_DeepCopyInto L)"

definition Vcluster_type :: gtype where
  "Vcluster_type = TStruct
     [(''TypeMeta'', TLib ''TypeMeta''), (''ObjectMeta'', TLib ''ObjectMeta''),
      (''Spec'', VclusterSpec_type), (''Status'', VclusterStatus_type)]"

definition Vcluster_DeepCopyInto :: "golib \<Rightarrow> gv \<Rightarrow> gv mem" where
  "Vcluster_DeepCopyInto L = structCopy
     [(''TypeMeta'', assign), (''ObjectMeta'', gl_copy L ''ObjectMeta''),
      (''Spec'', VclusterSpec_DeepCopyInto L), (''Status'', VclusterStatus_DeepCopyInto L)]"

definition Vcluster_DeepCopy :: "golib \<Rightarrow> gv \<Rightarrow> gv mem" where
  "Vcluster_DeepCopy L = deepCopyOf (Vcluster_DeepCopyInto L)"

definition Vcluster_DeepCopyObject :: "golib \<Rightarrow> gv \<Rightarrow> (string \<times> addr) option mem" where
  "Vcluster_DeepCopyObject L = objectOf ''Vcluster'' (Vcluster_DeepCopy L)"

definition VclusterList_type :: gtype where
  "VclusterList_type = TStruct
     [(''TypeMeta'', TLib ''TypeMeta''), (''ListMeta'', TLib ''ListMeta''),
      (''Items'', TSlice Vcluster_type)]"

definition VclusterList_DeepCopyInto :: "golib \<Rightarrow> gv \<Rightarrow> gv mem" where
  "VclusterList_DeepCopyInto L = structCopy
     [(''TypeMeta'', assign), (''ListMeta'', gl_copy L ''ListMeta''),
      (''Items'', copySlice (Vcluster_DeepCopyInto L))]"

definition VclusterList_DeepCopy :: "golib \<Rightarrow> gv \<Rightarrow> gv mem" where
  "VclusterList_DeepCopy L = deepCopyOf (VclusterList_DeepCopyInto L)"

definition VclusterList_DeepCopyObject :: "golib \<Rightarrow> gv \<Rightarrow> (string \<times> addr) option mem" where
  "VclusterList_DeepCopyObject L = objectOf ''VclusterList'' (VclusterList_DeepCopy L)"

section \<open>Every function copies deeply\<close>

text \<open>
  Documented of the libraries: \<open>TypeMeta\<close> and \<open>LocalObjectReference\<close> are plain strings, and their
  \<open>DeepCopyInto\<close> is a deep copy.
\<close>

definition api_laws :: "golib \<Rightarrow> bool" where
  "api_laws L \<longleftrightarrow> golib_laws L \<and> gl_flat L ''TypeMeta'' \<and> gl_flat L ''LocalObjectReference''"

lemma api_lawsD:
  assumes "api_laws L"
  shows "golib_laws L" and "gl_flat L ''TypeMeta''" and "gl_flat L ''LocalObjectReference''"
  using assms by (simp_all add: api_laws_def)

text \<open>The rule of each statement, under the laws of the libraries.\<close>

lemma copies_statement [copy_rules]:
  assumes "api_laws L"
  shows "copies L (TLib n) (gl_copy L n)"
    and "copies L TMap copyMap"
    and "flat L t \<Longrightarrow> copies L t assign"
    and "flat L t \<Longrightarrow> copies L (TPtr t) (copyPtr assign)"
    and "copies L t f \<Longrightarrow> copies L (TPtr t) (copyPtr f)"
    and "copies L t f \<Longrightarrow> copies L (TSlice t) (copySlice f)"
  by (simp_all add: copies_lib copies_map copies_assign copies_ptr copies_slice api_lawsD(1) [OF assms])

lemma copies_api_struct:
  assumes "api_laws L" and "distinct (map fst fs)"
    and "list_all (\<lambda>(k, f). \<exists>t. (k, t) \<in> set fs \<and> copies L t f) ss"
    and "list_all (\<lambda>(k, t). k \<in> set (map fst ss) \<or> flat L t) fs"
  shows "copies L (TStruct fs) (structCopy ss)"
  using assms(2-) by (intro copies_struct [OF api_lawsD(1) [OF assms(1)]]) (simp_all add: list_all_iff)

lemma flat_types [simp]:
  shows "flat L ConfigMapSink_type"
  and "flat L SecretObjectRef_type"
  and "flat L ServiceObjectRef_type"
  and "flat L SecretKeyRef_type"
  and "flat L LBRange_type"
  by (simp_all add: ConfigMapSink_type_def SecretObjectRef_type_def ServiceObjectRef_type_def SecretKeyRef_type_def LBRange_type_def)

lemma ConfigMapSink_copies [copy_rules]: "api_laws L \<Longrightarrow> copies L ConfigMapSink_type (ConfigMapSink_DeepCopyInto L)"
  unfolding ConfigMapSink_type_def ConfigMapSink_DeepCopyInto_def
  by (rule copies_api_struct) (simp_all add: api_lawsD copy_rules)

lemma SecretObjectRef_copies [copy_rules]: "api_laws L \<Longrightarrow> copies L SecretObjectRef_type (SecretObjectRef_DeepCopyInto L)"
  unfolding SecretObjectRef_type_def SecretObjectRef_DeepCopyInto_def
  by (rule copies_api_struct) (simp_all add: api_lawsD copy_rules)

lemma AllocationSinks_copies [copy_rules]: "api_laws L \<Longrightarrow> copies L AllocationSinks_type (AllocationSinks_DeepCopyInto L)"
  unfolding AllocationSinks_type_def AllocationSinks_DeepCopyInto_def
  by (rule copies_api_struct) (simp_all add: api_lawsD copy_rules)

lemma ClusterbookAllocationSpec_copies [copy_rules]: "api_laws L \<Longrightarrow> copies L ClusterbookAllocationSpec_type (ClusterbookAllocationSpec_DeepCopyInto L)"
  unfolding ClusterbookAllocationSpec_type_def ClusterbookAllocationSpec_DeepCopyInto_def
  by (rule copies_api_struct) (simp_all add: api_lawsD copy_rules)

lemma ClusterbookAllocationStatus_copies [copy_rules]: "api_laws L \<Longrightarrow> copies L ClusterbookAllocationStatus_type (ClusterbookAllocationStatus_DeepCopyInto L)"
  unfolding ClusterbookAllocationStatus_type_def ClusterbookAllocationStatus_DeepCopyInto_def
  by (rule copies_api_struct) (simp_all add: api_lawsD copy_rules)

lemma ClusterbookAllocation_copies [copy_rules]: "api_laws L \<Longrightarrow> copies L ClusterbookAllocation_type (ClusterbookAllocation_DeepCopyInto L)"
  unfolding ClusterbookAllocation_type_def ClusterbookAllocation_DeepCopyInto_def
  by (rule copies_api_struct) (simp_all add: api_lawsD copy_rules)

lemma ClusterbookAllocationList_copies [copy_rules]: "api_laws L \<Longrightarrow> copies L ClusterbookAllocationList_type (ClusterbookAllocationList_DeepCopyInto L)"
  unfolding ClusterbookAllocationList_type_def ClusterbookAllocationList_DeepCopyInto_def
  by (rule copies_api_struct) (simp_all add: api_lawsD copy_rules)

lemma CiliumPoolTarget_copies [copy_rules]: "api_laws L \<Longrightarrow> copies L CiliumPoolTarget_type (CiliumPoolTarget_DeepCopyInto L)"
  unfolding CiliumPoolTarget_type_def CiliumPoolTarget_DeepCopyInto_def
  by (rule copies_api_struct) (simp_all add: api_lawsD copy_rules)

lemma ServiceObjectRef_copies [copy_rules]: "api_laws L \<Longrightarrow> copies L ServiceObjectRef_type (ServiceObjectRef_DeepCopyInto L)"
  unfolding ServiceObjectRef_type_def ServiceObjectRef_DeepCopyInto_def
  by (rule copies_api_struct) (simp_all add: api_lawsD copy_rules)

lemma ClusterbookLoadBalancerSpec_copies [copy_rules]: "api_laws L \<Longrightarrow> copies L ClusterbookLoadBalancerSpec_type (ClusterbookLoadBalancerSpec_DeepCopyInto L)"
  unfolding ClusterbookLoadBalancerSpec_type_def ClusterbookLoadBalancerSpec_DeepCopyInto_def
  by (rule copies_api_struct) (simp_all add: api_lawsD copy_rules)

lemma ClusterbookLoadBalancerStatus_copies [copy_rules]: "api_laws L \<Longrightarrow> copies L ClusterbookLoadBalancerStatus_type (ClusterbookLoadBalancerStatus_DeepCopyInto L)"
  unfolding ClusterbookLoadBalancerStatus_type_def ClusterbookLoadBalancerStatus_DeepCopyInto_def
  by (rule copies_api_struct) (simp_all add: api_lawsD copy_rules)

lemma ClusterbookLoadBalancer_copies [copy_rules]: "api_laws L \<Longrightarrow> copies L ClusterbookLoadBalancer_type (ClusterbookLoadBalancer_DeepCopyInto L)"
  unfolding ClusterbookLoadBalancer_type_def ClusterbookLoadBalancer_DeepCopyInto_def
  by (rule copies_api_struct) (simp_all add: api_lawsD copy_rules)

lemma ClusterbookLoadBalancerList_copies [copy_rules]: "api_laws L \<Longrightarrow> copies L ClusterbookLoadBalancerList_type (ClusterbookLoadBalancerList_DeepCopyInto L)"
  unfolding ClusterbookLoadBalancerList_type_def ClusterbookLoadBalancerList_DeepCopyInto_def
  by (rule copies_api_struct) (simp_all add: api_lawsD copy_rules)

lemma SecretKeyRef_copies [copy_rules]: "api_laws L \<Longrightarrow> copies L SecretKeyRef_type (SecretKeyRef_DeepCopyInto L)"
  unfolding SecretKeyRef_type_def SecretKeyRef_DeepCopyInto_def
  by (rule copies_api_struct) (simp_all add: api_lawsD copy_rules)

lemma LBRange_copies [copy_rules]: "api_laws L \<Longrightarrow> copies L LBRange_type (LBRange_DeepCopyInto L)"
  unfolding LBRange_type_def LBRange_DeepCopyInto_def
  by (rule copies_api_struct) (simp_all add: api_lawsD copy_rules)

lemma ClusterbookClusterSpec_copies [copy_rules]: "api_laws L \<Longrightarrow> copies L ClusterbookClusterSpec_type (ClusterbookClusterSpec_DeepCopyInto L)"
  unfolding ClusterbookClusterSpec_type_def ClusterbookClusterSpec_DeepCopyInto_def
  by (rule copies_api_struct) (simp_all add: api_lawsD copy_rules)

lemma ClusterbookClusterStatus_copies [copy_rules]: "api_laws L \<Longrightarrow> copies L ClusterbookClusterStatus_type (ClusterbookClusterStatus_DeepCopyInto L)"
  unfolding ClusterbookClusterStatus_type_def ClusterbookClusterStatus_DeepCopyInto_def
  by (rule copies_api_struct) (simp_all add: api_lawsD copy_rules)

lemma ClusterbookCluster_copies [copy_rules]: "api_laws L \<Longrightarrow> copies L ClusterbookCluster_type (ClusterbookCluster_DeepCopyInto L)"
  unfolding ClusterbookCluster_type_def ClusterbookCluster_DeepCopyInto_def
  by (rule copies_api_struct) (simp_all add: api_lawsD copy_rules)

lemma ClusterbookClusterList_copies [copy_rules]: "api_laws L \<Longrightarrow> copies L ClusterbookClusterList_type (ClusterbookClusterList_DeepCopyInto L)"
  unfolding ClusterbookClusterList_type_def ClusterbookClusterList_DeepCopyInto_def
  by (rule copies_api_struct) (simp_all add: api_lawsD copy_rules)

lemma ClusterbookProviderConfigSpec_copies [copy_rules]: "api_laws L \<Longrightarrow> copies L ClusterbookProviderConfigSpec_type (ClusterbookProviderConfigSpec_DeepCopyInto L)"
  unfolding ClusterbookProviderConfigSpec_type_def ClusterbookProviderConfigSpec_DeepCopyInto_def
  by (rule copies_api_struct) (simp_all add: api_lawsD copy_rules)

lemma ClusterbookProviderConfig_copies [copy_rules]: "api_laws L \<Longrightarrow> copies L ClusterbookProviderConfig_type (ClusterbookProviderConfig_DeepCopyInto L)"
  unfolding ClusterbookProviderConfig_type_def ClusterbookProviderConfig_DeepCopyInto_def
  by (rule copies_api_struct) (simp_all add: api_lawsD copy_rules)

lemma ClusterbookProviderConfigList_copies [copy_rules]: "api_laws L \<Longrightarrow> copies L ClusterbookProviderConfigList_type (ClusterbookProviderConfigList_DeepCopyInto L)"
  unfolding ClusterbookProviderConfigList_type_def ClusterbookProviderConfigList_DeepCopyInto_def
  by (rule copies_api_struct) (simp_all add: api_lawsD copy_rules)

lemma VclusterArgoCD_copies [copy_rules]: "api_laws L \<Longrightarrow> copies L VclusterArgoCD_type (VclusterArgoCD_DeepCopyInto L)"
  unfolding VclusterArgoCD_type_def VclusterArgoCD_DeepCopyInto_def
  by (rule copies_api_struct) (simp_all add: api_lawsD copy_rules)

lemma VclusterSpec_copies [copy_rules]: "api_laws L \<Longrightarrow> copies L VclusterSpec_type (VclusterSpec_DeepCopyInto L)"
  unfolding VclusterSpec_type_def VclusterSpec_DeepCopyInto_def
  by (rule copies_api_struct) (simp_all add: api_lawsD copy_rules)

lemma VclusterStatus_copies [copy_rules]: "api_laws L \<Longrightarrow> copies L VclusterStatus_type (VclusterStatus_DeepCopyInto L)"
  unfolding VclusterStatus_type_def VclusterStatus_DeepCopyInto_def
  by (rule copies_api_struct) (simp_all add: api_lawsD copy_rules)

lemma Vcluster_copies [copy_rules]: "api_laws L \<Longrightarrow> copies L Vcluster_type (Vcluster_DeepCopyInto L)"
  unfolding Vcluster_type_def Vcluster_DeepCopyInto_def
  by (rule copies_api_struct) (simp_all add: api_lawsD copy_rules)

lemma VclusterList_copies [copy_rules]: "api_laws L \<Longrightarrow> copies L VclusterList_type (VclusterList_DeepCopyInto L)"
  unfolding VclusterList_type_def VclusterList_DeepCopyInto_def
  by (rule copies_api_struct) (simp_all add: api_lawsD copy_rules)

section \<open>Copies and originals are independent\<close>

lemma api_object:
  "\<lbrakk>api_laws L; copies L t f\<rbrakk> \<Longrightarrow> independentObject L n t (objectOf n (deepCopyOf f))"
  by (rule object_independent [OF api_lawsD(1)])

lemmas DeepCopyObject_defs =
  ClusterbookAllocation_DeepCopyObject_def ClusterbookAllocation_DeepCopy_def
  ClusterbookAllocationList_DeepCopyObject_def ClusterbookAllocationList_DeepCopy_def
  ClusterbookLoadBalancer_DeepCopyObject_def ClusterbookLoadBalancer_DeepCopy_def
  ClusterbookLoadBalancerList_DeepCopyObject_def ClusterbookLoadBalancerList_DeepCopy_def
  ClusterbookCluster_DeepCopyObject_def ClusterbookCluster_DeepCopy_def
  ClusterbookClusterList_DeepCopyObject_def ClusterbookClusterList_DeepCopy_def
  ClusterbookProviderConfig_DeepCopyObject_def ClusterbookProviderConfig_DeepCopy_def
  ClusterbookProviderConfigList_DeepCopyObject_def ClusterbookProviderConfigList_DeepCopy_def
  Vcluster_DeepCopyObject_def Vcluster_DeepCopy_def
  VclusterList_DeepCopyObject_def VclusterList_DeepCopy_def

text \<open>
  C11. The deep copies of all five kinds and their lists, as the Kubernetes client takes them of
  the objects in its cache: \<open>DeepCopyObject\<close> returns, without a panic, an object that stands for the
  same value in every field; whatever is later written through the copy, the original still holds
  its value, and the other way round; a nil pointer gives the nil interface. It holds because no
  reference of any field is left to the plain assignment \<open>*out = *in\<close>.
\<close>

theorem deep_copies_independent:
  assumes "api_laws L"
  shows "independentObject L ''ClusterbookAllocation'' ClusterbookAllocation_type
      (ClusterbookAllocation_DeepCopyObject L)
    \<and> independentObject L ''ClusterbookAllocationList'' ClusterbookAllocationList_type
      (ClusterbookAllocationList_DeepCopyObject L)
    \<and> independentObject L ''ClusterbookLoadBalancer'' ClusterbookLoadBalancer_type
      (ClusterbookLoadBalancer_DeepCopyObject L)
    \<and> independentObject L ''ClusterbookLoadBalancerList'' ClusterbookLoadBalancerList_type
      (ClusterbookLoadBalancerList_DeepCopyObject L)
    \<and> independentObject L ''ClusterbookCluster'' ClusterbookCluster_type
      (ClusterbookCluster_DeepCopyObject L)
    \<and> independentObject L ''ClusterbookClusterList'' ClusterbookClusterList_type
      (ClusterbookClusterList_DeepCopyObject L)
    \<and> independentObject L ''ClusterbookProviderConfig'' ClusterbookProviderConfig_type
      (ClusterbookProviderConfig_DeepCopyObject L)
    \<and> independentObject L ''ClusterbookProviderConfigList'' ClusterbookProviderConfigList_type
      (ClusterbookProviderConfigList_DeepCopyObject L)
    \<and> independentObject L ''Vcluster'' Vcluster_type
      (Vcluster_DeepCopyObject L)
    \<and> independentObject L ''VclusterList'' VclusterList_type
      (VclusterList_DeepCopyObject L)"
  unfolding DeepCopyObject_defs
  by (intro conjI api_object copy_rules assms)

text \<open>A library as far as the witness needs one: two types of one string, all others a map.\<close>

definition sampleLib :: golib where
  "sampleLib =
     \<lparr>gl_read = \<lambda>n h v.
        if n \<in> {''TypeMeta'', ''LocalObjectReference''}
        then (case v of GStr s \<Rightarrow> Some (VStr s, []) | _ \<Rightarrow> None)
        else (case v of
          GMap None \<Rightarrow> Some (VNil, [])
        | GMap (Some a) \<Rightarrow>
            if a < length h then (case h ! a of CMap m \<Rightarrow> Some (VMap m, [a]) | _ \<Rightarrow> None) else None
        | _ \<Rightarrow> None),
      gl_flat = \<lambda>n. n \<in> {''TypeMeta'', ''LocalObjectReference''},
      gl_copy = \<lambda>n. if n \<in> {''TypeMeta'', ''LocalObjectReference''} then assign else copyMap\<rparr>"

lemma sampleLib_laws: "api_laws sampleLib"
proof -
  have "readsLocally (gl_read sampleLib n)" for n
    by (rule readsLocallyI)
      (auto simp: sampleLib_def split: gv.splits option.splits cell.splits if_splits)
  moreover have "copying (gl_read sampleLib n) (gl_copy sampleLib n)" for n
  proof (cases "n \<in> {''TypeMeta'', ''LocalObjectReference''}")
    case True
    then show ?thesis
      by (auto simp: sampleLib_def copying_def assign_def mret_def split: gv.splits)
  next
    case False
    then have "gl_read sampleLib n = denote sampleLib TMap" "gl_copy sampleLib n = copyMap"
      by (auto simp: sampleLib_def)
    with copies_map show ?thesis by (simp add: copies_def)
  qed
  moreover have "gl_flat sampleLib n \<longrightarrow> (\<forall>h v x A. gl_read sampleLib n h v = Some (x, A) \<longrightarrow> A = [])"
    for n
    by (auto simp: sampleLib_def split: gv.splits)
  ultimately show ?thesis by (simp add: api_laws_def golib_laws_def) (simp add: sampleLib_def)
qed

text \<open>A provider config at address 0, with a reference to a CA Secret at address 1.\<close>

definition sampleHeap :: heap where
  "sampleHeap =
     [CVal (GStruct
        [(''TypeMeta'', GStr ''v1alpha1''), (''ObjectMeta'', GMap None),
         (''Spec'', GStruct
            [(''APIURL'', GStr ''https://cb''), (''InsecureSkipVerify'', GBool False),
             (''CustomCASecretRef'', GPtr (Some 1))])]),
      CVal (GStruct [(''Name'', GStr ''ca''), (''Namespace'', GStr ''ops''), (''Key'', GStr [])])]"

definition sampleValue :: val where
  "sampleValue = VPtr (VStruct
     [(''TypeMeta'', VStr ''v1alpha1''), (''ObjectMeta'', VNil),
      (''Spec'', VStruct
         [(''APIURL'', VStr ''https://cb''), (''InsecureSkipVerify'', VBool False),
          (''CustomCASecretRef'',
             VPtr (VStruct [(''Name'', VStr ''ca''), (''Namespace'', VStr ''ops''), (''Key'', VStr [])]))])])"

lemma sampleHeap_value:
  "denote sampleLib (TPtr ClusterbookProviderConfig_type) sampleHeap (GPtr (Some 0))
     = Some (sampleValue, [0, 1])"
  by (simp add: sampleHeap_def sampleValue_def ClusterbookProviderConfig_type_def
      ClusterbookProviderConfigSpec_type_def SecretKeyRef_type_def sampleLib_def)

theorem deep_copies_independent_witness:
  "\<exists>b h' B. ClusterbookProviderConfig_DeepCopyObject sampleLib (GPtr (Some 0)) sampleHeap
       = Some (Some (''ClusterbookProviderConfig'', b), h')
     \<and> denote sampleLib (TPtr ClusterbookProviderConfig_type) h' (GPtr (Some b)) = Some (sampleValue, B)
     \<and> denote sampleLib (TPtr ClusterbookProviderConfig_type) (h'[1 := CVal (GStruct [])])
         (GPtr (Some b)) = Some (sampleValue, B)"
proof -
  have "independentObject sampleLib ''ClusterbookProviderConfig'' ClusterbookProviderConfig_type
      (ClusterbookProviderConfig_DeepCopyObject sampleLib)"
    using deep_copies_independent [OF sampleLib_laws] by (elim conjE)
  then obtain b h' B where
    *: "ClusterbookProviderConfig_DeepCopyObject sampleLib (GPtr (Some 0)) sampleHeap
        = Some (Some (''ClusterbookProviderConfig'', b), h')"
      "denote sampleLib (TPtr ClusterbookProviderConfig_type) h' (GPtr (Some b)) = Some (sampleValue, B)"
      "\<forall>g. unchanged (- set [0, 1] \<inter> {..<length h'}) h' g \<longrightarrow>
         denote sampleLib (TPtr ClusterbookProviderConfig_type) g (GPtr (Some b)) = Some (sampleValue, B)"
    unfolding independentObject_def using sampleHeap_value by blast
  have "unchanged (- set [0, 1] \<inter> {..<length h'}) h' (h'[1 := CVal (GStruct [])])"
    by (auto simp: unchanged_def nth_list_update)
  with * show ?thesis by blast
qed

end
