(* ===== verification/Spec2Isabelle.thy ===== *)
theory Spec2Isabelle
  imports OwnedMetadata CbkClient ArgoConfig Readiness ClusterTraffic ClusterBehaviour
    ClusterSecrets LoadBalancerProps AllocationProps VclusterProps Lifecycle Handlers
    EndToEnd Booking Access Wiring DeepCopy
begin

text \<open>
  \<^bold>\<open>clusterbook-operator\<close>: a Kubernetes operator, written in Go on controller-runtime, that books
  addresses and DNS names in a clusterbook server and publishes them. Four custom resources, four
  reconcilers:

  \<^item> \<open>ClusterbookCluster\<close> (\<open>controller/reconciler.go\<close>): reserves an address, turns a kubeconfig into
    an ArgoCD cluster Secret or enriches an existing one with labels and annotations, and gates a
    \<open>cluster-ready\<close> label on a probe of \<open>/readyz\<close> (\<open>controller/readiness.go\<close>).
  \<^item> \<open>ClusterbookLoadBalancer\<close> (\<open>controller/loadbalancer_reconciler.go\<close>): pins the address to a
    Cilium pool, or patches it into a Service and puts the previous one back on deletion.
  \<^item> \<open>ClusterbookAllocation\<close> (\<open>controller/allocation_reconciler.go\<close>): publishes the facts into a
    ConfigMap, a Secret, or both.
  \<^item> \<open>Vcluster\<close> (\<open>controller/vcluster_reconciler.go\<close>): provisions a virtual cluster through an ArgoCD
    Application, republishes its kubeconfig and emits a child \<open>ClusterbookCluster\<close>.

  All four share the REST client (\<open>pkg/client/client.go\<close>), \<open>controller/shared.go\<close> and, for the
  Secrets of the first, the ownership records of \<open>controller/owned_metadata.go\<close>.

  \<^bold>\<open>How the code is modelled.\<close> A Go function that talks to the outside is a state-passing action
  with early return (\<open>Prelude\<close>): \<open>and_then\<close> is \<open>x, err := m; if err != nil { return err }\<close>, \<open>wrap\<close> is
  \<open>fmt.Errorf("...: %w", err)\<close>, \<open>ignore\<close> is \<open>_ = m\<close> and an error that is only logged, \<open>optional\<close> is
  \<open>x, _ := m\<close>. Errors are values of \<open>err\<close>; a nil dereference or a write to a nil map is the error
  \<open>Panic\<close>, which nothing discards. The outside is an arbitrary state \<open>'w\<close> together with a log of
  the calls that leave the process, so "how often", "in which order" and "never" are statements
  about the log that hold whatever the outside answers. What is not code of the repository is a
  field of the record \<open>env\<close> or \<open>lib\<close> (\<open>Environment\<close>): the Kubernetes client, HTTP transport,
  \<open>controllerutil\<close>, \<open>meta.SetStatusCondition\<close>, \<open>unstructured\<close>, \<open>clientcmd\<close>, certificate parsing.
  Where a theorem needs documented behaviour of these, it names it as a hypothesis: the locale
  \<open>kube_client\<close> for a store nobody else writes to, and \<open>finalizer_laws\<close>, \<open>owner_laws\<close>,
  \<open>condition_laws\<close>, \<open>nested_laws\<close>, \<open>kubeconfig_laws\<close>. \<open>KubeClient\<close> has an API server in memory
  (\<open>memEnv\<close>) and a library (\<open>stdLib\<close>) that satisfy them all; the witnesses run the handlers there.

  \<^bold>\<open>The theories.\<close>

  \<^item> \<open>Prelude\<close>, \<open>GoStrings\<close>, \<open>Json\<close>, \<open>JsonText\<close>, \<open>Codec\<close>: actions, the log and its logic (\<open>emits\<close>),
    finite maps; packages \<open>strings\<close> and \<open>fmt\<close>; JSON values, their text (printer and parser, with the
    round trip), \<open>encoding/json\<close> field decoding, base64.
  \<^item> \<open>KubeTypes\<close>: \<open>api/v1alpha1\<close>, one record per type, and the CRD validation rules.
  \<^item> \<open>Environment\<close>, \<open>KubeClient\<close>: the outside, its calls and its laws.
  \<^item> \<open>OwnedMetadata\<close>: \<open>owned_metadata.go\<close>; the locale \<open>ownership\<close> is the contract of one map and
    its record, C1 and C2 refine the record to the history of writes it stands for.
  \<^item> \<open>CbkClient\<close>: \<open>client.go\<close>, requests and responses down to the text on the wire.
  \<^item> \<open>Reservation\<close>: \<open>shared.go\<close>, counting of events, and two contracts several reconcilers implement
    each with code of its own: the locales \<open>reservation\<close> (\<open>ensureReservation\<close>, four copies) and
    \<open>dns_drift\<close> (\<open>reconcileDNSDrift\<close>, two copies). \<open>Finalizers\<close> has \<open>finalizing\<close> (\<open>finalize\<close>, four
    copies) and its extension \<open>releasing\<close> (withdraw what was published, then release the address).
    Each reconciler's theory interprets them on its own definitions.
  \<^item> \<open>Sha256\<close>, \<open>ArgoConfig\<close>: \<open>kubeconfigHash\<close>, \<open>argoClusterConfig\<close> and the conversions of connection
    data (\<open>argoConfigFromKubeconfig\<close>, \<open>restConfigFromArgo\<close>, \<open>restConfigFromArgoSecret\<close>,
    \<open>rewriteKubeconfigServer\<close>). \<open>Readiness\<close>: \<open>readiness.go\<close>.
  \<^item> \<open>ClusterReconciler\<close>: the definitions of \<open>reconciler.go\<close>, method \<open>m\<close> of \<open>Reconciler\<close> as
    \<open>Reconciler_m\<close>, the parts of \<open>Reconcile\<close> as \<open>Reconciler_api\<close>, \<open>_allocate\<close>, \<open>_enrich\<close>, \<open>_gate\<close>,
    \<open>_render\<close>, \<open>_status\<close>, \<open>_apply\<close>. \<open>ClusterTraffic\<close> (what is sent), \<open>ClusterBehaviour\<close> (reservation,
    drift, gate, server URL, watch), \<open>ClusterSecrets\<close> (the Secrets) hold its properties.
  \<^item> \<open>LoadBalancer\<close>, \<open>Allocation\<close>, \<open>VclusterReconciler\<close> and the theories of their properties,
    \<open>LoadBalancerProps\<close>, \<open>AllocationProps\<close>, \<open>VclusterProps\<close>, in the same way.
  \<^item> \<open>Lifecycle\<close>: runs, status writes and edits of one cluster resource as a step relation on what
    is stored, and the invariant of every life (C37). \<open>Handlers\<close>: what holds of all four
    reconcilers: their finalizers (C38: with a client the release is not best-effort), the copies of the reservation and of the drift repair
    against one reference each (C39), a failed reservation (C40). \<open>EndToEnd\<close>: the Vcluster and the
    cluster reconciler composed, from a published kubeconfig to the client read back from the
    ArgoCD Secret (C7). \<open>Booking\<close>: all resources over one clusterbook, seen through its book of
    entries; a history of handler runs is a step relation, and no address is held twice (C18). A listing may
    show an entry under \<open>DNS\<close> instead of its name, as the code reports of clusterbook; the witness
    has a clusterbook with a table of entries that does.
  \<^item> \<open>Access\<close>: how many calls a run makes (\<open>within\<close>, C9), and the ClusterRole of \<open>kcl/rbac.k\<close> against
    the requests of the handlers (C12). \<open>Wiring\<close>: \<open>cmd/main.go\<close>, the \<open>SetupWithManager\<close> methods and
    the registration of the types: start-up (C24), and the watches against the reads of a cluster's run and the objects each
    run creates (C17).
  \<^item> \<open>GoMemory\<close>, \<open>GoCopying\<close>, \<open>DeepCopy\<close>: \<open>zz_generated.deepcopy.go\<close>. Here values have addresses: memory
    is a list of cells, pointers, maps and slices are addresses or nil, \<open>denote\<close> reads the value a
    variable stands for and the cells it is made of. \<open>GoMemory\<close> has the statements the generated
    functions consist of, \<open>GoCopying\<close> one rule of the contract \<open>copies\<close> for each, \<open>DeepCopy\<close> the types
    and the functions; C11 is what callers rely on.

  \<^bold>\<open>Choices.\<close> A nil \<open>map[string]string\<close> and an empty one are the same value (the code makes a nil
  map before it writes to it). A successful \<open>Update\<close> of the resource replaces it by what the server
  answered. \<open>CreateOrUpdate\<close> is one call with the mutation as a pure function, as its documentation
  has it; the bounds of C9 count it as one, although the library makes a read and a write of it. \<open>int\<close> fields are integers, wrapped at 64 bits where the code adds (\<open>reserveCount\<close>). \<open>%q\<close> is
  modelled on printable text, and the texts of errors of the libraries are abbreviated. Every
  definition is a total function; recursion is structural except for the parser of JSON and the
  trimming of space, which take the length of their input as fuel and consume a byte per step. The
  constants of SHA-256 are computed from their definition, roots of primes, to 40 bits of which the
  low 32 are kept.

  \<^bold>\<open>Not modelled.\<close> Log lines and the logger's set-up, contexts and timeouts other than the probe's.
  The event sources behind \<open>For\<close>, \<open>Owns\<close> and \<open>Watches\<close> are data (\<open>controller\<close>); the function a Secret
  event is mapped with is modelled (\<open>clustersForSecret\<close>). The reconcilers work on values without
  addresses; that the objects they change are copies of the cached ones, not shared with them, is
  what the deep copies provide. In the memory of the deep copies a fresh variable holds an empty
  struct until the copy is stored in it, and copying into the variable one copies from is left out.
\<close>

end
